(* ===== verification/Prelude.thy ===== *)
theory Prelude
  imports Main "HOL-Library.Word"
begin

text \<open>
  Shared vocabulary of the development: the fixed-width integer types of the C
  sources, the outcome type of code that can crash or leave the process, and the
  generic lemmas on words, byte arrays and sequenced outcomes that the component
  theories use through the collections declared here.
\<close>

unbundle bit_operations_syntax

section \<open>Integer types\<close>

type_synonym u8 = "8 word"
type_synonym u16 = "16 word"
type_synonym u32 = "32 word"
type_synonym bytes = "nat \<Rightarrow> u8"

named_theorems res_simps \<open>rewriting of sequenced outcomes\<close>
named_theorems byte_simps \<open>reading back what was stored in a byte array\<close>
named_theorems stage_defs \<open>definitions of the pipeline stages\<close>
named_theorems frame_simps \<open>which parts of the state an operation leaves alone\<close>

section \<open>Outcomes\<close>

text \<open>
  Undefined or process-terminating behaviour of the C program is a value: reading
  or writing through a null pointer, touching memory outside the object a pointer
  refers to, calling a null function pointer, and leaving through \<open>exit\<close>.
\<close>

datatype fault = NullDeref | OutOfBounds | NullCall | ProcExit int

type_synonym 'a res = "fault + 'a"

definition bind_res :: "'a res \<Rightarrow> ('a \<Rightarrow> 'b res) \<Rightarrow> 'b res" where
  "bind_res r f = (case r of Inl e \<Rightarrow> Inl e | Inr x \<Rightarrow> f x)"

lemma bind_res_Inl [simp, res_simps]: "bind_res (Inl e) f = Inl e"
  by (simp add: bind_res_def)

lemma bind_res_Inr [simp, res_simps]: "bind_res (Inr x) f = f x"
  by (simp add: bind_res_def)

lemma bind_res_eq_Inr [res_simps]:
  "bind_res r f = Inr y \<longleftrightarrow> (\<exists>x. r = Inr x \<and> f x = Inr y)"
  by (cases r) auto

lemma bind_res_eq_Inl [res_simps]:
  "bind_res r f = Inl e \<longleftrightarrow> r = Inl e \<or> (\<exists>x. r = Inr x \<and> f x = Inl e)"
  by (cases r) auto

lemma bind_resE [elim]:
  assumes "bind_res r f = Inr y"
  obtains x where "r = Inr x" and "f x = Inr y"
  using assms by (cases r) auto

lemma bind_res_assoc: "bind_res (bind_res r f) g = bind_res r (\<lambda>x. bind_res (f x) g)"
  by (cases r) auto

lemma bind_res_cong [fundef_cong]:
  "r = r' \<Longrightarrow> (\<And>x. r' = Inr x \<Longrightarrow> f x = g x) \<Longrightarrow> bind_res r f = bind_res r' g"
  by (cases r') auto

section \<open>Words\<close>

lemma unat_less_of_lt: "(a :: 'a::len word) < b \<Longrightarrow> unat a < unat b"
  by (simp add: word_less_nat_alt)

lemma word_le_unat: "(a :: 'a::len word) \<le> b \<longleftrightarrow> unat a \<le> unat b"
  by (simp add: word_le_nat_alt)

lemma word_gt_unat: "(a :: 'a::len word) < b \<longleftrightarrow> unat a < unat b"
  by (simp add: word_less_nat_alt)

lemma unat_and_mask_less: "unat ((w :: 'a::len word) AND mask n) < 2 ^ n"
  by (simp flip: take_bit_eq_mask add: unsigned_take_bit_eq)

end
