(* ===== verification/Mips32.thy ===== *)
theory Mips32
  imports Prelude
begin

unbundle bit_operations_syntax

text \<open>
  The instruction-set vocabulary of \<open>mips32.h\<close> and \<open>mips32.c\<close>: operation and function
  codes, the field-extraction macros, the exception enumeration and the mnemonic
  tables.  Instruction words are \<open>uint32_t\<close>; every field macro yields a 32-bit value,
  as the C expressions do.
\<close>

section \<open>Operation and function codes\<close>

abbreviation (input) OPCODE_R :: u32 where "OPCODE_R \<equiv> 0x00"
abbreviation (input) OPCODE_J :: u32 where "OPCODE_J \<equiv> 0x02"
abbreviation (input) OPCODE_JAL :: u32 where "OPCODE_JAL \<equiv> 0x03"
abbreviation (input) OPCODE_BEQ :: u32 where "OPCODE_BEQ \<equiv> 0x04"
abbreviation (input) OPCODE_BNE :: u32 where "OPCODE_BNE \<equiv> 0x05"
abbreviation (input) OPCODE_ADDI :: u32 where "OPCODE_ADDI \<equiv> 0x08"
abbreviation (input) OPCODE_ADDIU :: u32 where "OPCODE_ADDIU \<equiv> 0x09"
abbreviation (input) OPCODE_SLTI :: u32 where "OPCODE_SLTI \<equiv> 0x0A"
abbreviation (input) OPCODE_SLTIU :: u32 where "OPCODE_SLTIU \<equiv> 0x0B"
abbreviation (input) OPCODE_ANDI :: u32 where "OPCODE_ANDI \<equiv> 0x0C"
abbreviation (input) OPCODE_ORI :: u32 where "OPCODE_ORI \<equiv> 0x0D"
abbreviation (input) OPCODE_LUI :: u32 where "OPCODE_LUI \<equiv> 0x0F"
abbreviation (input) OPCODE_LWL :: u32 where "OPCODE_LWL \<equiv> 0x22"
abbreviation (input) OPCODE_LW :: u32 where "OPCODE_LW \<equiv> 0x23"
abbreviation (input) OPCODE_LBU :: u32 where "OPCODE_LBU \<equiv> 0x24"
abbreviation (input) OPCODE_LHU :: u32 where "OPCODE_LHU \<equiv> 0x25"
abbreviation (input) OPCODE_LWR :: u32 where "OPCODE_LWR \<equiv> 0x26"
abbreviation (input) OPCODE_LL :: u32 where "OPCODE_LL \<equiv> 0x30"
abbreviation (input) OPCODE_SW :: u32 where "OPCODE_SW \<equiv> 0x2B"
abbreviation (input) OPCODE_SB :: u32 where "OPCODE_SB \<equiv> 0x28"
abbreviation (input) OPCODE_SC :: u32 where "OPCODE_SC \<equiv> 0x38"
abbreviation (input) OPCODE_SH :: u32 where "OPCODE_SH \<equiv> 0x29"
abbreviation (input) OPCODE_SWR :: u32 where "OPCODE_SWR \<equiv> 0x2A"
abbreviation (input) OPCODE_SWL :: u32 where "OPCODE_SWL \<equiv> 0x2E"
abbreviation (input) OPCODE_CP0 :: u32 where "OPCODE_CP0 \<equiv> 0x10"

abbreviation (input) FUNCT_JR :: u32 where "FUNCT_JR \<equiv> 0x08"
abbreviation (input) FUNCT_SYSCALL :: u32 where "FUNCT_SYSCALL \<equiv> 0x0C"
abbreviation (input) FUNCT_ADD :: u32 where "FUNCT_ADD \<equiv> 0x20"
abbreviation (input) FUNCT_ADDU :: u32 where "FUNCT_ADDU \<equiv> 0x21"
abbreviation (input) FUNCT_SUB :: u32 where "FUNCT_SUB \<equiv> 0x22"
abbreviation (input) FUNCT_SUBU :: u32 where "FUNCT_SUBU \<equiv> 0x23"
abbreviation (input) FUNCT_AND :: u32 where "FUNCT_AND \<equiv> 0x24"
abbreviation (input) FUNCT_OR :: u32 where "FUNCT_OR \<equiv> 0x25"
abbreviation (input) FUNCT_NOR :: u32 where "FUNCT_NOR \<equiv> 0x27"
abbreviation (input) FUNCT_SLT :: u32 where "FUNCT_SLT \<equiv> 0x2A"
abbreviation (input) FUNCT_SLTU :: u32 where "FUNCT_SLTU \<equiv> 0x2B"
abbreviation (input) FUNCT_SLL :: u32 where "FUNCT_SLL \<equiv> 0x00"
abbreviation (input) FUNCT_SRL :: u32 where "FUNCT_SRL \<equiv> 0x02"

abbreviation (input) CP0_MFC0 :: u32 where "CP0_MFC0 \<equiv> 0x00"
abbreviation (input) CP0_MTC0 :: u32 where "CP0_MTC0 \<equiv> 0x04"
abbreviation (input) INSTRUCTION_ERET :: u32 where "INSTRUCTION_ERET \<equiv> 0x42000018"

section \<open>Instruction fields\<close>

abbreviation (input) LS_5B :: u32 where "LS_5B \<equiv> 0x1F"
abbreviation (input) LS_6B :: u32 where "LS_6B \<equiv> 0x3F"
abbreviation (input) LS_16B :: u32 where "LS_16B \<equiv> 0xFFFF"
abbreviation (input) LS_26B :: u32 where "LS_26B \<equiv> 0x3FFFFFF"
abbreviation (input) ZERO_EXTEND_MASK :: u32 where "ZERO_EXTEND_MASK \<equiv> 0x0000FFFF"

definition GET_OPCODE :: "u32 \<Rightarrow> u32" where
  "GET_OPCODE inst = drop_bit 26 inst"

definition GET_RS :: "u32 \<Rightarrow> u32" where
  "GET_RS inst = drop_bit 21 inst AND LS_5B"

definition GET_RT :: "u32 \<Rightarrow> u32" where
  "GET_RT inst = drop_bit 16 inst AND LS_5B"

definition GET_RD :: "u32 \<Rightarrow> u32" where
  "GET_RD inst = drop_bit 11 inst AND LS_5B"

definition GET_SHAMT :: "u32 \<Rightarrow> u32" where
  "GET_SHAMT inst = drop_bit 6 inst AND LS_5B"

definition GET_FUNCT :: "u32 \<Rightarrow> u32" where
  "GET_FUNCT inst = inst AND LS_6B"

definition GET_IMM :: "u32 \<Rightarrow> u32" where
  "GET_IMM inst = inst AND LS_16B"

definition GET_ADDRESS :: "u32 \<Rightarrow> u32" where
  "GET_ADDRESS inst = inst AND LS_26B"

text \<open>\<open>(int32_t)(int16_t)value\<close>: truncate to 16 bits, then sign-extend.\<close>

definition SIGN_EXTEND :: "u32 \<Rightarrow> u32" where
  "SIGN_EXTEND value = scast (ucast value :: u16)"

lemmas field_defs = GET_OPCODE_def GET_RS_def GET_RT_def GET_RD_def GET_SHAMT_def
  GET_FUNCT_def GET_IMM_def GET_ADDRESS_def

text \<open>Moves between the register file and coprocessor 0.\<close>

definition is_mtc0 :: "u32 \<Rightarrow> bool" where
  "is_mtc0 inst \<longleftrightarrow> GET_OPCODE inst = OPCODE_CP0 \<and> GET_RS inst = CP0_MTC0"

definition is_mfc0 :: "u32 \<Rightarrow> bool" where
  "is_mfc0 inst \<longleftrightarrow> GET_OPCODE inst = OPCODE_CP0 \<and> GET_RS inst = CP0_MFC0"

lemma move_not_eret: "is_mtc0 inst \<or> is_mfc0 inst \<Longrightarrow> inst \<noteq> INSTRUCTION_ERET"
  by (auto simp: is_mtc0_def is_mfc0_def GET_RS_def)

section \<open>Exceptions\<close>

datatype exception_t =
    EXC_None
  | EXC_Interrupt
  | EXC_AddressErrorLoad
  | EXC_AddressErrorStore
  | EXC_BusErrorInstructionFetch
  | EXC_BusErrorLoadStore
  | EXC_Syscall
  | EXC_Breakpoint
  | EXC_Reserved
  | EXC_CpUnavailable
  | EXC_ArithmeticOverflow
  | EXC_Trap
  | EXC_FloatingPoint

section \<open>Mnemonic tables\<close>

text \<open>The C arrays end in a \<open>NULL\<close> entry that no index of a field macro reaches.\<close>

definition op_codes :: "string list" where
  "op_codes = [
      ''SPECIAL'', ''REGIMM'', ''J'', ''JAL'', ''BEQ'', ''BNE'',
      ''BLEZ'', ''BGTZ'', ''ADDI'', ''ADDIU'', ''SLTI'', ''SLTIU'',
      ''ANDI'', ''ORI'', ''XORI'', ''LUI'', ''COP0'', ''COP1'',
      ''COP2'', ''COP3'', ''BEQL'', ''BNEL'', ''BLEZL'', ''BGTZL'',
      ''Invalid instruction'', ''Invalid instruction'', ''Invalid instruction'', ''Invalid instruction'', ''SPECIAL2'', ''Invalid instruction'',
      ''Invalid instruction'', ''Invalid instruction'', ''LB'', ''LH'', ''LWL'', ''LW'',
      ''LBU'', ''LHU'', ''LWR'', ''Invalid instruction'', ''SB'', ''SH'',
      ''SWL'', ''SW'', ''Invalid instruction'', ''Invalid instruction'', ''SWR'', ''CACHE'',
      ''LL'', ''LWC1'', ''LWC2'', ''PREF'', ''Invalid instruction'', ''LDC1'',
      ''LDC2'', ''Invalid instruction'', ''SC'', ''SWC1'', ''SWC2'', ''Invalid instruction'',
      ''Invalid instruction'', ''SDC1'', ''SDC2'', ''Invalid instruction'']"

definition funct_codes :: "string list" where
  "funct_codes = [
      ''SLL'', ''MOVC1'', ''SRL'', ''SRA'', ''SLLV'', ''Invalid function'',
      ''SRLV'', ''SRAV'', ''JR'', ''JALR'', ''MOVZ'', ''MOVN'',
      ''SYSCALL'', ''BREAK'', ''Invalid function'', ''SYNC'', ''MFHI'', ''MTHI'',
      ''MFLO'', ''MTLO'', ''Invalid function'', ''Invalid function'', ''Invalid function'', ''Invalid function'',
      ''MULT'', ''MULTU'', ''DIV'', ''DIVU'', ''Invalid function'', ''Invalid function'',
      ''Invalid function'', ''Invalid function'', ''ADD'', ''ADDU'', ''SUB'', ''SUBU'',
      ''AND'', ''OR'', ''XOR'', ''NOR'', ''Invalid function'', ''Invalid function'',
      ''SLT'', ''SLTU'', ''Invalid function'', ''Invalid function'', ''Invalid function'', ''Invalid function'',
      ''TGE'', ''TGEU'', ''TLT'', ''TLTU'', ''TEQ'', ''Invalid function'',
      ''TNE'', ''Invalid function'', ''Invalid function'', ''Invalid function'', ''Invalid function'', ''Invalid function'',
      ''Invalid function'', ''Invalid function'', ''Invalid function'', ''Invalid function'']"

definition cp0_codes :: "string list" where
  "cp0_codes = [''MFC0'', ''UNKNOWN'', ''UNKNOWN'', ''UNKNOWN'', ''MTC0'']"

section \<open>Bounds and reassembly of the fields\<close>

lemma LS_mask [simp]:
  "mask 5 = LS_5B" "mask 6 = LS_6B" "mask 16 = LS_16B" "mask 26 = LS_26B"
  by (simp_all add: mask_numeral)

lemma unat_GET_RS_less [simp]: "unat (GET_RS inst) < 32"
  using unat_and_mask_less [of "drop_bit 21 inst" 5] by (simp add: GET_RS_def)

lemma unat_GET_RT_less [simp]: "unat (GET_RT inst) < 32"
  using unat_and_mask_less [of "drop_bit 16 inst" 5] by (simp add: GET_RT_def)

lemma unat_GET_RD_less [simp]: "unat (GET_RD inst) < 32"
  using unat_and_mask_less [of "drop_bit 11 inst" 5] by (simp add: GET_RD_def)

lemma unat_GET_SHAMT_less [simp]: "unat (GET_SHAMT inst) < 32"
  using unat_and_mask_less [of "drop_bit 6 inst" 5] by (simp add: GET_SHAMT_def)

lemma unat_GET_FUNCT_less [simp]: "unat (GET_FUNCT inst) < 64"
  using unat_and_mask_less [of inst 6] by (simp add: GET_FUNCT_def)

lemma unat_GET_OPCODE_less [simp]: "unat (GET_OPCODE inst) < 64"
proof -
  have "unat inst < 2 ^ 32" using unsigned_less [of inst] by simp
  then have "unat inst div 2 ^ 26 < 64"
    by (subst div_less_iff_less_mult) simp_all
  then show ?thesis by (simp add: GET_OPCODE_def unat_drop_bit_eq drop_bit_eq_div [of 26 "unat inst"])
qed

lemma length_op_codes [simp]: "length op_codes = 64"
  by (simp add: op_codes_def)

lemma length_funct_codes [simp]: "length funct_codes = 64"
  by (simp add: funct_codes_def)

lemma length_cp0_codes [simp]: "length cp0_codes = 5"
  by (simp add: cp0_codes_def)

lemma unat_ucast_small: "unat (w :: u32) < 256 \<Longrightarrow> unat (ucast w :: u8) = unat w"
  by (simp add: unsigned_ucast_eq take_bit_nat_eq_self)

lemma unat_field_small:
  "unat (GET_RS inst) < 255" "unat (GET_RT inst) < 255" "unat (GET_RD inst) < 255"
  by (rule less_trans [OF unat_GET_RS_less], simp) (rule less_trans [OF unat_GET_RT_less], simp,
      rule less_trans [OF unat_GET_RD_less], simp)

lemma unat_ucast_field [simp]:
  "unat (ucast (GET_RS inst) :: u8) = unat (GET_RS inst)"
  "unat (ucast (GET_RT inst) :: u8) = unat (GET_RT inst)"
  "unat (ucast (GET_RD inst) :: u8) = unat (GET_RD inst)"
  using unat_field_small [of inst] by (simp_all add: unat_ucast_small)

lemma unat_GET_RD_plus1: "unat (GET_RD inst + 1) = unat (GET_RD inst) + 1"
  using unat_field_small(3) [of inst] by (simp add: unat_word_ariths)

lemma unat_ucast_GET_RD_plus1 [simp]:
  "unat (ucast (GET_RD inst + 1) :: u8) = unat (GET_RD inst) + 1"
  using unat_field_small(3) [of inst] by (simp add: unat_ucast_small unat_GET_RD_plus1)

lemma unat_GET_RD_31: "unat (GET_RD inst) \<noteq> 31 \<Longrightarrow> unat (GET_RD inst) < 31"
  using unat_GET_RD_less [of inst] by linarith

end
