(* ===== verification/Exception.thy ===== *)
theory Exception
  imports Mips32
begin

unbundle bit_operations_syntax

text \<open>
  Coprocessor 0 (\<open>cp0.h\<close>) and the cause-register encoding of \<open>exception.c\<close>.  The
  coprocessor is its register array; index 0 is unused, every architectural
  register number is stored one position higher.
\<close>

section \<open>Coprocessor 0\<close>

abbreviation (input) CP0_NUM_REGS :: nat where "CP0_NUM_REGS \<equiv> 40"

abbreviation (input) REG_UNUSED :: nat where "REG_UNUSED \<equiv> 0"
abbreviation (input) REG_CONTEXT :: nat where "REG_CONTEXT \<equiv> 1"
abbreviation (input) REG_RANDOM :: nat where "REG_RANDOM \<equiv> 2"
abbreviation (input) REG_ENTRYLO0 :: nat where "REG_ENTRYLO0 \<equiv> 3"
abbreviation (input) REG_ENTRYLO1 :: nat where "REG_ENTRYLO1 \<equiv> 4"
abbreviation (input) REG_CONTEXT2 :: nat where "REG_CONTEXT2 \<equiv> 5"
abbreviation (input) REG_PAGEMASK :: nat where "REG_PAGEMASK \<equiv> 6"
abbreviation (input) REG_WIRED :: nat where "REG_WIRED \<equiv> 7"
abbreviation (input) REG_ENTRYHI :: nat where "REG_ENTRYHI \<equiv> 8"
abbreviation (input) REG_HWRENA :: nat where "REG_HWRENA \<equiv> 9"
abbreviation (input) REG_BADVADDR :: nat where "REG_BADVADDR \<equiv> 10"
abbreviation (input) REG_COUNT :: nat where "REG_COUNT \<equiv> 11"
abbreviation (input) REG_COMPARE :: nat where "REG_COMPARE \<equiv> 12"
abbreviation (input) REG_SR :: nat where "REG_SR \<equiv> 13"
abbreviation (input) REG_INTCTL :: nat where "REG_INTCTL \<equiv> 14"
abbreviation (input) REG_EPC :: nat where "REG_EPC \<equiv> 15"
abbreviation (input) REG_SRSMAP :: nat where "REG_SRSMAP \<equiv> 16"
abbreviation (input) REG_CAUSE :: nat where "REG_CAUSE \<equiv> 17"
abbreviation (input) REG_SRSCTL :: nat where "REG_SRSCTL \<equiv> 18"
abbreviation (input) REG_PRID :: nat where "REG_PRID \<equiv> 19"
abbreviation (input) REG_EBASE :: nat where "REG_EBASE \<equiv> 20"
abbreviation (input) REG_CONFIG :: nat where "REG_CONFIG \<equiv> 21"
abbreviation (input) REG_CONFIG1 :: nat where "REG_CONFIG1 \<equiv> 22"
abbreviation (input) REG_CONFIG2 :: nat where "REG_CONFIG2 \<equiv> 23"
abbreviation (input) REG_CONFIG3 :: nat where "REG_CONFIG3 \<equiv> 24"
abbreviation (input) REG_LLADDR :: nat where "REG_LLADDR \<equiv> 25"
abbreviation (input) REG_DEBUG :: nat where "REG_DEBUG \<equiv> 26"
abbreviation (input) REG_DEPC :: nat where "REG_DEPC \<equiv> 27"
abbreviation (input) REG_DESAVE :: nat where "REG_DESAVE \<equiv> 28"
abbreviation (input) REG_CACHEERR :: nat where "REG_CACHEERR \<equiv> 29"
abbreviation (input) REG_ECC :: nat where "REG_ECC \<equiv> 30"
abbreviation (input) REG_ERROREPC :: nat where "REG_ERROREPC \<equiv> 31"
abbreviation (input) REG_TAGLO :: nat where "REG_TAGLO \<equiv> 32"
abbreviation (input) REG_DATALO :: nat where "REG_DATALO \<equiv> 33"
abbreviation (input) REG_TAGHI :: nat where "REG_TAGHI \<equiv> 34"
abbreviation (input) REG_DATAHI :: nat where "REG_DATAHI \<equiv> 35"
abbreviation (input) REG_WATCHLO :: nat where "REG_WATCHLO \<equiv> 36"
abbreviation (input) REG_WATCHHI :: nat where "REG_WATCHHI \<equiv> 37"
abbreviation (input) REG_PERFCTL :: nat where "REG_PERFCTL \<equiv> 38"
abbreviation (input) REG_PERFCNT :: nat where "REG_PERFCNT \<equiv> 39"
abbreviation (input) REG_LLVAL :: nat where "REG_LLVAL \<equiv> 40"

type_synonym cp0_t = "nat \<Rightarrow> u32"

abbreviation (input) SR_IE :: u32 where "SR_IE \<equiv> 0x1"
abbreviation (input) SR_EXL :: u32 where "SR_EXL \<equiv> 0x2"
abbreviation (input) SR_BEV :: u32 where "SR_BEV \<equiv> 0x400000"

abbreviation (input) CAUSE_BD :: u32 where "CAUSE_BD \<equiv> 0x80000000"
abbreviation (input) CAUSE_ExcCode_Interrupt :: u32 where "CAUSE_ExcCode_Interrupt \<equiv> 0"
abbreviation (input) CAUSE_ExcCode_Mod :: u32 where "CAUSE_ExcCode_Mod \<equiv> 1"
abbreviation (input) CAUSE_ExcCode_TLBL :: u32 where "CAUSE_ExcCode_TLBL \<equiv> 2"
abbreviation (input) CAUSE_ExcCode_TLBS :: u32 where "CAUSE_ExcCode_TLBS \<equiv> 3"
abbreviation (input) CAUSE_ExcCode_AdEL :: u32 where "CAUSE_ExcCode_AdEL \<equiv> 4"
abbreviation (input) CAUSE_ExcCode_AdES :: u32 where "CAUSE_ExcCode_AdES \<equiv> 5"
abbreviation (input) CAUSE_ExcCode_IBE :: u32 where "CAUSE_ExcCode_IBE \<equiv> 6"
abbreviation (input) CAUSE_ExcCode_DBE :: u32 where "CAUSE_ExcCode_DBE \<equiv> 7"
abbreviation (input) CAUSE_ExcCode_Syscall :: u32 where "CAUSE_ExcCode_Syscall \<equiv> 8"
abbreviation (input) CAUSE_ExcCode_Bp :: u32 where "CAUSE_ExcCode_Bp \<equiv> 9"
abbreviation (input) CAUSE_ExcCode_RI :: u32 where "CAUSE_ExcCode_RI \<equiv> 10"
abbreviation (input) CAUSE_ExcCode_CpU :: u32 where "CAUSE_ExcCode_CpU \<equiv> 11"
abbreviation (input) CAUSE_ExcCode_Ov :: u32 where "CAUSE_ExcCode_Ov \<equiv> 12"
abbreviation (input) CAUSE_ExcCode_TRAP :: u32 where "CAUSE_ExcCode_TRAP \<equiv> 13"
abbreviation (input) CAUSE_ExcCode_UNUSED :: u32 where "CAUSE_ExcCode_UNUSED \<equiv> 14"
abbreviation (input) CAUSE_ExcCode_FPE :: u32 where "CAUSE_ExcCode_FPE \<equiv> 15"

definition cp0_reg_names :: "string list" where
  "cp0_reg_names = [
      ''UNUSED'', ''Context'', ''Random'', ''EntryLo0'', ''EntryLo1'', ''Context'',
      ''PageMask'', ''Wired'', ''EntryHi'', ''HWREna'', ''BadVAddr'', ''Count'',
      ''Compare'', ''Status'', ''IntCtl'', ''EPC'', ''SRSMap'', ''Cause'',
      ''SRSCtl'', ''PRId'', ''EBase'', ''Config'', ''Config1'', ''Config2'',
      ''Config3'', ''LLAddr'', ''Debug'', ''DEPC'', ''DESAVE'', ''CacheErr'',
      ''ECC'', ''ErrorEPC'', ''TagLo'', ''DataLo'', ''TagHi'', ''DataHi'',
      ''WatchLo'', ''WatchHi'', ''PerfCtl'', ''PerfCnt'']"

section \<open>The cause register\<close>

definition exc_names :: "string list" where
  "exc_names = [
      ''None'', ''Interrupt'', ''AddressErrorLoad'', ''AddressErrorStore'',
      ''BusErrorInstructionFetch'', ''BusErrorLoadStore'', ''Syscall'', ''Breakpoint'',
      ''Reserved'', ''CpUnavailable'', ''ArithmeticOverflow'', ''Trap'',
      ''FloatingPoint'']"

fun exc_code :: "exception_t \<Rightarrow> u32" where
  "exc_code EXC_None = 0"
| "exc_code EXC_Interrupt = CAUSE_ExcCode_Interrupt"
| "exc_code EXC_AddressErrorLoad = CAUSE_ExcCode_AdEL"
| "exc_code EXC_AddressErrorStore = CAUSE_ExcCode_AdES"
| "exc_code EXC_BusErrorInstructionFetch = CAUSE_ExcCode_IBE"
| "exc_code EXC_BusErrorLoadStore = CAUSE_ExcCode_DBE"
| "exc_code EXC_Syscall = CAUSE_ExcCode_Syscall"
| "exc_code EXC_Breakpoint = CAUSE_ExcCode_Bp"
| "exc_code EXC_Reserved = CAUSE_ExcCode_RI"
| "exc_code EXC_CpUnavailable = CAUSE_ExcCode_CpU"
| "exc_code EXC_ArithmeticOverflow = CAUSE_ExcCode_Ov"
| "exc_code EXC_Trap = CAUSE_ExcCode_TRAP"
| "exc_code EXC_FloatingPoint = CAUSE_ExcCode_FPE"

text \<open>
  The switch of \<open>get_cause\<close>: \<open>EXC_None\<close> returns 0 at once, every other case ors its code
  into the word that already holds the branch-delay bit.
\<close>

definition get_cause :: "exception_t \<Rightarrow> bool \<Rightarrow> u32" where
  "get_cause exception in_branch_delay =
     (let cause = (if in_branch_delay then 0 OR CAUSE_BD else 0) in
      if exception = EXC_None then 0 else cause OR exc_code exception)"

end
