(* ===== verification/Cpu.thy ===== *)
theory Cpu
  imports Exception
begin

text \<open>
  The processor state of \<open>cpu.h\<close> and the operations of \<open>cpu.c\<close>.  Each pipeline register
  is a record with the fields of its C struct, prefixed by the register's name; the
  two register files are functions from indices, with every index the C code computes
  at run time checked against the array bound where it is used.
\<close>

section \<open>Registers\<close>

abbreviation (input) NUM_REGISTERS :: nat where "NUM_REGISTERS \<equiv> 33"
abbreviation (input) REG_V0 :: nat where "REG_V0 \<equiv> 2"
abbreviation (input) REG_V1 :: nat where "REG_V1 \<equiv> 3"
abbreviation (input) REG_SP :: nat where "REG_SP \<equiv> 29"
abbreviation (input) REG_RA :: u8 where "REG_RA \<equiv> 31"
abbreviation (input) REG_ZERO :: nat where "REG_ZERO \<equiv> 0"
abbreviation (input) REG_AT :: nat where "REG_AT \<equiv> 1"
abbreviation (input) REG_A0 :: nat where "REG_A0 \<equiv> 4"
abbreviation (input) REG_A1 :: nat where "REG_A1 \<equiv> 5"
abbreviation (input) REG_A2 :: nat where "REG_A2 \<equiv> 6"
abbreviation (input) REG_A3 :: nat where "REG_A3 \<equiv> 7"
abbreviation (input) REG_T0 :: nat where "REG_T0 \<equiv> 8"
abbreviation (input) REG_T1 :: nat where "REG_T1 \<equiv> 9"
abbreviation (input) REG_T2 :: nat where "REG_T2 \<equiv> 10"
abbreviation (input) REG_T3 :: nat where "REG_T3 \<equiv> 11"
abbreviation (input) REG_T4 :: nat where "REG_T4 \<equiv> 12"
abbreviation (input) REG_T5 :: nat where "REG_T5 \<equiv> 13"
abbreviation (input) REG_T6 :: nat where "REG_T6 \<equiv> 14"
abbreviation (input) REG_T7 :: nat where "REG_T7 \<equiv> 15"
abbreviation (input) REG_S0 :: nat where "REG_S0 \<equiv> 16"
abbreviation (input) REG_S1 :: nat where "REG_S1 \<equiv> 17"
abbreviation (input) REG_S2 :: nat where "REG_S2 \<equiv> 18"
abbreviation (input) REG_S3 :: nat where "REG_S3 \<equiv> 19"
abbreviation (input) REG_S4 :: nat where "REG_S4 \<equiv> 20"
abbreviation (input) REG_S5 :: nat where "REG_S5 \<equiv> 21"
abbreviation (input) REG_S6 :: nat where "REG_S6 \<equiv> 22"
abbreviation (input) REG_S7 :: nat where "REG_S7 \<equiv> 23"
abbreviation (input) REG_T8 :: nat where "REG_T8 \<equiv> 24"
abbreviation (input) REG_T9 :: nat where "REG_T9 \<equiv> 25"
abbreviation (input) REG_K0 :: nat where "REG_K0 \<equiv> 26"
abbreviation (input) REG_K1 :: nat where "REG_K1 \<equiv> 27"
abbreviation (input) REG_GP :: nat where "REG_GP \<equiv> 28"
abbreviation (input) REG_FP :: nat where "REG_FP \<equiv> 30"
abbreviation (input) REG_PC :: nat where "REG_PC \<equiv> 32"

definition reg_names :: "string list" where
  "reg_names = [''zero'', ''at'', ''v0'', ''v1'', ''a0'', ''a1'', ''a2'', ''a3'',
     ''t0'', ''t1'', ''t2'', ''t3'', ''t4'', ''t5'', ''t6'', ''t7'',
     ''s0'', ''s1'', ''s2'', ''s3'', ''s4'', ''s5'', ''s6'', ''s7'',
     ''t8'', ''t9'', ''k0'', ''k1'', ''gp'', ''sp'', ''fp'', ''ra'', ''pc'']"

text \<open>The constants number the registers as the table of names does.\<close>

lemma reg_constants:
  "map ((!) reg_names)
     [REG_ZERO, REG_AT, REG_V0, REG_V1, REG_A0, REG_A1, REG_A2, REG_A3,
      REG_T0, REG_T1, REG_T2, REG_T3, REG_T4, REG_T5, REG_T6, REG_T7,
      REG_S0, REG_S1, REG_S2, REG_S3, REG_S4, REG_S5, REG_S6, REG_S7,
      REG_T8, REG_T9, REG_K0, REG_K1, REG_GP, REG_SP, REG_FP, REG_PC] =
     [''zero'', ''at'', ''v0'', ''v1'', ''a0'', ''a1'', ''a2'', ''a3'',
      ''t0'', ''t1'', ''t2'', ''t3'', ''t4'', ''t5'', ''t6'', ''t7'',
      ''s0'', ''s1'', ''s2'', ''s3'', ''s4'', ''s5'', ''s6'', ''s7'',
      ''t8'', ''t9'', ''k0'', ''k1'', ''gp'', ''sp'', ''fp'', ''pc'']"
  by (simp add: reg_names_def)

section \<open>Pipeline registers\<close>

record if_id_t =
  ifid_inst :: u32
  ifid_next_pc :: u32
  ifid_exception :: exception_t
  ifid_BadVAddr :: u32
  ifid_is_branch_delay :: bool

record id_ex_t =
  idex_c_reg_dst :: bool
  idex_c_alu_op :: "2 word"
  idex_c_alu_src :: bool
  idex_c_beq :: bool
  idex_c_bne :: bool
  idex_c_mem_read :: bool
  idex_c_mem_write :: bool
  idex_c_reg_write :: bool
  idex_c_mem_to_reg :: bool
  idex_c_jump :: bool
  idex_shamt :: "5 word"
  idex_funct :: "6 word"
  idex_next_pc :: u32
  idex_rs_value :: u32
  idex_rt_value :: u32
  idex_jump_addr :: u32
  idex_branch_addr :: u32
  idex_sign_ext_imm :: u32
  idex_rs :: u8
  idex_rt :: u8
  idex_rd :: u8
  idex_inst :: u32
  idex_is_branch_delay :: bool
  idex_exception :: exception_t
  idex_BadVAddr :: u32

record ex_mem_t =
  exmem_c_reg_write :: bool
  exmem_c_branch :: bool
  exmem_c_mem_read :: bool
  exmem_c_mem_write :: bool
  exmem_c_mem_to_reg :: bool
  exmem_eff_addr :: u32
  exmem_alu_res :: u32
  exmem_rt_value :: u32
  exmem_reg_dst :: u8
  exmem_next_pc :: u32
  exmem_is_branch_delay :: bool
  exmem_inst :: u32
  exmem_exception :: exception_t
  exmem_BadVAddr :: u32

record mem_wb_t =
  memwb_c_reg_write :: bool
  memwb_c_mem_to_reg :: bool
  memwb_alu_res :: u32
  memwb_read_data :: u32
  memwb_reg_dst :: u8
  memwb_next_pc :: u32
  memwb_inst :: u32
  memwb_is_branch_delay :: bool
  memwb_exception :: exception_t
  memwb_BadVAddr :: u32

record core_t =
  regs :: "nat \<Rightarrow> u32"
  cp0 :: cp0_t
  if_id :: if_id_t
  id_ex :: id_ex_t
  ex_mem :: ex_mem_t
  mem_wb :: mem_wb_t

text \<open>\<open>num_cores\<close> is the length of the core array.\<close>

record cpu_t =
  cores :: "core_t list"

section \<open>Zeroed structures\<close>

text \<open>What \<open>calloc\<close> and \<open>bzero\<close> leave: every byte 0, so \<open>EXC_None\<close> in the exception fields.\<close>

definition zero_if_id :: if_id_t where
  "zero_if_id = \<lparr>ifid_inst = 0, ifid_next_pc = 0, ifid_exception = EXC_None,
     ifid_BadVAddr = 0, ifid_is_branch_delay = False\<rparr>"

definition zero_id_ex :: id_ex_t where
  "zero_id_ex = \<lparr>idex_c_reg_dst = False, idex_c_alu_op = 0, idex_c_alu_src = False,
     idex_c_beq = False, idex_c_bne = False, idex_c_mem_read = False,
     idex_c_mem_write = False, idex_c_reg_write = False, idex_c_mem_to_reg = False,
     idex_c_jump = False, idex_shamt = 0, idex_funct = 0, idex_next_pc = 0,
     idex_rs_value = 0, idex_rt_value = 0, idex_jump_addr = 0, idex_branch_addr = 0,
     idex_sign_ext_imm = 0, idex_rs = 0, idex_rt = 0, idex_rd = 0, idex_inst = 0,
     idex_is_branch_delay = False, idex_exception = EXC_None, idex_BadVAddr = 0\<rparr>"

definition zero_ex_mem :: ex_mem_t where
  "zero_ex_mem = \<lparr>exmem_c_reg_write = False, exmem_c_branch = False,
     exmem_c_mem_read = False, exmem_c_mem_write = False, exmem_c_mem_to_reg = False,
     exmem_eff_addr = 0, exmem_alu_res = 0, exmem_rt_value = 0, exmem_reg_dst = 0,
     exmem_next_pc = 0, exmem_is_branch_delay = False, exmem_inst = 0,
     exmem_exception = EXC_None, exmem_BadVAddr = 0\<rparr>"

definition zero_mem_wb :: mem_wb_t where
  "zero_mem_wb = \<lparr>memwb_c_reg_write = False, memwb_c_mem_to_reg = False,
     memwb_alu_res = 0, memwb_read_data = 0, memwb_reg_dst = 0, memwb_next_pc = 0,
     memwb_inst = 0, memwb_is_branch_delay = False, memwb_exception = EXC_None,
     memwb_BadVAddr = 0\<rparr>"

definition zero_core :: core_t where
  "zero_core = \<lparr>regs = (\<lambda>_. 0), cp0 = (\<lambda>_. 0), if_id = zero_if_id, id_ex = zero_id_ex,
     ex_mem = zero_ex_mem, mem_wb = zero_mem_wb\<rparr>"

lemmas zero_defs = zero_if_id_def zero_id_ex_def zero_ex_mem_def zero_mem_wb_def

section \<open>Operations of \<open>cpu.c\<close>\<close>

text \<open>
  \<open>cpu_init\<close>: allocation may fail (\<open>alloc_ok\<close> is the outcome of the two \<open>calloc\<close> calls, a null
  result is \<open>None\<close>, as it must be for the size a negative \<open>int\<close> converts to); with no cores the access to \<open>core[0]\<close> leaves the array.
\<close>

definition cpu_init :: "bool \<Rightarrow> int \<Rightarrow> cpu_t option res" where
  "cpu_init alloc_ok n_cores =
     (if \<not> alloc_ok \<or> n_cores < 0 then Inr None
      else if n_cores = 0 then Inl OutOfBounds
      else let cs = replicate (nat n_cores) zero_core;
               c0 = (cs ! 0)\<lparr>cp0 := (cp0 (cs ! 0))(REG_SR := cp0 (cs ! 0) REG_SR OR SR_IE)\<rparr>
           in Inr (Some \<lparr>cores = cs[0 := c0]\<rparr>))"

text \<open>The hook for a tick of the processor as a whole; its body is a comment, and nothing calls it.\<close>

definition cpu_tick :: "cpu_t \<Rightarrow> cpu_t" where
  "cpu_tick cpu = cpu"

fun register_to_number_from :: "string list \<Rightarrow> nat \<Rightarrow> string \<Rightarrow> u32" where
  "register_to_number_from [] i str = 0"
| "register_to_number_from (n # ns) i str =
     (if str = n then of_nat i else register_to_number_from ns (Suc i) str)"

definition register_to_number :: "string \<Rightarrow> u32" where
  "register_to_number str = register_to_number_from reg_names 0 str"

lemma length_reg_names [simp]: "length reg_names = NUM_REGISTERS"
  by (simp add: reg_names_def)

lemma distinct_reg_names [simp]: "distinct reg_names"
  by (simp add: reg_names_def)

lemma register_to_number_from_nth:
  "i < length ns \<Longrightarrow> distinct ns \<Longrightarrow> register_to_number_from ns k (ns ! i) = of_nat (k + i)"
proof (induction ns arbitrary: i k)
  case (Cons n ns)
  show ?case
  proof (cases i)
    case (Suc j)
    with Cons.prems have "ns ! j \<noteq> n" by auto
    with Suc Cons.IH [of j "Suc k"] Cons.prems show ?thesis by simp
  qed simp
qed simp

lemma register_to_number_from_unknown:
  "str \<notin> set ns \<Longrightarrow> register_to_number_from ns k str = 0"
  by (induction ns arbitrary: k) auto

text \<open>
  Register names and numbers round-trip: looking up the printed name of register
  \<open>i\<close> gives back \<open>i\<close>, for all 33 registers.
\<close>

lemma register_to_number_reg_names:
  assumes "i < NUM_REGISTERS"
  shows "register_to_number (reg_names ! i) = of_nat i"
  using register_to_number_from_nth [of i reg_names 0] assms
  by (simp add: register_to_number_def)

lemma register_to_number_reg_names_ra:
  "(29::nat) < NUM_REGISTERS \<and> register_to_number (reg_names ! 29) = 29"
  using register_to_number_reg_names [of 29] by simp

end
