(* ===== verification/Tools.thy ===== *)
theory Tools
  imports Prelude
begin

unbundle bit_operations_syntax

text \<open>
  The helpers of \<open>tools.h\<close> and \<open>tools.c\<close>: the byte-order macro \<open>REVERSE\<close> and the two
  overflow predicates the ALU and its callers rely on.
\<close>

definition REVERSE :: "u32 \<Rightarrow> u32" where
  "REVERSE x =
     (drop_bit 24 x AND 0x000000ff) OR
     (push_bit 8 x AND 0x00ff0000) OR
     (drop_bit 8 x AND 0x0000ff00) OR
     (push_bit 24 x AND 0xff000000)"

abbreviation (input) INT_MAX :: int where "INT_MAX \<equiv> 2147483647"
abbreviation (input) INT_MIN :: int where "INT_MIN \<equiv> -2147483648"

text \<open>
  \<open>check_soverflow\<close> takes two \<open>int32_t\<close>; the differences \<open>INT_MAX - b\<close> (for \<open>b > 0\<close>) and
  \<open>INT_MIN - b\<close> (for \<open>b < 0\<close>) do not overflow, so they are taken on unbounded integers.
\<close>

definition check_soverflow :: "u32 \<Rightarrow> u32 \<Rightarrow> u32" where
  "check_soverflow a b =
     (if (sint b > 0 \<and> sint a > INT_MAX - sint b)
       \<or> (sint b < 0 \<and> sint a < INT_MIN - sint b) then 1 else 0)"

text \<open>
  \<open>check_uoverflow\<close> mixes \<open>INT_MAX\<close> with unsigned operands, so the subtraction is unsigned;
  the second branch tests \<open>a < 0\<close> on an unsigned value and is never taken.
\<close>

definition check_uoverflow :: "u32 \<Rightarrow> u32 \<Rightarrow> u32" where
  "check_uoverflow a b =
     (if a > 0 \<and> b > 0x7fffffff - a then 1
      else if a < 0 \<and> b < 0x80000000 - a then 0
      else 0)"

lemma sint_bounds32: "INT_MIN \<le> sint (a :: u32)" "sint (a :: u32) \<le> INT_MAX"
  using sint_ge [of a] sint_lt [of a] by simp_all

text \<open>
  C38. \<open>check_soverflow\<close> answers 1 exactly when the mathematical sum of its two signed
  arguments does not fit in an \<open>int32_t\<close>.
\<close>

theorem check_soverflow_exact:
  "check_soverflow a b = (if sint a + sint b \<in> {INT_MIN..INT_MAX} then 0 else 1)"
  using sint_bounds32 [of a] sint_bounds32 [of b]
  by (auto simp: check_soverflow_def)

lemma check_soverflow_zero [simp]: "check_soverflow a 0 = 0" "check_soverflow 0 b = 0"
  using sint_bounds32 [of b] by (auto simp: check_soverflow_def)

lemma sint_add_no_overflow:
  assumes "check_soverflow a b = 0"
  shows "sint (a + b) = sint a + sint b"
proof -
  have "sint a + sint b \<in> {INT_MIN..INT_MAX}"
    using assms sint_bounds32 [of a] sint_bounds32 [of b]
    by (auto simp: check_soverflow_def split: if_splits)
  then show ?thesis
    by (simp add: signed_take_bit_int_eq_self_iff sint_word_ariths)
qed

text \<open>Byte reversal.\<close>

lemma REVERSE_masks:
  "REVERSE x =
     (drop_bit 24 x AND mask 8) OR
     (push_bit 8 x AND push_bit 16 (mask 8)) OR
     (drop_bit 8 x AND push_bit 8 (mask 8)) OR
     (push_bit 24 x AND push_bit 24 (mask 8))"
  by (simp add: REVERSE_def mask_numeral push_bit_eq_mult)

lemma bit_REVERSE_cases:
  "n < 8 \<Longrightarrow> bit (REVERSE x) n = bit x (24 + n)"
  "8 \<le> n \<Longrightarrow> n < 16 \<Longrightarrow> bit (REVERSE x) n = bit x (8 + n)"
  "16 \<le> n \<Longrightarrow> n < 24 \<Longrightarrow> bit (REVERSE x) n = bit x (n - 8)"
  "24 \<le> n \<Longrightarrow> n < 32 \<Longrightarrow> bit (REVERSE x) n = bit x (n - 24)"
  by (auto simp: REVERSE_masks bit_simps)

lemma REVERSE_REVERSE [simp]: "REVERSE (REVERSE x) = x"
proof (rule bit_word_eqI)
  fix n assume "n < LENGTH(32)"
  then consider "n < 8" | "8 \<le> n" "n < 16" | "16 \<le> n" "n < 24" | "24 \<le> n" "n < 32"
    by fastforce
  then show "bit (REVERSE (REVERSE x)) n = bit x n"
    by cases (simp_all add: bit_REVERSE_cases)
qed

end
