(* ===== verification/Bytes.thy ===== *)
theory Bytes
  imports Tools
begin

unbundle bit_operations_syntax

text \<open>
  Integers in byte arrays: the host's little-endian loads and stores, the big-endian
  access macros of \<open>mem.h\<close> with the three operation sizes, and the laws that relate
  reading, writing and the two byte orders.
\<close>

section \<open>Host integers in byte arrays\<close>

definition get_le32 :: "bytes \<Rightarrow> nat \<Rightarrow> u32" where
  "get_le32 a p = ucast (a p) OR push_bit 8 (ucast (a (p + 1)))
     OR push_bit 16 (ucast (a (p + 2))) OR push_bit 24 (ucast (a (p + 3)))"

definition get_le16 :: "bytes \<Rightarrow> nat \<Rightarrow> u32" where
  "get_le16 a p = ucast (a p) OR push_bit 8 (ucast (a (p + 1)))"

definition put_le32 :: "bytes \<Rightarrow> nat \<Rightarrow> u32 \<Rightarrow> bytes" where
  "put_le32 a p v = a(p := ucast v, p + 1 := ucast (drop_bit 8 v),
     p + 2 := ucast (drop_bit 16 v), p + 3 := ucast (drop_bit 24 v))"

lemma bit_ucast8: "bit (ucast (w :: u8) :: u32) n \<longleftrightarrow> n < 8 \<and> bit w n"
  using bit_imp_le_length [of w n] by (auto simp: bit_simps)

lemma word_of_four_bytes:
  "(ucast (ucast v :: u8) :: u32) OR push_bit 8 (ucast (ucast (drop_bit 8 v) :: u8))
     OR push_bit 16 (ucast (ucast (drop_bit 16 v) :: u8))
     OR push_bit 24 (ucast (ucast (drop_bit 24 v) :: u8)) = (v :: u32)"
proof (rule bit_word_eqI)
  fix n assume "n < LENGTH(32)"
  then consider "n < 8" | "8 \<le> n" "n < 16" | "16 \<le> n" "n < 24" | "24 \<le> n" "n < 32"
    by fastforce
  then show "bit ((ucast (ucast v :: u8) :: u32) OR push_bit 8 (ucast (ucast (drop_bit 8 v) :: u8))
     OR push_bit 16 (ucast (ucast (drop_bit 16 v) :: u8))
     OR push_bit 24 (ucast (ucast (drop_bit 24 v) :: u8))) n = bit v n"
    by cases (auto simp: bit_simps)
qed

lemma get_put_le32_same [byte_simps]: "get_le32 (put_le32 a p v) p = v"
  by (simp add: get_le32_def put_le32_def word_of_four_bytes)

lemma get_put_le32_other [byte_simps]:
  "q + 3 < p \<or> p + 3 < q \<Longrightarrow> get_le32 (put_le32 a p v) q = get_le32 a q"
  by (auto simp: get_le32_def put_le32_def)

lemma put_le32_outside [byte_simps]:
  "q < p \<or> p + 3 < q \<Longrightarrow> put_le32 a p v q = a q"
  by (auto simp: put_le32_def)

lemma get_le32_cong:
  "(\<And>q. p \<le> q \<Longrightarrow> q \<le> p + 3 \<Longrightarrow> a q = b q) \<Longrightarrow> get_le32 a p = get_le32 b p"
  by (simp add: get_le32_def)

section \<open>Big-endian access macros\<close>

definition GET_BIGWORD :: "bytes \<Rightarrow> nat \<Rightarrow> u32" where
  "GET_BIGWORD a p = push_bit 24 (ucast (a p)) OR push_bit 16 (ucast (a (p + 1)))
     OR push_bit 8 (ucast (a (p + 2))) OR ucast (a (p + 3))"

definition GET_BIGHALF :: "bytes \<Rightarrow> nat \<Rightarrow> u32" where
  "GET_BIGHALF a p = push_bit 8 (ucast (a p)) OR ucast (a (p + 1))"

definition GET_BIGBYTE :: "bytes \<Rightarrow> nat \<Rightarrow> u32" where
  "GET_BIGBYTE a p = ucast (a p)"

definition SET_BIGWORD :: "bytes \<Rightarrow> nat \<Rightarrow> u32 \<Rightarrow> bytes" where
  "SET_BIGWORD a p v = a(p := ucast (drop_bit 24 v),
     p + 1 := ucast (drop_bit 24 (push_bit 8 v)),
     p + 2 := ucast (drop_bit 24 (push_bit 16 v)),
     p + 3 := ucast (drop_bit 24 (push_bit 24 v)))"

definition SET_BIGHALF :: "bytes \<Rightarrow> nat \<Rightarrow> u32 \<Rightarrow> bytes" where
  "SET_BIGHALF a p v = a(p := ucast (drop_bit 8 v), p + 1 := ucast (drop_bit 24 (push_bit 24 v)))"

definition SET_BIGBYTE :: "bytes \<Rightarrow> nat \<Rightarrow> u32 \<Rightarrow> bytes" where
  "SET_BIGBYTE a p v = a(p := ucast v)"

datatype mem_op_size_t = MEM_OP_BYTE | MEM_OP_HALF | MEM_OP_WORD

fun op_bytes :: "mem_op_size_t \<Rightarrow> nat" where
  "op_bytes MEM_OP_BYTE = 1"
| "op_bytes MEM_OP_HALF = 2"
| "op_bytes MEM_OP_WORD = 4"

fun get_big :: "mem_op_size_t \<Rightarrow> bytes \<Rightarrow> nat \<Rightarrow> u32" where
  "get_big MEM_OP_BYTE a p = GET_BIGBYTE a p"
| "get_big MEM_OP_HALF a p = GET_BIGHALF a p"
| "get_big MEM_OP_WORD a p = GET_BIGWORD a p"

fun set_big :: "mem_op_size_t \<Rightarrow> bytes \<Rightarrow> nat \<Rightarrow> u32 \<Rightarrow> bytes" where
  "set_big MEM_OP_BYTE a p v = SET_BIGBYTE a p v"
| "set_big MEM_OP_HALF a p v = SET_BIGHALF a p v"
| "set_big MEM_OP_WORD a p v = SET_BIGWORD a p v"

section \<open>Big-endian round trips\<close>

lemma BIGWORD_reassemble:
  "push_bit 24 (ucast (ucast (drop_bit 24 v) :: u8)) OR
   push_bit 16 (ucast (ucast (drop_bit 24 (push_bit 8 v)) :: u8)) OR
   push_bit 8 (ucast (ucast (drop_bit 24 (push_bit 16 v)) :: u8)) OR
   (ucast (ucast (drop_bit 24 (push_bit 24 v)) :: u8)) = (v :: u32)"
    (is "?w = v")
proof (rule bit_word_eqI)
  fix n assume "n < LENGTH(32)"
  then consider "n < 8" | "8 \<le> n" "n < 16" | "16 \<le> n" "n < 24" | "24 \<le> n" "n < 32"
    by fastforce
  then show "bit ?w n = bit v n"
    by cases (auto simp: bit_simps)
qed

lemma BIGHALF_reassemble:
  "push_bit 8 (ucast (ucast (drop_bit 8 v) :: u8)) OR
   (ucast (ucast (drop_bit 24 (push_bit 24 v)) :: u8)) = take_bit 16 (v :: u32)"
    (is "?w = _")
proof (rule bit_word_eqI)
  fix n assume "n < LENGTH(32)"
  then consider "n < 8" | "8 \<le> n" "n < 16" | "16 \<le> n" "n < 32"
    by fastforce
  then show "bit ?w n = bit (take_bit 16 v) n"
    by cases (auto simp: bit_simps)
qed

lemma BIGBYTE_reassemble: "ucast (ucast v :: u8) = take_bit 8 (v :: u32)"
  by (rule bit_word_eqI) (auto simp: bit_simps)

lemma get_set_BIGWORD: "GET_BIGWORD (SET_BIGWORD a p v) p = v"
  by (simp add: GET_BIGWORD_def SET_BIGWORD_def BIGWORD_reassemble)

lemma get_set_BIGHALF: "GET_BIGHALF (SET_BIGHALF a p v) p = take_bit 16 v"
  by (simp add: GET_BIGHALF_def SET_BIGHALF_def BIGHALF_reassemble)

lemma get_set_BIGBYTE: "GET_BIGBYTE (SET_BIGBYTE a p v) p = take_bit 8 v"
  by (simp add: GET_BIGBYTE_def SET_BIGBYTE_def BIGBYTE_reassemble)

lemma get_set_big [byte_simps]:
  "get_big s (set_big s a p v) p = take_bit (8 * op_bytes s) v"
  by (cases s)
    (simp_all add: get_set_BIGWORD get_set_BIGHALF get_set_BIGBYTE take_bit_word_eq_self)

lemma set_big_outside [byte_simps]:
  "q < p \<or> p + op_bytes s \<le> q \<Longrightarrow> set_big s a p v q = a q"
  by (cases s) (auto simp: SET_BIGWORD_def SET_BIGHALF_def SET_BIGBYTE_def)

lemma get_big_cong:
  "(\<And>q. p \<le> q \<Longrightarrow> q < p + op_bytes s \<Longrightarrow> a q = b q) \<Longrightarrow> get_big s a p = get_big s b p"
  by (cases s) (simp_all add: GET_BIGWORD_def GET_BIGHALF_def GET_BIGBYTE_def)

lemma get_set_big_disjoint [byte_simps]:
  assumes "q + op_bytes t \<le> p \<or> p + op_bytes s \<le> q"
  shows "get_big t (set_big s a p v) q = get_big t a q"
  by (rule get_big_cong) (use assms in \<open>auto intro!: set_big_outside\<close>)

lemma bit_get_le32_cases:
  "n < 8 \<Longrightarrow> bit (get_le32 a p) n = bit (a p) n"
  "8 \<le> n \<Longrightarrow> n < 16 \<Longrightarrow> bit (get_le32 a p) n = bit (a (p + 1)) (n - 8)"
  "16 \<le> n \<Longrightarrow> n < 24 \<Longrightarrow> bit (get_le32 a p) n = bit (a (p + 2)) (n - 16)"
  "24 \<le> n \<Longrightarrow> n < 32 \<Longrightarrow> bit (get_le32 a p) n = bit (a (p + 3)) (n - 24)"
  by (simp_all add: get_le32_def bit_or_iff bit_push_bit_iff bit_ucast8 less_diff_conv2
      not_less del: One_nat_def)

lemma bit_GET_BIGWORD_cases:
  "n < 8 \<Longrightarrow> bit (GET_BIGWORD a p) n = bit (a (p + 3)) n"
  "8 \<le> n \<Longrightarrow> n < 16 \<Longrightarrow> bit (GET_BIGWORD a p) n = bit (a (p + 2)) (n - 8)"
  "16 \<le> n \<Longrightarrow> n < 24 \<Longrightarrow> bit (GET_BIGWORD a p) n = bit (a (p + 1)) (n - 16)"
  "24 \<le> n \<Longrightarrow> n < 32 \<Longrightarrow> bit (GET_BIGWORD a p) n = bit (a p) (n - 24)"
  by (simp_all add: GET_BIGWORD_def bit_or_iff bit_push_bit_iff bit_ucast8 less_diff_conv2
      not_less del: One_nat_def)

lemma GET_BIGWORD_reverse: "GET_BIGWORD a p = REVERSE (get_le32 a p)"
proof (rule bit_word_eqI)
  fix n assume "n < LENGTH(32)"
  then consider "n < 8" | "8 \<le> n" "n < 16" | "16 \<le> n" "n < 24" | "24 \<le> n" "n < 32"
    by fastforce
  then show "bit (GET_BIGWORD a p) n = bit (REVERSE (get_le32 a p)) n"
    by cases (simp_all add: bit_REVERSE_cases bit_get_le32_cases bit_GET_BIGWORD_cases)
qed

end
