(* ===== verification/Io.thy ===== *)
theory Io
  imports Bytes
begin

unbundle bit_operations_syntax

text \<open>
  Devices: the structures of \<open>io.h\<close>, the descriptor operations of \<open>io.c\<close>, the shutdown
  device and the terminal device.  A C function pointer is an option over the
  functions the sources install (\<open>None\<close> is the null pointer); the descriptor area is a
  byte array accessed through little-endian 32-bit loads and stores, the byte order of
  the host the sources' byte swapping is written for.
\<close>

section \<open>Structures\<close>

abbreviation (input) TYPECODE_EMPTY :: u32 where "TYPECODE_EMPTY \<equiv> 0x0000"
abbreviation (input) TYPECODE_SHUTDOWN :: u32 where "TYPECODE_SHUTDOWN \<equiv> 0x0103"
abbreviation (input) TYPECODE_TTY :: u32 where "TYPECODE_TTY \<equiv> 0x0201"
abbreviation (input) IRQ_INVALID :: u32 where "IRQ_INVALID \<equiv> - 1"

record device_descriptor_t =
  dd_typecode :: u32
  dd_io_addr_base :: u32
  dd_io_addr_len :: u32
  dd_irq :: u32
  dd_vendor_string :: "u8 list"
  dd_reserved1 :: u32
  dd_reserved2 :: u32

text \<open>The simulated terminal: its shared-memory key, segment id and attached address.\<close>

record tty_device_t =
  shm_key :: int
  shm_id :: int
  shm :: "int option"

datatype realdevice = Shutdown_device bool | Tty_device tty_device_t

datatype dev_fn = Shutdown_fn | Tty_fn

record device_t =
  dev_typecode :: u32
  dev_vendor_string :: "u8 list"
  dev_irq :: u32
  dev_io_addr_base :: u32
  dev_io_addr_len :: u32
  dev_realdevice :: "realdevice option"
  dev_io_write :: "dev_fn option"
  dev_io_read :: "dev_fn option"
  dev_tick :: "dev_fn option"

definition zero_device :: device_t where
  "zero_device = \<lparr>dev_typecode = 0, dev_vendor_string = replicate 8 0, dev_irq = 0,
     dev_io_addr_base = 0, dev_io_addr_len = 0, dev_realdevice = None,
     dev_io_write = None, dev_io_read = None, dev_tick = None\<rparr>"

section \<open>Descriptors (\<open>io.c\<close>)\<close>

definition device_descriptor_reverse :: "device_descriptor_t \<Rightarrow> device_descriptor_t" where
  "device_descriptor_reverse dev = dev\<lparr>
     dd_typecode := REVERSE (dd_typecode dev),
     dd_io_addr_base := REVERSE (dd_io_addr_base dev),
     dd_io_addr_len := REVERSE (dd_io_addr_len dev),
     dd_irq := REVERSE (dd_irq dev),
     dd_reserved1 := REVERSE (dd_reserved1 dev),
     dd_reserved2 := REVERSE (dd_reserved2 dev)\<rparr>"

definition device_descriptor_set_fields ::
    "device_t \<Rightarrow> device_descriptor_t \<Rightarrow> device_descriptor_t" where
  "device_descriptor_set_fields dev dd = dd\<lparr>
     dd_typecode := dev_typecode dev,
     dd_io_addr_base := dev_io_addr_base dev,
     dd_io_addr_len := dev_io_addr_len dev,
     dd_irq := dev_irq dev,
     dd_vendor_string := take 8 (dev_vendor_string dev),
     dd_reserved1 := 0,
     dd_reserved2 := 0\<rparr>"

lemma device_descriptor_reverse_involution [simp]:
  "device_descriptor_reverse (device_descriptor_reverse dd) = dd"
  by (simp add: device_descriptor_reverse_def)

text \<open>The packed layout of a descriptor: 32 bytes, the vendor string at byte 16.\<close>

definition load_descriptor :: "bytes \<Rightarrow> nat \<Rightarrow> device_descriptor_t" where
  "load_descriptor a i = (let p = 32 * i in
     \<lparr>dd_typecode = get_le32 a p, dd_io_addr_base = get_le32 a (p + 4),
      dd_io_addr_len = get_le32 a (p + 8), dd_irq = get_le32 a (p + 12),
      dd_vendor_string = map (\<lambda>k. a (p + 16 + k)) [0..<8],
      dd_reserved1 = get_le32 a (p + 24), dd_reserved2 = get_le32 a (p + 28)\<rparr>)"

definition put_vendor :: "bytes \<Rightarrow> nat \<Rightarrow> u8 list \<Rightarrow> bytes" where
  "put_vendor a p vs = (\<lambda>q. if p \<le> q \<and> q < p + length vs then vs ! (q - p) else a q)"

definition store_descriptor :: "bytes \<Rightarrow> nat \<Rightarrow> device_descriptor_t \<Rightarrow> bytes" where
  "store_descriptor a i dd = (let p = 32 * i in
     put_le32 (put_le32 (put_vendor (put_le32 (put_le32 (put_le32 (put_le32 a
       p (dd_typecode dd)) (p + 4) (dd_io_addr_base dd)) (p + 8) (dd_io_addr_len dd))
       (p + 12) (dd_irq dd)) (p + 16) (dd_vendor_string dd))
       (p + 24) (dd_reserved1 dd)) (p + 28) (dd_reserved2 dd))"

lemma get_le32_put_vendor [byte_simps]:
  "q + 3 < p \<or> p + length vs \<le> q \<Longrightarrow> get_le32 (put_vendor a p vs) q = get_le32 a q"
  by (auto simp: get_le32_def put_vendor_def)

lemma put_vendor_inside [byte_simps]:
  "k < length vs \<Longrightarrow> put_vendor a p vs (p + k) = vs ! k"
  by (simp add: put_vendor_def)

lemma put_vendor_outside [byte_simps]:
  "q < p \<or> p + length vs \<le> q \<Longrightarrow> put_vendor a p vs q = a q"
  by (auto simp: put_vendor_def)

lemma load_store_descriptor_same:
  "length (dd_vendor_string dd) = 8 \<Longrightarrow> load_descriptor (store_descriptor a i dd) i = dd"
  by (simp add: load_descriptor_def store_descriptor_def Let_def byte_simps
      list_eq_iff_nth_eq)

lemma store_descriptor_outside:
  assumes "length (dd_vendor_string dd) = 8" and "q < 32 * i \<or> 32 * i + 32 \<le> q"
  shows "store_descriptor a i dd q = a q"
  using assms by (auto simp: store_descriptor_def Let_def byte_simps)

lemma load_descriptor_cong:
  "(\<And>q. 32 * i \<le> q \<Longrightarrow> q < 32 * i + 32 \<Longrightarrow> a q = b q) \<Longrightarrow>
     load_descriptor a i = load_descriptor b i"
  by (simp add: load_descriptor_def Let_def get_le32_cong [where a = a and b = b])

lemma load_store_descriptor_other:
  assumes "length (dd_vendor_string dd) = 8" and "i \<noteq> j"
  shows "load_descriptor (store_descriptor a i dd) j = load_descriptor a j"
proof (rule load_descriptor_cong)
  fix q assume "32 * j \<le> q" "q < 32 * j + 32"
  with assms(2) have "q < 32 * i \<or> 32 * i + 32 \<le> q" by linarith
  with assms(1) show "store_descriptor a i dd q = a q" by (rule store_descriptor_outside)
qed

section \<open>The shutdown device\<close>

abbreviation (input) IO_LENGTH_SHUTDOWN :: u32 where "IO_LENGTH_SHUTDOWN \<equiv> 0x04"
abbreviation (input) POWEROFF_SHUTDOWN_MAGIC :: u32 where "POWEROFF_SHUTDOWN_MAGIC \<equiv> 0x0badf00d"

definition SHUTDOWN_VENDOR_STRING :: "u8 list" where
  "SHUTDOWN_VENDOR_STRING = map of_char ''SHUTDOWN''"

definition shutdown_device_create :: "bool \<Rightarrow> device_t option" where
  "shutdown_device_create alloc_ok =
     (if \<not> alloc_ok then None
      else Some (zero_device\<lparr>dev_typecode := TYPECODE_SHUTDOWN,
        dev_vendor_string := take 8 SHUTDOWN_VENDOR_STRING,
        dev_irq := IRQ_INVALID,
        dev_io_write := Some Shutdown_fn,
        dev_io_addr_len := IO_LENGTH_SHUTDOWN,
        dev_realdevice := Some (Shutdown_device False)\<rparr>))"

definition shutdown_device_write :: "device_t \<Rightarrow> u32 \<Rightarrow> u32 \<Rightarrow> int res" where
  "shutdown_device_write dev addr data =
     (if data = POWEROFF_SHUTDOWN_MAGIC
      then (if dev_realdevice dev = None then Inl NullDeref else Inl (ProcExit 0))
      else Inr 0)"

section \<open>The terminal device\<close>

abbreviation (input) SHM_KEY_TTY :: int where "SHM_KEY_TTY \<equiv> 0x4321"
abbreviation (input) IRQ_TTY :: u32 where "IRQ_TTY \<equiv> 2"
abbreviation (input) IO_LENGTH_TTY :: u32 where "IO_LENGTH_TTY \<equiv> 12"

definition TTY_VENDOR_STRING :: "u8 list" where
  "TTY_VENDOR_STRING = map of_char ''TTY     ''"

text \<open>
  \<open>tty_device_init\<close>: \<open>shmget_ret\<close> and \<open>shmat_ret\<close> are what the two shared-memory calls of the
  operating system answer (a failing \<open>shmat\<close> is \<open>None\<close>).  A failing \<open>shmget\<close> returns early and
  leaves \<open>shm\<close> unset; a failing \<open>shmat\<close> leaves the process.
\<close>

definition tty_device_init :: "int \<Rightarrow> int option \<Rightarrow> tty_device_t \<Rightarrow> tty_device_t res" where
  "tty_device_init shmget_ret shmat_ret dev =
     (let dev = dev\<lparr>shm_key := SHM_KEY_TTY\<rparr>;
          dev = dev\<lparr>shm_id := shmget_ret\<rparr>
      in if shmget_ret < 0 then Inr dev
         else case shmat_ret of None \<Rightarrow> Inl (ProcExit 1) | Some p \<Rightarrow> Inr (dev\<lparr>shm := Some p\<rparr>))"

definition tty_device_create ::
    "bool \<Rightarrow> int \<Rightarrow> int option \<Rightarrow> tty_device_t \<Rightarrow> device_t option res" where
  "tty_device_create alloc_ok shmget_ret shmat_ret fresh =
     (if \<not> alloc_ok then Inr None
      else bind_res (tty_device_init shmget_ret shmat_ret fresh) (\<lambda>tty.
        Inr (Some (zero_device\<lparr>dev_typecode := TYPECODE_TTY,
          dev_vendor_string := take 8 TTY_VENDOR_STRING,
          dev_irq := IRQ_TTY,
          dev_io_addr_len := IO_LENGTH_TTY,
          dev_io_write := Some Tty_fn,
          dev_io_read := Some Tty_fn,
          dev_io_addr_base := 0,
          dev_realdevice := Some (Tty_device tty)\<rparr>))))"

definition tty_device_read :: "device_t \<Rightarrow> u32 \<Rightarrow> u32 \<Rightarrow> int \<times> u32" where
  "tty_device_read dev addr data = (-1, data)"

definition tty_device_write :: "device_t \<Rightarrow> u32 \<Rightarrow> u32 \<Rightarrow> int" where
  "tty_device_write dev addr data = -1"

section \<open>Calls through the function pointers\<close>

text \<open>
  \<open>dev->io_read\<close> as the MMU calls it: the second component is the word behind \<open>dst\<close>
  afterwards.  The shutdown device has no read function, so \<open>Shutdown_fn\<close> is never a read
  pointer of a device the sources create; reading through it is a null call.
\<close>

definition call_io_read :: "device_t \<Rightarrow> u32 \<Rightarrow> u32 \<Rightarrow> u32 res" where
  "call_io_read dev addr dst = (case dev_io_read dev of
     Some Tty_fn \<Rightarrow> Inr (snd (tty_device_read dev addr dst))
   | _ \<Rightarrow> Inl NullCall)"

definition call_io_write :: "device_t \<Rightarrow> u32 \<Rightarrow> u32 \<Rightarrow> int res" where
  "call_io_write dev addr data = (case dev_io_write dev of
     None \<Rightarrow> Inl NullCall
   | Some Shutdown_fn \<Rightarrow> shutdown_device_write dev addr data
   | Some Tty_fn \<Rightarrow> Inr (tty_device_write dev addr data))"

lemma length_SHUTDOWN_VENDOR_STRING [simp]: "length SHUTDOWN_VENDOR_STRING = 8"
  by (simp add: SHUTDOWN_VENDOR_STRING_def)

lemma length_TTY_VENDOR_STRING [simp]: "length TTY_VENDOR_STRING = 8"
  by (simp add: TTY_VENDOR_STRING_def)

end
