(* ===== verification/Mem.thy ===== *)
theory Mem
  imports Io Mips32
begin

unbundle bit_operations_syntax

text \<open>
  The memory management unit of \<open>mem.h\<close> and \<open>mem.c\<close>: address translation, big-endian
  access to the simulated physical memory, the memory-mapped device area and the
  device descriptors.  Physical memory is a byte array with the length it was
  allocated with (\<open>pmem_len\<close>); a C pointer into it is an offset, the null pointer is
  \<open>None\<close>.  The \<open>core\<close> parameter of \<open>mmu_read\<close> and \<open>mmu_write\<close> is not used by the C code
  and is left out; the \<open>int32_t\<close> address is compared with unsigned constants only, so
  it is an unsigned word here.
\<close>

section \<open>Constants and state\<close>

abbreviation (input) KSEG2_SIZE :: u32 where "KSEG2_SIZE \<equiv> 0x40000000"
abbreviation (input) KSEG1_SIZE :: u32 where "KSEG1_SIZE \<equiv> 0x20000000"
abbreviation (input) KSEG0_SIZE :: u32 where "KSEG0_SIZE \<equiv> 0x20000000"
abbreviation (input) KUSEG_SIZE :: u32 where "KUSEG_SIZE \<equiv> 0x80000000"
abbreviation (input) KSEG0_VSTART :: u32 where "KSEG0_VSTART \<equiv> 0x80000000"
abbreviation (input) KSEG1_PSTART :: u32 where "KSEG1_PSTART \<equiv> 0x00000000"
abbreviation (input) KSEG0_PSTART :: u32 where "KSEG0_PSTART \<equiv> 0x20000000"
abbreviation (input) KUSEG_PSTART :: u32 where "KUSEG_PSTART \<equiv> KSEG1_PSTART + KSEG0_PSTART"
abbreviation (input) KSEG2_PSTART :: u32 where "KSEG2_PSTART \<equiv> KUSEG_PSTART + KUSEG_SIZE"
abbreviation (input) IO_REGISTER_AREA :: u32 where "IO_REGISTER_AREA \<equiv> 0xFFFF0000"
abbreviation (input) IO_DESCRIPTOR_AREA :: u32 where "IO_DESCRIPTOR_AREA \<equiv> 0xFFFE0000"
abbreviation (input) IO_DESCRIPTOR_AREA_LENGTH :: nat where "IO_DESCRIPTOR_AREA_LENGTH \<equiv> 0x00010000"

text \<open>65536 bytes divided by the 32 bytes of a descriptor.\<close>

abbreviation (input) MAX_IO_DEVICES :: nat where "MAX_IO_DEVICES \<equiv> 2048"

record mmu_t =
  pmem :: bytes
  pmem_len :: nat
  size_total :: u32
  device_descriptor_start :: bytes
  next_io_register :: u32
  devices :: "device_t list"
  size_kseg0 :: u32
  size_kseg1 :: u32
  size_kseg2 :: u32
  size_kuseg :: u32

section \<open>Initialisation\<close>

definition mmu_init :: "bool \<Rightarrow> nat \<Rightarrow> mmu_t option" where
  "mmu_init alloc_ok sz =
     (if \<not> alloc_ok then None
      else Some \<lparr>pmem = (\<lambda>_. 0), pmem_len = sz, size_total = of_nat sz,
        device_descriptor_start = (\<lambda>_. 0), next_io_register = IO_REGISTER_AREA,
        devices = [], size_kseg0 = of_nat (sz div 8), size_kseg1 = of_nat (sz div 8),
        size_kseg2 = of_nat (sz div 4), size_kuseg = of_nat (sz div 2)\<rparr>)"

section \<open>Address translation\<close>

definition translate_vaddr :: "u32 \<Rightarrow> u32" where
  "translate_vaddr vaddr =
     (if vaddr > IO_REGISTER_AREA then vaddr
      else if vaddr > IO_DESCRIPTOR_AREA then (if vaddr < KSEG0_PSTART
             then vaddr + KSEG0_SIZE + KSEG1_SIZE else 0)
      else if vaddr > KSEG2_PSTART then 0
      else let paddr = (if vaddr > KSEG1_PSTART then vaddr AND 0x1FFFFFFF
                        else if vaddr > KSEG0_PSTART then vaddr AND 0x7FFFFFFF
                        else 0)
           in if vaddr < KSEG0_PSTART then vaddr + KSEG0_SIZE + KSEG1_SIZE else paddr)"

definition translate_paddr :: "u32 \<Rightarrow> mmu_t \<Rightarrow> nat option" where
  "translate_paddr paddr mem =
     (if paddr \<ge> KSEG0_SIZE + KSEG1_SIZE + KUSEG_SIZE then None
      else if paddr \<ge> KSEG1_SIZE + KSEG0_SIZE then
        (if paddr \<ge> KUSEG_PSTART + size_kseg0 mem + size_kseg1 mem + size_kuseg mem then None
         else Some (unat (paddr - KSEG1_PSTART - KSEG0_PSTART - KUSEG_PSTART)))
      else if paddr \<ge> KSEG1_SIZE then
        (if paddr \<ge> KSEG0_PSTART + size_kseg0 mem + size_kseg1 mem then None
         else Some (unat (paddr - KSEG1_PSTART - KSEG0_PSTART)))
      else
        (if paddr \<ge> KSEG1_PSTART + size_kseg0 mem then None
         else Some (unat (paddr - KSEG1_PSTART))))"

section \<open>Reading and writing\<close>

text \<open>
  The device loops \<open>for(dev = mem->devices; dev->next != NULL; dev = dev->next)\<close>: an empty
  list is a null dereference, and the loop stops when it stands on the last device.
\<close>

definition dev_hit :: "device_t \<Rightarrow> u32 \<Rightarrow> bool" where
  "dev_hit dev vaddr \<longleftrightarrow> vaddr \<ge> dev_io_addr_base dev
     \<and> vaddr \<le> dev_io_addr_base dev + dev_io_addr_len dev"

fun read_devices :: "device_t list \<Rightarrow> u32 \<Rightarrow> u32 \<Rightarrow> u32 res" where
  "read_devices [] vaddr dst = Inl NullDeref"
| "read_devices [dev] vaddr dst = Inr dst"
| "read_devices (dev # dev' # devs) vaddr dst =
     (if dev_hit dev vaddr
      then bind_res (call_io_read dev vaddr dst) (\<lambda>dst. read_devices (dev' # devs) vaddr dst)
      else read_devices (dev' # devs) vaddr dst)"

fun write_devices :: "device_t list \<Rightarrow> u32 \<Rightarrow> u32 \<Rightarrow> unit res" where
  "write_devices [] vaddr src = Inl NullDeref"
| "write_devices [dev] vaddr src = Inr ()"
| "write_devices (dev # dev' # devs) vaddr src =
     (if dev_hit dev vaddr
      then bind_res (call_io_write dev vaddr src) (\<lambda>_. write_devices (dev' # devs) vaddr src)
      else write_devices (dev' # devs) vaddr src)"

text \<open>
  Reads of the descriptor area index an array of \<open>uint8_t\<close>, \<open>uint16_t\<close> or \<open>uint32_t\<close> with the
  byte distance from the start of the area.
\<close>

definition read_descriptor_area :: "mmu_t \<Rightarrow> nat \<Rightarrow> mem_op_size_t \<Rightarrow> u32 res" where
  "read_descriptor_area mem i op_size =
     (let p = op_bytes op_size * i; a = device_descriptor_start mem in
      if p + op_bytes op_size > IO_DESCRIPTOR_AREA_LENGTH then Inl OutOfBounds
      else Inr (case op_size of MEM_OP_BYTE \<Rightarrow> ucast (a p)
                | MEM_OP_HALF \<Rightarrow> get_le16 a p
                | MEM_OP_WORD \<Rightarrow> get_le32 a p))"

definition mmu_read :: "mmu_t \<Rightarrow> u32 \<Rightarrow> u32 \<Rightarrow> mem_op_size_t \<Rightarrow> (exception_t \<times> u32) res" where
  "mmu_read mem vaddr dst op_size =
     (if vaddr \<ge> IO_REGISTER_AREA then
        bind_res (read_devices (devices mem) vaddr dst) (\<lambda>dst. Inr (EXC_None, dst))
      else if vaddr \<ge> IO_DESCRIPTOR_AREA then
        bind_res (read_descriptor_area mem (unat (vaddr - IO_DESCRIPTOR_AREA)) op_size)
          (\<lambda>dst. Inr (EXC_None, dst))
      else case translate_paddr (translate_vaddr vaddr) mem of
        None \<Rightarrow> Inl NullDeref
      | Some aaddr \<Rightarrow>
          if aaddr + op_bytes op_size > pmem_len mem then Inl OutOfBounds
          else Inr (EXC_None, get_big op_size (pmem mem) aaddr))"

definition mmu_write :: "mmu_t \<Rightarrow> u32 \<Rightarrow> u32 \<Rightarrow> mem_op_size_t \<Rightarrow> (exception_t \<times> mmu_t) res" where
  "mmu_write mem vaddr src op_size =
     (if vaddr \<ge> IO_REGISTER_AREA then
        bind_res (write_devices (devices mem) vaddr src) (\<lambda>_. Inr (EXC_None, mem))
      else if vaddr \<ge> IO_DESCRIPTOR_AREA then Inr (EXC_AddressErrorStore, mem)
      else case translate_paddr (translate_vaddr vaddr) mem of
        None \<Rightarrow> Inl NullDeref
      | Some aaddr \<Rightarrow>
          if aaddr + op_bytes op_size > pmem_len mem then Inl OutOfBounds
          else Inr (EXC_None, mem\<lparr>pmem := set_big op_size (pmem mem) aaddr src\<rparr>))"

section \<open>Device registration\<close>

function get_free_descriptor_from :: "bytes \<Rightarrow> nat \<Rightarrow> nat option" where
  "get_free_descriptor_from a i =
     (if i < MAX_IO_DEVICES then
        if dd_typecode (device_descriptor_reverse (load_descriptor a i)) = TYPECODE_EMPTY
        then Some i else get_free_descriptor_from a (Suc i)
      else None)"
  by pat_completeness auto
termination
  by (relation "measure (\<lambda>(a, i). MAX_IO_DEVICES - i)") auto

declare get_free_descriptor_from.simps [simp del]

definition get_free_descriptor :: "mmu_t \<Rightarrow> nat option" where
  "get_free_descriptor mmu = get_free_descriptor_from (device_descriptor_start mmu) 0"

definition device_descriptor_add :: "mmu_t \<Rightarrow> device_t \<Rightarrow> mmu_t" where
  "device_descriptor_add mmu dev = (case get_free_descriptor mmu of
     None \<Rightarrow> mmu
   | Some i \<Rightarrow> mmu\<lparr>device_descriptor_start :=
       store_descriptor (device_descriptor_start mmu) i
         (device_descriptor_reverse (device_descriptor_set_fields dev
           (load_descriptor (device_descriptor_start mmu) i)))\<rparr>)"

definition mmu_add_device :: "mmu_t \<Rightarrow> device_t option \<Rightarrow> mmu_t" where
  "mmu_add_device mmu d = (case d of
     None \<Rightarrow> mmu
   | Some dev \<Rightarrow>
       let dev = dev\<lparr>dev_io_addr_base := next_io_register mmu\<rparr>;
           mmu = mmu\<lparr>next_io_register := next_io_register mmu + dev_io_addr_len dev\<rparr>;
           mmu = mmu\<lparr>devices := dev # devices mmu\<rparr>
       in device_descriptor_add mmu dev)"

section \<open>Well-formed memory\<close>

text \<open>
  The segment sizes are those \<open>mmu_init\<close> derives from the allocated length.  Every
  operation keeps them, and they are what keeps translated accesses inside the
  allocation.
\<close>

definition mmu_wf :: "mmu_t \<Rightarrow> bool" where
  "mmu_wf mem \<longleftrightarrow> size_kseg0 mem = of_nat (pmem_len mem div 8)
     \<and> size_kseg1 mem = of_nat (pmem_len mem div 8)
     \<and> size_kuseg mem = of_nat (pmem_len mem div 2)"

lemma mmu_wf_init [intro]: "mmu_init ok sz = Some mem \<Longrightarrow> mmu_wf mem"
  by (auto simp: mmu_init_def mmu_wf_def split: if_splits)

lemma mmu_wf_pmem [simp]: "mmu_wf (mem\<lparr>pmem := p\<rparr>) = mmu_wf mem"
  by (simp add: mmu_wf_def)

lemma translate_paddr_pmem [simp]: "translate_paddr p (mem\<lparr>pmem := x\<rparr>) = translate_paddr p mem"
  by (simp add: translate_paddr_def)

lemma mmu_write_frame [frame_simps]:
  assumes "mmu_write mem v x s = Inr (e, mem')"
  shows "pmem_len mem' = pmem_len mem" "devices mem' = devices mem"
    "device_descriptor_start mem' = device_descriptor_start mem" "mmu_wf mem' = mmu_wf mem"
    "translate_paddr p mem' = translate_paddr p mem"
  using assms
  by (auto simp: mmu_write_def bind_res_eq_Inr split: if_splits option.splits)

lemma mmu_wf_add_device [simp]: "mmu_wf (mmu_add_device mem d) = mmu_wf mem"
  by (simp add: mmu_add_device_def device_descriptor_add_def mmu_wf_def Let_def
      split: option.split)

lemma unat_add_le: "unat (a + b) \<le> unat a + unat (b :: 'a::len word)"
  by (simp add: unat_word_ariths)

lemma unat_of_nat_le: "unat (of_nat n :: 'a::len word) \<le> n"
  by (simp add: unat_of_nat)

lemma translate_paddr_bound:
  assumes "mmu_wf mem" and "translate_paddr paddr mem = Some a"
  shows "a + 4 \<le> pmem_len mem"
proof -
  let ?L = "pmem_len mem"
  let ?k = "of_nat (?L div 8) :: u32" and ?u = "of_nat (?L div 2) :: u32"
  have k: "unat ?k \<le> ?L div 8" and u: "unat ?u \<le> ?L div 2"
    by (rule unat_of_nat_le)+
  have kk: "unat (0x20000000 + ?k + ?k) \<le> 0x20000000 + (?L div 8 + ?L div 8)"
    using unat_add_le [of "0x20000000 + ?k" ?k] unat_add_le [of "0x20000000" ?k] k by simp
  have ku: "unat (0x20000000 + ?k + ?k + ?u) \<le> 0x20000000 + (?L div 8 + ?L div 8) + ?L div 2"
    using unat_add_le [of "0x20000000 + ?k + ?k" ?u] kk u by linarith
  consider (user) "0x40000000 \<le> paddr" "paddr < 0x20000000 + ?k + ?k + ?u"
      "a = unat (paddr - 0x20000000 - 0x20000000)"
    | (kseg0) "0x20000000 \<le> paddr" "paddr < 0x20000000 + ?k + ?k" "a = unat (paddr - 0x20000000)"
    | (kseg1) "paddr < ?k" "a = unat paddr"
    using assms by (auto simp: translate_paddr_def mmu_wf_def not_le split: if_splits)
  then show ?thesis
  proof cases
    case user
    then have "a = unat paddr - 0x40000000" and "0x40000000 \<le> unat paddr"
      by (simp_all add: unat_sub word_le_nat_alt diff_diff_eq)
    moreover have "unat paddr < 0x20000000 + (?L div 8 + ?L div 8) + ?L div 2"
      using user(2) ku by (simp add: word_less_nat_alt)
    ultimately show ?thesis by linarith
  next
    case kseg0
    then have "a = unat paddr - 0x20000000" and "0x20000000 \<le> unat paddr"
      by (simp_all add: unat_sub word_le_nat_alt)
    moreover have "unat paddr < 0x20000000 + (?L div 8 + ?L div 8)"
      using kseg0(2) kk by (simp add: word_less_nat_alt)
    ultimately show ?thesis by linarith
  next
    case kseg1
    then have "a < ?L div 8" using k by (simp add: word_less_nat_alt)
    then show ?thesis by linarith
  qed
qed

lemma op_bytes_le4 [simp]: "op_bytes s \<le> 4"
  by (cases s) simp_all

lemma translate_paddr_in_bounds:
  "mmu_wf mem \<Longrightarrow> translate_paddr p mem = Some a \<Longrightarrow> a + op_bytes s \<le> pmem_len mem"
  using translate_paddr_bound [of mem p a] op_bytes_le4 [of s] by linarith

section \<open>The interface the pipeline and the loader rely on\<close>

text \<open>
  A data memory: reads and writes of the three sizes at virtual addresses, a test for
  the addresses backed by memory, and the host position each of them denotes.
\<close>

locale data_memory =
  fixes rd :: "'m \<Rightarrow> u32 \<Rightarrow> u32 \<Rightarrow> mem_op_size_t \<Rightarrow> (exception_t \<times> u32) res"
    and wr :: "'m \<Rightarrow> u32 \<Rightarrow> u32 \<Rightarrow> mem_op_size_t \<Rightarrow> (exception_t \<times> 'm) res"
    and backed :: "'m \<Rightarrow> u32 \<Rightarrow> bool"
    and pos :: "'m \<Rightarrow> u32 \<Rightarrow> nat"
    and invar :: "'m \<Rightarrow> bool"
  assumes rd_backed: "invar m \<Longrightarrow> backed m v \<Longrightarrow> \<exists>x. \<forall>d. rd m v d s = Inr (EXC_None, x)"
    and wr_backed: "invar m \<Longrightarrow> backed m v \<Longrightarrow> \<exists>m'. wr m v x s = Inr (EXC_None, m')"
    and rd_wr_same: "invar m \<Longrightarrow> backed m v \<Longrightarrow> wr m v x s = Inr (e, m') \<Longrightarrow>
      rd m' v d s = Inr (EXC_None, take_bit (8 * op_bytes s) x)"
    and rd_wr_other: "invar m \<Longrightarrow> backed m v \<Longrightarrow> backed m w \<Longrightarrow> wr m v x s = Inr (e, m') \<Longrightarrow>
      pos m w + op_bytes t \<le> pos m v \<or> pos m v + op_bytes s \<le> pos m w \<Longrightarrow>
      rd m' w d t = rd m w d t"
    and wr_invar: "invar m \<Longrightarrow> wr m v x s = Inr (e, m') \<Longrightarrow> invar m'"
    and wr_backed_same: "wr m v x s = Inr (e, m') \<Longrightarrow> backed m' w = backed m w"
    and wr_pos_same: "wr m v x s = Inr (e, m') \<Longrightarrow> pos m' w = pos m w"
begin

text \<open>A list of word stores, stopping at the first fault.\<close>

primrec store_words :: "(u32 \<times> u32) list \<Rightarrow> 'm \<Rightarrow> 'm res" where
  "store_words [] m = Inr m"
| "store_words (p # ps) m =
     bind_res (wr m (fst p) (snd p) MEM_OP_WORD) (\<lambda>(e, m'). store_words ps m')"

definition apart :: "'m \<Rightarrow> u32 \<Rightarrow> u32 \<Rightarrow> bool" where
  "apart m v w \<longleftrightarrow> pos m v + 4 \<le> pos m w \<or> pos m w + 4 \<le> pos m v"

lemma store_words_total:
  "invar m \<Longrightarrow> (\<And>v x. (v, x) \<in> set ps \<Longrightarrow> backed m v) \<Longrightarrow> \<exists>m'. store_words ps m = Inr m'"
proof (induction ps arbitrary: m)
  case (Cons p ps)
  obtain v x where p: "p = (v, x)" by (cases p)
  then obtain m1 where m1: "wr m v x MEM_OP_WORD = Inr (EXC_None, m1)"
    using wr_backed Cons.prems by (metis list.set_intros(1))
  then have "\<exists>m'. store_words ps m1 = Inr m'"
    using Cons.prems by (intro Cons.IH) (auto simp: wr_backed_same intro: wr_invar)
  with p m1 show ?case by simp
qed simp

lemma store_words_keeps:
  assumes "invar m" and "backed m w"
    and "\<And>v x. (v, x) \<in> set ps \<Longrightarrow> backed m v \<and> apart m v w"
    and "store_words ps m = Inr m'"
  shows "rd m' w d MEM_OP_WORD = rd m w d MEM_OP_WORD"
  using assms
proof (induction ps arbitrary: m)
  case (Cons p ps)
  obtain v x where p: "p = (v, x)" by (cases p)
  from Cons.prems(4) p obtain e m1 where m1: "wr m v x MEM_OP_WORD = Inr (e, m1)"
    and rest: "store_words ps m1 = Inr m'" by (auto elim!: bind_resE)
  have vw: "backed m v" "apart m v w" using Cons.prems(3) p by auto
  have "rd m' w d MEM_OP_WORD = rd m1 w d MEM_OP_WORD"
    using Cons.prems(1-3) m1 rest
    by (intro Cons.IH) (auto simp: wr_backed_same wr_pos_same apart_def intro: wr_invar)
  also have "\<dots> = rd m w d MEM_OP_WORD"
    using Cons.prems(1,2) vw m1 by (intro rd_wr_other) (auto simp: apart_def)
  finally show ?case .
qed simp

lemma store_words_readback:
  assumes "invar m" and "\<And>v x. (v, x) \<in> set ps \<Longrightarrow> backed m v"
    and "pairwise (apart m) (fst ` set ps)" and "distinct (map fst ps)"
    and "store_words ps m = Inr m'" and "(v, x) \<in> set ps"
  shows "rd m' v d MEM_OP_WORD = Inr (EXC_None, x)"
  using assms
proof (induction ps arbitrary: m)
  case (Cons p ps)
  obtain w y where p: "p = (w, y)" by (cases p)
  from Cons.prems(5) p obtain e m1 where m1: "wr m w y MEM_OP_WORD = Inr (e, m1)"
    and rest: "store_words ps m1 = Inr m'" by (auto elim!: bind_resE)
  have inv1: "invar m1" using Cons.prems(1) m1 by (rule wr_invar)
  have ap: "apart m1 = apart m" using m1 by (auto simp: apart_def wr_pos_same fun_eq_iff)
  have bk: "\<And>u z. (u, z) \<in> set ps \<Longrightarrow> backed m1 u"
    using Cons.prems(2) m1 by (auto simp: wr_backed_same)
  show ?case
  proof (cases "(v, x) \<in> set ps")
    case True
    have "pairwise (apart m1) (fst ` set ps)"
      using Cons.prems(3) ap by (auto simp: pairwise_def)
    then show ?thesis
      using Cons.IH [OF inv1 bk] Cons.prems(4) rest True by simp
  next
    case False
    then have vx: "v = w" "x = y" using Cons.prems(6) p by auto
    have bw: "backed m w" using Cons.prems(2) p by auto
    have "rd m' w d MEM_OP_WORD = rd m1 w d MEM_OP_WORD"
    proof (rule store_words_keeps [OF inv1 _ _ rest])
      show "backed m1 w" using bw m1 by (simp add: wr_backed_same)
      fix u z assume u: "(u, z) \<in> set ps"
      then have "u \<noteq> w" using Cons.prems(4) p by force
      moreover have "u \<in> fst ` set (p # ps)" "w \<in> fst ` set (p # ps)" using u p by force+
      ultimately have "apart m u w" using Cons.prems(3) by (auto simp: pairwise_def)
      then show "backed m1 u \<and> apart m1 u w" using bk u ap by auto
    qed
    also have "\<dots> = Inr (EXC_None, take_bit (8 * op_bytes MEM_OP_WORD) y)"
      using Cons.prems(1) bw m1 by (rule rd_wr_same)
    finally show ?thesis using vx by (simp add: take_bit_word_eq_self)
  qed
qed simp

end

definition ram_backed :: "mmu_t \<Rightarrow> u32 \<Rightarrow> bool" where
  "ram_backed mem v \<longleftrightarrow> v < IO_DESCRIPTOR_AREA \<and> translate_paddr (translate_vaddr v) mem \<noteq> None"

definition host_pos :: "mmu_t \<Rightarrow> u32 \<Rightarrow> nat" where
  "host_pos mem v = (case translate_paddr (translate_vaddr v) mem of None \<Rightarrow> 0 | Some a \<Rightarrow> a)"

lemma not_ge_of_less_desc:
  "v < IO_DESCRIPTOR_AREA \<Longrightarrow> \<not> IO_REGISTER_AREA \<le> v" "v < IO_DESCRIPTOR_AREA \<Longrightarrow> \<not> IO_DESCRIPTOR_AREA \<le> v"
  by (simp_all add: word_less_nat_alt word_le_nat_alt)

lemma mmu_read_ram:
  "mmu_wf mem \<Longrightarrow> ram_backed mem v \<Longrightarrow>
     mmu_read mem v d s = Inr (EXC_None, get_big s (pmem mem) (host_pos mem v))"
  by (auto simp: mmu_read_def ram_backed_def host_pos_def not_ge_of_less_desc not_less
      dest: translate_paddr_in_bounds [of mem _ _ s])

lemma mmu_write_ram:
  "mmu_wf mem \<Longrightarrow> ram_backed mem v \<Longrightarrow> mmu_write mem v x s =
     Inr (EXC_None, mem\<lparr>pmem := set_big s (pmem mem) (host_pos mem v) x\<rparr>)"
  by (auto simp: mmu_write_def ram_backed_def host_pos_def not_ge_of_less_desc not_less
      dest: translate_paddr_in_bounds [of mem _ _ s])

lemma ram_backed_pmem [simp]: "ram_backed (mem\<lparr>pmem := p\<rparr>) v = ram_backed mem v"
  by (simp add: ram_backed_def)

lemma host_pos_pmem [simp]: "host_pos (mem\<lparr>pmem := p\<rparr>) v = host_pos mem v"
  by (simp add: host_pos_def)

interpretation ram: data_memory mmu_read mmu_write ram_backed host_pos mmu_wf
proof (unfold_locales, goal_cases)
  case (1 m v s)
  then show ?case by (auto simp: mmu_read_ram)
next
  case (2 m v x s)
  then show ?case by (auto simp: mmu_write_ram)
next
  case (3 m v x s e m' d)
  then show ?case by (auto simp: mmu_write_ram mmu_read_ram byte_simps)
next
  case (4 m v w x s e m' t d)
  then show ?case by (auto simp: mmu_write_ram mmu_read_ram byte_simps)
next
  case (5 m v x s e m')
  then show ?case by (simp add: mmu_write_frame(4))
next
  case (6 m v x s e m' w)
  then show ?case by (simp add: ram_backed_def mmu_write_frame(5))
next
  case (7 m v x s e m' w)
  then show ?case by (simp add: host_pos_def mmu_write_frame(5))
qed

section \<open>Properties of translation and access\<close>

lemma translate_vaddr_cases:
  "v < 0x20000000 \<Longrightarrow> translate_vaddr v = v + 0x40000000"
  "0x20000000 \<le> v \<Longrightarrow> v \<le> 0xA0000000 \<Longrightarrow> translate_vaddr v = v AND 0x1FFFFFFF"
  "0xA0000000 < v \<Longrightarrow> v \<le> 0xFFFF0000 \<Longrightarrow> translate_vaddr v = 0"
  by (auto simp: translate_vaddr_def word_less_nat_alt word_le_nat_alt)

lemma and_kseg_mask:
  assumes "0x80000000 \<le> v" and "v < 0xA0000000"
  shows "v AND 0x1FFFFFFF = (v - 0x80000000 :: u32)"
proof -
  have m: "(0x1FFFFFFF :: u32) = mask 29" by (simp add: mask_numeral)
  have "unat v div 2 ^ 29 = 4"
    using assms by (simp add: word_le_nat_alt word_less_nat_alt div_nat_eqI)
  then have "unat v mod 2 ^ 29 = unat v - 0x80000000"
    by (simp add: minus_div_mult_eq_mod [symmetric])
  moreover have "unat (v - 0x80000000) = unat v - 0x80000000"
    using assms(1) by (simp add: unat_sub)
  ultimately show ?thesis
    unfolding m by (simp flip: take_bit_eq_mask
        add: word_unat_eq_iff unsigned_take_bit_eq take_bit_eq_mod [of 29 "unat v"])
qed

text \<open>
  C18. The unmapped kernel segment: with at most 4 GiB of memory, the virtual addresses
  from 0x80000000 up to the size of the segment are all backed, and each denotes the
  host byte at its distance from 0x80000000.
\<close>

theorem kseg0_translation:
  assumes "mmu_init ok sz = Some mem" and "sz \<le> 2 ^ 32" and "n < sz div 8"
  shows "ram_backed mem (0x80000000 + of_nat n) \<and> host_pos mem (0x80000000 + of_nat n) = n"
proof -
  let ?v = "0x80000000 + of_nat n :: u32"
  have n: "n < 0x20000000" using assms(2,3) by simp
  then have un: "unat (of_nat n :: u32) = n" by (simp add: unat_of_nat)
  then have uv: "unat ?v = 0x80000000 + n"
    using n by (simp add: unat_word_ariths)
  then have "0x80000000 \<le> ?v" "?v < 0xA0000000" "0x20000000 \<le> ?v" "?v \<le> 0xA0000000"
    using n by (simp_all only: word_le_nat_alt word_less_nat_alt uv) simp_all
  then have tv: "translate_vaddr ?v = of_nat n"
    using and_kseg_mask [of ?v] by (simp add: translate_vaddr_cases)
  have "size_kseg0 mem = of_nat (sz div 8)"
    using assms(1) by (auto simp: mmu_init_def split: if_splits)
  moreover have "unat (of_nat (sz div 8) :: u32) = sz div 8"
    using assms(2) by (simp add: unat_of_nat)
  ultimately have "translate_paddr (translate_vaddr ?v) mem = Some n"
    using n un assms(3) unfolding tv translate_paddr_def
    by (simp add: word_le_nat_alt)
  moreover have "?v < IO_DESCRIPTOR_AREA"
    using n by (simp only: word_less_nat_alt uv) simp
  ultimately show ?thesis by (simp add: ram_backed_def host_pos_def)
qed

text \<open>
  C10. What was stored is read back: a store to a backed address succeeds, the load of
  the same size at that address returns the stored value cut to that size, whatever the
  destination held, and loads of any size at host positions outside the stored bytes
  are unaffected.
\<close>

theorem mmu_write_read:
  assumes "mmu_wf mem" and "ram_backed mem v"
  shows "\<exists>mem'. mmu_write mem v x s = Inr (EXC_None, mem')
    \<and> mmu_read mem' v d s = Inr (EXC_None, take_bit (8 * op_bytes s) x)
    \<and> (\<forall>w t d'. ram_backed mem w
          \<and> (host_pos mem w + op_bytes t \<le> host_pos mem v \<or> host_pos mem v + op_bytes s \<le> host_pos mem w)
        \<longrightarrow> mmu_read mem' w d' t = mmu_read mem w d' t)"
proof -
  obtain mem' where mem': "mmu_write mem v x s = Inr (EXC_None, mem')"
    using ram.wr_backed [OF assms] by blast
  then show ?thesis
    using ram.rd_wr_same [OF assms mem'] ram.rd_wr_other [OF assms _ mem'] by blast
qed

text \<open>
  C11. Memory safety of stores: no store, of any size and to any address, writes outside
  the simulated memory; the only ways a store can end the process are a null pointer
  from an unmapped address, a device without a write function, and a device that
  powers the machine off.
\<close>

theorem mmu_write_in_bounds:
  assumes "mmu_wf mem"
  shows "mmu_write mem v x s \<noteq> Inl OutOfBounds"
proof -
  have "write_devices ds v x \<noteq> Inl OutOfBounds" for ds
    by (induction ds v x rule: write_devices.induct)
      (auto simp: bind_res_eq_Inl call_io_write_def shutdown_device_write_def
        split: option.splits dev_fn.splits if_splits)
  then show ?thesis
    by (auto simp: mmu_write_def bind_res_eq_Inl split: option.splits
        dest: translate_paddr_in_bounds [OF assms, of _ _ s])
qed

text \<open>
  C12. Memory safety of loads: a load leaves the object it reads exactly when it is a
  half-word or word load in the descriptor area whose scaled index passes its end.
\<close>

theorem mmu_read_in_bounds:
  assumes "mmu_wf mem"
  shows "mmu_read mem v d s = Inl OutOfBounds \<longleftrightarrow>
    IO_DESCRIPTOR_AREA \<le> v \<and> v < IO_REGISTER_AREA
      \<and> op_bytes s * (unat (v - IO_DESCRIPTOR_AREA) + 1) > IO_DESCRIPTOR_AREA_LENGTH"
proof -
  have "read_devices ds v d \<noteq> Inl OutOfBounds" for ds
    by (induction ds v d rule: read_devices.induct)
      (auto simp: bind_res_eq_Inl call_io_read_def split: option.splits dev_fn.splits)
  then show ?thesis
    by (auto simp: mmu_read_def read_descriptor_area_def bind_res_eq_Inl Let_def
        not_le word_le_nat_alt word_less_nat_alt split: option.splits
        dest: translate_paddr_in_bounds [OF assms, of _ _ s])
qed

section \<open>A small memory\<close>

text \<open>4096 bytes of memory with one instruction, \<open>addiu $v0, $zero, 10\<close>, at its start.\<close>

definition demo_mem :: mmu_t where
  "demo_mem = \<lparr>pmem = set_big MEM_OP_WORD (\<lambda>_. 0) 0 0x2402000A, pmem_len = 4096, size_total = 4096,
     device_descriptor_start = (\<lambda>_. 0), next_io_register = IO_REGISTER_AREA, devices = [],
     size_kseg0 = 512, size_kseg1 = 512, size_kseg2 = 1024, size_kuseg = 2048\<rparr>"

lemma demo_mem_init: "map_option (\<lambda>m. m\<lparr>pmem := set_big MEM_OP_WORD (pmem m) 0 0x2402000A\<rparr>)
   (mmu_init True 4096) = Some demo_mem"
  by (simp add: mmu_init_def demo_mem_def)

lemma demo_mem_wf: "mmu_wf demo_mem"
  by (simp add: mmu_wf_def demo_mem_def)

lemma demo_mem_backed:
  "ram_backed demo_mem 0x80000000" "host_pos demo_mem 0x80000000 = 0"
  "ram_backed demo_mem 0x80000004" "host_pos demo_mem 0x80000004 = 4"
  "ram_backed demo_mem 0x80000008" "host_pos demo_mem 0x80000008 = 8"
  "ram_backed demo_mem 0x80000080" "host_pos demo_mem 0x80000080 = 128"
  by (simp_all add: ram_backed_def host_pos_def translate_vaddr_def translate_paddr_def demo_mem_def)

theorem kseg0_translation_witness:
  "mmu_init True 4096 \<noteq> None \<and> host_pos (the (mmu_init True 4096)) (0x80000000 + of_nat 100) = 100"
  using kseg0_translation [of True 4096 "the (mmu_init True 4096)" 100] by (simp add: mmu_init_def)

theorem mmu_write_read_witness:
  "mmu_wf demo_mem \<and> ram_backed demo_mem 0x80000004
   \<and> (\<exists>mem'. mmu_write demo_mem 0x80000004 0x12345678 MEM_OP_HALF = Inr (EXC_None, mem')
        \<and> mmu_read mem' 0x80000004 0 MEM_OP_HALF = Inr (EXC_None, take_bit (8 * op_bytes MEM_OP_HALF) 0x12345678))"
  using mmu_write_read [where d = 0, OF demo_mem_wf demo_mem_backed(3)]
    demo_mem_wf demo_mem_backed(3) by blast

theorem mmu_write_in_bounds_witness:
  "mmu_wf demo_mem \<and> mmu_write demo_mem 0x80000004 7 MEM_OP_WORD \<noteq> Inl OutOfBounds"
  using mmu_write_in_bounds [OF demo_mem_wf] demo_mem_wf by blast

theorem mmu_read_in_bounds_witness:
  "mmu_wf demo_mem \<and> mmu_read demo_mem 0xFFFEFFFF 0 MEM_OP_WORD = Inl OutOfBounds"
  using mmu_read_in_bounds [OF demo_mem_wf, where v = "0xFFFEFFFF" and d = 0 and s = MEM_OP_WORD] demo_mem_wf by simp

end
