(* ===== verification/Fetch_Decode.thy ===== *)
theory Fetch_Decode
  imports Cpu Mem
begin

unbundle bit_operations_syntax

text \<open>
  The first two pipeline stages of \<open>sim.c\<close>: \<open>interpret_if\<close> with its load-use interlock,
  the control unit \<open>interpret_id_control\<close> and the decoder \<open>interpret_id\<close>.
\<close>

abbreviation (input) PC :: "core_t \<Rightarrow> u32" where "PC core \<equiv> regs core REG_PC"

abbreviation set_PC :: "u32 \<Rightarrow> core_t \<Rightarrow> core_t" where
  "set_PC v core \<equiv> core\<lparr>regs := (regs core)(REG_PC := v)\<rparr>"

section \<open>Instruction fetch\<close>

text \<open>
  The interlock compares the target register of a load in \<open>ID_EX\<close> with both source
  fields of the fetched word; on a match a no-operation enters the pipeline and the
  program counter stays.
\<close>

definition load_use_hazard :: "id_ex_t \<Rightarrow> u32 \<Rightarrow> bool" where
  "load_use_hazard d inst \<longleftrightarrow> idex_c_mem_read d
     \<and> (ucast (idex_rt d) = GET_RS inst \<or> ucast (idex_rt d) = GET_RT inst)"

definition interpret_if :: "core_t \<Rightarrow> mmu_t \<Rightarrow> core_t res" where
  "interpret_if core mem =
     bind_res (mmu_read mem (PC core) 0 MEM_OP_WORD) (\<lambda>(e, inst).
       let core = core\<lparr>if_id := (if_id core)\<lparr>ifid_exception := e\<rparr>\<rparr> in
       if load_use_hazard (id_ex core) inst
       then Inr (core\<lparr>if_id := (if_id core)\<lparr>ifid_inst := 0\<rparr>\<rparr>)
       else let core = core\<lparr>if_id := (if_id core)\<lparr>ifid_inst := inst\<rparr>\<rparr>;
                core = set_PC (PC core + 4) core
            in Inr (core\<lparr>if_id := (if_id core)\<lparr>ifid_next_pc := PC core, ifid_BadVAddr := 0,
                 ifid_is_branch_delay := False\<rparr>\<rparr>))"

section \<open>Control unit\<close>

definition id_clear :: "id_ex_t \<Rightarrow> id_ex_t" where
  "id_clear d = d\<lparr>idex_c_reg_dst := False, idex_c_alu_op := 0, idex_c_alu_src := False,
     idex_c_beq := False, idex_c_bne := False, idex_c_mem_read := False,
     idex_c_mem_write := False, idex_c_reg_write := False, idex_c_mem_to_reg := False,
     idex_c_jump := False\<rparr>"

definition jump_target :: "id_ex_t \<Rightarrow> u32" where
  "jump_target d = (idex_next_pc d AND 0xF0000000) OR push_bit 2 (GET_ADDRESS (idex_inst d))"

definition id_control_cp0 :: "core_t \<Rightarrow> u32 \<Rightarrow> id_ex_t \<Rightarrow> id_ex_t" where
  "id_control_cp0 core inst d =
     (if GET_RS inst = CP0_MFC0 then
        d\<lparr>idex_c_reg_dst := True, idex_c_alu_op := 2, idex_c_reg_write := True,
          idex_rs := ucast (GET_RD inst + 1),
          idex_rs_value := cp0 core (unat (GET_RD inst + 1)),
          idex_rt := 0, idex_rt_value := 0,
          idex_rd := ucast (GET_RT inst),
          idex_funct := ucast FUNCT_ADD\<rparr>
      else if GET_RS inst = CP0_MTC0 then
        d\<lparr>idex_c_reg_dst := True, idex_c_alu_op := 2, idex_c_reg_write := True,
          idex_rs := ucast (GET_RT inst),
          idex_rs_value := regs core (unat (GET_RT inst)),
          idex_rt := 0, idex_rt_value := 0,
          idex_rd := ucast (GET_RD inst + 1),
          idex_funct := ucast FUNCT_ADD\<rparr>
      else d)"

definition id_control_switch :: "core_t \<Rightarrow> u32 \<Rightarrow> id_ex_t \<Rightarrow> id_ex_t" where
  "id_control_switch core inst d = (let opc = GET_OPCODE inst in
     if opc = OPCODE_R then
       if GET_FUNCT (idex_inst d) = FUNCT_JR then d\<lparr>idex_c_jump := True\<rparr>
       else d\<lparr>idex_c_reg_dst := True, idex_c_alu_op := 2, idex_c_reg_write := True\<rparr>
     else if opc = OPCODE_LWL \<or> opc = OPCODE_LWR \<or> opc = OPCODE_LBU \<or> opc = OPCODE_LHU
           \<or> opc = OPCODE_LW then
       d\<lparr>idex_c_alu_src := True, idex_c_mem_read := True, idex_c_reg_write := True,
         idex_c_mem_to_reg := True\<rparr>
     else if opc = OPCODE_LL \<or> opc = OPCODE_LUI then
       d\<lparr>idex_c_alu_op := 3, idex_c_alu_src := True, idex_c_reg_write := True,
         idex_c_reg_dst := False\<rparr>
     else if opc = OPCODE_SC \<or> opc = OPCODE_SWR \<or> opc = OPCODE_SWL \<or> opc = OPCODE_SB
           \<or> opc = OPCODE_SH \<or> opc = OPCODE_SW then
       d\<lparr>idex_c_alu_op := 0, idex_c_alu_src := True, idex_c_mem_write := True\<rparr>
     else if opc = OPCODE_BEQ then d\<lparr>idex_c_beq := True\<rparr>
     else if opc = OPCODE_BNE then d\<lparr>idex_c_bne := True\<rparr>
     else if opc = OPCODE_SLTI \<or> opc = OPCODE_SLTIU \<or> opc = OPCODE_ORI \<or> opc = OPCODE_ANDI
           \<or> opc = OPCODE_ADDI \<or> opc = OPCODE_ADDIU then
       d\<lparr>idex_c_alu_op := 3, idex_c_alu_src := True, idex_c_reg_write := True\<rparr>
     else if opc = OPCODE_J then
       d\<lparr>idex_c_jump := True, idex_jump_addr := jump_target d\<rparr>
     else if opc = OPCODE_JAL then
       d\<lparr>idex_c_jump := True, idex_jump_addr := jump_target d,
         idex_rs_value := idex_next_pc d + 0x04, idex_c_reg_dst := False,
         idex_rt := REG_RA, idex_c_reg_write := True\<rparr>
     else if opc = OPCODE_CP0 then id_control_cp0 core inst d
     else d)"

definition interpret_id_control :: "core_t \<Rightarrow> core_t" where
  "interpret_id_control core =
     core\<lparr>id_ex := id_control_switch core (ifid_inst (if_id core)) (id_clear (id_ex core))\<rparr>"

section \<open>Decode\<close>

definition id_latch :: "core_t \<Rightarrow> id_ex_t" where
  "id_latch core = (let f = if_id core; inst = ifid_inst f in
     (id_ex core)\<lparr>idex_rt := ucast (GET_RT inst), idex_rd := ucast (GET_RD inst),
       idex_rs := ucast (GET_RS inst),
       idex_rs_value := regs core (unat (GET_RS inst)),
       idex_rt_value := regs core (unat (GET_RT inst)),
       idex_sign_ext_imm := SIGN_EXTEND (GET_IMM inst),
       idex_funct := ucast (GET_FUNCT inst), idex_shamt := ucast (GET_SHAMT inst),
       idex_inst := inst, idex_next_pc := ifid_next_pc f,
       idex_exception := ifid_exception f, idex_BadVAddr := ifid_BadVAddr f,
       idex_is_branch_delay := ifid_is_branch_delay f\<rparr>)"

definition interpret_id :: "core_t \<Rightarrow> core_t" where
  "interpret_id core =
     (let f = if_id core;
          core = core\<lparr>id_ex := (id_latch core)\<lparr>idex_exception := EXC_None\<rparr>\<rparr>
      in if ifid_exception f \<noteq> EXC_None
         then core\<lparr>id_ex := (id_ex core)\<lparr>idex_exception := ifid_exception f,
                idex_BadVAddr := ifid_BadVAddr f\<rparr>\<rparr>
         else interpret_id_control core)"

section \<open>What the stages leave alone\<close>

lemma id_control_switch_frame [simp]:
  "idex_inst (id_control_switch core inst d) = idex_inst d"
  "idex_next_pc (id_control_switch core inst d) = idex_next_pc d"
  "idex_exception (id_control_switch core inst d) = idex_exception d"
  "idex_sign_ext_imm (id_control_switch core inst d) = idex_sign_ext_imm d"
  "idex_shamt (id_control_switch core inst d) = idex_shamt d"
  by (simp_all add: id_control_switch_def id_control_cp0_def Let_def)

lemma id_clear_sel [simp]:
  "idex_rt (id_clear d) = idex_rt d" "idex_rd (id_clear d) = idex_rd d"
  "idex_rs (id_clear d) = idex_rs d" "idex_inst (id_clear d) = idex_inst d"
  "idex_exception (id_clear d) = idex_exception d" "idex_next_pc (id_clear d) = idex_next_pc d"
  "idex_rs_value (id_clear d) = idex_rs_value d" "idex_rt_value (id_clear d) = idex_rt_value d"
  by (simp_all add: id_clear_def)

lemma id_latch_sel [simp]:
  "idex_rt (id_latch core) = ucast (GET_RT (ifid_inst (if_id core)))"
  "idex_rd (id_latch core) = ucast (GET_RD (ifid_inst (if_id core)))"
  "idex_rs (id_latch core) = ucast (GET_RS (ifid_inst (if_id core)))"
  "idex_inst (id_latch core) = ifid_inst (if_id core)"
  "idex_next_pc (id_latch core) = ifid_next_pc (if_id core)"
  by (simp_all add: id_latch_def Let_def)

lemma interpret_id_frame [simp]:
  "regs (interpret_id core) = regs core" "cp0 (interpret_id core) = cp0 core"
  "if_id (interpret_id core) = if_id core" "ex_mem (interpret_id core) = ex_mem core"
  "mem_wb (interpret_id core) = mem_wb core"
  "idex_inst (id_ex (interpret_id core)) = ifid_inst (if_id core)"
  by (simp_all add: interpret_id_def interpret_id_control_def Let_def id_latch_def)

lemma interpret_if_frame:
  assumes "interpret_if core mem = Inr core'"
  shows "cp0 core' = cp0 core" "id_ex core' = id_ex core" "ex_mem core' = ex_mem core"
    "mem_wb core' = mem_wb core" "\<And>i. i \<noteq> REG_PC \<Longrightarrow> regs core' i = regs core i"
  using assms by (auto simp: interpret_if_def bind_res_eq_Inr Let_def split: if_splits)

end
