(* ===== verification/Execute.thy ===== *)
theory Execute
  imports Fetch_Decode
begin

unbundle bit_operations_syntax

text \<open>
  The execute stage of \<open>sim.c\<close>: the ALU \<open>interpret_ex_alu\<close> and \<open>interpret_ex\<close>, which also
  resolves jumps and branches.
\<close>

section \<open>ALU\<close>

abbreviation of_cond :: "bool \<Rightarrow> u32" where "of_cond b \<equiv> (if b then 1 else 0)"

text \<open>
  The R-type switch; the default branch only prints a message, so \<open>EX_MEM\<close> keeps the
  result of the instruction before.
\<close>

definition alu_r_type :: "id_ex_t \<Rightarrow> u32 \<Rightarrow> u32 \<Rightarrow> ex_mem_t \<Rightarrow> ex_mem_t" where
  "alu_r_type d a b x = (let funct = (ucast (idex_funct d) :: u32) in
     if funct = FUNCT_ADD then x\<lparr>exmem_alu_res := a + b\<rparr>
     else if funct = FUNCT_ADDU then x\<lparr>exmem_alu_res := a + b\<rparr>
     else if funct = FUNCT_SUB then x\<lparr>exmem_alu_res := a + b\<rparr>
     else if funct = FUNCT_SUBU then x\<lparr>exmem_alu_res := a - b\<rparr>
     else if funct = FUNCT_AND then x\<lparr>exmem_alu_res := a AND b\<rparr>
     else if funct = FUNCT_OR then x\<lparr>exmem_alu_res := a OR b\<rparr>
     else if funct = FUNCT_NOR then x\<lparr>exmem_alu_res := NOT (a OR b)\<rparr>
     else if funct = FUNCT_SLT then x\<lparr>exmem_alu_res := of_cond (sint a < sint b)\<rparr>
     else if funct = FUNCT_SLTU then x\<lparr>exmem_alu_res := of_cond (a < b)\<rparr>
     else if funct = FUNCT_SLL then x\<lparr>exmem_alu_res := push_bit (unat (idex_shamt d)) b\<rparr>
     else if funct = FUNCT_SRL then x\<lparr>exmem_alu_res := drop_bit (unat (idex_shamt d)) b\<rparr>
     else if funct = FUNCT_SYSCALL then x\<lparr>exmem_exception := EXC_Syscall\<rparr>
     else x)"

definition alu_i_type :: "id_ex_t \<Rightarrow> u32 \<Rightarrow> u32 \<Rightarrow> ex_mem_t \<Rightarrow> ex_mem_t" where
  "alu_i_type d a b x = (let opc = GET_OPCODE (idex_inst d) in
     if opc = OPCODE_ADDI then
       (if check_soverflow a b = 1 then x\<lparr>exmem_exception := EXC_ArithmeticOverflow\<rparr> else x)
         \<lparr>exmem_alu_res := a + b\<rparr>
     else if opc = OPCODE_ADDIU then x\<lparr>exmem_alu_res := a + b\<rparr>
     else if opc = OPCODE_SLTI then x\<lparr>exmem_alu_res := of_cond (sint a < sint b)\<rparr>
     else if opc = OPCODE_SLTIU then x\<lparr>exmem_alu_res := of_cond (a < b)\<rparr>
     else if opc = OPCODE_ANDI then x\<lparr>exmem_alu_res := a AND (b AND ZERO_EXTEND_MASK)\<rparr>
     else if opc = OPCODE_ORI then x\<lparr>exmem_alu_res := a OR (b AND ZERO_EXTEND_MASK)\<rparr>
     else if opc = OPCODE_LUI then x\<lparr>exmem_alu_res := push_bit 16 b\<rparr>
     else x)"

definition alu :: "id_ex_t \<Rightarrow> ex_mem_t \<Rightarrow> ex_mem_t" where
  "alu d x = (let a = idex_rs_value d;
      b = (if \<not> idex_c_alu_src d then idex_rt_value d else idex_sign_ext_imm d) in
    if idex_c_alu_op d = 0 then
      (if check_soverflow a b = 1 then x\<lparr>exmem_exception := EXC_ArithmeticOverflow\<rparr> else x)
        \<lparr>exmem_alu_res := a + b\<rparr>
    else if idex_c_alu_op d = 1 then x
    else if idex_c_alu_op d = 2 then alu_r_type d a b x
    else alu_i_type d a b x)"

definition interpret_ex_alu :: "core_t \<Rightarrow> core_t" where
  "interpret_ex_alu core = core\<lparr>ex_mem := alu (id_ex core) (ex_mem core)\<rparr>"

section \<open>Execute\<close>

definition ex_latch :: "id_ex_t \<Rightarrow> ex_mem_t \<Rightarrow> ex_mem_t" where
  "ex_latch d x = x\<lparr>exmem_c_mem_read := idex_c_mem_read d,
     exmem_c_mem_write := idex_c_mem_write d, exmem_rt_value := idex_rt_value d,
     exmem_c_reg_write := idex_c_reg_write d, exmem_c_mem_to_reg := idex_c_mem_to_reg d,
     exmem_inst := idex_inst d, exmem_next_pc := idex_next_pc d,
     exmem_is_branch_delay := idex_is_branch_delay d, exmem_exception := EXC_None\<rparr>"

definition ex_redirect :: "u32 \<Rightarrow> core_t \<Rightarrow> core_t" where
  "ex_redirect target core =
     set_PC target (core\<lparr>if_id := (if_id core)\<lparr>ifid_is_branch_delay := True\<rparr>\<rparr>)"

definition jumps_to_rs :: "u32 \<Rightarrow> bool" where
  "jumps_to_rs inst \<longleftrightarrow> GET_OPCODE inst = OPCODE_R \<and> GET_FUNCT inst = FUNCT_JR
     \<or> inst = INSTRUCTION_ERET"

definition ex_jump :: "core_t \<Rightarrow> core_t" where
  "ex_jump core = (if idex_c_jump (id_ex core) then
     let core = (if jumps_to_rs (idex_inst (id_ex core))
                 then core\<lparr>id_ex := (id_ex core)\<lparr>idex_jump_addr := idex_rs_value (id_ex core)\<rparr>\<rparr>
                 else core)
     in ex_redirect (idex_jump_addr (id_ex core)) core
   else core)"

definition branch_target :: "id_ex_t \<Rightarrow> u32" where
  "branch_target d = idex_next_pc d + push_bit 2 (idex_sign_ext_imm d)"

definition ex_beq :: "core_t \<Rightarrow> core_t" where
  "ex_beq core = (let d = id_ex core in
     if idex_c_beq d \<and> idex_rs_value d = idex_rt_value d
     then ex_redirect (branch_target d) core else core)"

definition ex_bne :: "core_t \<Rightarrow> core_t" where
  "ex_bne core = (let d = id_ex core in
     if idex_c_bne d \<and> idex_rs_value d \<noteq> idex_rt_value d
     then ex_redirect (branch_target d) core else core)"

definition interpret_ex :: "core_t \<Rightarrow> core_t" where
  "interpret_ex core =
     (let core = core\<lparr>ex_mem := ex_latch (id_ex core) (ex_mem core)\<rparr> in
      if idex_exception (id_ex core) \<noteq> EXC_None
      then core\<lparr>ex_mem := (ex_mem core)\<lparr>exmem_exception := idex_exception (id_ex core),
             exmem_BadVAddr := idex_BadVAddr (id_ex core)\<rparr>\<rparr>
      else let core = ex_bne (ex_beq (ex_jump core));
               core = core\<lparr>ex_mem := (ex_mem core)\<lparr>exmem_reg_dst :=
                 (if \<not> idex_c_reg_dst (id_ex core) then idex_rt (id_ex core)
                  else idex_rd (id_ex core))\<rparr>\<rparr>
           in interpret_ex_alu core)"

section \<open>Closed form of the execute stage\<close>

definition ex_jump_addr :: "id_ex_t \<Rightarrow> u32" where
  "ex_jump_addr d = (if idex_c_jump d \<and> jumps_to_rs (idex_inst d)
     then idex_rs_value d else idex_jump_addr d)"

definition ex_pc :: "id_ex_t \<Rightarrow> u32 \<Rightarrow> u32" where
  "ex_pc d pc = (if idex_c_bne d \<and> idex_rs_value d \<noteq> idex_rt_value d then branch_target d
     else if idex_c_beq d \<and> idex_rs_value d = idex_rt_value d then branch_target d
     else if idex_c_jump d then ex_jump_addr d else pc)"

definition ex_taken :: "id_ex_t \<Rightarrow> bool" where
  "ex_taken d \<longleftrightarrow> idex_c_jump d \<or> (idex_c_beq d \<and> idex_rs_value d = idex_rt_value d)
     \<or> (idex_c_bne d \<and> idex_rs_value d \<noteq> idex_rt_value d)"

lemma ex_control_eq:
  "ex_bne (ex_beq (ex_jump core)) = core\<lparr>regs := (regs core)(REG_PC := ex_pc (id_ex core) (PC core)),
     if_id := (if_id core)\<lparr>ifid_is_branch_delay := ex_taken (id_ex core) \<or> ifid_is_branch_delay (if_id core)\<rparr>,
     id_ex := (id_ex core)\<lparr>idex_jump_addr := ex_jump_addr (id_ex core)\<rparr>\<rparr>"
  by (cases "idex_c_jump (id_ex core)"; cases "jumps_to_rs (idex_inst (id_ex core))";
      cases "idex_rs_value (id_ex core) = idex_rt_value (id_ex core)";
      cases "idex_c_beq (id_ex core)"; cases "idex_c_bne (id_ex core)")
    (simp_all add: ex_bne_def ex_beq_def ex_jump_def ex_redirect_def ex_pc_def ex_taken_def
      ex_jump_addr_def branch_target_def Let_def)

definition ex_dst :: "id_ex_t \<Rightarrow> u8" where
  "ex_dst d = (if \<not> idex_c_reg_dst d then idex_rt d else idex_rd d)"

lemma alu_jump_addr [simp]: "alu (d\<lparr>idex_jump_addr := a\<rparr>) x = alu d x"
  by (simp add: alu_def alu_r_type_def alu_i_type_def Let_def cong: if_cong)

lemma interpret_ex_normal:
  assumes "idex_exception (id_ex core) = EXC_None"
  shows "interpret_ex core = core\<lparr>regs := (regs core)(REG_PC := ex_pc (id_ex core) (PC core)),
     if_id := (if_id core)\<lparr>ifid_is_branch_delay := ex_taken (id_ex core) \<or> ifid_is_branch_delay (if_id core)\<rparr>,
     id_ex := (id_ex core)\<lparr>idex_jump_addr := ex_jump_addr (id_ex core)\<rparr>,
     ex_mem := alu (id_ex core) ((ex_latch (id_ex core) (ex_mem core))\<lparr>exmem_reg_dst := ex_dst (id_ex core)\<rparr>)\<rparr>"
  using assms
  by (simp add: interpret_ex_def interpret_ex_alu_def Let_def ex_control_eq ex_dst_def)

lemma interpret_ex_exception:
  assumes "idex_exception (id_ex core) \<noteq> EXC_None"
  shows "interpret_ex core = core\<lparr>ex_mem := (ex_latch (id_ex core) (ex_mem core))
     \<lparr>exmem_exception := idex_exception (id_ex core), exmem_BadVAddr := idex_BadVAddr (id_ex core)\<rparr>\<rparr>"
  using assms by (simp add: interpret_ex_def Let_def)

lemma alu_sel [simp]:
  "exmem_reg_dst (alu d x) = exmem_reg_dst x" "exmem_inst (alu d x) = exmem_inst x"
  "exmem_c_reg_write (alu d x) = exmem_c_reg_write x"
  "exmem_c_mem_read (alu d x) = exmem_c_mem_read x"
  "exmem_c_mem_write (alu d x) = exmem_c_mem_write x"
  "exmem_c_mem_to_reg (alu d x) = exmem_c_mem_to_reg x"
  "exmem_rt_value (alu d x) = exmem_rt_value x"
  by (simp_all add: alu_def alu_r_type_def alu_i_type_def Let_def)

lemma ex_latch_sel [simp]:
  "exmem_inst (ex_latch d x) = idex_inst d" "exmem_reg_dst (ex_latch d x) = exmem_reg_dst x"
  "exmem_c_reg_write (ex_latch d x) = idex_c_reg_write d"
  "exmem_c_mem_read (ex_latch d x) = idex_c_mem_read d"
  "exmem_c_mem_write (ex_latch d x) = idex_c_mem_write d"
  "exmem_c_mem_to_reg (ex_latch d x) = idex_c_mem_to_reg d"
  "exmem_rt_value (ex_latch d x) = idex_rt_value d"
  "exmem_exception (ex_latch d x) = EXC_None"
  by (simp_all add: ex_latch_def)

end
