(* ===== verification/Memory_Stage.thy ===== *)
theory Memory_Stage
  imports Execute
begin

unbundle bit_operations_syntax

text \<open>
  The memory stage of \<open>sim.c\<close>, \<open>interpret_mem\<close>: aligned and unaligned loads and stores.
  The four unaligned operations are read-modify-write sequences on the aligned word;
  their merging arithmetic is kept in functions of its own, with the C shifts by 32
  (whose result the code discards) replaced by the value the code then uses.
\<close>

section \<open>Merging of unaligned accesses\<close>

definition byte_off :: "u32 \<Rightarrow> nat" where
  "byte_off addr = unat (addr AND 3)"

definition lwl_data :: "u32 \<Rightarrow> u32 \<Rightarrow> u32 \<Rightarrow> u32" where
  "lwl_data addr reg w =
     (let temp32 = push_bit (byte_off addr * 8) w;
          shift = 32 - byte_off addr * 8;
          mask = (if shift \<ge> 32 then 0 else drop_bit shift 0xffffffff)
      in (reg AND mask) OR temp32)"

definition lwr_data :: "u32 \<Rightarrow> u32 \<Rightarrow> u32 \<Rightarrow> u32" where
  "lwr_data addr reg w =
     (let temp32 = drop_bit (24 - byte_off addr * 8) w;
          shift = 8 + byte_off addr * 8;
          mask = (if shift \<ge> 32 then 0 else push_bit shift 0xffffffff)
      in (reg AND mask) OR temp32)"

definition swl_data :: "u32 \<Rightarrow> u32 \<Rightarrow> u32 \<Rightarrow> u32" where
  "swl_data addr reg w =
     (let shift = 32 - byte_off addr * 8;
          mask = (if shift \<ge> 32 then 0 else push_bit shift 0xffffffff);
          temp32 = w AND mask;
          temp32 = temp32 OR drop_bit (byte_off addr * 8) reg
      in drop_bit (24 - byte_off addr * 8) temp32)"

definition swr_data :: "u32 \<Rightarrow> u32 \<Rightarrow> u32 \<Rightarrow> u32" where
  "swr_data addr reg w =
     (let shift = 8 + byte_off addr * 8;
          mask = (if shift \<ge> 32 then 0 else drop_bit shift 0xffffffff);
          temp32 = w AND mask
      in temp32 OR push_bit (24 - byte_off addr * 8) reg)"

section \<open>Memory access\<close>

definition mem_latch :: "ex_mem_t \<Rightarrow> mem_wb_t \<Rightarrow> mem_wb_t" where
  "mem_latch x w = w\<lparr>memwb_c_reg_write := exmem_c_reg_write x,
     memwb_reg_dst := exmem_reg_dst x, memwb_c_mem_to_reg := exmem_c_mem_to_reg x,
     memwb_alu_res := exmem_alu_res x, memwb_inst := exmem_inst x,
     memwb_next_pc := exmem_next_pc x, memwb_is_branch_delay := exmem_is_branch_delay x,
     memwb_exception := EXC_None\<rparr>"

text \<open>\<open>core->regs[EX_MEM.reg_dst]\<close>, with its array bound.\<close>

definition read_reg :: "core_t \<Rightarrow> u8 \<Rightarrow> u32 res" where
  "read_reg core i = (if unat i < NUM_REGISTERS then Inr (regs core (unat i)) else Inl OutOfBounds)"

abbreviation aligned :: "u32 \<Rightarrow> u32" where "aligned a \<equiv> a AND 0xfffffffc"

definition mem_load :: "core_t \<Rightarrow> mmu_t \<Rightarrow> ex_mem_t \<Rightarrow> mem_wb_t \<Rightarrow> mem_wb_t res" where
  "mem_load core mem x w =
     (let opc = GET_OPCODE (memwb_inst w); addr = exmem_alu_res x;
          load = (\<lambda>s. bind_res (mmu_read mem addr (memwb_read_data w) s) (\<lambda>(e, v).
                   Inr (w\<lparr>memwb_exception := e, memwb_read_data := v\<rparr>)));
          merge = (\<lambda>f. bind_res (mmu_read mem (aligned addr) 0 MEM_OP_WORD) (\<lambda>(e, v).
                   bind_res (read_reg core (exmem_reg_dst x)) (\<lambda>r.
                     Inr (w\<lparr>memwb_exception := e, memwb_read_data := f addr r v\<rparr>))))
      in if opc = OPCODE_LW then load MEM_OP_WORD
         else if opc = OPCODE_LBU then load MEM_OP_BYTE
         else if opc = OPCODE_LHU then load MEM_OP_HALF
         else if opc = OPCODE_LWL then merge lwl_data
         else if opc = OPCODE_LWR then merge lwr_data
         else Inr w)"

definition mem_store :: "core_t \<Rightarrow> mmu_t \<Rightarrow> ex_mem_t \<Rightarrow> mem_wb_t \<Rightarrow> (mem_wb_t \<times> mmu_t) res" where
  "mem_store core mem x w =
     (let opc = GET_OPCODE (memwb_inst w); addr = exmem_alu_res x;
          store = (\<lambda>s. bind_res (mmu_write mem addr (exmem_rt_value x) s) (\<lambda>(e, mem).
                    Inr (w\<lparr>memwb_exception := e\<rparr>, mem)));
          merge = (\<lambda>f. bind_res (mmu_read mem (aligned addr) 0 MEM_OP_WORD) (\<lambda>(e, v).
                    bind_res (mmu_write mem (aligned addr)
                        (f addr (regs core (unat (GET_RT (exmem_inst x)))) v) MEM_OP_WORD)
                      (\<lambda>(e, mem). Inr (w\<lparr>memwb_exception := e\<rparr>, mem))))
      in if opc = OPCODE_SW then store MEM_OP_WORD
         else if opc = OPCODE_SB then store MEM_OP_BYTE
         else if opc = OPCODE_SH then store MEM_OP_HALF
         else if opc = OPCODE_SWL then merge swl_data
         else if opc = OPCODE_SWR then merge swr_data
         else Inr (w, mem))"

definition interpret_mem :: "core_t \<Rightarrow> mmu_t \<Rightarrow> (core_t \<times> mmu_t) res" where
  "interpret_mem core mem =
     (let x = ex_mem core; w = mem_latch x (mem_wb core) in
      if exmem_exception x \<noteq> EXC_None then
        Inr (core\<lparr>mem_wb := w\<lparr>memwb_exception := exmem_exception x,
               memwb_BadVAddr := exmem_BadVAddr x\<rparr>\<rparr>, mem)
      else if exmem_c_mem_read x then
        bind_res (mem_load core mem x w) (\<lambda>w. Inr (core\<lparr>mem_wb := w\<rparr>, mem))
      else if exmem_c_mem_write x then
        bind_res (mem_store core mem x w) (\<lambda>(w, mem). Inr (core\<lparr>mem_wb := w\<rparr>, mem))
      else Inr (core\<lparr>mem_wb := w\<rparr>, mem))"

section \<open>What the stage leaves alone\<close>

lemma read_reg_total: "unat i \<le> 32 \<Longrightarrow> read_reg core i = Inr (regs core (unat i))"
  by (simp add: read_reg_def)

definition same_latch :: "mem_wb_t \<Rightarrow> mem_wb_t \<Rightarrow> bool" where
  "same_latch w w' \<longleftrightarrow> memwb_reg_dst w' = memwb_reg_dst w \<and> memwb_inst w' = memwb_inst w
     \<and> memwb_c_reg_write w' = memwb_c_reg_write w \<and> memwb_c_mem_to_reg w' = memwb_c_mem_to_reg w
     \<and> memwb_alu_res w' = memwb_alu_res w \<and> memwb_next_pc w' = memwb_next_pc w
     \<and> memwb_is_branch_delay w' = memwb_is_branch_delay w"

lemma mem_load_same: "mem_load core mem x w = Inr w' \<Longrightarrow> same_latch w w'"
  by (auto simp: mem_load_def same_latch_def Let_def bind_res_eq_Inr split: if_splits prod.splits)

lemma mem_store_same: "mem_store core mem x w = Inr (w', mem') \<Longrightarrow> same_latch w w'"
  by (auto simp: mem_store_def same_latch_def Let_def bind_res_eq_Inr split: if_splits prod.splits)

lemma interpret_mem_frame:
  assumes "interpret_mem core mem = Inr (core', mem')"
  shows "regs core' = regs core" "cp0 core' = cp0 core" "if_id core' = if_id core"
    "id_ex core' = id_ex core" "ex_mem core' = ex_mem core"
  using assms
  by (auto simp: interpret_mem_def Let_def bind_res_eq_Inr split: if_splits)

lemma mem_store_translate: "mem_store core mem x w = Inr (w', mem') \<Longrightarrow> translate_paddr p mem' = translate_paddr p mem"
  by (auto simp: mem_store_def Let_def bind_res_eq_Inr dest: mmu_write_frame(5) split: if_splits prod.splits)

lemma interpret_mem_translate:
  "interpret_mem core mem = Inr (core', mem') \<Longrightarrow> translate_paddr p mem' = translate_paddr p mem"
  by (auto simp: interpret_mem_def Let_def bind_res_eq_Inr dest: mem_store_translate split: if_splits)

lemma interpret_mem_same:
  assumes "interpret_mem core mem = Inr (core', mem')"
  shows "same_latch (mem_latch (ex_mem core) (mem_wb core)) (mem_wb core')"
    and "exmem_exception (ex_mem core) \<noteq> EXC_None \<Longrightarrow>
       memwb_exception (mem_wb core') = exmem_exception (ex_mem core)"
  using assms
  by (auto simp: interpret_mem_def Let_def bind_res_eq_Inr split: if_splits
      dest: mem_load_same mem_store_same) (simp_all add: same_latch_def)

lemma interpret_mem_latch:
  assumes "interpret_mem core mem = Inr (core', mem')"
  shows "memwb_reg_dst (mem_wb core') = exmem_reg_dst (ex_mem core)"
    "memwb_inst (mem_wb core') = exmem_inst (ex_mem core)"
    "memwb_c_reg_write (mem_wb core') = exmem_c_reg_write (ex_mem core)"
    "memwb_c_mem_to_reg (mem_wb core') = exmem_c_mem_to_reg (ex_mem core)"
    "memwb_alu_res (mem_wb core') = exmem_alu_res (ex_mem core)"
  using interpret_mem_same(1) [OF assms] by (simp_all add: same_latch_def mem_latch_def)

end
