(* ===== verification/Write_Back.thy ===== *)
theory Write_Back
  imports Memory_Stage
begin

unbundle bit_operations_syntax

text \<open>
  The last stage of \<open>sim.c\<close>: \<open>handle_exception\<close> and \<open>interpret_wb\<close>.  The global
  \<open>g_finished\<close> is threaded through as a flag.
\<close>

definition flush_front :: "core_t \<Rightarrow> core_t" where
  "flush_front core = core\<lparr>if_id := zero_if_id, id_ex := zero_id_ex, ex_mem := zero_ex_mem\<rparr>"

definition set_cp0 :: "nat \<Rightarrow> u32 \<Rightarrow> core_t \<Rightarrow> core_t" where
  "set_cp0 i v core = core\<lparr>cp0 := (cp0 core)(i := v)\<rparr>"

text \<open>
  The guard on \<open>REG_BADVADDR\<close> names \<open>EXC_AddressErrorLoad\<close> twice in the source.
\<close>

definition handle_exception :: "core_t \<Rightarrow> core_t" where
  "handle_exception core =
     (let core = flush_front core;
          w = mem_wb core;
          core = set_cp0 REG_EPC (memwb_next_pc w) core;
          core = set_cp0 REG_CAUSE (get_cause (memwb_exception w) (memwb_is_branch_delay w)) core;
          core = (if memwb_exception w = EXC_AddressErrorLoad
                    \<or> memwb_exception w = EXC_AddressErrorLoad
                  then set_cp0 REG_BADVADDR (memwb_BadVAddr w) core else core);
          core = set_cp0 REG_SR (cp0 core REG_SR OR SR_EXL) core;
          core = set_PC 0x80000080 core;
          core = (if cp0 core REG_SR AND SR_BEV \<noteq> 0 then set_PC (cp0 core REG_EBASE) core else core)
      in core\<lparr>mem_wb := zero_mem_wb\<rparr>)"

definition eret :: "core_t \<Rightarrow> core_t" where
  "eret core =
     (let core = flush_front core;
          core = set_PC (cp0 core REG_EPC) core;
          core = set_cp0 REG_SR (cp0 core REG_SR AND NOT SR_EXL) core
      in core\<lparr>mem_wb := zero_mem_wb\<rparr>)"

definition wb_data :: "mem_wb_t \<Rightarrow> u32" where
  "wb_data w = (if memwb_c_mem_to_reg w then memwb_read_data w else memwb_alu_res w)"

definition write_back :: "core_t \<Rightarrow> core_t res" where
  "write_back core =
     (let w = mem_wb core; i = unat (memwb_reg_dst w) in
      if memwb_c_reg_write w then
        if is_mtc0 (memwb_inst w) then
          if i < CP0_NUM_REGS + 1 then Inr (set_cp0 i (wb_data w) core) else Inl OutOfBounds
        else if i < NUM_REGISTERS then
          Inr (core\<lparr>regs := (regs core)(i := (if memwb_reg_dst w = 0 then 0 else wb_data w))\<rparr>)
        else Inl OutOfBounds
      else Inr core)"

definition interpret_wb :: "core_t \<Rightarrow> bool \<Rightarrow> (core_t \<times> bool) res" where
  "interpret_wb core g_finished =
     (let w = mem_wb core in
      if memwb_inst w = INSTRUCTION_ERET then Inr (eret core, g_finished)
      else if memwb_exception w \<noteq> EXC_None then
        if memwb_exception w = EXC_Syscall \<and> regs core REG_V0 = 10 then Inr (core, True)
        else Inr (handle_exception core, g_finished)
      else bind_res (write_back core) (\<lambda>core. Inr (core, g_finished)))"

lemma handle_exception_sel [simp]:
  "if_id (handle_exception core) = zero_if_id"
  "id_ex (handle_exception core) = zero_id_ex"
  "ex_mem (handle_exception core) = zero_ex_mem"
  "mem_wb (handle_exception core) = zero_mem_wb"
  "i \<noteq> REG_PC \<Longrightarrow> regs (handle_exception core) i = regs core i"
  by (simp_all add: handle_exception_def Let_def flush_front_def set_cp0_def)

lemma eret_sel [simp]:
  "if_id (eret core) = zero_if_id" "id_ex (eret core) = zero_id_ex"
  "ex_mem (eret core) = zero_ex_mem" "mem_wb (eret core) = zero_mem_wb"
  "regs (eret core) = (regs core)(REG_PC := cp0 core REG_EPC)"
  "cp0 (eret core) = (cp0 core)(REG_SR := cp0 core REG_SR AND NOT SR_EXL)"
  by (simp_all add: eret_def Let_def flush_front_def set_cp0_def)

end
