(* ===== verification/Forwarding.thy ===== *)
theory Forwarding
  imports Write_Back
begin

text \<open>
  The forwarding unit of \<open>sim.c\<close>.  Each operand takes the newest pending value of its
  register, from \<open>EX_MEM\<close> before \<open>MEM_WB\<close>; a clash between coprocessor and general
  register numbers makes the C function return at once, which is \<open>None\<close> here.
\<close>

definition illegal_forward :: "u32 \<Rightarrow> u32 \<Rightarrow> bool" where
  "illegal_forward src dst \<longleftrightarrow>
     (is_mtc0 src \<and> GET_OPCODE dst \<noteq> OPCODE_CP0)
     \<or> (GET_OPCODE src \<noteq> OPCODE_CP0 \<and> is_mfc0 dst)"

definition ex_hit :: "core_t \<Rightarrow> u8 \<Rightarrow> bool" where
  "ex_hit core r \<longleftrightarrow> exmem_c_reg_write (ex_mem core) \<and> exmem_reg_dst (ex_mem core) \<noteq> 0
     \<and> exmem_reg_dst (ex_mem core) = r"

definition wb_hit :: "core_t \<Rightarrow> u8 \<Rightarrow> bool" where
  "wb_hit core r \<longleftrightarrow> memwb_c_reg_write (mem_wb core) \<and> memwb_reg_dst (mem_wb core) \<noteq> 0
     \<and> memwb_reg_dst (mem_wb core) = r"

definition forward_a :: "core_t \<Rightarrow> core_t option" where
  "forward_a core = (let d = id_ex core in
     if ex_hit core (idex_rs d) then
       if illegal_forward (exmem_inst (ex_mem core)) (idex_inst d) then None
       else Some (core\<lparr>id_ex := d\<lparr>idex_rs_value := exmem_alu_res (ex_mem core)\<rparr>\<rparr>)
     else if wb_hit core (idex_rs d) then
       if illegal_forward (memwb_inst (mem_wb core)) (idex_inst d) then None
       else Some (core\<lparr>id_ex := d\<lparr>idex_rs_value := wb_data (mem_wb core)\<rparr>\<rparr>)
     else Some core)"

definition forward_b :: "core_t \<Rightarrow> core_t option" where
  "forward_b core = (let d = id_ex core in
     if ex_hit core (idex_rt d) then
       if illegal_forward (exmem_inst (ex_mem core)) (idex_inst d) then None
       else Some (core\<lparr>id_ex := d\<lparr>idex_rt_value := exmem_alu_res (ex_mem core)\<rparr>\<rparr>)
     else if wb_hit core (idex_rt d) then
       if illegal_forward (memwb_inst (mem_wb core)) (idex_inst d) then None
       else Some (core\<lparr>id_ex := d\<lparr>idex_rt_value := wb_data (mem_wb core)\<rparr>\<rparr>)
     else Some core)"

definition forwarding_unit :: "core_t \<Rightarrow> core_t" where
  "forwarding_unit core =
     (if idex_inst (id_ex core) = INSTRUCTION_ERET then core
      else case forward_a core of
        None \<Rightarrow> core
      | Some core \<Rightarrow> (case forward_b core of None \<Rightarrow> core | Some core \<Rightarrow> core))"

lemma forwarding_unit_frame [simp]:
  "regs (forwarding_unit core) = regs core" "cp0 (forwarding_unit core) = cp0 core"
  "if_id (forwarding_unit core) = if_id core" "ex_mem (forwarding_unit core) = ex_mem core"
  "mem_wb (forwarding_unit core) = mem_wb core"
  "idex_rt (id_ex (forwarding_unit core)) = idex_rt (id_ex core)"
  "idex_rd (id_ex (forwarding_unit core)) = idex_rd (id_ex core)"
  "idex_inst (id_ex (forwarding_unit core)) = idex_inst (id_ex core)"
  "idex_exception (id_ex (forwarding_unit core)) = idex_exception (id_ex core)"
  "idex_next_pc (id_ex (forwarding_unit core)) = idex_next_pc (id_ex core)"
  "idex_c_mem_read (id_ex (forwarding_unit core)) = idex_c_mem_read (id_ex core)"
  "idex_c_mem_write (id_ex (forwarding_unit core)) = idex_c_mem_write (id_ex core)"
  by (auto simp: forwarding_unit_def forward_a_def forward_b_def Let_def split: option.split)

end
