(* ===== verification/Tick.thy ===== *)
theory Tick
  imports Forwarding
begin

text \<open>
  One clock tick of \<open>sim.c\<close>: the stages of a core from last to first, then the
  forwarding unit; the cores of the processor in order, sharing memory and the
  \<open>g_finished\<close> flag.
\<close>

definition tick_core :: "core_t \<Rightarrow> mmu_t \<Rightarrow> bool \<Rightarrow> (core_t \<times> mmu_t \<times> bool) res" where
  "tick_core core mem g_finished =
     bind_res (interpret_wb core g_finished) (\<lambda>(core, g_finished).
     bind_res (interpret_mem core mem) (\<lambda>(core, mem).
       let core = interpret_id (interpret_ex core) in
     bind_res (interpret_if core mem) (\<lambda>core.
       Inr (forwarding_unit core, mem, g_finished))))"

fun tick_cores :: "core_t list \<Rightarrow> mmu_t \<Rightarrow> bool \<Rightarrow> (core_t list \<times> mmu_t \<times> bool) res" where
  "tick_cores [] mem g = Inr ([], mem, g)"
| "tick_cores (c # cs) mem g =
     bind_res (tick_core c mem g) (\<lambda>(c, mem, g).
     bind_res (tick_cores cs mem g) (\<lambda>(cs, mem, g). Inr (c # cs, mem, g)))"

record hardware_t =
  hw_cpu :: cpu_t
  hw_mmu :: mmu_t

definition tick :: "hardware_t \<Rightarrow> bool \<Rightarrow> (hardware_t \<times> bool) res" where
  "tick hw g_finished =
     bind_res (tick_cores (cores (hw_cpu hw)) (hw_mmu hw) g_finished) (\<lambda>(cs, mem, g).
       Inr (\<lparr>hw_cpu = \<lparr>cores = cs\<rparr>, hw_mmu = mem\<rparr>, g))"

lemma tick_coreE:
  assumes "tick_core core mem g = Inr (core', mem', g')"
  obtains c1 c2 c3 where "interpret_wb core g = Inr (c1, g')"
    and "interpret_mem c1 mem = Inr (c2, mem')"
    and "interpret_if (interpret_id (interpret_ex c2)) mem' = Inr c3"
    and "core' = forwarding_unit c3"
  using assms by (auto simp: tick_core_def bind_res_eq_Inr Let_def)

end
