(* ===== verification/Systems.thy ===== *)
theory Systems
  imports Prelude
begin

text \<open>
  Transition systems whose steps may fault: iteration, reachability, and the
  interfaces the pipeline proofs are stated against -- a system with an inductive
  invariant, and simulations of an abstract machine: by a relation, by an abstraction
  function, and with steps of the abstract machine that take several of the system.
\<close>

primrec res_iter :: "('s \<Rightarrow> 's res) \<Rightarrow> nat \<Rightarrow> 's \<Rightarrow> 's res" where
  "res_iter f 0 s = Inr s"
| "res_iter f (Suc n) s = bind_res (f s) (res_iter f n)"

primrec opt_iter :: "('a \<Rightarrow> 'a option) \<Rightarrow> nat \<Rightarrow> 'a \<Rightarrow> 'a option" where
  "opt_iter f 0 a = Some a"
| "opt_iter f (Suc n) a = Option.bind (f a) (opt_iter f n)"

inductive res_reach :: "('s \<Rightarrow> 's res) \<Rightarrow> 's \<Rightarrow> 's \<Rightarrow> bool" for f where
  here: "res_reach f s s"
| step: "f s = Inr t \<Longrightarrow> res_reach f t u \<Longrightarrow> res_reach f s u"

lemma res_iter_add: "res_iter f (m + n) s = bind_res (res_iter f m s) (res_iter f n)"
  by (induction m arbitrary: s) (auto simp: bind_res_assoc intro: bind_res_cong)

lemma res_reach_iter: "res_reach f s t \<longleftrightarrow> (\<exists>n. res_iter f n s = Inr t)"
proof
  assume "res_reach f s t"
  then show "\<exists>n. res_iter f n s = Inr t"
  proof induction
    case (here s)
    show ?case by (rule exI [of _ 0]) simp
  next
    case (step s t u)
    then obtain n where "res_iter f n t = Inr u" by blast
    with step.hyps(1) show ?case by (intro exI [of _ "Suc n"]) simp
  qed
next
  assume "\<exists>n. res_iter f n s = Inr t"
  then obtain n where "res_iter f n s = Inr t" ..
  then show "res_reach f s t"
    by (induction n arbitrary: s) (auto simp: bind_res_eq_Inr intro: res_reach.intros)
qed

locale step_system =
  fixes step :: "'s \<Rightarrow> 's res" and invar :: "'s \<Rightarrow> bool"
  assumes step_invar: "invar s \<Longrightarrow> step s = Inr t \<Longrightarrow> invar t"
begin

lemma reach_invar: "res_reach step s t \<Longrightarrow> invar s \<Longrightarrow> invar t"
  by (induction rule: res_reach.induct) (auto intro: step_invar)

lemma iter_invar: "res_iter step n s = Inr t \<Longrightarrow> invar s \<Longrightarrow> invar t"
  using reach_invar res_reach_iter by metis

end

locale relational_simulation =
  fixes step :: "'s \<Rightarrow> 's res" and astep :: "'a \<Rightarrow> 'a option"
    and sim :: "'s \<Rightarrow> 'a \<Rightarrow> bool"
  assumes simulate_rel: "sim s a \<Longrightarrow> astep a = Some b \<Longrightarrow> \<exists>t. step s = Inr t \<and> sim t b"
begin

lemma simulate_rel_iter:
  "sim s a \<Longrightarrow> opt_iter astep n a = Some b \<Longrightarrow> \<exists>t. res_iter step n s = Inr t \<and> sim t b"
proof (induction n arbitrary: s a)
  case (Suc n)
  from Suc.prems(2) obtain c where c: "astep a = Some c" "opt_iter astep n c = Some b"
    by (auto simp: bind_eq_Some_conv)
  from simulate_rel [OF Suc.prems(1) c(1)] obtain t where "step s = Inr t" "sim t c" by blast
  with Suc.IH [of t c] c(2) show ?case by auto
qed simp

end

locale forward_simulation =
  fixes step :: "'s \<Rightarrow> 's res" and astep :: "'a \<Rightarrow> 'a option"
    and abs :: "'s \<Rightarrow> 'a" and rel :: "'s \<Rightarrow> bool"
  assumes simulate: "rel s \<Longrightarrow> astep (abs s) = Some a \<Longrightarrow> \<exists>t. step s = Inr t \<and> rel t \<and> abs t = a"

text \<open>An abstraction function is the relation that is its graph.\<close>

sublocale forward_simulation \<subseteq> graph: relational_simulation step astep "\<lambda>s a. rel s \<and> abs s = a"
  by unfold_locales (auto dest: simulate)

context forward_simulation
begin

lemma simulate_iter:
  "rel s \<Longrightarrow> opt_iter astep n (abs s) = Some a \<Longrightarrow>
     \<exists>t. res_iter step n s = Inr t \<and> rel t \<and> abs t = a"
  using graph.simulate_rel_iter [of s "abs s" n a] by blast

end

text \<open>
  A simulation in which a step of the abstract machine takes a number of steps of the
  system, as a run of labelled steps with their total.
\<close>

inductive timed_run :: "('a \<Rightarrow> nat \<Rightarrow> 'a \<Rightarrow> bool) \<Rightarrow> 'a \<Rightarrow> nat \<Rightarrow> 'a \<Rightarrow> bool" for astep where
  stop: "timed_run astep a 0 a"
| more: "astep a k b \<Longrightarrow> timed_run astep b n c \<Longrightarrow> timed_run astep a (k + n) c"

locale timed_simulation =
  fixes step :: "'s \<Rightarrow> 's res" and astep :: "'a \<Rightarrow> nat \<Rightarrow> 'a \<Rightarrow> bool"
    and abs :: "'s \<Rightarrow> 'a" and rel :: "'s \<Rightarrow> bool"
  assumes simulate_timed: "rel s \<Longrightarrow> astep (abs s) k a \<Longrightarrow> \<exists>t. res_iter step k s = Inr t \<and> rel t \<and> abs t = a"
begin

lemma simulate_run:
  "timed_run astep a n b \<Longrightarrow> rel s \<Longrightarrow> abs s = a \<Longrightarrow> \<exists>t. res_iter step n s = Inr t \<and> rel t \<and> abs t = b"
proof (induction arbitrary: s rule: timed_run.induct)
  case (more a k b n c)
  from simulate_timed [of s k b] more.hyps(1) more.prems obtain t where
    t: "res_iter step k s = Inr t" "rel t" "abs t = b" by blast
  with more.IH [of t] show ?case by (auto simp: res_iter_add)
qed auto

end

sublocale forward_simulation \<subseteq> single: timed_simulation step "\<lambda>a k b. k = 1 \<and> astep a = Some b" abs rel
  by unfold_locales (auto dest: simulate)

end
