(* ===== verification/Pipe_Inv.thy ===== *)
theory Pipe_Inv
  imports Tick Systems
begin

text \<open>
  Structural invariants of the pipeline: register 0 stays 0 and every register index
  that travels down the pipeline stays inside the register file it will be used on.
  Each stage keeps the invariant; the step-system interface lifts this to whole runs.
\<close>

definition wb_index_ok :: "u8 \<Rightarrow> u32 \<Rightarrow> bool" where
  "wb_index_ok r inst \<longleftrightarrow> unat r < 32 \<or> (unat r = 32 \<and> is_mtc0 inst)"

definition pipe_inv :: "core_t \<Rightarrow> bool" where
  "pipe_inv core \<longleftrightarrow> regs core 0 = 0
     \<and> unat (idex_rt (id_ex core)) < 32
     \<and> wb_index_ok (idex_rd (id_ex core)) (idex_inst (id_ex core))
     \<and> unat (exmem_reg_dst (ex_mem core)) \<le> 32
     \<and> (exmem_exception (ex_mem core) = EXC_None \<longrightarrow>
          wb_index_ok (exmem_reg_dst (ex_mem core)) (exmem_inst (ex_mem core)))
     \<and> unat (memwb_reg_dst (mem_wb core)) \<le> 32
     \<and> (memwb_exception (mem_wb core) = EXC_None \<longrightarrow>
          wb_index_ok (memwb_reg_dst (mem_wb core)) (memwb_inst (mem_wb core)))"

lemma pipe_inv_zero_core: "pipe_inv zero_core"
  by (simp add: pipe_inv_def zero_core_def zero_defs wb_index_ok_def)

lemma wb_index_ok_0 [simp]: "wb_index_ok 0 inst"
  by (simp add: wb_index_ok_def)

lemma pipe_inv_flushed:
  "id_ex core = zero_id_ex \<Longrightarrow> ex_mem core = zero_ex_mem \<Longrightarrow> mem_wb core = zero_mem_wb \<Longrightarrow>
     regs core 0 = 0 \<Longrightarrow> pipe_inv core"
  by (simp add: pipe_inv_def zero_defs)

lemma write_back_total:
  assumes "pipe_inv core" and "memwb_exception (mem_wb core) = EXC_None"
  shows "\<exists>core'. write_back core = Inr core' \<and> pipe_inv core'"
proof -
  have "wb_index_ok (memwb_reg_dst (mem_wb core)) (memwb_inst (mem_wb core))"
    using assms by (simp add: pipe_inv_def)
  with assms(1) show ?thesis
    by (auto simp: write_back_def Let_def pipe_inv_def wb_index_ok_def set_cp0_def unat_eq_zero)
qed

lemma interpret_wb_total:
  assumes "pipe_inv core"
  shows "\<exists>core' g'. interpret_wb core g = Inr (core', g') \<and> pipe_inv core'"
proof -
  have 0: "regs core 0 = 0" using assms by (simp add: pipe_inv_def)
  then have "pipe_inv (eret core)" "pipe_inv (handle_exception core)"
    by (simp_all add: pipe_inv_flushed)
  then show ?thesis
    using write_back_total [OF assms] assms by (auto simp: interpret_wb_def Let_def)
qed

lemma interpret_wb_inv:
  assumes "pipe_inv core" and "interpret_wb core g = Inr (core', g')"
  shows "pipe_inv core'"
  using interpret_wb_total [OF assms(1), of g] assms(2) by auto

lemma interpret_mem_inv:
  assumes "pipe_inv core" and "interpret_mem core mem = Inr (core', mem')"
  shows "pipe_inv core'"
proof -
  note f = interpret_mem_frame [OF assms(2)] interpret_mem_latch [OF assms(2)]
  show ?thesis
    using assms(1) interpret_mem_same(2) [OF assms(2)]
    by (cases "exmem_exception (ex_mem core) = EXC_None") (auto simp: pipe_inv_def f)
qed

lemma interpret_ex_inv:
  assumes "pipe_inv core"
  shows "pipe_inv (interpret_ex core)"
proof (cases "idex_exception (id_ex core) = EXC_None")
  case True
  with assms show ?thesis
    by (auto simp: pipe_inv_def interpret_ex_normal ex_dst_def wb_index_ok_def)
next
  case False
  with assms show ?thesis by (auto simp: pipe_inv_def interpret_ex_exception)
qed

lemma id_control_switch_index:
  assumes "unat (idex_rt d) < 32" and "unat (idex_rd d) < 32"
  shows "unat (idex_rt (id_control_switch core inst d)) < 32"
    and "wb_index_ok (idex_rd (id_control_switch core inst d)) inst"
  using assms
  by (auto simp: id_control_switch_def id_control_cp0_def Let_def wb_index_ok_def is_mtc0_def
      unat_GET_RD_31)

lemma wb_index_okI: "unat r < 32 \<Longrightarrow> wb_index_ok r inst"
  by (simp add: wb_index_ok_def)

lemma interpret_id_inv:
  assumes "pipe_inv core"
  shows "pipe_inv (interpret_id core)"
proof -
  have "unat (idex_rt (id_ex (interpret_id core))) < 32
     \<and> wb_index_ok (idex_rd (id_ex (interpret_id core))) (ifid_inst (if_id core))"
    by (simp add: interpret_id_def interpret_id_control_def Let_def id_control_switch_index
        wb_index_okI)
  with assms show ?thesis by (simp add: pipe_inv_def)
qed

lemma interpret_if_inv: "pipe_inv core \<Longrightarrow> interpret_if core mem = Inr core' \<Longrightarrow> pipe_inv core'"
  by (simp add: pipe_inv_def interpret_if_frame)

lemma forwarding_unit_inv: "pipe_inv core \<Longrightarrow> pipe_inv (forwarding_unit core)"
  by (simp add: pipe_inv_def)

lemma tick_core_inv:
  assumes "pipe_inv core" and "tick_core core mem g = Inr (core', mem', g')"
  shows "pipe_inv core'"
  using assms(2)
proof (rule tick_coreE)
  fix c1 c2 c3
  assume "interpret_wb core g = Inr (c1, g')" and "interpret_mem c1 mem = Inr (c2, mem')"
  with assms(1) have "pipe_inv c2" by (blast intro: interpret_wb_inv interpret_mem_inv)
  moreover assume "interpret_if (interpret_id (interpret_ex c2)) mem' = Inr c3"
  ultimately have "pipe_inv c3" by (blast intro: interpret_if_inv interpret_id_inv interpret_ex_inv)
  moreover assume "core' = forwarding_unit c3"
  ultimately show "pipe_inv core'" by (simp add: forwarding_unit_inv)
qed

section \<open>The whole machine\<close>

lemma mem_store_wf: "mem_store core mem x w = Inr (w', mem') \<Longrightarrow> mmu_wf mem' = mmu_wf mem"
  by (auto simp: mem_store_def Let_def bind_res_eq_Inr dest: mmu_write_frame(4)
      split: if_splits prod.splits)

lemma interpret_mem_wf: "interpret_mem core mem = Inr (core', mem') \<Longrightarrow> mmu_wf mem' = mmu_wf mem"
  by (auto simp: interpret_mem_def Let_def bind_res_eq_Inr dest: mem_store_wf
      split: if_splits)

lemma tick_core_wf: "tick_core core mem g = Inr (core', mem', g') \<Longrightarrow> mmu_wf mem' = mmu_wf mem"
  by (elim tick_coreE) (simp add: interpret_mem_wf)

lemma tick_cores_inv:
  "tick_cores cs mem g = Inr (cs', mem', g') \<Longrightarrow> \<forall>c\<in>set cs. pipe_inv c \<Longrightarrow>
     (\<forall>c\<in>set cs'. pipe_inv c) \<and> mmu_wf mem' = mmu_wf mem \<and> length cs' = length cs"
proof (induction cs arbitrary: mem g cs' mem' g')
  case (Cons c cs)
  from Cons.prems(1) obtain c1 mem1 g1 cs1 where
    c: "tick_core c mem g = Inr (c1, mem1, g1)" and
    cs: "tick_cores cs mem1 g1 = Inr (cs1, mem', g')" "cs' = c1 # cs1"
    by (auto simp: bind_res_eq_Inr)
  with Cons.IH [OF cs(1)] Cons.prems(2) tick_core_wf [OF c] tick_core_inv [OF _ c]
  show ?case by simp
qed simp

definition hw_step :: "hardware_t \<times> bool \<Rightarrow> (hardware_t \<times> bool) res" where
  "hw_step = (\<lambda>(hw, g_finished). tick hw g_finished)"

definition hw_inv :: "hardware_t \<times> bool \<Rightarrow> bool" where
  "hw_inv s \<longleftrightarrow> (\<forall>c\<in>set (cores (hw_cpu (fst s))). pipe_inv c) \<and> mmu_wf (hw_mmu (fst s))"

interpretation machine: step_system hw_step hw_inv
  by unfold_locales
    (auto simp: hw_step_def hw_inv_def tick_def bind_res_eq_Inr dest!: tick_cores_inv)

text \<open>
  C9. Write-back is safe: in every reachable state the write-back stage completes, so
  the destination index it uses is inside the array it writes, and it changes the
  program counter only when it returns from or enters an exception handler.
\<close>

theorem write_back_safe:
  assumes "hw_inv (hw, g)" and "res_reach hw_step (hw, g) (hw', g')"
    and "c \<in> set (cores (hw_cpu hw'))"
  shows "\<exists>c' g2. interpret_wb c g' = Inr (c', g2)
     \<and> (PC c' \<noteq> PC c \<longrightarrow> memwb_inst (mem_wb c) = INSTRUCTION_ERET
          \<or> memwb_exception (mem_wb c) \<noteq> EXC_None)"
proof -
  have inv: "pipe_inv c"
    using machine.reach_invar [OF assms(2,1)] assms(3) by (auto simp: hw_inv_def)
  then obtain c' g2 where wb: "interpret_wb c g' = Inr (c', g2)"
    using interpret_wb_total by blast
  have "PC c' = PC c" if "memwb_inst (mem_wb c) \<noteq> INSTRUCTION_ERET"
    "memwb_exception (mem_wb c) = EXC_None"
  proof -
    have "wb_index_ok (memwb_reg_dst (mem_wb c)) (memwb_inst (mem_wb c))"
      using inv that(2) by (simp add: pipe_inv_def)
    then show ?thesis
      using wb that
      by (auto simp: interpret_wb_def write_back_def Let_def wb_index_ok_def set_cp0_def
          split: if_splits)
  qed
  with wb show ?thesis by blast
qed

definition demo_core :: core_t where
  "demo_core = set_PC 0x80000000 zero_core"

definition demo_hw :: hardware_t where
  "demo_hw = \<lparr>hw_cpu = \<lparr>cores = [demo_core]\<rparr>, hw_mmu = demo_mem\<rparr>"

lemma demo_hw_inv: "hw_inv (demo_hw, False)"
  by (simp add: hw_inv_def demo_hw_def demo_mem_wf demo_core_def pipe_inv_def zero_core_def zero_defs)

theorem write_back_safe_witness:
  "hw_inv (demo_hw, False) \<and> (\<exists>c' g2. interpret_wb demo_core False = Inr (c', g2) \<and> PC c' = PC demo_core)"
  using write_back_safe [OF demo_hw_inv res_reach.here, of demo_core] demo_hw_inv
  by (auto simp: demo_hw_def demo_core_def zero_core_def zero_mem_wb_def)

end
