(* ===== verification/Isa.thy ===== *)
theory Isa
  imports Mem
begin

unbundle bit_operations_syntax

text \<open>
  The abstract machine the pipeline is measured against: a sequential processor that
  executes one instruction at a time with a branch delay slot and a load interlock.
  It is written from the instruction set, not from the pipeline: operands come from
  the register file, arithmetic is on signed and unsigned values, memory is the byte
  array behind the addresses that are backed.  It is a partial function; instructions
  on which the simulator departs from the instruction set, or whose operands drive
  its adder into signed overflow, have no abstract step.
\<close>

section \<open>Bytes of a word, most significant first\<close>

definition be_byte :: "u32 \<Rightarrow> nat \<Rightarrow> u8" where
  "be_byte w i = ucast (drop_bit (8 * (3 - i)) w)"

definition of_be_bytes :: "(nat \<Rightarrow> u8) \<Rightarrow> u32" where
  "of_be_bytes f = GET_BIGWORD f 0"

text \<open>Big-endian LWL and LWR: the bytes of the word from the address to its end go to
  the high end of the register, those up to the address to its low end.\<close>

definition isa_lwl :: "nat \<Rightarrow> u32 \<Rightarrow> u32 \<Rightarrow> u32" where
  "isa_lwl n r w = of_be_bytes (\<lambda>i. if i + n < 4 then be_byte w (n + i) else be_byte r i)"

definition isa_lwr :: "nat \<Rightarrow> u32 \<Rightarrow> u32 \<Rightarrow> u32" where
  "isa_lwr n r w = of_be_bytes (\<lambda>i. if 3 \<le> i + n then be_byte w (i + n - 3) else be_byte r i)"

text \<open>Big-endian SWL and SWR, the converse: the word that results in memory.\<close>

definition isa_swl :: "nat \<Rightarrow> u32 \<Rightarrow> u32 \<Rightarrow> u32" where
  "isa_swl n r w = of_be_bytes (\<lambda>i. if n \<le> i then be_byte r (i - n) else be_byte w i)"

definition isa_swr :: "nat \<Rightarrow> u32 \<Rightarrow> u32 \<Rightarrow> u32" where
  "isa_swr n r w = of_be_bytes (\<lambda>i. if i \<le> n then be_byte r (3 - n + i) else be_byte w i)"

section \<open>Arithmetic and memory\<close>

definition no_overflow :: "u32 \<Rightarrow> u32 \<Rightarrow> bool" where
  "no_overflow a b \<longleftrightarrow> sint a + sint b \<in> {INT_MIN..INT_MAX}"

definition isa_wr :: "(nat \<Rightarrow> u32) \<Rightarrow> nat \<Rightarrow> u32 \<Rightarrow> nat \<Rightarrow> u32" where
  "isa_wr r i v = (if i = 0 then r else r(i := v))"

definition isa_r_type :: "u32 \<Rightarrow> nat \<Rightarrow> u32 \<Rightarrow> u32 \<Rightarrow> u32 option" where
  "isa_r_type funct shamt a b =
     (if funct = FUNCT_ADD then if no_overflow a b then Some (a + b) else None
      else if funct = FUNCT_ADDU then Some (a + b)
      else if funct = FUNCT_SUBU then Some (a - b)
      else if funct = FUNCT_AND then Some (a AND b)
      else if funct = FUNCT_OR then Some (a OR b)
      else if funct = FUNCT_NOR then Some (NOT (a OR b))
      else if funct = FUNCT_SLT then Some (if sint a < sint b then 1 else 0)
      else if funct = FUNCT_SLTU then Some (if unat a < unat b then 1 else 0)
      else if funct = FUNCT_SLL then Some (of_nat (unat b * 2 ^ shamt))
      else if funct = FUNCT_SRL then Some (of_nat (unat b div 2 ^ shamt))
      else None)"

definition isa_i_type :: "u32 \<Rightarrow> u32 \<Rightarrow> u32 \<Rightarrow> u32 option" where
  "isa_i_type opc a inst = (let imm = SIGN_EXTEND (GET_IMM inst) in
      if opc = OPCODE_ADDI then if no_overflow a imm then Some (a + imm) else None
      else if opc = OPCODE_ADDIU then Some (a + imm)
      else if opc = OPCODE_SLTI then Some (if sint a < sint imm then 1 else 0)
      else if opc = OPCODE_SLTIU then Some (if unat a < unat imm then 1 else 0)
      else if opc = OPCODE_ANDI then Some (a AND GET_IMM inst)
      else if opc = OPCODE_ORI then Some (a OR GET_IMM inst)
      else if opc = OPCODE_LUI then Some (push_bit 16 (GET_IMM inst))
      else None)"

definition isa_load :: "mem_op_size_t \<Rightarrow> mmu_t \<Rightarrow> u32 \<Rightarrow> u32 option" where
  "isa_load s m v = (if ram_backed m v then Some (get_big s (pmem m) (host_pos m v)) else None)"

definition isa_store :: "mem_op_size_t \<Rightarrow> mmu_t \<Rightarrow> u32 \<Rightarrow> u32 \<Rightarrow> mmu_t option" where
  "isa_store s m v x =
     (if ram_backed m v then Some (m\<lparr>pmem := set_big s (pmem m) (host_pos m v) x\<rparr>) else None)"

section \<open>Execution of one instruction\<close>

definition isa_read :: "u32 \<Rightarrow> nat \<Rightarrow> u32 \<Rightarrow> mmu_t \<Rightarrow> u32 \<Rightarrow> u32 option" where
  "isa_read opc n old m v =
     (if opc = OPCODE_LW then isa_load MEM_OP_WORD m v
      else if opc = OPCODE_LBU then isa_load MEM_OP_BYTE m v
      else if opc = OPCODE_LHU then isa_load MEM_OP_HALF m v
      else if opc = OPCODE_LWL then map_option (isa_lwl n old) (isa_load MEM_OP_WORD m (v AND NOT 3))
      else if opc = OPCODE_LWR then map_option (isa_lwr n old) (isa_load MEM_OP_WORD m (v AND NOT 3))
      else None)"

definition isa_write :: "u32 \<Rightarrow> mmu_t \<Rightarrow> u32 \<Rightarrow> u32 \<Rightarrow> mmu_t option" where
  "isa_write opc m v x =
     (if opc = OPCODE_SW then isa_store MEM_OP_WORD m v x
      else if opc = OPCODE_SB then isa_store MEM_OP_BYTE m v x
      else if opc = OPCODE_SH then isa_store MEM_OP_HALF m v x
      else None)"

definition is_load_op :: "u32 \<Rightarrow> bool" where
  "is_load_op opc \<longleftrightarrow> opc = OPCODE_LW \<or> opc = OPCODE_LBU \<or> opc = OPCODE_LHU
     \<or> opc = OPCODE_LWL \<or> opc = OPCODE_LWR"

definition is_store_op :: "u32 \<Rightarrow> bool" where
  "is_store_op opc \<longleftrightarrow> opc = OPCODE_SW \<or> opc = OPCODE_SB \<or> opc = OPCODE_SH"

definition isa_exec :: "u32 \<Rightarrow> (nat \<Rightarrow> u32) \<Rightarrow> mmu_t \<Rightarrow> ((nat \<Rightarrow> u32) \<times> mmu_t) option" where
  "isa_exec inst r m =
     (let opc = GET_OPCODE inst; a = r (unat (GET_RS inst)); b = r (unat (GET_RT inst));
          rt = unat (GET_RT inst); v = a + SIGN_EXTEND (GET_IMM inst)
      in if opc = OPCODE_R then
           if GET_FUNCT inst = FUNCT_JR then if no_overflow a b then Some (r, m) else None
           else map_option (\<lambda>x. (isa_wr r (unat (GET_RD inst)) x, m))
             (isa_r_type (GET_FUNCT inst) (unat (GET_SHAMT inst)) a b)
         else if is_load_op opc then
           if no_overflow a (SIGN_EXTEND (GET_IMM inst))
           then map_option (\<lambda>x. (isa_wr r rt x, m)) (isa_read opc (unat v mod 4) b m v)
           else None
         else if is_store_op opc then
           if no_overflow a (SIGN_EXTEND (GET_IMM inst))
           then map_option (\<lambda>m'. (r, m')) (isa_write opc m v b)
           else None
         else if opc = OPCODE_BEQ \<or> opc = OPCODE_BNE \<or> opc = OPCODE_J then
           if no_overflow a b then Some (r, m) else None
         else map_option (\<lambda>x. (isa_wr r rt x, m)) (isa_i_type opc a inst))"

text \<open>
  Where fetching continues after the instruction (the delay slot is already fetched):
  \<open>npc\<close> is the address after the instruction, \<open>pc\<close> the address fetching had reached.
\<close>

definition isa_next_pc :: "u32 \<Rightarrow> u32 \<Rightarrow> (nat \<Rightarrow> u32) \<Rightarrow> u32 \<Rightarrow> u32" where
  "isa_next_pc inst npc r pc =
     (let opc = GET_OPCODE inst; a = r (unat (GET_RS inst)); b = r (unat (GET_RT inst));
          target = npc + 4 * SIGN_EXTEND (GET_IMM inst)
      in if opc = OPCODE_R \<and> GET_FUNCT inst = FUNCT_JR then a
         else if opc = OPCODE_J \<or> opc = OPCODE_JAL then (npc AND 0xF0000000) OR (4 * GET_ADDRESS inst)
         else if opc = OPCODE_BEQ \<and> a = b then target
         else if opc = OPCODE_BNE \<and> a \<noteq> b then target
         else pc)"

text \<open>Whether the instruction transfers control, which puts the next one into its delay slot.\<close>

definition isa_taken :: "u32 \<Rightarrow> (nat \<Rightarrow> u32) \<Rightarrow> bool" where
  "isa_taken inst r \<longleftrightarrow>
     (let opc = GET_OPCODE inst; a = r (unat (GET_RS inst)); b = r (unat (GET_RT inst))
      in opc = OPCODE_R \<and> GET_FUNCT inst = FUNCT_JR \<or> opc = OPCODE_J \<or> opc = OPCODE_JAL
         \<or> opc = OPCODE_BEQ \<and> a = b \<or> opc = OPCODE_BNE \<and> a \<noteq> b)"

text \<open>Instructions that can transfer control.\<close>

definition may_transfer :: "u32 \<Rightarrow> bool" where
  "may_transfer inst \<longleftrightarrow> GET_OPCODE inst = OPCODE_R \<and> GET_FUNCT inst = FUNCT_JR
     \<or> GET_OPCODE inst \<in> {OPCODE_J, OPCODE_JAL, OPCODE_BEQ, OPCODE_BNE}"

definition is_syscall :: "u32 \<Rightarrow> bool" where
  "is_syscall inst \<longleftrightarrow> GET_OPCODE inst = OPCODE_R \<and> GET_FUNCT inst = FUNCT_SYSCALL"

section \<open>The sequential machine\<close>

text \<open>
  The state: registers, the registers of coprocessor 0 (an architectural register at the
  index one higher, as everywhere in the simulator), memory, the instruction to execute
  and the one behind it (in its delay slot) with the address after each and whether it
  stands in the delay slot of a transfer that was taken, the address fetching has reached,
  and the two instructions executed last.
\<close>

record isa_t =
  i_regs :: "nat \<Rightarrow> u32"
  i_cp0 :: "nat \<Rightarrow> u32"
  i_mem :: mmu_t
  i_cur :: u32
  i_cur_npc :: u32
  i_cur_bd :: bool
  i_nxt :: u32
  i_nxt_npc :: u32
  i_nxt_bd :: bool
  i_pc :: u32
  i_prev :: u32
  i_prev2 :: u32

definition isa_interlock :: "u32 \<Rightarrow> u32 \<Rightarrow> bool" where
  "isa_interlock ld inst \<longleftrightarrow> is_load_op (GET_OPCODE ld)
     \<and> (GET_RT ld = GET_RS inst \<or> GET_RT ld = GET_RT inst)"

text \<open>
  The number of the register an instruction writes; for MTC0 it numbers a register of
  coprocessor 0.  The simulator forwards by these numbers alone and gives up forwarding
  when it detects a clash of the two register files, so instructions have an abstract step
  only where the two instructions before do not clash with them.
\<close>

definition isa_writes :: "u32 \<Rightarrow> nat \<Rightarrow> bool" where
  "isa_writes inst i \<longleftrightarrow>
     (let opc = GET_OPCODE inst
      in if opc = OPCODE_R then GET_FUNCT inst \<noteq> FUNCT_JR \<and> unat (GET_RD inst) = i
         else if opc = OPCODE_JAL then i = 31
         else if opc = OPCODE_CP0 then
           is_mfc0 inst \<and> unat (GET_RT inst) = i \<or> is_mtc0 inst \<and> unat (GET_RD inst) + 1 = i
         else (is_load_op opc \<or> opc \<in> {OPCODE_ADDI, OPCODE_ADDIU, OPCODE_SLTI, OPCODE_SLTIU, OPCODE_ANDI,
                 OPCODE_ORI, OPCODE_LUI, OPCODE_LL}) \<and> unat (GET_RT inst) = i)"

text \<open>
  The simulator computes the link of JAL with its adder: the operand fields of the
  instruction, which are bits of its target, select registers that are added or
  forwarded.  JAL has an abstract step only where they are harmless: the field of the
  second operand is 0, and neither of the two instructions before writes \<open>$ra\<close> or the
  register the field of the first operand happens to name.
\<close>

definition link_ok :: "u32 \<Rightarrow> u32 \<Rightarrow> u32 \<Rightarrow> bool" where
  "link_ok inst p p2 \<longleftrightarrow> GET_RT inst = 0
     \<and> \<not> isa_writes p 31 \<and> \<not> isa_writes p2 31
     \<and> (GET_RS inst \<noteq> 0 \<longrightarrow>
          \<not> isa_writes p (unat (GET_RS inst)) \<and> \<not> isa_writes p2 (unat (GET_RS inst)))"

text \<open>MFC0 must not follow a move whose number is that of its source, an instruction that
  reads general registers not an MTC0 whose number is that of one of them.\<close>

definition mfc0_ok :: "u32 \<Rightarrow> u32 \<Rightarrow> bool" where
  "mfc0_ok inst p \<longleftrightarrow> GET_OPCODE p = OPCODE_CP0 \<longrightarrow> \<not> isa_writes p (unat (GET_RD inst) + 1)"

definition gpr_ok :: "nat \<Rightarrow> u32 \<Rightarrow> bool" where
  "gpr_ok i p \<longleftrightarrow> is_mtc0 p \<longrightarrow> \<not> isa_writes p i"

definition reads_ok :: "u32 \<Rightarrow> u32 \<Rightarrow> bool" where
  "reads_ok inst p \<longleftrightarrow> gpr_ok (unat (GET_RS inst)) p \<and> gpr_ok (unat (GET_RT inst)) p"

definition isa_do :: "isa_t \<Rightarrow> ((nat \<Rightarrow> u32) \<times> (nat \<Rightarrow> u32) \<times> mmu_t) option" where
  "isa_do s =
     (let inst = i_cur s; p = i_prev s; p2 = i_prev2 s; r = i_regs s; c = i_cp0 s; m = i_mem s;
          rt = unat (GET_RT inst); k = unat (GET_RD inst) + 1
      in if GET_OPCODE inst = OPCODE_JAL then
           if link_ok inst p p2 then Some (isa_wr r 31 (i_cur_npc s + 4), c, m) else None
         else if is_mfc0 inst then
           if mfc0_ok inst p \<and> mfc0_ok inst p2 then Some (isa_wr r rt (c k), c, m) else None
         else if is_mtc0 inst then
           if gpr_ok rt p \<and> gpr_ok rt p2 then Some (r, c(k := r rt), m) else None
         else if reads_ok inst p \<and> reads_ok inst p2 then
           map_option (\<lambda>(r', m'). (r', c, m')) (isa_exec inst r m)
         else None)"

definition isa_step :: "isa_t \<Rightarrow> isa_t option" where
  "isa_step s = Option.bind (isa_do s) (\<lambda>(r, c, m).
     let pc = isa_next_pc (i_cur s) (i_cur_npc s) (i_regs s) (i_pc s);
         bd = i_nxt_bd s \<or> isa_taken (i_cur s) (i_regs s) in
     Option.bind (isa_load MEM_OP_WORD (i_mem s) pc) (\<lambda>inst.
       let wait = isa_interlock (i_nxt s) inst in
       Some \<lparr>i_regs = r, i_cp0 = c, i_mem = m, i_cur = i_nxt s, i_cur_npc = i_nxt_npc s, i_cur_bd = bd,
         i_nxt = (if wait then 0 else inst),
         i_nxt_npc = (if wait then i_nxt_npc s else pc + 4), i_nxt_bd = (wait \<and> bd),
         i_pc = (if wait then pc else pc + 4), i_prev = i_cur s, i_prev2 = i_prev s\<rparr>))"

text \<open>The state after the first fetch of a machine with an empty pipeline.\<close>

definition isa_fetched :: "(nat \<Rightarrow> u32) \<Rightarrow> (nat \<Rightarrow> u32) \<Rightarrow> mmu_t \<Rightarrow> u32 \<Rightarrow> u32 \<Rightarrow> isa_t" where
  "isa_fetched r c m inst pc = \<lparr>i_regs = r, i_cp0 = c, i_mem = m, i_cur = 0, i_cur_npc = 0, i_cur_bd = False,
     i_nxt = inst, i_nxt_npc = pc + 4, i_nxt_bd = False, i_pc = pc + 4, i_prev = 0, i_prev2 = 0\<rparr>"

end
