(* ===== verification/Unaligned.thy ===== *)
theory Unaligned
  imports Memory_Stage Isa
begin

unbundle bit_operations_syntax

text \<open>
  The merging arithmetic of LWL, LWR, SWL and SWR in the memory stage against the
  byte-wise definition of those instructions.
\<close>

section \<open>Words as four bytes\<close>

lemma bit_be_byte: "bit (be_byte w i) k \<longleftrightarrow> k < 8 \<and> bit w (8 * (3 - i) + k)"
  by (auto simp: be_byte_def bit_simps)

lemma word4_eqI:
  assumes "\<And>k. k < 8 \<Longrightarrow> bit v k = bit w k"
    and "\<And>k. k < 8 \<Longrightarrow> bit v (8 + k) = bit w (8 + k)"
    and "\<And>k. k < 8 \<Longrightarrow> bit v (16 + k) = bit w (16 + k)"
    and "\<And>k. k < 8 \<Longrightarrow> bit v (24 + k) = bit w (24 + k)"
  shows "v = (w :: u32)"
proof (rule bit_word_eqI)
  fix n assume "n < LENGTH(32)"
  then consider "n < 8" | "8 \<le> n" "n < 16" | "16 \<le> n" "n < 24" | "24 \<le> n" "n < 32"
    by fastforce
  then show "bit v n = bit w n"
    using assms(1) [of n] assms(2) [of "n - 8"] assms(3) [of "n - 16"] assms(4) [of "n - 24"]
    by cases simp_all
qed

lemma bit_of_be_bytes:
  "k < 8 \<Longrightarrow> bit (of_be_bytes f) k = bit (f 3) k"
  "k < 8 \<Longrightarrow> bit (of_be_bytes f) (8 + k) = bit (f 2) k"
  "k < 8 \<Longrightarrow> bit (of_be_bytes f) (16 + k) = bit (f 1) k"
  "k < 8 \<Longrightarrow> bit (of_be_bytes f) (24 + k) = bit (f 0) k"
  by (simp_all add: of_be_bytes_def bit_GET_BIGWORD_cases numeral_2_eq_2)

lemma of_be_bytes_be_byte: "of_be_bytes (be_byte w) = w"
  by (rule word4_eqI) (simp_all add: bit_of_be_bytes bit_be_byte)

section \<open>Merging\<close>

lemma byte_off_less4: "byte_off a < 4"
proof -
  have "(3 :: u32) = mask 2" by (simp add: mask_numeral)
  then show ?thesis using unat_and_mask_less [of a 2] by (simp add: byte_off_def)
qed

lemma byte_off_mod: "byte_off a = unat a mod 4"
proof -
  have m: "(3 :: u32) = mask 2" by (simp add: mask_numeral)
  show ?thesis unfolding byte_off_def m
    by (simp flip: take_bit_eq_mask add: unsigned_take_bit_eq take_bit_eq_mod [of 2 "unat a"])
qed

lemma byte_off_cases:
  obtains "byte_off a = 0" | "byte_off a = 1" | "byte_off a = 2" | "byte_off a = 3"
  using byte_off_less4 [of a] by (auto simp: less_Suc_eq numeral_eq_Suc)

lemma bit_ones: "bit (0xffffffff :: u32) k \<longleftrightarrow> k < 32"
proof -
  have m: "(0xffffffff :: u32) = mask 32" by (simp add: mask_numeral)
  show ?thesis unfolding m by (simp only: bit_mask_iff) simp
qed

lemma bit_shifted_ones:
  "bit (drop_bit s (0xffffffff :: u32)) k \<longleftrightarrow> s + k < 32"
  "bit (push_bit s (0xffffffff :: u32)) k \<longleftrightarrow> s \<le> k \<and> k < 32"
  by (simp_all only: bit_drop_bit_eq bit_push_bit_iff bit_ones comp_def) auto

lemma bit_lwl_data:
  assumes "k < 32"
  shows "bit (lwl_data a r w) k \<longleftrightarrow>
    (bit r k \<and> k < byte_off a * 8) \<or> (byte_off a * 8 \<le> k \<and> bit w (k - byte_off a * 8))"
proof (cases "byte_off a = 0")
  case False
  then have "\<not> 32 \<le> 32 - byte_off a * 8" and "byte_off a * 8 \<le> 32"
    using byte_off_less4 [of a] by auto
  with assms show ?thesis
    by (auto simp: lwl_data_def Let_def bit_or_iff bit_and_iff bit_shifted_ones bit_push_bit_iff)
qed (use assms in \<open>simp add: lwl_data_def\<close>)

lemma bit_lwr_data:
  assumes "k < 32"
  shows "bit (lwr_data a r w) k \<longleftrightarrow>
    (bit r k \<and> 8 + byte_off a * 8 \<le> k) \<or> bit w ((24 - byte_off a * 8) + k)"
proof (cases "byte_off a = 3")
  case True
  with assms show ?thesis by (simp add: lwr_data_def)
next
  case False
  then have "\<not> 32 \<le> 8 + byte_off a * 8" using byte_off_less4 [of a] by auto
  with assms show ?thesis
    by (auto simp: lwr_data_def Let_def bit_or_iff bit_and_iff bit_shifted_ones bit_drop_bit_eq)
qed

lemma bit_beyond: "32 \<le> k \<Longrightarrow> \<not> bit (w :: u32) k"
  using bit_imp_le_length [of w k] by auto

lemma lwl_data_isa: "lwl_data a r w = isa_lwl (byte_off a) r w"
  by (rule byte_off_cases [of a]; rule word4_eqI)
    (simp_all add: bit_lwl_data isa_lwl_def bit_of_be_bytes bit_be_byte)

lemma lwr_data_isa: "lwr_data a r w = isa_lwr (byte_off a) r w"
  by (rule byte_off_cases [of a]; rule word4_eqI)
    (simp_all add: bit_lwr_data isa_lwr_def bit_of_be_bytes bit_be_byte bit_beyond)

lemma bit_swr_data:
  assumes "k < 32"
  shows "bit (swr_data a r w) k \<longleftrightarrow>
    (bit w k \<and> 8 + byte_off a * 8 + k < 32) \<or> (24 - byte_off a * 8 \<le> k \<and> bit r (k - (24 - byte_off a * 8)))"
proof (cases "byte_off a = 3")
  case True
  with assms show ?thesis by (simp add: swr_data_def)
next
  case False
  then have "\<not> 32 \<le> 8 + byte_off a * 8" using byte_off_less4 [of a] by auto
  with assms show ?thesis
    by (auto simp: swr_data_def Let_def bit_or_iff bit_and_iff bit_shifted_ones bit_push_bit_iff)
qed

lemma swr_data_isa: "swr_data a r w = isa_swr (byte_off a) r w"
  by (rule byte_off_cases [of a]; rule word4_eqI)
    (simp_all add: bit_swr_data isa_swr_def bit_of_be_bytes bit_be_byte bit_beyond)

definition swl_merged :: "u32 \<Rightarrow> u32 \<Rightarrow> u32 \<Rightarrow> u32" where
  "swl_merged a r w = (w AND (if byte_off a = 0 then 0 else push_bit (32 - byte_off a * 8) 0xffffffff))
     OR drop_bit (byte_off a * 8) r"

lemma bit_swl_merged:
  assumes "k < 32"
  shows "bit (swl_merged a r w) k \<longleftrightarrow>
    (bit w k \<and> byte_off a \<noteq> 0 \<and> 32 - byte_off a * 8 \<le> k) \<or> bit r (byte_off a * 8 + k)"
  using assms
  by (auto simp: swl_merged_def bit_or_iff bit_and_iff bit_shifted_ones bit_drop_bit_eq)

lemma swl_merged_isa: "swl_merged a r w = isa_swl (byte_off a) r w"
  by (rule byte_off_cases [of a]; rule word4_eqI)
    (simp_all add: bit_swl_merged isa_swl_def bit_of_be_bytes bit_be_byte bit_beyond)

lemma swl_data_isa: "swl_data a r w = drop_bit (24 - byte_off a * 8) (isa_swl (byte_off a) r w)"
proof -
  have "(32 \<le> 32 - byte_off a * 8) = (byte_off a = 0)" using byte_off_less4 [of a] by auto
  then show ?thesis by (simp add: swl_data_def swl_merged_def Let_def flip: swl_merged_isa)
qed

text \<open>
  C20. The shift-and-mask merging of LWL, LWR and SWR is the byte-wise merging the
  instruction set prescribes on a big-endian machine, at every offset in the word.
\<close>

theorem unaligned_merges:
  "lwl_data a r w = isa_lwl (unat a mod 4) r w
   \<and> lwr_data a r w = isa_lwr (unat a mod 4) r w
   \<and> swr_data a r w = isa_swr (unat a mod 4) r w"
  by (simp_all add: lwl_data_isa lwr_data_isa swr_data_isa byte_off_mod)

lemma of_be_bytes_cong: "(\<And>i. i < 4 \<Longrightarrow> f i = g i) \<Longrightarrow> of_be_bytes f = of_be_bytes g"
  by (rule word4_eqI) (simp_all add: bit_of_be_bytes)

lemma less_4_cases:
  assumes "(i :: nat) < 4"
  obtains "i = 0" | "i = 1" | "i = 2" | "i = 3"
  using assms by fastforce

lemma be_byte_of_be_bytes: "i < 4 \<Longrightarrow> be_byte (of_be_bytes f) i = f i"
  by (elim less_4_cases) (rule bit_word_eqI; simp add: bit_be_byte bit_of_be_bytes)+

lemma byte_off_add3: "byte_off (a + 3) = (byte_off a + 3) mod 4"
proof -
  have "byte_off (a + 3) = (unat a + 3) mod 2 ^ 32 mod 4"
    by (simp add: byte_off_mod unat_word_ariths)
  also have "\<dots> = (unat a + 3) mod 4"
    by (rule mod_mod_cancel) simp
  finally show ?thesis by (simp add: byte_off_mod mod_add_left_eq)
qed

text \<open>
  C19. The idiom \<open>lwl r, 0(a); lwr r, 3(a)\<close> loads the four bytes at an arbitrary address:
  for any memory contents the two merges, applied to the two aligned words they read,
  give exactly the big-endian word at \<open>a\<close>, whatever the register held before.
\<close>

theorem unaligned_word_load:
  "lwr_data (a + 3)
     (lwl_data a r (of_be_bytes (\<lambda>i. m (4 * (unat a div 4) + i))))
     (of_be_bytes (\<lambda>i. m (4 * ((unat a + 3) div 4) + i)))
   = of_be_bytes (\<lambda>i. m (unat a + i))"
proof -
  obtain q where q: "unat a div 4 = q" by blast
  then have a: "unat a = 4 * q + byte_off a" by (auto simp: byte_off_mod)
  have a3: "(unat a + 3) div 4 = (if byte_off a = 0 then q else q + 1)"
    by (rule byte_off_cases [of a]) (simp_all add: a)
  show ?thesis
    unfolding lwl_data_isa lwr_data_isa byte_off_add3 isa_lwr_def isa_lwl_def q a3
    by (rule of_be_bytes_cong, rule byte_off_cases [of a])
      (auto simp: be_byte_of_be_bytes a elim!: less_4_cases intro!: arg_cong [of _ _ m])
qed

text \<open>
  C21. SWL shifts the merged word right before it writes it back, so the store is what
  the instruction prescribes for all operands only at offset 3, where the shift is 0.
\<close>

theorem swl_correct_only_at_offset_3:
  "(\<forall>r w. swl_data a r w = isa_swl (unat a mod 4) r w) \<longleftrightarrow> unat a mod 4 = 3"
proof
  define m where "m = isa_swl (byte_off a) 0xffffffff 0xffffffff"
  assume "\<forall>r w. swl_data a r w = isa_swl (unat a mod 4) r w"
  then have "swl_data a 0xffffffff 0xffffffff = m" by (simp only: m_def byte_off_mod)
  then have "drop_bit (24 - byte_off a * 8) m = m" by (simp only: swl_data_isa m_def)
  then have "bit (drop_bit (24 - byte_off a * 8) m) 31 = bit m 31" by simp
  moreover have "bit m 31"
    unfolding m_def swl_merged_isa [symmetric]
    by (rule byte_off_cases [of a]) (simp_all add: bit_swl_merged bit_ones)
  ultimately have "bit m (24 - byte_off a * 8 + 31)" by (simp add: bit_drop_bit_eq)
  then have "24 - byte_off a * 8 + 31 < 32"
    using bit_beyond not_le by blast
  then show "unat a mod 4 = 3" using byte_off_less4 [of a] by (simp add: byte_off_mod)
next
  assume "unat a mod 4 = 3"
  then show "\<forall>r w. swl_data a r w = isa_swl (unat a mod 4) r w"
    by (simp add: swl_data_isa byte_off_mod)
qed

end
