(* ===== verification/Control.thy ===== *)
theory Control
  imports Execute Isa
begin

unbundle bit_operations_syntax

text \<open>
  Decode and execute against the abstract machine: the control lines as a table over
  instruction classes, and the ALU against the arithmetic of the instruction set.
\<close>

section \<open>The control table\<close>

definition is_jr :: "u32 \<Rightarrow> bool" where
  "is_jr inst \<longleftrightarrow> GET_OPCODE inst = OPCODE_R \<and> GET_FUNCT inst = FUNCT_JR"

definition is_r_alu :: "u32 \<Rightarrow> bool" where
  "is_r_alu inst \<longleftrightarrow> GET_OPCODE inst = OPCODE_R \<and> GET_FUNCT inst \<noteq> FUNCT_JR"

definition is_imm_op :: "u32 \<Rightarrow> bool" where
  "is_imm_op opc \<longleftrightarrow> opc = OPCODE_SLTI \<or> opc = OPCODE_SLTIU \<or> opc = OPCODE_ORI
     \<or> opc = OPCODE_ANDI \<or> opc = OPCODE_ADDI \<or> opc = OPCODE_ADDIU \<or> opc = OPCODE_LUI \<or> opc = OPCODE_LL"

definition is_any_store_op :: "u32 \<Rightarrow> bool" where
  "is_any_store_op opc \<longleftrightarrow> is_store_op opc \<or> opc = OPCODE_SC \<or> opc = OPCODE_SWR \<or> opc = OPCODE_SWL"

definition control_table :: "id_ex_t \<Rightarrow> bool" where
  "control_table d \<longleftrightarrow> (let inst = idex_inst d; opc = GET_OPCODE inst in
     idex_c_reg_dst d = is_r_alu inst
   \<and> idex_c_alu_op d = (if is_r_alu inst then 2 else if is_imm_op opc then 3 else 0)
   \<and> idex_c_alu_src d = (is_load_op opc \<or> is_any_store_op opc \<or> is_imm_op opc)
   \<and> idex_c_beq d = (opc = OPCODE_BEQ) \<and> idex_c_bne d = (opc = OPCODE_BNE)
   \<and> idex_c_mem_read d = is_load_op opc \<and> idex_c_mem_write d = is_any_store_op opc
   \<and> idex_c_reg_write d = (is_r_alu inst \<or> is_load_op opc \<or> is_imm_op opc)
   \<and> idex_c_mem_to_reg d = is_load_op opc
   \<and> idex_c_jump d = (is_jr inst \<or> opc = OPCODE_J)
   \<and> (opc = OPCODE_J \<longrightarrow> idex_jump_addr d = jump_target d))"

definition fields_latched :: "id_ex_t \<Rightarrow> bool" where
  "fields_latched d \<longleftrightarrow> (let inst = idex_inst d in
     idex_rs d = ucast (GET_RS inst) \<and> idex_rt d = ucast (GET_RT inst) \<and> idex_rd d = ucast (GET_RD inst)
   \<and> idex_sign_ext_imm d = SIGN_EXTEND (GET_IMM inst)
   \<and> idex_funct d = ucast (GET_FUNCT inst) \<and> idex_shamt d = ucast (GET_SHAMT inst))"

text \<open>Instructions the decoder treats by the plain table: all but JAL and coprocessor 0.\<close>

definition plain :: "u32 \<Rightarrow> bool" where
  "plain inst \<longleftrightarrow> GET_OPCODE inst \<noteq> OPCODE_JAL \<and> GET_OPCODE inst \<noteq> OPCODE_CP0"

lemmas class_defs = is_jr_def is_r_alu_def is_imm_op_def is_any_store_op_def is_load_op_def
  is_store_op_def plain_def

lemma opcode_cases:
  fixes opc :: u32
  obtains "opc = OPCODE_R" | "opc = OPCODE_J" | "opc = OPCODE_JAL" | "opc = OPCODE_BEQ" | "opc = OPCODE_BNE"
    | "opc = OPCODE_ADDI" | "opc = OPCODE_ADDIU" | "opc = OPCODE_SLTI" | "opc = OPCODE_SLTIU"
    | "opc = OPCODE_ANDI" | "opc = OPCODE_ORI" | "opc = OPCODE_LUI" | "opc = OPCODE_LWL" | "opc = OPCODE_LW"
    | "opc = OPCODE_LBU" | "opc = OPCODE_LHU" | "opc = OPCODE_LWR" | "opc = OPCODE_LL" | "opc = OPCODE_SW"
    | "opc = OPCODE_SB" | "opc = OPCODE_SC" | "opc = OPCODE_SH" | "opc = OPCODE_SWR" | "opc = OPCODE_SWL"
    | "opc = OPCODE_CP0"
    | "opc \<notin> {OPCODE_R, OPCODE_J, OPCODE_JAL, OPCODE_BEQ, OPCODE_BNE, OPCODE_ADDI, OPCODE_ADDIU,
        OPCODE_SLTI, OPCODE_SLTIU, OPCODE_ANDI, OPCODE_ORI, OPCODE_LUI, OPCODE_LWL, OPCODE_LW,
        OPCODE_LBU, OPCODE_LHU, OPCODE_LWR, OPCODE_LL, OPCODE_SW, OPCODE_SB, OPCODE_SC, OPCODE_SH,
        OPCODE_SWR, OPCODE_SWL, OPCODE_CP0}"
  by blast

lemma id_control_switch_table:
  assumes "plain (idex_inst d)"
  shows "control_table (id_control_switch core (idex_inst d) (id_clear d))"
  using assms
  by (cases "GET_OPCODE (idex_inst d)" rule: opcode_cases)
    (simp_all add: control_table_def id_control_switch_def id_clear_def class_defs jump_target_def)

lemma id_control_switch_fields:
  assumes "plain inst"
  shows "idex_rs (id_control_switch core inst d) = idex_rs d"
    "idex_rt (id_control_switch core inst d) = idex_rt d"
    "idex_rd (id_control_switch core inst d) = idex_rd d"
    "idex_funct (id_control_switch core inst d) = idex_funct d"
    "idex_rs_value (id_control_switch core inst d) = idex_rs_value d"
    "idex_rt_value (id_control_switch core inst d) = idex_rt_value d"
  using assms by (simp_all add: id_control_switch_def plain_def Let_def)

section \<open>Arithmetic of the ALU against the abstract machine\<close>

lemma no_overflow_check: "no_overflow a b \<longleftrightarrow> check_soverflow a b = 0"
  using sint_bounds32 [of a] sint_bounds32 [of b]
  by (auto simp: no_overflow_def check_soverflow_def)

lemma funct_latched [simp]: "ucast (ucast (GET_FUNCT inst) :: 6 word) = GET_FUNCT inst"
proof -
  have "take_bit 6 (GET_FUNCT inst) = GET_FUNCT inst"
    by (simp add: GET_FUNCT_def take_bit_eq_mask flip: LS_mask)
  then show ?thesis by (simp add: unsigned_ucast_eq)
qed

lemma shamt_latched [simp]: "unat (ucast (GET_SHAMT inst) :: 5 word) = unat (GET_SHAMT inst)"
  using unat_GET_SHAMT_less [of inst]
  by (simp only: unsigned_ucast_eq) (simp add: take_bit_nat_eq_self_iff)

lemma sll_of_nat: "push_bit n b = (of_nat (unat b * 2 ^ n) :: u32)"
  by (simp add: push_bit_eq_mult)

lemma srl_of_nat: "drop_bit n b = (of_nat (unat b div 2 ^ n) :: u32)"
proof -
  have "drop_bit n b = of_nat (unat (drop_bit n b))" by simp
  also have "\<dots> = of_nat (unat b div 2 ^ n)"
    by (simp only: unat_drop_bit_eq drop_bit_eq_div [of n "unat b"])
  finally show ?thesis .
qed

lemma bit_SIGN_EXTEND_low: "k < 16 \<Longrightarrow> bit (SIGN_EXTEND v) k = bit v k"
  by (simp add: SIGN_EXTEND_def bit_simps)

lemma bit_GET_IMM: "bit (GET_IMM inst) k \<longleftrightarrow> k < 16 \<and> bit inst k"
  by (auto simp: GET_IMM_def bit_simps simp flip: LS_mask)

lemma sign_extend_masked: "SIGN_EXTEND (GET_IMM inst) AND ZERO_EXTEND_MASK = GET_IMM inst"
  by (rule bit_word_eqI)
    (auto simp: bit_and_iff bit_mask_iff bit_GET_IMM bit_SIGN_EXTEND_low simp flip: LS_mask)

lemma sign_extend_lui: "push_bit 16 (SIGN_EXTEND (GET_IMM inst)) = push_bit 16 (GET_IMM inst)"
  by (rule bit_word_eqI) (auto simp: bit_push_bit_iff bit_GET_IMM bit_SIGN_EXTEND_low)

lemma funct_cases:
  fixes f :: u32
  obtains "f = FUNCT_ADD" | "f = FUNCT_ADDU" | "f = FUNCT_SUB" | "f = FUNCT_SUBU" | "f = FUNCT_AND"
    | "f = FUNCT_OR" | "f = FUNCT_NOR" | "f = FUNCT_SLT" | "f = FUNCT_SLTU" | "f = FUNCT_SLL"
    | "f = FUNCT_SRL" | "f = FUNCT_SYSCALL" | "f = FUNCT_JR"
    | "f \<notin> {FUNCT_ADD, FUNCT_ADDU, FUNCT_SUB, FUNCT_SUBU, FUNCT_AND, FUNCT_OR, FUNCT_NOR,
        FUNCT_SLT, FUNCT_SLTU, FUNCT_SLL, FUNCT_SRL, FUNCT_SYSCALL, FUNCT_JR}"
  by blast

lemma alu_r_isa:
  assumes "fields_latched d" and "isa_r_type (GET_FUNCT (idex_inst d)) (unat (GET_SHAMT (idex_inst d))) a b = Some v"
  shows "alu_r_type d a b x = x\<lparr>exmem_alu_res := v\<rparr>"
proof -
  have f: "ucast (idex_funct d) = GET_FUNCT (idex_inst d)"
    and s: "unat (idex_shamt d) = unat (GET_SHAMT (idex_inst d))"
    using assms(1) by (simp_all add: fields_latched_def Let_def)
  show ?thesis
    using assms(2)
    by (cases "GET_FUNCT (idex_inst d)" rule: funct_cases)
      (simp_all add: isa_r_type_def alu_r_type_def f s sll_of_nat srl_of_nat word_less_nat_alt
        split: if_split_asm)
qed

lemma alu_i_isa:
  assumes "fields_latched d" and "isa_i_type (GET_OPCODE (idex_inst d)) a (idex_inst d) = Some v"
  shows "alu_i_type d a (idex_sign_ext_imm d) x = x\<lparr>exmem_alu_res := v\<rparr>"
proof -
  have i: "idex_sign_ext_imm d = SIGN_EXTEND (GET_IMM (idex_inst d))"
    using assms(1) by (simp add: fields_latched_def Let_def)
  show ?thesis
    using assms(2)
    by (cases "GET_OPCODE (idex_inst d)" rule: opcode_cases)
      (simp_all add: isa_i_type_def alu_i_type_def i sign_extend_masked sign_extend_lui
        no_overflow_check word_less_nat_alt Let_def split: if_split_asm)
qed

end
