(* ===== verification/Exec_Refine.thy ===== *)
theory Exec_Refine
  imports Pipe_Inv Unaligned Control
begin

unbundle bit_operations_syntax

text \<open>
  Execution of a single instruction: the execute stage followed by the memory stage
  and write-back has the effect the abstract machine gives the instruction.
\<close>

section \<open>Executing one instruction\<close>

definition commit :: "mem_wb_t \<Rightarrow> (nat \<Rightarrow> u32) \<Rightarrow> nat \<Rightarrow> u32" where
  "commit w r = (if memwb_c_reg_write w \<and> \<not> is_mtc0 (memwb_inst w)
     then isa_wr r (unat (memwb_reg_dst w)) (wb_data w) else r)"

definition commit_cp0 :: "mem_wb_t \<Rightarrow> cp0_t \<Rightarrow> cp0_t" where
  "commit_cp0 w c = (if memwb_c_reg_write w \<and> is_mtc0 (memwb_inst w)
     then c(unat (memwb_reg_dst w) := wb_data w) else c)"

definition operands :: "id_ex_t \<Rightarrow> (nat \<Rightarrow> u32) \<Rightarrow> bool" where
  "operands d r \<longleftrightarrow> idex_rs_value d = r (unat (GET_RS (idex_inst d)))
     \<and> idex_rt_value d = r (unat (GET_RT (idex_inst d)))"

definition decoded :: "id_ex_t \<Rightarrow> (nat \<Rightarrow> u32) \<Rightarrow> bool" where
  "decoded d r \<longleftrightarrow> control_table d \<and> fields_latched d \<and> operands d r"

definition ex_result :: "id_ex_t \<Rightarrow> ex_mem_t \<Rightarrow> ex_mem_t" where
  "ex_result d x = alu d ((ex_latch d x)\<lparr>exmem_reg_dst := ex_dst d\<rparr>)"

lemma ex_result_sel [simp]:
  "exmem_reg_dst (ex_result d x) = ex_dst d" "exmem_inst (ex_result d x) = idex_inst d"
  "exmem_c_reg_write (ex_result d x) = idex_c_reg_write d"
  "exmem_c_mem_read (ex_result d x) = idex_c_mem_read d"
  "exmem_c_mem_write (ex_result d x) = idex_c_mem_write d"
  "exmem_c_mem_to_reg (ex_result d x) = idex_c_mem_to_reg d"
  "exmem_rt_value (ex_result d x) = idex_rt_value d"
  by (simp_all add: ex_result_def)

text \<open>What the memory stage and write-back make of an execute-stage result.\<close>

definition completes :: "ex_mem_t \<Rightarrow> (nat \<Rightarrow> u32) \<Rightarrow> mmu_t \<Rightarrow> (nat \<Rightarrow> u32) \<Rightarrow> mmu_t \<Rightarrow> bool" where
  "completes x r m r' m' \<longleftrightarrow> exmem_exception x = EXC_None \<and>
     (\<forall>core. ex_mem core = x \<longrightarrow> (\<forall>i<32. regs core i = r i) \<longrightarrow>
       (\<exists>core'. interpret_mem core m = Inr (core', m') \<and> memwb_exception (mem_wb core') = EXC_None
          \<and> commit (mem_wb core') r = r'))"

lemma mem_op_class:
  assumes "is_load_op opc \<or> is_any_store_op opc"
  shows "\<not> is_imm_op opc" "opc \<noteq> OPCODE_R"
  using assms by (auto simp: class_defs)

lemma ex_result_address:
  assumes "decoded d r" and "is_load_op (GET_OPCODE (idex_inst d)) \<or> is_any_store_op (GET_OPCODE (idex_inst d))"
    and "no_overflow (r (unat (GET_RS (idex_inst d)))) (SIGN_EXTEND (GET_IMM (idex_inst d)))"
  shows "ex_result d x = (ex_latch d x)\<lparr>exmem_reg_dst := ex_dst d,
     exmem_alu_res := r (unat (GET_RS (idex_inst d))) + SIGN_EXTEND (GET_IMM (idex_inst d))\<rparr>"
proof -
  have "idex_c_alu_op d = 0" "idex_c_alu_src d"
    using assms(1,2) mem_op_class [OF assms(2)]
    by (auto simp: decoded_def control_table_def Let_def is_r_alu_def)
  then show ?thesis
    using assms(1,3)
    by (simp add: ex_result_def alu_def decoded_def operands_def fields_latched_def Let_def
        no_overflow_check)
qed

lemma ex_result_compare:
  assumes "decoded d r" and "idex_c_alu_op d = 0" "\<not> idex_c_alu_src d"
    and "no_overflow (r (unat (GET_RS (idex_inst d)))) (r (unat (GET_RT (idex_inst d))))"
  shows "exmem_exception (ex_result d x) = EXC_None"
  using assms
  by (simp add: ex_result_def alu_def decoded_def operands_def Let_def no_overflow_check)

lemma interpret_mem_plain:
  assumes "ex_mem core = x" "exmem_exception x = EXC_None" "\<not> exmem_c_mem_read x" "\<not> exmem_c_mem_write x"
  shows "interpret_mem core m = Inr (core\<lparr>mem_wb := mem_latch x (mem_wb core)\<rparr>, m)"
  using assms by (simp add: interpret_mem_def Let_def)

lemma completes_alu:
  assumes "exmem_exception x = EXC_None" "\<not> exmem_c_mem_read x" "\<not> exmem_c_mem_write x"
    "\<not> exmem_c_mem_to_reg x"
  shows "completes x r m (if exmem_c_reg_write x \<and> \<not> is_mtc0 (exmem_inst x) then isa_wr r (unat (exmem_reg_dst x)) (exmem_alu_res x) else r) m"
  using assms
  by (auto simp: completes_def interpret_mem_plain commit_def mem_latch_def wb_data_def)

lemma aligned_eq: "aligned a = a AND NOT 3"
proof -
  have "(0xfffffffc :: u32) = NOT 3" by code_simp
  then show ?thesis by (simp only:)
qed


lemma ex_result_r_type:
  assumes "decoded d r" and "is_r_alu (idex_inst d)"
    and "isa_r_type (GET_FUNCT (idex_inst d)) (unat (GET_SHAMT (idex_inst d)))
       (r (unat (GET_RS (idex_inst d)))) (r (unat (GET_RT (idex_inst d)))) = Some v"
  shows "ex_result d x = (ex_latch d x)\<lparr>exmem_reg_dst := ex_dst d, exmem_alu_res := v\<rparr>"
proof -
  have "idex_c_alu_op d = 2" "\<not> idex_c_alu_src d"
    using assms(1,2) by (simp_all add: decoded_def control_table_def Let_def class_defs)
  then show ?thesis
    using assms(1,3) by (simp add: ex_result_def alu_def decoded_def operands_def Let_def alu_r_isa)
qed

lemma imm_op_class: "is_imm_op (GET_OPCODE inst) \<Longrightarrow> \<not> is_r_alu inst"
  by (auto simp: is_imm_op_def is_r_alu_def)

lemma ex_result_i_type:
  assumes "decoded d r" and "is_imm_op (GET_OPCODE (idex_inst d))"
    and "isa_i_type (GET_OPCODE (idex_inst d)) (r (unat (GET_RS (idex_inst d)))) (idex_inst d) = Some v"
  shows "ex_result d x = (ex_latch d x)\<lparr>exmem_reg_dst := ex_dst d, exmem_alu_res := v\<rparr>"
proof -
  have "idex_c_alu_op d = 3" "idex_c_alu_src d"
    using assms(1,2) imm_op_class by (simp_all add: decoded_def control_table_def Let_def)
  then show ?thesis
    using assms(1,3) by (simp add: ex_result_def alu_def decoded_def operands_def Let_def alu_i_isa)
qed

lemma isa_i_type_imm: "isa_i_type opc a inst = Some v \<Longrightarrow> is_imm_op opc"
  by (auto simp: isa_i_type_def is_imm_op_def Let_def split: if_splits)


lemma fields_unat:
  assumes "decoded d r"
  shows "unat (idex_rt d) = unat (GET_RT (idex_inst d))" "unat (idex_rd d) = unat (GET_RD (idex_inst d))"
  using assms by (simp_all add: decoded_def fields_latched_def Let_def)

lemma ex_dst_rt:
  assumes "decoded d r" and "GET_OPCODE (idex_inst d) \<noteq> OPCODE_R"
  shows "unat (ex_dst d) = unat (GET_RT (idex_inst d))"
  using assms fields_unat [OF assms(1)]
  by (simp add: ex_dst_def decoded_def control_table_def Let_def is_r_alu_def)

lemma exec_load:
  assumes "mmu_wf m" and "exmem_exception x = EXC_None" "exmem_c_mem_read x" "exmem_c_mem_to_reg x"
    "exmem_c_reg_write x" and dst: "unat (exmem_reg_dst x) < 32"
    and rd: "isa_read (GET_OPCODE (exmem_inst x)) (unat (exmem_alu_res x) mod 4)
       (r (unat (exmem_reg_dst x))) m (exmem_alu_res x) = Some v"
  shows "completes x r m (isa_wr r (unat (exmem_reg_dst x)) v) m"
proof -
  have "\<exists>w. mem_load core m x (mem_latch x (mem_wb core)) = Inr w \<and> memwb_exception w = EXC_None
      \<and> memwb_read_data w = v"
    if "\<forall>i<32. regs core i = r i" for core
  proof -
    have r: "read_reg core (exmem_reg_dst x) = Inr (r (unat (exmem_reg_dst x)))"
      using that dst by (simp add: read_reg_total)
    have i: "memwb_inst (mem_latch x (mem_wb core)) = exmem_inst x" by (simp add: mem_latch_def)
    show ?thesis
      using rd assms(1)
      by (auto simp: isa_read_def mem_load_def i isa_load_def Let_def mmu_read_ram r lwl_data_isa
          lwr_data_isa byte_off_mod aligned_eq split: if_splits)
  qed
  note load = this
  have "\<not> is_mtc0 (exmem_inst x)" using rd by (auto simp: isa_read_def is_mtc0_def split: if_splits)
  note nm = this
  show ?thesis
    unfolding completes_def
  proof (intro conjI allI impI)
    fix core :: core_t
    assume c: "ex_mem core = x" "\<forall>i<32. regs core i = r i"
    from load [OF c(2)] obtain w where w: "mem_load core m x (mem_latch x (mem_wb core)) = Inr w"
      "memwb_exception w = EXC_None" "memwb_read_data w = v" by blast
    with mem_load_same [OF w(1)] assms c(1) nm
    show "\<exists>core'. interpret_mem core m = Inr (core', m) \<and> memwb_exception (mem_wb core') = EXC_None
        \<and> commit (mem_wb core') r = isa_wr r (unat (exmem_reg_dst x)) v"
      by (simp add: interpret_mem_def Let_def commit_def wb_data_def same_latch_def mem_latch_def)
  qed fact
qed

lemma exec_store:
  assumes "mmu_wf m" and "exmem_exception x = EXC_None" "\<not> exmem_c_mem_read x" "exmem_c_mem_write x"
    "\<not> exmem_c_reg_write x"
    and "isa_write (GET_OPCODE (exmem_inst x)) m (exmem_alu_res x) (exmem_rt_value x) = Some m'"
  shows "completes x r m r m'"
  using assms
  by (auto simp: completes_def interpret_mem_def mem_store_def mem_latch_def commit_def Let_def
      isa_write_def isa_store_def mmu_write_ram split: if_splits)


lemma isa_exec_cases:
  assumes "isa_exec inst r m = Some (r', m')"
  defines "a \<equiv> r (unat (GET_RS inst))" and "b \<equiv> r (unat (GET_RT inst))"
    and "imm \<equiv> SIGN_EXTEND (GET_IMM inst)" and "opc \<equiv> GET_OPCODE inst"
  obtains (r) v where "is_r_alu inst" "isa_r_type (GET_FUNCT inst) (unat (GET_SHAMT inst)) a b = Some v"
      "r' = isa_wr r (unat (GET_RD inst)) v" "m' = m"
    | (cmp) "is_jr inst \<or> opc = OPCODE_BEQ \<or> opc = OPCODE_BNE \<or> opc = OPCODE_J" "no_overflow a b"
      "r' = r" "m' = m"
    | (ld) v where "is_load_op opc" "no_overflow a imm"
      "isa_read opc (unat (a + imm) mod 4) b m (a + imm) = Some v"
      "r' = isa_wr r (unat (GET_RT inst)) v" "m' = m"
    | (st) "is_store_op opc" "no_overflow a imm" "isa_write opc m (a + imm) b = Some m'" "r' = r"
    | (imm) v where "is_imm_op opc" "isa_i_type opc a inst = Some v"
      "r' = isa_wr r (unat (GET_RT inst)) v" "m' = m"
proof -
  note ex = assms(1) [unfolded isa_exec_def Let_def, folded assms(2-5)]
  consider "opc = OPCODE_R" "GET_FUNCT inst = FUNCT_JR" | "opc = OPCODE_R" "GET_FUNCT inst \<noteq> FUNCT_JR"
    | "opc \<noteq> OPCODE_R" "is_load_op opc" | "opc \<noteq> OPCODE_R" "\<not> is_load_op opc" "is_store_op opc"
    | "opc \<noteq> OPCODE_R" "\<not> is_load_op opc" "\<not> is_store_op opc" "opc = OPCODE_BEQ \<or> opc = OPCODE_BNE \<or> opc = OPCODE_J"
    | "opc \<noteq> OPCODE_R" "\<not> is_load_op opc" "\<not> is_store_op opc" "\<not> (opc = OPCODE_BEQ \<or> opc = OPCODE_BNE \<or> opc = OPCODE_J)"
    by blast
  then show thesis
  proof cases
    case 1
    with ex show thesis by (intro cmp) (simp_all add: is_jr_def opc_def split: if_splits)
  next
    case 2
    with ex r show thesis by (auto simp: is_r_alu_def opc_def)
  next
    case 3
    with ex ld show thesis by (auto split: if_splits)
  next
    case 4
    with ex st show thesis by (auto split: if_splits)
  next
    case 5
    with ex cmp show thesis by (simp split: if_splits)
  next
    case 6
    with ex imm show thesis by (auto dest: isa_i_type_imm)
  qed
qed

lemma isa_exec_plain: "isa_exec inst r m = Some v \<Longrightarrow> plain inst"
  by (cases v; simp; erule isa_exec_cases) (auto simp: class_defs)

lemma plain_not_move: "plain inst \<Longrightarrow> \<not> is_mtc0 inst \<and> \<not> is_mfc0 inst"
  by (simp add: plain_def is_mtc0_def is_mfc0_def)

section \<open>Every instruction class\<close>

lemma class_disjoint:
  "is_load_op opc \<Longrightarrow> \<not> is_any_store_op opc \<and> \<not> is_imm_op opc \<and> opc \<noteq> OPCODE_R \<and> opc \<noteq> OPCODE_J"
  "is_store_op opc \<Longrightarrow> is_any_store_op opc"
  "is_any_store_op opc \<Longrightarrow> \<not> is_load_op opc \<and> \<not> is_imm_op opc \<and> opc \<noteq> OPCODE_R \<and> opc \<noteq> OPCODE_J"
  "is_imm_op opc \<Longrightarrow> \<not> is_load_op opc \<and> \<not> is_any_store_op opc \<and> opc \<noteq> OPCODE_R \<and> opc \<noteq> OPCODE_J"
  "is_r_alu inst \<Longrightarrow> GET_OPCODE inst = OPCODE_R \<and> \<not> is_jr inst"
  "is_jr inst \<Longrightarrow> GET_OPCODE inst = OPCODE_R \<and> \<not> is_r_alu inst"
  "\<not> is_load_op OPCODE_R \<and> \<not> is_any_store_op OPCODE_R \<and> \<not> is_imm_op OPCODE_R"
  by (auto simp: class_defs)

lemma compare_class:
  "opc = OPCODE_BEQ \<or> opc = OPCODE_BNE \<or> opc = OPCODE_J \<Longrightarrow>
     \<not> is_load_op opc \<and> \<not> is_any_store_op opc \<and> \<not> is_imm_op opc \<and> opc \<noteq> OPCODE_R"
  by (auto simp: class_defs)

lemma control_lines:
  assumes "control_table d"
  defines "inst \<equiv> idex_inst d" and "opc \<equiv> GET_OPCODE (idex_inst d)"
  shows "idex_c_reg_dst d = is_r_alu inst"
    "idex_c_alu_op d = (if is_r_alu inst then 2 else if is_imm_op opc then 3 else 0)"
    "idex_c_alu_src d = (is_load_op opc \<or> is_any_store_op opc \<or> is_imm_op opc)"
    "idex_c_mem_read d = is_load_op opc" "idex_c_mem_write d = is_any_store_op opc"
    "idex_c_reg_write d = (is_r_alu inst \<or> is_load_op opc \<or> is_imm_op opc)"
    "idex_c_mem_to_reg d = is_load_op opc"
  using assms by (simp_all add: control_table_def Let_def)

lemma decoded_control: "decoded d r \<Longrightarrow> control_table d"
  by (simp add: decoded_def)

lemma exec_completes:
  assumes dec: "decoded d r" and wf: "mmu_wf m" and ex: "isa_exec (idex_inst d) r m = Some (r', m')"
  shows "completes (ex_result d x) r m r' m'"
  using ex
proof (cases rule: isa_exec_cases)
  note ct = control_lines [OF decoded_control [OF dec]]
  note alu = completes_alu [of "ex_result d x" r m] and nm = plain_not_move [OF isa_exec_plain [OF ex]]
  case (r v)
  note cl = class_disjoint(5) [OF r(1)] class_disjoint(7)
  have "ex_result d x = (ex_latch d x)\<lparr>exmem_reg_dst := ex_dst d, exmem_alu_res := v\<rparr>"
    by (rule ex_result_r_type [OF dec r(1,2)])
  then show ?thesis
    using r alu ct fields_unat [OF dec] cl nm by (simp add: ex_dst_def)
next
  note ct = control_lines [OF decoded_control [OF dec]]
  note alu = completes_alu [of "ex_result d x" r m]
  case cmp
  have "\<not> is_load_op (GET_OPCODE (idex_inst d))" "\<not> is_any_store_op (GET_OPCODE (idex_inst d))"
    "\<not> is_imm_op (GET_OPCODE (idex_inst d))" "\<not> is_r_alu (idex_inst d)"
    using cmp(1) class_disjoint(6) [of "idex_inst d"] class_disjoint(7) compare_class
      class_disjoint(5) [of "idex_inst d"] by metis+
  with ct have "idex_c_alu_op d = 0" "\<not> idex_c_alu_src d" "\<not> idex_c_reg_write d"
    "\<not> idex_c_mem_read d" "\<not> idex_c_mem_write d" "\<not> idex_c_mem_to_reg d"
    by simp_all
  with cmp alu ex_result_compare [OF dec this(1,2) cmp(2)] show ?thesis by simp
next
  note ct = control_lines [OF decoded_control [OF dec]]
  case (ld v)
  have "ex_result d x = (ex_latch d x)\<lparr>exmem_reg_dst := ex_dst d,
      exmem_alu_res := r (unat (GET_RS (idex_inst d))) + SIGN_EXTEND (GET_IMM (idex_inst d))\<rparr>"
    using ex_result_address [OF dec disjI1] ld by blast
  then show ?thesis
    using ld wf exec_load [of m "ex_result d x" r v] ct ex_dst_rt [OF dec] class_disjoint(1) [OF ld(1)]
    by simp
next
  note ct = control_lines [OF decoded_control [OF dec]]
  case st
  note cl = class_disjoint(2) [OF st(1)]
  have "ex_result d x = (ex_latch d x)\<lparr>exmem_reg_dst := ex_dst d,
      exmem_alu_res := r (unat (GET_RS (idex_inst d))) + SIGN_EXTEND (GET_IMM (idex_inst d))\<rparr>"
    using ex_result_address [OF dec disjI2] st cl by blast
  moreover have "idex_rt_value d = r (unat (GET_RT (idex_inst d)))"
    using dec by (simp add: decoded_def operands_def)
  moreover have "\<not> is_r_alu (idex_inst d)"
    using class_disjoint(3) [OF cl] class_disjoint(5) by blast
  ultimately show ?thesis
    using st wf exec_store [of m "ex_result d x" m' r] ct class_disjoint(3) [OF cl] cl
    by simp
next
  note ct = control_lines [OF decoded_control [OF dec]]
  note alu = completes_alu [of "ex_result d x" r m] and nm = plain_not_move [OF isa_exec_plain [OF ex]]
  case (imm v)
  have "ex_result d x = (ex_latch d x)\<lparr>exmem_reg_dst := ex_dst d, exmem_alu_res := v\<rparr>"
    by (rule ex_result_i_type [OF dec imm(1,2)])
  then show ?thesis
    using imm alu ct ex_dst_rt [OF dec] class_disjoint(4) [OF imm(1)] nm by simp
qed

end
