(* ===== verification/Forward_Refine.thy ===== *)
theory Forward_Refine
  imports Exec_Refine
begin

unbundle bit_operations_syntax

text \<open>
  The abstraction from pipeline states to states of the sequential machine, and the
  stages of a tick in which no exception is pending, related through it.
\<close>

section \<open>The abstraction\<close>

text \<open>Instructions that complete without an exception; of coprocessor 0 only the moves do.\<close>

definition quiet_inst :: "u32 \<Rightarrow> bool" where
  "quiet_inst inst \<longleftrightarrow> GET_OPCODE inst \<noteq> OPCODE_CP0 \<or> is_mfc0 inst \<or> is_mtc0 inst"

definition quiet_wb :: "mem_wb_t \<Rightarrow> bool" where
  "quiet_wb w \<longleftrightarrow> memwb_exception w = EXC_None \<and> quiet_inst (memwb_inst w)
     \<and> (is_mtc0 (memwb_inst w) \<or> unat (memwb_reg_dst w) < 32)
     \<and> (memwb_c_reg_write w \<longrightarrow> isa_writes (memwb_inst w) (unat (memwb_reg_dst w)))"

definition quiet_ex :: "ex_mem_t \<Rightarrow> bool" where
  "quiet_ex x \<longleftrightarrow> exmem_exception x = EXC_None \<and> quiet_inst (exmem_inst x)
     \<and> (is_mtc0 (exmem_inst x) \<or> unat (exmem_reg_dst x) < 32)
     \<and> (is_mtc0 (exmem_inst x) \<longrightarrow> \<not> exmem_c_mem_to_reg x)
     \<and> (exmem_c_reg_write x \<longrightarrow> isa_writes (exmem_inst x) (unat (exmem_reg_dst x)))"

definition gpr :: "(nat \<Rightarrow> u32) \<Rightarrow> nat \<Rightarrow> u32" where
  "gpr r i = (if i < 32 then r i else 0)"

text \<open>Completing what is past decode: the pending write-back, then the memory stage and its write-back.\<close>

definition retire_wb :: "core_t \<Rightarrow> core_t" where
  "retire_wb core = core\<lparr>regs := commit (mem_wb core) (regs core), cp0 := commit_cp0 (mem_wb core) (cp0 core)\<rparr>"

definition retired :: "core_t \<Rightarrow> mmu_t \<Rightarrow> (nat \<Rightarrow> u32) \<times> mmu_t" where
  "retired core mem = (case interpret_mem (retire_wb core) mem of
       Inl _ \<Rightarrow> (gpr (regs core), mem)
     | Inr (core', mem') \<Rightarrow> (gpr (commit (mem_wb core') (regs core')), mem'))"

text \<open>A move to coprocessor 0 takes its value from the execute stage.\<close>

definition ex_cp0 :: "ex_mem_t \<Rightarrow> cp0_t \<Rightarrow> cp0_t" where
  "ex_cp0 x c = (if exmem_c_reg_write x \<and> is_mtc0 (exmem_inst x) then c(unat (exmem_reg_dst x) := exmem_alu_res x) else c)"

definition retired_cp0 :: "core_t \<Rightarrow> cp0_t" where
  "retired_cp0 core = ex_cp0 (ex_mem core) (commit_cp0 (mem_wb core) (cp0 core))"

definition pipe_abs :: "core_t \<Rightarrow> mmu_t \<Rightarrow> isa_t" where
  "pipe_abs core mem = \<lparr>i_regs = fst (retired core mem), i_cp0 = retired_cp0 core, i_mem = snd (retired core mem),
     i_cur = idex_inst (id_ex core), i_cur_npc = idex_next_pc (id_ex core),
     i_cur_bd = idex_is_branch_delay (id_ex core),
     i_nxt = ifid_inst (if_id core), i_nxt_npc = ifid_next_pc (if_id core),
     i_nxt_bd = ifid_is_branch_delay (if_id core), i_pc = PC core,
     i_prev = exmem_inst (ex_mem core), i_prev2 = memwb_inst (mem_wb core)\<rparr>"

definition retires :: "core_t \<Rightarrow> mmu_t \<Rightarrow> bool" where
  "retires core mem \<longleftrightarrow> (\<exists>core' mem'. interpret_mem (retire_wb core) mem = Inr (core', mem')
     \<and> memwb_exception (mem_wb core') = EXC_None)"

definition bubble :: "id_ex_t \<Rightarrow> bool" where
  "bubble d \<longleftrightarrow> d = zero_id_ex"

definition interlocked :: "id_ex_t \<Rightarrow> u32 \<Rightarrow> bool" where
  "interlocked d inst \<longleftrightarrow> (idex_c_mem_read d \<and> idex_rt d \<noteq> 0 \<longrightarrow>
     idex_rt d \<noteq> ucast (GET_RS inst) \<and> idex_rt d \<noteq> ucast (GET_RT inst))"

text \<open>
  JAL as the decoder leaves it: an addition of the return address and the second operand
  into \<open>$ra\<close>.  ERET leaves every control line clear.
\<close>

definition jal_table :: "id_ex_t \<Rightarrow> bool" where
  "jal_table d \<longleftrightarrow> idex_c_jump d \<and> idex_jump_addr d = jump_target d \<and> idex_c_reg_write d
     \<and> idex_rt d = REG_RA \<and> idex_rs d = ucast (GET_RS (idex_inst d))
     \<and> \<not> idex_c_reg_dst d \<and> idex_c_alu_op d = 0 \<and> \<not> idex_c_alu_src d \<and> \<not> idex_c_beq d \<and> \<not> idex_c_bne d
     \<and> \<not> idex_c_mem_read d \<and> \<not> idex_c_mem_write d \<and> \<not> idex_c_mem_to_reg d"

definition linking :: "id_ex_t \<Rightarrow> bool" where
  "linking d \<longleftrightarrow> jal_table d \<and> idex_rs_value d = idex_next_pc d + 4 \<and> idex_rt_value d = 0"

definition eret_table :: "id_ex_t \<Rightarrow> bool" where
  "eret_table d \<longleftrightarrow> idex_rt_value d = 0 \<and> \<not> idex_c_jump d \<and> \<not> idex_c_reg_write d
     \<and> idex_c_alu_op d = 0 \<and> \<not> idex_c_alu_src d \<and> \<not> idex_c_beq d \<and> \<not> idex_c_bne d
     \<and> \<not> idex_c_mem_read d \<and> \<not> idex_c_mem_write d \<and> \<not> idex_c_mem_to_reg d"

text \<open>The moves are additions of 0; which register is read and written depends on the direction.\<close>

definition move_table :: "id_ex_t \<Rightarrow> bool" where
  "move_table d \<longleftrightarrow> (let inst = idex_inst d; k = ucast (GET_RD inst + 1); t = ucast (GET_RT inst) in
     idex_c_reg_dst d \<and> idex_c_alu_op d = 2 \<and> idex_c_reg_write d \<and> idex_funct d = ucast FUNCT_ADD \<and> idex_rt d = 0
     \<and> idex_rs d = (if is_mfc0 inst then k else t) \<and> idex_rd d = (if is_mfc0 inst then t else k)
     \<and> \<not> idex_c_alu_src d \<and> \<not> idex_c_jump d \<and> \<not> idex_c_beq d \<and> \<not> idex_c_bne d
     \<and> \<not> idex_c_mem_read d \<and> \<not> idex_c_mem_write d \<and> \<not> idex_c_mem_to_reg d)"

definition moved :: "u32 \<Rightarrow> (nat \<Rightarrow> u32) \<Rightarrow> cp0_t \<Rightarrow> u32" where
  "moved inst r c = (if is_mfc0 inst then c (unat (GET_RD inst) + 1) else r (unat (GET_RT inst)))"

definition moving :: "id_ex_t \<Rightarrow> u32 \<Rightarrow> bool" where
  "moving d v \<longleftrightarrow> move_table d \<and> idex_rs_value d = v \<and> idex_rt_value d = 0"

definition move_ok :: "u32 \<Rightarrow> u32 \<Rightarrow> bool" where
  "move_ok inst p = (if is_mfc0 inst then mfc0_ok inst p else gpr_ok (unat (GET_RT inst)) p)"

text \<open>The execute stage is about to do what the sequential machine in state \<open>a\<close> does.\<close>

definition ready :: "id_ex_t \<Rightarrow> isa_t \<Rightarrow> bool" where
  "ready d a \<longleftrightarrow> bubble d
     \<or> (plain (idex_inst d) \<longrightarrow> control_table d \<and> fields_latched d \<and> interlocked d (i_nxt a)
          \<and> (reads_ok (idex_inst d) (i_prev a) \<and> reads_ok (idex_inst d) (i_prev2 a) \<longrightarrow> operands d (i_regs a)))
       \<and> ((is_mfc0 (idex_inst d) \<or> is_mtc0 (idex_inst d))
          \<and> move_ok (idex_inst d) (i_prev a) \<and> move_ok (idex_inst d) (i_prev2 a) \<longrightarrow>
            moving d (moved (idex_inst d) (i_regs a) (i_cp0 a)))
       \<and> (GET_OPCODE (idex_inst d) = OPCODE_JAL \<and> link_ok (idex_inst d) (i_prev a) (i_prev2 a) \<longrightarrow> linking d)
       \<and> (idex_inst d = INSTRUCTION_ERET \<longrightarrow> eret_table d)"

definition pipe_rel :: "core_t \<Rightarrow> mmu_t \<Rightarrow> bool" where
  "pipe_rel core mem \<longleftrightarrow> mmu_wf mem \<and> regs core 0 = 0 \<and> quiet_wb (mem_wb core) \<and> quiet_ex (ex_mem core)
     \<and> retires core mem \<and> idex_exception (id_ex core) = EXC_None
     \<and> ifid_exception (if_id core) = EXC_None \<and> ready (id_ex core) (pipe_abs core mem)"

section \<open>Stages of a quiet tick\<close>

lemma quiet_not_eret: "GET_OPCODE inst \<noteq> OPCODE_CP0 \<Longrightarrow> inst \<noteq> INSTRUCTION_ERET"
  by (auto simp: GET_OPCODE_def)

lemma quiet_inst_not_eret: "quiet_inst inst \<Longrightarrow> inst \<noteq> INSTRUCTION_ERET"
  using quiet_not_eret move_not_eret by (auto simp: quiet_inst_def)

lemma mtc0_writes: "is_mtc0 inst \<Longrightarrow> isa_writes inst i \<longleftrightarrow> i = unat (GET_RD inst) + 1"
  by (auto simp: is_mtc0_def is_mfc0_def isa_writes_def)

lemma write_back_quiet:
  assumes q: "quiet_wb (mem_wb core)" and z: "regs core 0 = 0"
  shows "write_back core = Inr (retire_wb core)"
proof (cases "memwb_c_reg_write (mem_wb core)")
  case True
  let ?i = "unat (memwb_reg_dst (mem_wb core))" and ?inst = "memwb_inst (mem_wb core)"
  have w: "isa_writes ?inst ?i" using q True by (simp add: quiet_wb_def)
  show ?thesis
  proof (cases "is_mtc0 ?inst")
    case mt: True
    then have "?i = unat (GET_RD ?inst) + 1" using w by (simp add: mtc0_writes)
    then have "?i < 41" using unat_GET_RD_less [of ?inst] by linarith
    with True mt show ?thesis
      by (simp add: write_back_def set_cp0_def retire_wb_def commit_def commit_cp0_def Let_def)
  next
    case False
    then have "?i < 33" using q by (simp add: quiet_wb_def)
    moreover have "?i = 0 \<longleftrightarrow> memwb_reg_dst (mem_wb core) = 0" by (simp add: unat_eq_zero)
    moreover have "(regs core)(0 := 0) = regs core" using z by auto
    ultimately show ?thesis
      using True False by (simp add: write_back_def retire_wb_def commit_def commit_cp0_def isa_wr_def Let_def)
  qed
qed (simp add: write_back_def retire_wb_def commit_def commit_cp0_def)

lemma interpret_wb_quiet:
  assumes "quiet_wb (mem_wb core)" and "regs core 0 = 0"
  shows "interpret_wb core g = Inr (retire_wb core, g)"
  using write_back_quiet [OF assms] assms(1) quiet_inst_not_eret [of "memwb_inst (mem_wb core)"]
  by (simp add: interpret_wb_def quiet_wb_def)

lemma commit_zero: "r 0 = 0 \<Longrightarrow> commit w r 0 = 0"
  by (simp add: commit_def isa_wr_def)

lemma gpr_commit: "is_mtc0 (memwb_inst w) \<or> unat (memwb_reg_dst w) < 32 \<Longrightarrow> gpr (commit w r) = commit w (gpr r)"
  by (auto simp: gpr_def commit_def isa_wr_def)

lemma gpr_pc [simp]: "gpr (r(REG_PC := v)) = gpr r"
  by (auto simp: gpr_def)

lemma gpr_less [simp]: "i < 32 \<Longrightarrow> gpr r i = r i"
  by (simp add: gpr_def)

lemma bubble_completes:
  assumes "bubble d"
  shows "completes (ex_result d x) r m r m"
  using assms completes_alu [of "ex_result d x" r m]
  by (simp add: bubble_def zero_id_ex_def ex_result_def alu_def ex_latch_def check_soverflow_def)

lemma isa_exec_nop: "isa_exec 0 r m = Some (r, m)"
  by (simp add: isa_exec_def GET_OPCODE_def GET_FUNCT_def isa_r_type_def isa_wr_def Let_def GET_RD_def)

section \<open>Forwarding delivers the newest value\<close>

definition newest :: "core_t \<Rightarrow> u8 \<Rightarrow> u32 \<Rightarrow> u32" where
  "newest core r v = (if ex_hit core r then exmem_alu_res (ex_mem core)
     else if wb_hit core r then wb_data (mem_wb core) else v)"

lemma forwarding_unit_newest:
  assumes "idex_inst (id_ex core) \<noteq> INSTRUCTION_ERET"
    and "\<And>r. r \<in> {idex_rs (id_ex core), idex_rt (id_ex core)} \<Longrightarrow> ex_hit core r \<Longrightarrow>
       \<not> illegal_forward (exmem_inst (ex_mem core)) (idex_inst (id_ex core))"
    and "\<And>r. r \<in> {idex_rs (id_ex core), idex_rt (id_ex core)} \<Longrightarrow> wb_hit core r \<Longrightarrow>
       \<not> illegal_forward (memwb_inst (mem_wb core)) (idex_inst (id_ex core))"
  shows "forwarding_unit core = core\<lparr>id_ex := (id_ex core)
     \<lparr>idex_rs_value := newest core (idex_rs (id_ex core)) (idex_rs_value (id_ex core)),
      idex_rt_value := newest core (idex_rt (id_ex core)) (idex_rt_value (id_ex core))\<rparr>\<rparr>"
proof -
  have hit: "ex_hit (core\<lparr>id_ex := d\<rparr>) r = ex_hit core r" "wb_hit (core\<lparr>id_ex := d\<rparr>) r = wb_hit core r" for d r
    by (simp_all add: ex_hit_def wb_hit_def)
  let ?rs = "idex_rs (id_ex core)" and ?rt = "idex_rt (id_ex core)"
  note legal = assms(2) [of ?rs] assms(2) [of ?rt] assms(3) [of ?rs] assms(3) [of ?rt]
  show ?thesis
    by (cases "ex_hit core ?rs"; cases "wb_hit core ?rs"; cases "ex_hit core ?rt"; cases "wb_hit core ?rt")
      (use assms(1) legal in \<open>simp_all add: forwarding_unit_def forward_a_def forward_b_def newest_def hit Let_def\<close>)
qed

lemma hit_writes:
  assumes "quiet_ex (ex_mem core)" "quiet_wb (mem_wb core)"
  shows "ex_hit core r \<Longrightarrow> isa_writes (exmem_inst (ex_mem core)) (unat r) \<and> r \<noteq> 0"
    "wb_hit core r \<Longrightarrow> isa_writes (memwb_inst (mem_wb core)) (unat r) \<and> r \<noteq> 0"
  using assms by (auto simp: ex_hit_def wb_hit_def quiet_ex_def quiet_wb_def)

text \<open>
  A call whose operand fields meet no pending write, MFC0 unless it follows a clashing move,
  and ERET pass through forwarding unchanged.
\<close>

lemma forwarding_unit_link:
  assumes q: "quiet_ex (ex_mem core)" "quiet_wb (mem_wb core)" and tab: "jal_table (id_ex core)"
    and ok: "link_ok (idex_inst (id_ex core)) (exmem_inst (ex_mem core)) (memwb_inst (mem_wb core))"
  shows "forwarding_unit core = core"
proof -
  have "\<not> ex_hit core r \<and> \<not> wb_hit core r" if "r = idex_rs (id_ex core) \<or> r = idex_rt (id_ex core)" for r
    using hit_writes [OF q, of r] that ok tab by (auto simp: link_ok_def jal_table_def)
  then show ?thesis by (simp add: forwarding_unit_def forward_a_def forward_b_def Let_def)
qed

lemma forwarding_unit_mfc0:
  assumes q: "quiet_ex (ex_mem core)" "quiet_wb (mem_wb core)" and tab: "move_table (id_ex core)"
    and i: "is_mfc0 (idex_inst (id_ex core))"
    and ok: "mfc0_ok (idex_inst (id_ex core)) (exmem_inst (ex_mem core))" "mfc0_ok (idex_inst (id_ex core)) (memwb_inst (mem_wb core))"
  shows "forwarding_unit core = core"
proof -
  let ?r = "idex_rs (id_ex core)"
  have r: "idex_rt (id_ex core) = 0" "unat ?r = unat (GET_RD (idex_inst (id_ex core))) + 1"
    using tab i by (simp_all add: move_table_def Let_def)
  have "ex_hit core ?r \<Longrightarrow> illegal_forward (exmem_inst (ex_mem core)) (idex_inst (id_ex core))"
    "wb_hit core ?r \<Longrightarrow> illegal_forward (memwb_inst (mem_wb core)) (idex_inst (id_ex core))"
    using hit_writes [OF q, of ?r] ok i r(2) by (auto simp: mfc0_ok_def illegal_forward_def)
  moreover have "\<not> ex_hit core 0" "\<not> wb_hit core 0" by (simp_all add: ex_hit_def wb_hit_def)
  ultimately show ?thesis
    using r(1) by (auto simp: forwarding_unit_def forward_a_def forward_b_def Let_def)
qed

lemma forwarding_unit_lines [simp]:
  "idex_is_branch_delay (id_ex (forwarding_unit core)) = idex_is_branch_delay (id_ex core)"
  "idex_c_jump (id_ex (forwarding_unit core)) = idex_c_jump (id_ex core)"
  "idex_c_beq (id_ex (forwarding_unit core)) = idex_c_beq (id_ex core)"
  "idex_c_bne (id_ex (forwarding_unit core)) = idex_c_bne (id_ex core)"
  by (auto simp: forwarding_unit_def forward_a_def forward_b_def Let_def split: option.split)

lemma forwarding_unit_eret: "idex_inst (id_ex core) = INSTRUCTION_ERET \<Longrightarrow> forwarding_unit core = core"
  by (simp add: forwarding_unit_def)

text \<open>An operand that follows no clashing MTC0 and no load is the value of the register once all is retired.\<close>

lemma newest_retired:
  assumes q: "quiet_ex (ex_mem core)" "quiet_wb (mem_wb core)"
    and mem: "interpret_mem (retire_wb core) mem = Inr (core', mem')"
    and ld: "ex_hit core r \<Longrightarrow> \<not> exmem_c_mem_to_reg (ex_mem core)"
    and ok: "gpr_ok (unat r) (exmem_inst (ex_mem core))" "gpr_ok (unat r) (memwb_inst (mem_wb core))"
  shows "commit (mem_wb core') (regs core') (unat r) = newest core r (regs core (unat r))"
proof -
  have f: "regs core' = commit (mem_wb core) (regs core)"
    and l: "memwb_reg_dst (mem_wb core') = exmem_reg_dst (ex_mem core)"
    "memwb_c_reg_write (mem_wb core') = exmem_c_reg_write (ex_mem core)"
    "memwb_c_mem_to_reg (mem_wb core') = exmem_c_mem_to_reg (ex_mem core)"
    "memwb_alu_res (mem_wb core') = exmem_alu_res (ex_mem core)" "memwb_inst (mem_wb core') = exmem_inst (ex_mem core)"
    using interpret_mem_frame [OF mem] interpret_mem_latch [OF mem]
    by (simp_all add: retire_wb_def)
  have e: "isa_wr q (unat s) v (unat r) = (if s \<noteq> 0 \<and> s = r then v else q (unat r))" for q v and s :: u8
    by (auto simp: isa_wr_def unat_eq_zero word_unat_eq_iff [of s r])
  have "ex_hit core r \<Longrightarrow> \<not> is_mtc0 (exmem_inst (ex_mem core))" "wb_hit core r \<Longrightarrow> \<not> is_mtc0 (memwb_inst (mem_wb core))"
    using hit_writes [OF q, of r] ok by (auto simp: gpr_ok_def)
  then show ?thesis
    using ld by (auto simp: f commit_def e newest_def ex_hit_def wb_hit_def l wb_data_def)
qed

lemma latched_cp0:
  assumes "interpret_mem core mem = Inr (core', mem')" and "quiet_ex (ex_mem core)"
  shows "commit_cp0 (mem_wb core') c = ex_cp0 (ex_mem core) c"
  using interpret_mem_latch [OF assms(1)] assms(2)
  by (auto simp: commit_cp0_def ex_cp0_def wb_data_def quiet_ex_def)

section \<open>Redirection of fetch\<close>

lemma four_times: "4 * x = push_bit 2 (x :: u32)"
  by (simp add: push_bit_eq_mult)

lemma ex_pc_decoded:
  assumes "decoded d r" and "plain (idex_inst d)"
  shows "ex_pc d pc = isa_next_pc (idex_inst d) (idex_next_pc d) r pc"
proof -
  have c: "idex_c_beq d = (GET_OPCODE (idex_inst d) = OPCODE_BEQ)"
    "idex_c_bne d = (GET_OPCODE (idex_inst d) = OPCODE_BNE)"
    "idex_c_jump d = (is_jr (idex_inst d) \<or> GET_OPCODE (idex_inst d) = OPCODE_J)"
    "GET_OPCODE (idex_inst d) = OPCODE_J \<Longrightarrow> idex_jump_addr d = jump_target d"
    using assms(1) by (auto simp: decoded_def control_table_def Let_def)
  have o: "idex_rs_value d = r (unat (GET_RS (idex_inst d)))" "idex_rt_value d = r (unat (GET_RT (idex_inst d)))"
    "idex_sign_ext_imm d = SIGN_EXTEND (GET_IMM (idex_inst d))"
    using assms(1) by (auto simp: decoded_def operands_def fields_latched_def Let_def)
  have "idex_inst d \<noteq> INSTRUCTION_ERET" "GET_OPCODE (idex_inst d) \<noteq> OPCODE_JAL"
    using assms(2) quiet_not_eret by (simp_all add: plain_def)
  then show ?thesis
    by (auto simp: ex_pc_def isa_next_pc_def ex_jump_addr_def jumps_to_rs_def c o branch_target_def
        four_times is_jr_def jump_target_def Let_def)
qed

lemma ex_taken_decoded:
  assumes "decoded d r"
    and "plain (idex_inst d)"
  shows "ex_taken d = isa_taken (idex_inst d) r"
proof -
  have "idex_c_beq d = (GET_OPCODE (idex_inst d) = OPCODE_BEQ)"
    "idex_c_bne d = (GET_OPCODE (idex_inst d) = OPCODE_BNE)"
    "idex_c_jump d = (is_jr (idex_inst d) \<or> GET_OPCODE (idex_inst d) = OPCODE_J)"
    using assms(1) by (auto simp: decoded_def control_table_def Let_def)
  moreover have "idex_rs_value d = r (unat (GET_RS (idex_inst d)))" "idex_rt_value d = r (unat (GET_RT (idex_inst d)))"
    using assms(1) by (auto simp: decoded_def operands_def Let_def)
  ultimately show ?thesis using assms(2) by (auto simp: ex_taken_def isa_taken_def is_jr_def plain_def Let_def)
qed

lemma isa_next_pc_nop: "isa_next_pc 0 npc r pc = pc"
  by (simp add: isa_next_pc_def GET_OPCODE_def GET_FUNCT_def)

lemma isa_taken_nop: "\<not> isa_taken 0 r"
  by (simp add: isa_taken_def GET_OPCODE_def GET_FUNCT_def)

section \<open>The execute stage performs the abstract instruction\<close>

text \<open>The ways an execute stage is ready: a bubble, an instruction of the plain table, a call, a move.\<close>

lemma isa_do_cases:
  assumes "ready d a" and "i_cur a = idex_inst d" and "isa_do a = Some (r', c', m')"
  obtains (bubble) "bubble d" "i_cur a = 0" "r' = i_regs a" "c' = i_cp0 a" "m' = i_mem a"
    | (exec) "plain (idex_inst d)" "decoded d (i_regs a)" "interlocked d (i_nxt a)" "c' = i_cp0 a"
        "isa_exec (idex_inst d) (i_regs a) (i_mem a) = Some (r', m')"
    | (link) "GET_OPCODE (idex_inst d) = OPCODE_JAL" "linking d" "m' = i_mem a" "c' = i_cp0 a"
        "r' = isa_wr (i_regs a) 31 (i_cur_npc a + 4)"
    | (mfc0) "is_mfc0 (idex_inst d)" "moving d (i_cp0 a (unat (GET_RD (idex_inst d)) + 1))" "m' = i_mem a" "c' = i_cp0 a"
        "r' = isa_wr (i_regs a) (unat (GET_RT (idex_inst d))) (i_cp0 a (unat (GET_RD (idex_inst d)) + 1))"
    | (mtc0) "is_mtc0 (idex_inst d)" "moving d (i_regs a (unat (GET_RT (idex_inst d))))" "m' = i_mem a" "r' = i_regs a"
        "c' = (i_cp0 a)(unat (GET_RD (idex_inst d)) + 1 := i_regs a (unat (GET_RT (idex_inst d))))"
proof -
  have x: "is_mfc0 i \<Longrightarrow> \<not> is_mtc0 i" "GET_OPCODE i = OPCODE_JAL \<Longrightarrow> \<not> is_mfc0 i \<and> \<not> is_mtc0 i" for i
    by (auto simp: is_mfc0_def is_mtc0_def)
  consider "bubble d" | "\<not> bubble d" "GET_OPCODE (idex_inst d) = OPCODE_JAL" | "\<not> bubble d" "is_mfc0 (idex_inst d)"
    | "\<not> bubble d" "is_mtc0 (idex_inst d)"
    | "\<not> bubble d" "GET_OPCODE (idex_inst d) \<noteq> OPCODE_JAL" "\<not> is_mfc0 (idex_inst d)" "\<not> is_mtc0 (idex_inst d)" by blast
  then show thesis
  proof cases
    case 1
    then have "idex_inst d = 0" by (simp add: bubble_def zero_id_ex_def)
    with assms(2,3) 1 show thesis
      by (intro that(1)) (auto simp: isa_do_def isa_exec_nop is_mfc0_def is_mtc0_def GET_OPCODE_def Let_def split: if_splits)
  next
    case 2
    with assms show thesis by (intro that(3)) (auto simp: ready_def isa_do_def Let_def split: if_splits)
  next
    case 3
    with assms x show thesis
      by (intro that(4)) (auto simp: ready_def isa_do_def moved_def move_ok_def Let_def split: if_splits)
  next
    case 4
    with assms x show thesis
      by (intro that(5)) (auto simp: ready_def isa_do_def moved_def move_ok_def Let_def split: if_splits)
  next
    case 5
    with assms(2,3) have ex: "isa_exec (idex_inst d) (i_regs a) (i_mem a) = Some (r', m')" "c' = i_cp0 a"
      "reads_ok (idex_inst d) (i_prev a)" "reads_ok (idex_inst d) (i_prev2 a)"
      by (auto simp: isa_do_def Let_def split: if_splits)
    with 5 assms(1) isa_exec_plain [OF ex(1)] show thesis by (intro that(2)) (auto simp: ready_def decoded_def)
  qed
qed

lemma ex_result_linking:
  assumes "linking d"
  shows "exmem_exception (ex_result d x) = EXC_None" "exmem_alu_res (ex_result d x) = idex_next_pc d + 4"
  using assms sint_bounds32 [of "idex_next_pc d + 4"]
  by (simp_all add: linking_def jal_table_def ex_result_def alu_def check_soverflow_def Let_def)

lemma linking_lines:
  assumes "linking d"
  shows "ex_dst d = REG_RA" "idex_c_reg_write d" "\<not> idex_c_mem_read d" "\<not> idex_c_mem_write d" "\<not> idex_c_mem_to_reg d"
  using assms by (simp_all add: linking_def jal_table_def ex_dst_def)

lemma ex_result_moving:
  assumes "moving d v"
  shows "exmem_exception (ex_result d x) = EXC_None" "exmem_alu_res (ex_result d x) = v"
  using assms by (simp_all add: moving_def move_table_def ex_result_def alu_def alu_r_type_def Let_def)

lemma moving_lines:
  assumes "moving d v"
  shows "ex_dst d = (if is_mfc0 (idex_inst d) then ucast (GET_RT (idex_inst d)) else ucast (GET_RD (idex_inst d) + 1))"
    "idex_c_reg_write d" "\<not> idex_c_mem_read d" "\<not> idex_c_mem_write d" "\<not> idex_c_mem_to_reg d"
    "ex_pc d pc = pc" "\<not> ex_taken d"
  using assms by (simp_all add: moving_def move_table_def ex_dst_def ex_pc_def ex_taken_def Let_def)

lemma bubble_lines:
  assumes "bubble d"
  shows "idex_inst d = 0" "ex_pc d pc = pc" "\<not> ex_taken d" "ex_dst d = 0" "\<not> idex_c_reg_write d"
    "\<not> idex_c_mem_read d" "\<not> idex_c_mem_to_reg d"
  using assms by (simp_all add: bubble_def zero_id_ex_def ex_pc_def ex_taken_def ex_dst_def)

lemma decoded_writes:
  assumes "decoded d r" and "plain (idex_inst d)"
  shows "unat (ex_dst d) < 32" "idex_c_reg_write d \<Longrightarrow> isa_writes (idex_inst d) (unat (ex_dst d))"
  using control_lines(1,4,6,7) [OF decoded_control [OF assms(1)]] fields_unat [OF assms(1)] assms(2)
  by (auto simp: ex_dst_def isa_writes_def class_defs Let_def)

lemma move_next:
  assumes "is_mfc0 inst \<or> is_mtc0 inst"
  shows "isa_next_pc inst npc r pc = pc" "\<not> isa_taken inst r" "quiet_inst inst" "\<not> may_transfer inst"
  using assms by (auto simp: isa_next_pc_def isa_taken_def is_mfc0_def is_mtc0_def quiet_inst_def may_transfer_def Let_def)

definition executes :: "id_ex_t \<Rightarrow> isa_t \<Rightarrow> ex_mem_t \<Rightarrow> (nat \<Rightarrow> u32) \<Rightarrow> cp0_t \<Rightarrow> mmu_t \<Rightarrow> bool" where
  "executes d a x r' c' m' \<longleftrightarrow> completes (ex_result d x) (i_regs a) (i_mem a) r' m'
     \<and> ex_cp0 (ex_result d x) (i_cp0 a) = c' \<and> quiet_ex (ex_result d x)
     \<and> ex_taken d = isa_taken (idex_inst d) (i_regs a)
     \<and> (\<forall>pc. ex_pc d pc = isa_next_pc (idex_inst d) (idex_next_pc d) (i_regs a) pc)"

lemma executes_alu:
  assumes "exmem_exception (ex_result d x) = EXC_None" "\<not> idex_c_mem_read d" "\<not> idex_c_mem_write d" "\<not> idex_c_mem_to_reg d"
    and "quiet_inst (idex_inst d)" "is_mtc0 (idex_inst d) \<or> unat (ex_dst d) < 32"
    and "isa_writes (idex_inst d) (unat (ex_dst d))" "idex_c_reg_write d"
    and "ex_taken d = isa_taken (idex_inst d) (i_regs a)"
    and "\<And>pc. ex_pc d pc = isa_next_pc (idex_inst d) (idex_next_pc d) (i_regs a) pc"
  shows "executes d a x (if is_mtc0 (idex_inst d) then i_regs a
       else isa_wr (i_regs a) (unat (ex_dst d)) (exmem_alu_res (ex_result d x)))
     (if is_mtc0 (idex_inst d) then (i_cp0 a)(unat (ex_dst d) := exmem_alu_res (ex_result d x)) else i_cp0 a) (i_mem a)"
  using assms completes_alu [of "ex_result d x" "i_regs a" "i_mem a"]
  by (auto simp: executes_def ex_cp0_def quiet_ex_def)

lemma ex_stage_isa:
  assumes "ready d a" and wf: "mmu_wf (i_mem a)" and "isa_do a = Some (r', c', m')"
    and cur: "i_cur a = idex_inst d" "i_cur_npc a = idex_next_pc d"
  shows "executes d a x r' c' m'"
  using assms(1) cur(1) assms(3)
proof (cases rule: isa_do_cases)
  case bubble
  note b = bubble_lines [OF bubble(1)] bubble_completes [OF bubble(1)]
  from b(8) [of x "i_regs a" "i_mem a"] bubble(2-) b(1-7) show ?thesis
    by (simp add: executes_def ex_cp0_def isa_next_pc_nop isa_taken_nop quiet_ex_def quiet_inst_def completes_def GET_OPCODE_def)
next
  case exec
  note c = exec_completes [OF exec(2) wf exec(5), of x]
  from c ex_pc_decoded [OF exec(2,1)] ex_taken_decoded [OF exec(2,1)] decoded_writes [OF exec(2,1)] exec(1,4)
    plain_not_move [OF exec(1)]
  show ?thesis by (simp add: executes_def quiet_ex_def quiet_inst_def completes_def ex_cp0_def plain_def)
next
  case link
  note l = linking_lines [OF link(2)] ex_result_linking [OF link(2), of x]
  have "ex_pc d pc = isa_next_pc (idex_inst d) (idex_next_pc d) (i_regs a) pc" for pc
    using link(1,2)
    by (auto simp: linking_def jal_table_def ex_pc_def ex_jump_addr_def jumps_to_rs_def isa_next_pc_def
        jump_target_def four_times GET_OPCODE_def Let_def)
  moreover have "ex_taken d = isa_taken (idex_inst d) (i_regs a)"
    using link(1,2) by (simp add: ex_taken_def isa_taken_def linking_def jal_table_def)
  moreover have "\<not> is_mtc0 (idex_inst d)" "quiet_inst (idex_inst d)" "isa_writes (idex_inst d) 31"
    using link(1) by (simp_all add: is_mtc0_def quiet_inst_def isa_writes_def)
  ultimately show ?thesis
    using executes_alu [of d x a] l link cur by simp
next
  case mfc0
  note l = moving_lines [OF mfc0(2)] ex_result_moving [OF mfc0(2), of x] and n = move_next [OF disjI1 [OF mfc0(1)]]
  have "\<not> is_mtc0 (idex_inst d)" "isa_writes (idex_inst d) (unat (GET_RT (idex_inst d)))"
    using mfc0(1) by (auto simp: is_mfc0_def is_mtc0_def isa_writes_def)
  then show ?thesis
    using executes_alu [of d x a] l mfc0 n by simp
next
  case mtc0
  note l = moving_lines [OF mtc0(2)] ex_result_moving [OF mtc0(2), of x] and n = move_next [OF disjI2 [OF mtc0(1)]]
  have "\<not> is_mfc0 (idex_inst d)" "isa_writes (idex_inst d) (unat (GET_RD (idex_inst d)) + 1)"
    using mtc0(1) by (auto simp: is_mfc0_def is_mtc0_def isa_writes_def)
  then show ?thesis
    using executes_alu [of d x a] l mtc0 n by simp
qed

section \<open>Decode\<close>

lemma interpret_id_decodes:
  assumes "ifid_exception (if_id core) = EXC_None" and "plain (ifid_inst (if_id core))"
  defines "d \<equiv> id_ex (interpret_id core)"
  shows "control_table d" "fields_latched d"
    "idex_rs_value d = regs core (unat (GET_RS (ifid_inst (if_id core))))"
    "idex_rt_value d = regs core (unat (GET_RT (ifid_inst (if_id core))))"
proof -
  define e where "e = (id_latch core)\<lparr>idex_exception := EXC_None\<rparr>"
  have e: "idex_inst e = ifid_inst (if_id core)" by (simp add: e_def)
  have d: "d = id_control_switch (core\<lparr>id_ex := e\<rparr>) (idex_inst e) (id_clear e)"
    using assms(1) by (simp add: d_def interpret_id_def interpret_id_control_def Let_def e_def)
  have p: "plain (idex_inst e)" using assms(2) e by simp
  show "control_table d" unfolding d by (rule id_control_switch_table [OF p])
  show "fields_latched d"
    unfolding d
    by (simp add: fields_latched_def id_control_switch_fields [OF p] Let_def)
      (simp add: e_def id_clear_def id_latch_def Let_def)
  show "idex_rs_value d = regs core (unat (GET_RS (ifid_inst (if_id core))))"
    "idex_rt_value d = regs core (unat (GET_RT (ifid_inst (if_id core))))"
    unfolding d id_control_switch_fields [OF p] by (simp_all add: e_def id_latch_def Let_def)
qed

lemma id_control_switch_mem_read:
  "idex_c_mem_read (id_control_switch core inst (id_clear d)) = is_load_op (GET_OPCODE inst)"
  by (cases "GET_OPCODE inst" rule: opcode_cases)
    (simp_all add: id_control_switch_def id_clear_def id_control_cp0_def is_load_op_def Let_def)

lemma id_control_switch_mem_write:
  "idex_c_mem_write (id_control_switch core inst (id_clear d)) = is_any_store_op (GET_OPCODE inst)"
  by (cases "GET_OPCODE inst" rule: opcode_cases)
    (simp_all add: id_control_switch_def id_clear_def id_control_cp0_def is_any_store_op_def is_store_op_def Let_def)

lemma id_control_switch_transfer:
  assumes "\<not> may_transfer (idex_inst d)"
  shows "\<not> idex_c_jump (id_control_switch core (idex_inst d) (id_clear d))"
    "\<not> idex_c_beq (id_control_switch core (idex_inst d) (id_clear d))"
    "\<not> idex_c_bne (id_control_switch core (idex_inst d) (id_clear d))"
  using assms
  by (auto simp: id_control_switch_def id_control_cp0_def id_clear_def may_transfer_def Let_def)

lemma id_control_switch_delay [simp]:
  "idex_is_branch_delay (id_control_switch core inst (id_clear d)) = idex_is_branch_delay d"
  by (simp add: id_control_switch_def id_control_cp0_def id_clear_def Let_def)

lemma interpret_id_common:
  assumes "ifid_exception (if_id core) = EXC_None"
  shows "idex_exception (id_ex (interpret_id core)) = EXC_None"
    "idex_next_pc (id_ex (interpret_id core)) = ifid_next_pc (if_id core)"
    "idex_is_branch_delay (id_ex (interpret_id core)) = ifid_is_branch_delay (if_id core)"
    "idex_c_mem_read (id_ex (interpret_id core)) = is_load_op (GET_OPCODE (ifid_inst (if_id core)))"
    "idex_c_mem_write (id_ex (interpret_id core)) = is_any_store_op (GET_OPCODE (ifid_inst (if_id core)))"
  using assms
  by (simp_all add: interpret_id_def interpret_id_control_def Let_def id_control_switch_mem_read id_control_switch_mem_write)
    (simp add: id_latch_def Let_def)

lemma interpret_id_transfer:
  assumes "ifid_exception (if_id core) = EXC_None" and "\<not> may_transfer (ifid_inst (if_id core))"
  shows "\<not> idex_c_jump (id_ex (interpret_id core))" "\<not> idex_c_beq (id_ex (interpret_id core))"
    "\<not> idex_c_bne (id_ex (interpret_id core))"
  using assms id_control_switch_transfer [of "(id_latch core)\<lparr>idex_exception := EXC_None\<rparr>"]
  by (simp_all add: interpret_id_def interpret_id_control_def Let_def)

lemma interpret_id_jal:
  assumes "ifid_exception (if_id core) = EXC_None" and "GET_OPCODE (ifid_inst (if_id core)) = OPCODE_JAL"
  shows "jal_table (id_ex (interpret_id core))"
    "idex_rs_value (id_ex (interpret_id core)) = ifid_next_pc (if_id core) + 4"
    "idex_rt_value (id_ex (interpret_id core)) = regs core (unat (GET_RT (ifid_inst (if_id core))))"
  using assms
  by (simp_all add: interpret_id_def interpret_id_control_def id_control_switch_def id_clear_def id_latch_def
      jal_table_def jump_target_def Let_def)

lemma interpret_id_move:
  assumes "ifid_exception (if_id core) = EXC_None" and "is_mfc0 (ifid_inst (if_id core)) \<or> is_mtc0 (ifid_inst (if_id core))"
  shows "moving (id_ex (interpret_id core)) (moved (ifid_inst (if_id core)) (regs core) (cp0 core))"
  using assms
  by (auto simp: interpret_id_def interpret_id_control_def id_control_switch_def id_control_cp0_def id_clear_def id_latch_def
      moving_def move_table_def moved_def is_mfc0_def is_mtc0_def unat_GET_RD_plus1 Let_def)

lemma eret_fields: "GET_OPCODE INSTRUCTION_ERET = OPCODE_CP0" "GET_RS INSTRUCTION_ERET = 16" "GET_RT INSTRUCTION_ERET = 0"
  by (simp_all add: GET_OPCODE_def GET_RS_def GET_RT_def)

lemma interpret_id_eret:
  assumes "ifid_exception (if_id core) = EXC_None" and "ifid_inst (if_id core) = INSTRUCTION_ERET" and "regs core 0 = 0"
  shows "eret_table (id_ex (interpret_id core))"
  using assms eret_fields
  by (simp add: interpret_id_def interpret_id_control_def id_control_switch_def id_control_cp0_def id_clear_def
      id_latch_def eret_table_def Let_def)

lemma interpret_id_hazard:
  assumes "ifid_exception (if_id core) = EXC_None"
  shows "load_use_hazard (id_ex (interpret_id core)) inst = isa_interlock (ifid_inst (if_id core)) inst"
proof (cases "is_load_op (GET_OPCODE (ifid_inst (if_id core)))")
  case True
  then have "plain (ifid_inst (if_id core))" by (auto simp: class_defs)
  with assms have "idex_rt (id_ex (interpret_id core)) = ucast (GET_RT (ifid_inst (if_id core)))"
    using interpret_id_decodes(2) [of core] by (simp add: fields_latched_def Let_def)
  moreover have "ucast (ucast (GET_RT i) :: u8) = GET_RT i" for i
    unfolding word_unat_eq_iff using unsigned_less [of "GET_RT i"]
    by (subst unsigned_ucast_eq) (simp add: take_bit_nat_eq_self_iff)
  ultimately show ?thesis
    using True assms by (simp add: load_use_hazard_def isa_interlock_def interpret_id_common)
qed (use assms in \<open>simp add: load_use_hazard_def isa_interlock_def interpret_id_common\<close>)

end
