(* ===== verification/Pipe_Refine.thy ===== *)
theory Pipe_Refine
  imports Forward_Refine
begin

unbundle bit_operations_syntax

text \<open>
  One tick of the pipeline simulates one step of the sequential machine.  A tick is
  split after the memory stage: the back of the pipeline retires what was pending, the
  front executes, decodes and fetches, and forwarding delivers the operands.
\<close>

section \<open>Fetch and the front stages\<close>

lemma interpret_if_ram:
  assumes "mmu_wf m" and "isa_load MEM_OP_WORD m (PC core) = Some inst"
  shows "interpret_if core m = Inr (if load_use_hazard (id_ex core) inst
     then core\<lparr>if_id := (if_id core)\<lparr>ifid_exception := EXC_None, ifid_inst := 0\<rparr>\<rparr>
     else core\<lparr>regs := (regs core)(REG_PC := PC core + 4),
       if_id := \<lparr>ifid_inst = inst, ifid_next_pc = PC core + 4, ifid_exception = EXC_None,
         ifid_BadVAddr = 0, ifid_is_branch_delay = False\<rparr>\<rparr>)"
  using assms by (simp add: interpret_if_def isa_load_def mmu_read_ram Let_def split: if_splits)

text \<open>
  The front of the pipeline after a quiet tick, before forwarding: \<open>pc\<close> is the address the
  execute stage leaves and \<open>inst\<close> the word fetched there.
\<close>

definition advances :: "core_t \<Rightarrow> core_t \<Rightarrow> u32 \<Rightarrow> u32 \<Rightarrow> bool" where
  "advances core core' pc inst \<longleftrightarrow> (let f = if_id core; f' = if_id core'; d' = id_ex core';
       wait = isa_interlock (ifid_inst f) inst in
     ex_mem core' = ex_result (id_ex core) (ex_mem core) \<and> mem_wb core' = mem_wb core
   \<and> (\<forall>i. i \<noteq> REG_PC \<longrightarrow> regs core' i = regs core i) \<and> cp0 core' = cp0 core
   \<and> PC core' = (if wait then pc else pc + 4)
   \<and> ifid_inst f' = (if wait then 0 else inst)
   \<and> ifid_next_pc f' = (if wait then ifid_next_pc f else pc + 4)
   \<and> ifid_exception f' = EXC_None \<and> idex_inst d' = ifid_inst f
   \<and> idex_next_pc d' = ifid_next_pc f \<and> idex_exception d' = EXC_None
   \<and> idex_c_mem_read d' = is_load_op (GET_OPCODE (ifid_inst f))
   \<and> idex_c_mem_write d' = is_any_store_op (GET_OPCODE (ifid_inst f))
   \<and> idex_is_branch_delay d' = (ifid_is_branch_delay f \<or> ex_taken (id_ex core))
   \<and> ifid_is_branch_delay f' = (wait \<and> (ifid_is_branch_delay f \<or> ex_taken (id_ex core)))
   \<and> (\<not> may_transfer (ifid_inst f) \<longrightarrow> \<not> idex_c_jump d' \<and> \<not> idex_c_beq d' \<and> \<not> idex_c_bne d')
   \<and> (GET_OPCODE (ifid_inst f) = OPCODE_JAL \<longrightarrow> jal_table d' \<and> idex_rs_value d' = idex_next_pc d' + 4
        \<and> idex_rt_value d' = regs core' (unat (GET_RT (ifid_inst f))))
   \<and> (is_mfc0 (ifid_inst f) \<or> is_mtc0 (ifid_inst f) \<longrightarrow> moving d' (moved (ifid_inst f) (regs core') (cp0 core')))
   \<and> (ifid_inst f = INSTRUCTION_ERET \<and> regs core 0 = 0 \<longrightarrow> eret_table d')
   \<and> (plain (ifid_inst f) \<longrightarrow> control_table d' \<and> fields_latched d' \<and> operands d' (regs core')))"

lemma front_stages:
  assumes wf: "mmu_wf m" and ex: "idex_exception (id_ex core) = EXC_None"
    and f: "ifid_exception (if_id core) = EXC_None"
    and ld: "isa_load MEM_OP_WORD m (ex_pc (id_ex core) (PC core)) = Some inst"
  shows "\<exists>core'. interpret_if (interpret_id (interpret_ex core)) m = Inr core'
     \<and> advances core core' (ex_pc (id_ex core) (PC core)) inst"
proof -
  define c3 where "c3 = interpret_ex core"
  have c3: "regs c3 = (regs core)(REG_PC := ex_pc (id_ex core) (PC core))"
    "ifid_inst (if_id c3) = ifid_inst (if_id core)" "ifid_next_pc (if_id c3) = ifid_next_pc (if_id core)"
    "ifid_exception (if_id c3) = EXC_None" "mem_wb c3 = mem_wb core" "cp0 c3 = cp0 core"
    "ifid_is_branch_delay (if_id c3) = (ifid_is_branch_delay (if_id core) \<or> ex_taken (id_ex core))"
    "ex_mem c3 = ex_result (id_ex core) (ex_mem core)"
    using ex f by (simp_all add: c3_def interpret_ex_normal ex_result_def disj_commute)
  have pc: "PC (interpret_id c3) = ex_pc (id_ex core) (PC core)" using c3 by simp
  have hz: "load_use_hazard (id_ex (interpret_id c3)) inst = isa_interlock (ifid_inst (if_id core)) inst"
    using interpret_id_hazard [of c3] c3 by simp
  note if' = interpret_if_ram [OF wf, of "interpret_id c3" inst, unfolded pc hz, OF ld]
  obtain c5 where if5: "interpret_if (interpret_id c3) m = Inr c5" and c5:
    "c5 = (if isa_interlock (ifid_inst (if_id core)) inst
     then (interpret_id c3)\<lparr>if_id := (if_id (interpret_id c3))\<lparr>ifid_exception := EXC_None, ifid_inst := 0\<rparr>\<rparr>
     else (interpret_id c3)\<lparr>regs := (regs (interpret_id c3))(REG_PC := ex_pc (id_ex core) (PC core) + 4),
       if_id := \<lparr>ifid_inst = inst, ifid_next_pc = ex_pc (id_ex core) (PC core) + 4, ifid_exception = EXC_None,
         ifid_BadVAddr = 0, ifid_is_branch_delay = False\<rparr>\<rparr>)"
    using if' by blast
  have id5: "id_ex c5 = id_ex (interpret_id c3)" by (simp add: c5)
  have npc: "unat (GET_RS i) \<noteq> 32" "unat (GET_RT i) \<noteq> 32" for i
    by (simp_all add: less_imp_neq)
  have "control_table (id_ex c5) \<and> fields_latched (id_ex c5) \<and> operands (id_ex c5) (regs c5)"
    if "plain (ifid_inst (if_id core))"
    using interpret_id_decodes [of c3] that c3 npc by (simp add: id5 operands_def) (simp add: c5 c3)
  moreover have "\<not> idex_c_jump (id_ex c5) \<and> \<not> idex_c_beq (id_ex c5) \<and> \<not> idex_c_bne (id_ex c5)"
    if "\<not> may_transfer (ifid_inst (if_id core))"
    using interpret_id_transfer [of c3] that c3 by (simp add: id5)
  moreover have "jal_table (id_ex c5) \<and> idex_rs_value (id_ex c5) = idex_next_pc (id_ex c5) + 4
      \<and> idex_rt_value (id_ex c5) = regs c5 (unat (GET_RT (ifid_inst (if_id core))))"
    if "GET_OPCODE (ifid_inst (if_id core)) = OPCODE_JAL"
    using interpret_id_jal [of c3] that c3 npc by (simp add: id5 interpret_id_common) (simp add: c5 c3)
  moreover have "moving (id_ex c5) (moved (ifid_inst (if_id core)) (regs c5) (cp0 c5))"
    if "is_mfc0 (ifid_inst (if_id core)) \<or> is_mtc0 (ifid_inst (if_id core))"
  proof -
    have "moved (ifid_inst (if_id core)) (regs c5) (cp0 c5) = moved (ifid_inst (if_id core)) (regs c3) (cp0 c3)"
      using npc by (simp add: moved_def c5 c3)
    then show ?thesis using interpret_id_move [of c3] that c3 by (simp add: id5)
  qed
  moreover have "eret_table (id_ex c5)" if "ifid_inst (if_id core) = INSTRUCTION_ERET" "regs core 0 = 0"
    using interpret_id_eret [of c3] that c3 by (simp add: id5)
  ultimately have "advances core c5 (ex_pc (id_ex core) (PC core)) inst"
    unfolding advances_def Let_def
    by (intro conjI) (use c3 in \<open>simp_all add: c5 interpret_id_common\<close>)
  with if5 show ?thesis by (auto simp: c3_def)
qed

lemma completes_retired:
  assumes comp: "completes (ex_mem core) r m r' m'" and r: "r = gpr (commit (mem_wb core) (regs core))"
    and dst: "quiet_ex (ex_mem core)"
  shows "retired core m = (r', m')" "retires core m"
proof -
  have "\<forall>i<32. regs (retire_wb core) i = r i" "ex_mem (retire_wb core) = ex_mem core"
    by (simp_all add: r retire_wb_def)
  then obtain c' where c: "interpret_mem (retire_wb core) m = Inr (c', m')"
    "memwb_exception (mem_wb c') = EXC_None" "commit (mem_wb c') r = r'"
    using comp unfolding completes_def by blast
  have "regs c' = commit (mem_wb core) (regs core)" "memwb_reg_dst (mem_wb c') = exmem_reg_dst (ex_mem core)"
    "memwb_inst (mem_wb c') = exmem_inst (ex_mem core)"
    using interpret_mem_frame(1) [OF c(1)] interpret_mem_latch(1,2) [OF c(1)] by (simp_all add: retire_wb_def)
  then show "retired core m = (r', m')"
    using c dst by (simp add: retired_def gpr_commit r quiet_ex_def)
  show "retires core m" using c by (auto simp: retires_def)
qed

lemma operand_values_control [simp]:
  "control_table (d\<lparr>idex_rs_value := v\<rparr>) = control_table d" "control_table (d\<lparr>idex_rt_value := v\<rparr>) = control_table d"
  "fields_latched (d\<lparr>idex_rs_value := v\<rparr>) = fields_latched d" "fields_latched (d\<lparr>idex_rt_value := v\<rparr>) = fields_latched d"
  by (simp_all add: control_table_def fields_latched_def jump_target_def Let_def)

lemma forward_control:
  "forward_a core = Some c \<Longrightarrow> control_table (id_ex c) = control_table (id_ex core) \<and> fields_latched (id_ex c) = fields_latched (id_ex core)"
  "forward_b core = Some c \<Longrightarrow> control_table (id_ex c) = control_table (id_ex core) \<and> fields_latched (id_ex c) = fields_latched (id_ex core)"
  by (auto simp: forward_a_def forward_b_def Let_def split: if_splits)

lemma control_table_forward [simp]:
  "control_table (id_ex (forwarding_unit core)) = control_table (id_ex core)"
  "fields_latched (id_ex (forwarding_unit core)) = fields_latched (id_ex core)"
  by (auto simp: forwarding_unit_def split: option.split dest!: forward_control)

text \<open>Operands after forwarding are the register values once everything pending is retired.\<close>

lemma newest_gpr:
  assumes q: "quiet_ex (ex_mem core)" "quiet_wb (mem_wb core)"
    and mem: "interpret_mem (retire_wb core) m = Inr (c', m')"
    and ld: "exmem_c_mem_to_reg (ex_mem core) \<Longrightarrow> exmem_reg_dst (ex_mem core) \<noteq> 0 \<Longrightarrow> exmem_reg_dst (ex_mem core) \<noteq> ucast k"
    and ok: "gpr_ok (unat k) (exmem_inst (ex_mem core))" "gpr_ok (unat k) (memwb_inst (mem_wb core))"
    and k: "unat (ucast k :: u8) = unat k" "unat (k :: u32) < 32"
  shows "newest core (ucast k) (regs core (unat k)) = gpr (commit (mem_wb c') (regs c')) (unat k)"
proof -
  have "ex_hit core (ucast k) \<Longrightarrow> \<not> exmem_c_mem_to_reg (ex_mem core)" using ld by (auto simp: ex_hit_def)
  then show ?thesis using newest_retired [OF q mem, of "ucast k", unfolded k(1), OF _ ok] k(2) by simp
qed

lemma operands_forward:
  assumes fl: "fields_latched (id_ex core)" and op: "operands (id_ex core) (regs core)" and pl: "plain (idex_inst (id_ex core))"
    and q: "quiet_ex (ex_mem core)" "quiet_wb (mem_wb core)"
    and ok: "reads_ok (idex_inst (id_ex core)) (exmem_inst (ex_mem core))"
      "reads_ok (idex_inst (id_ex core)) (memwb_inst (mem_wb core))"
    and mem: "interpret_mem (retire_wb core) m = Inr (c', m')"
    and ld: "exmem_c_mem_to_reg (ex_mem core) \<Longrightarrow> exmem_reg_dst (ex_mem core) \<noteq> 0 \<Longrightarrow>
       exmem_reg_dst (ex_mem core) \<noteq> idex_rs (id_ex core) \<and> exmem_reg_dst (ex_mem core) \<noteq> idex_rt (id_ex core)"
  shows "operands (id_ex (forwarding_unit core)) (gpr (commit (mem_wb c') (regs c')))"
proof -
  let ?i = "idex_inst (id_ex core)"
  have f: "idex_rs (id_ex core) = ucast (GET_RS ?i)" "idex_rt (id_ex core) = ucast (GET_RT ?i)"
    using fl by (simp_all add: fields_latched_def Let_def)
  have rs: "newest core (ucast (GET_RS ?i)) (regs core (unat (GET_RS ?i))) = gpr (commit (mem_wb c') (regs c')) (unat (GET_RS ?i))"
    by (rule newest_gpr [OF q mem]) (use ld ok f in \<open>auto simp: reads_ok_def\<close>)
  have rt: "newest core (ucast (GET_RT ?i)) (regs core (unat (GET_RT ?i))) = gpr (commit (mem_wb c') (regs c')) (unat (GET_RT ?i))"
    by (rule newest_gpr [OF q mem]) (use ld ok f in \<open>auto simp: reads_ok_def\<close>)
  have legal: "ex_hit core r \<Longrightarrow> \<not> is_mtc0 (exmem_inst (ex_mem core))" "wb_hit core r \<Longrightarrow> \<not> is_mtc0 (memwb_inst (mem_wb core))"
    if "r \<in> {idex_rs (id_ex core), idex_rt (id_ex core)}" for r
    using hit_writes [OF q, of r] that ok f by (auto simp: reads_ok_def gpr_ok_def)
  have "forwarding_unit core = core\<lparr>id_ex := (id_ex core)
     \<lparr>idex_rs_value := newest core (idex_rs (id_ex core)) (idex_rs_value (id_ex core)),
      idex_rt_value := newest core (idex_rt (id_ex core)) (idex_rt_value (id_ex core))\<rparr>\<rparr>"
    by (rule forwarding_unit_newest)
      (use pl legal quiet_not_eret [of ?i] plain_not_move [OF pl] in \<open>auto simp: plain_def illegal_forward_def\<close>)
  then show ?thesis using op rs rt f by (simp add: operands_def)
qed

text \<open>The same for the value a move carries, and for the coprocessor register MFC0 reads.\<close>

lemma mtc0_forward:
  assumes mv: "moving (id_ex core) (regs core (unat (GET_RT (idex_inst (id_ex core)))))" and i: "is_mtc0 (idex_inst (id_ex core))"
    and q: "quiet_ex (ex_mem core)" "quiet_wb (mem_wb core)"
    and ok: "gpr_ok (unat (GET_RT (idex_inst (id_ex core)))) (exmem_inst (ex_mem core))"
      "gpr_ok (unat (GET_RT (idex_inst (id_ex core)))) (memwb_inst (mem_wb core))"
    and mem: "interpret_mem (retire_wb core) m = Inr (c', m')"
    and ld: "exmem_c_mem_to_reg (ex_mem core) \<Longrightarrow> exmem_reg_dst (ex_mem core) \<noteq> 0 \<Longrightarrow>
       exmem_reg_dst (ex_mem core) \<noteq> ucast (GET_RT (idex_inst (id_ex core)))"
  shows "moving (id_ex (forwarding_unit core)) (gpr (commit (mem_wb c') (regs c')) (unat (GET_RT (idex_inst (id_ex core)))))"
proof -
  let ?i = "idex_inst (id_ex core)"
  have nf: "\<not> is_mfc0 ?i" "GET_OPCODE ?i = OPCODE_CP0" using i by (simp_all add: is_mtc0_def is_mfc0_def)
  have f: "idex_rs (id_ex core) = ucast (GET_RT ?i)" "idex_rt (id_ex core) = 0"
    using mv nf by (simp_all add: moving_def move_table_def Let_def)
  have "newest core (ucast (GET_RT ?i)) (regs core (unat (GET_RT ?i))) = gpr (commit (mem_wb c') (regs c')) (unat (GET_RT ?i))"
    by (rule newest_gpr [OF q mem]) (use ld ok in auto)
  moreover have "newest core 0 v = v" for v by (simp add: newest_def ex_hit_def wb_hit_def)
  moreover have "forwarding_unit core = core\<lparr>id_ex := (id_ex core)
     \<lparr>idex_rs_value := newest core (idex_rs (id_ex core)) (idex_rs_value (id_ex core)),
      idex_rt_value := newest core (idex_rt (id_ex core)) (idex_rt_value (id_ex core))\<rparr>\<rparr>"
    by (rule forwarding_unit_newest) (use nf i move_not_eret [of ?i] in \<open>auto simp: illegal_forward_def\<close>)
  ultimately show ?thesis using mv f by (simp add: moving_def move_table_def Let_def)
qed

lemma mfc0_settled:
  assumes q: "quiet_ex (ex_mem core)" "quiet_wb (mem_wb core)"
    and ok: "mfc0_ok inst (exmem_inst (ex_mem core))" "mfc0_ok inst (memwb_inst (mem_wb core))"
  shows "retired_cp0 core (unat (GET_RD inst) + 1) = cp0 core (unat (GET_RD inst) + 1)"
proof -
  have "\<not> (memwb_c_reg_write (mem_wb core) \<and> is_mtc0 (memwb_inst (mem_wb core)) \<and> unat (memwb_reg_dst (mem_wb core)) = unat (GET_RD inst) + 1)"
    "\<not> (exmem_c_reg_write (ex_mem core) \<and> is_mtc0 (exmem_inst (ex_mem core)) \<and> unat (exmem_reg_dst (ex_mem core)) = unat (GET_RD inst) + 1)"
    using q ok by (auto simp: quiet_ex_def quiet_wb_def mfc0_ok_def is_mtc0_def)
  then show ?thesis by (auto simp: retired_cp0_def ex_cp0_def commit_cp0_def)
qed

lemma interlock_new:
  assumes "fields_latched d" and "idex_c_mem_read d = is_load_op (GET_OPCODE (idex_inst d))"
    and "inst' = (if isa_interlock (idex_inst d) inst then 0 else inst)"
  shows "interlocked d inst'"
proof (cases "isa_interlock (idex_inst d) inst")
  case True
  then show ?thesis using assms(3) by (simp add: interlocked_def GET_RS_def GET_RT_def)
next
  case False
  have u: "ucast (GET_RT i) = (ucast (GET_RS j) :: u8) \<longleftrightarrow> GET_RT i = GET_RS j"
    "ucast (GET_RT i) = (ucast (GET_RT j) :: u8) \<longleftrightarrow> GET_RT i = GET_RT j" for i j
    by (simp_all add: word_unat_eq_iff)
  from False assms show ?thesis
    by (auto simp: interlocked_def isa_interlock_def fields_latched_def Let_def u)
qed

lemma interlocked_forward [simp]: "interlocked (id_ex (forwarding_unit core)) i = interlocked (id_ex core) i"
  by (simp add: interlocked_def)

section \<open>One tick simulates one abstract step\<close>

text \<open>
  Between the memory and the execute stage of a tick; \<open>p\<close> is the instruction that has just
  been written back, whose latch the memory stage has overwritten.
\<close>

definition mid_abs :: "core_t \<Rightarrow> mmu_t \<Rightarrow> u32 \<Rightarrow> isa_t" where
  "mid_abs core mem p = \<lparr>i_regs = gpr (commit (mem_wb core) (regs core)), i_cp0 = commit_cp0 (mem_wb core) (cp0 core), i_mem = mem,
     i_cur = idex_inst (id_ex core), i_cur_npc = idex_next_pc (id_ex core),
     i_cur_bd = idex_is_branch_delay (id_ex core),
     i_nxt = ifid_inst (if_id core), i_nxt_npc = ifid_next_pc (if_id core),
     i_nxt_bd = ifid_is_branch_delay (if_id core), i_pc = PC core,
     i_prev = exmem_inst (ex_mem core), i_prev2 = p\<rparr>"

definition mid_rel :: "core_t \<Rightarrow> mmu_t \<Rightarrow> u32 \<Rightarrow> bool" where
  "mid_rel core mem p \<longleftrightarrow> mmu_wf mem \<and> regs core 0 = 0 \<and> quiet_wb (mem_wb core)
     \<and> memwb_inst (mem_wb core) = exmem_inst (ex_mem core)
     \<and> idex_exception (id_ex core) = EXC_None \<and> ifid_exception (if_id core) = EXC_None
     \<and> ready (id_ex core) (mid_abs core mem p)"

lemma mid_abs_sel [simp]:
  "i_mem (mid_abs c m p) = m" "i_cur (mid_abs c m p) = idex_inst (id_ex c)"
  "i_cur_npc (mid_abs c m p) = idex_next_pc (id_ex c)" "i_cur_bd (mid_abs c m p) = idex_is_branch_delay (id_ex c)"
  "i_nxt (mid_abs c m p) = ifid_inst (if_id c)" "i_nxt_npc (mid_abs c m p) = ifid_next_pc (if_id c)"
  "i_nxt_bd (mid_abs c m p) = ifid_is_branch_delay (if_id c)" "i_pc (mid_abs c m p) = PC c"
  "i_prev (mid_abs c m p) = exmem_inst (ex_mem c)" "i_prev2 (mid_abs c m p) = p"
  by (simp_all add: mid_abs_def)

lemma back_stages:
  assumes "pipe_rel core mem"
  shows "\<exists>c m. interpret_wb core g = Inr (retire_wb core, g)
     \<and> interpret_mem (retire_wb core) mem = Inr (c, m) \<and> mid_rel c m (memwb_inst (mem_wb core))
     \<and> mid_abs c m (memwb_inst (mem_wb core)) = pipe_abs core mem"
proof -
  let ?p = "memwb_inst (mem_wb core)"
  have q: "mmu_wf mem" "regs core 0 = 0" "quiet_wb (mem_wb core)" "quiet_ex (ex_mem core)"
    using assms by (simp_all add: pipe_rel_def)
  obtain c m where c: "interpret_mem (retire_wb core) mem = Inr (c, m)" "memwb_exception (mem_wb c) = EXC_None"
    using assms by (auto simp: pipe_rel_def retires_def)
  have fr: "regs c = commit (mem_wb core) (regs core)" "if_id c = if_id core" "id_ex c = id_ex core"
    "ex_mem c = ex_mem core" "cp0 c = commit_cp0 (mem_wb core) (cp0 core)"
    using interpret_mem_frame [OF c(1)] by (simp_all add: retire_wb_def)
  have "quiet_ex (ex_mem (retire_wb core))" "ex_mem (retire_wb core) = ex_mem core" using q(4) by (simp_all add: retire_wb_def)
  note cp = latched_cp0 [OF c(1) this(1), unfolded this(2)]
  have "PC c = PC core" using q(3) by (auto simp: fr commit_def isa_wr_def quiet_wb_def)
  then have abs: "mid_abs c m ?p = pipe_abs core mem"
    by (simp add: mid_abs_def pipe_abs_def retired_def retired_cp0_def c fr cp)
  have "quiet_wb (mem_wb c)" "mmu_wf m" "regs c 0 = 0" "memwb_inst (mem_wb c) = exmem_inst (ex_mem c)"
    using q c(2) interpret_mem_latch [OF c(1)] interpret_mem_wf [OF c(1)]
    by (simp_all add: quiet_wb_def quiet_ex_def retire_wb_def fr commit_zero)
  then have "mid_rel c m ?p"
    using assms by (simp add: mid_rel_def pipe_rel_def fr abs)
  with c(1) abs q show ?thesis by (simp add: interpret_wb_quiet)
qed

lemma retiresE:
  assumes "retires core mem"
  obtains c m where "interpret_mem (retire_wb core) mem = Inr (c, m)" "memwb_exception (mem_wb c) = EXC_None"
    "retired core mem = (gpr (commit (mem_wb c) (regs c)), m)"
  using assms by (auto simp: retires_def retired_def)

lemma mid_ex_stage:
  assumes "mid_rel c m p" and "isa_do (mid_abs c m p) = Some (r', k, m')"
  shows "executes (id_ex c) (mid_abs c m p) x r' k m'"
  using ex_stage_isa [of "id_ex c" "mid_abs c m p" r' k m'] assms by (simp add: mid_rel_def)

lemma advances_retired:
  assumes rel: "mid_rel c m p" and ex: "isa_do (mid_abs c m p) = Some (r', k, m')"
    and adv: "advances c c5 pc inst"
  shows "quiet_ex (ex_mem c5)" "retires c5 m" "retired c5 m = (r', m')"
    "retires (forwarding_unit c5) m" "retired (forwarding_unit c5) m = (r', m')" "retired_cp0 c5 = k"
proof -
  have q: "quiet_wb (mem_wb c)" using rel by (simp add: mid_rel_def)
  have five: "ex_mem c5 = ex_result (id_ex c) (ex_mem c)" "mem_wb c5 = mem_wb c" "cp0 c5 = cp0 c"
    "\<forall>i. i \<noteq> REG_PC \<longrightarrow> regs c5 i = regs c i"
    using adv by (simp_all add: advances_def Let_def)
  note e = mid_ex_stage [OF rel ex, of "ex_mem c", unfolded executes_def]
  have "gpr (regs c5) = gpr (regs c)" using five(4) by (auto simp: gpr_def)
  then have "i_regs (mid_abs c m p) = gpr (commit (mem_wb c5) (regs c5))"
    using q five(2) by (simp add: mid_abs_def gpr_commit quiet_wb_def)
  then have comp: "completes (ex_mem c5) (gpr (commit (mem_wb c5) (regs c5))) m r' m'"
    using e five(1) by simp
  show quiet: "quiet_ex (ex_mem c5)" using e five(1) by simp
  show "retires c5 m" "retired c5 m = (r', m')"
    "retires (forwarding_unit c5) m" "retired (forwarding_unit c5) m = (r', m')"
    using completes_retired [of c5, OF comp refl] completes_retired [of "forwarding_unit c5" _ m r' m'] comp quiet
    by simp_all
  show "retired_cp0 c5 = k" using e five by (simp add: retired_cp0_def mid_abs_def)
qed

lemma load_not_forwarded:
  assumes "decoded d r" and "interlocked d inst" and "idex_c_mem_to_reg d" "ex_dst d \<noteq> 0"
  shows "ex_dst d \<noteq> ucast (GET_RS inst) \<and> ex_dst d \<noteq> ucast (GET_RT inst)"
proof -
  note ct = control_lines [OF decoded_control [OF assms(1)]]
  have ld: "is_load_op (GET_OPCODE (idex_inst d))" using assms(3) ct by simp
  then have "\<not> idex_c_reg_dst d" using ct class_disjoint(1,5) by blast
  then show ?thesis using assms(2,4) ct ld by (simp add: ex_dst_def interlocked_def)
qed

lemma ready_load:
  assumes "ready d a" and "isa_do a = Some (r', k, m')" and "i_cur a = idex_inst d"
    and "idex_c_mem_to_reg d" "ex_dst d \<noteq> 0"
  shows "ex_dst d \<noteq> ucast (GET_RS (i_nxt a)) \<and> ex_dst d \<noteq> ucast (GET_RT (i_nxt a))"
  using assms(1,3,2)
  by (cases rule: isa_do_cases)
    (use assms(4,5) load_not_forwarded linking_lines(5) moving_lines(5) bubble_lines(7) in blast)+

lemma advances_load:
  assumes "mid_rel c m p" and "isa_do (mid_abs c m p) = Some (r', k, m')" and "advances c c5 pc inst"
    and "exmem_c_mem_to_reg (ex_mem c5)" "exmem_reg_dst (ex_mem c5) \<noteq> 0"
  shows "exmem_reg_dst (ex_mem c5) \<noteq> ucast (GET_RS (ifid_inst (if_id c)))"
    "exmem_reg_dst (ex_mem c5) \<noteq> ucast (GET_RT (ifid_inst (if_id c)))"
  using ready_load [OF _ assms(2)] assms(1,3-5) by (simp_all add: mid_rel_def advances_def Let_def)

lemma advances_decoded:
  assumes rel: "mid_rel c m p" and ex: "isa_do (mid_abs c m p) = Some (r', k, m')"
    and adv: "advances c c5 pc inst" and pl: "plain (ifid_inst (if_id c))"
  shows "control_table (id_ex (forwarding_unit c5))" "fields_latched (id_ex (forwarding_unit c5))"
    "interlocked (id_ex (forwarding_unit c5)) (ifid_inst (if_id c5))"
    "reads_ok (ifid_inst (if_id c)) (idex_inst (id_ex c)) \<Longrightarrow> reads_ok (ifid_inst (if_id c)) (exmem_inst (ex_mem c)) \<Longrightarrow>
       operands (id_ex (forwarding_unit c5)) r'"
proof -
  note ret = advances_retired [OF rel ex adv]
  have d: "control_table (id_ex c5)" "fields_latched (id_ex c5)" "operands (id_ex c5) (regs c5)"
    "idex_inst (id_ex c5) = ifid_inst (if_id c)" "mem_wb c5 = mem_wb c" "exmem_inst (ex_mem c5) = idex_inst (id_ex c)"
    using adv pl by (simp_all add: advances_def Let_def)
  show "control_table (id_ex (forwarding_unit c5))" "fields_latched (id_ex (forwarding_unit c5))" using d by simp_all
  have "interlocked (id_ex c5) (ifid_inst (if_id c5))"
    by (rule interlock_new [of _ _ inst]) (use d adv in \<open>simp_all add: advances_def Let_def\<close>)
  then show "interlocked (id_ex (forwarding_unit c5)) (ifid_inst (if_id c5))" by simp
  obtain c' where c': "interpret_mem (retire_wb c5) m = Inr (c', m')" "gpr (commit (mem_wb c') (regs c')) = r'"
    using ret(2,3) by (auto elim: retiresE)
  have w: "quiet_wb (mem_wb c5)" "memwb_inst (mem_wb c5) = exmem_inst (ex_mem c)" using rel d(5) by (simp_all add: mid_rel_def)
  show "operands (id_ex (forwarding_unit c5)) r'"
    if "reads_ok (ifid_inst (if_id c)) (idex_inst (id_ex c))" "reads_ok (ifid_inst (if_id c)) (exmem_inst (ex_mem c))"
    unfolding c'(2) [symmetric]
    by (rule operands_forward [OF d(2,3) _ ret(1) w(1) _ _ c'(1)])
      (use pl d w that advances_load [OF rel ex adv] in \<open>auto simp: fields_latched_def Let_def\<close>)
qed

lemma advances_linking:
  assumes rel: "mid_rel c m p" and q: "quiet_ex (ex_mem c5)" and adv: "advances c c5 pc inst"
    and jal: "GET_OPCODE (ifid_inst (if_id c)) = OPCODE_JAL"
    and ok: "link_ok (ifid_inst (if_id c)) (idex_inst (id_ex c)) (exmem_inst (ex_mem c))"
  shows "linking (id_ex (forwarding_unit c5))"
proof -
  have d: "jal_table (id_ex c5)" "idex_rs_value (id_ex c5) = idex_next_pc (id_ex c5) + 4"
    "idex_rt_value (id_ex c5) = regs c5 0" "idex_inst (id_ex c5) = ifid_inst (if_id c)"
    "mem_wb c5 = mem_wb c" "exmem_inst (ex_mem c5) = idex_inst (id_ex c)" "regs c5 0 = regs c 0"
    using adv jal ok by (simp_all add: advances_def link_ok_def Let_def)
  have r: "quiet_wb (mem_wb c)" "regs c 0 = 0" "memwb_inst (mem_wb c) = exmem_inst (ex_mem c)"
    using rel by (simp_all add: mid_rel_def)
  have "forwarding_unit c5 = c5"
    by (rule forwarding_unit_link [OF q]) (use d r ok in simp_all)
  then show ?thesis using d r by (simp add: linking_def)
qed

lemma advances_moving:
  assumes rel: "mid_rel c m p" and ex: "isa_do (mid_abs c m p) = Some (r', k, m')" and adv: "advances c c5 pc inst"
    and mv: "is_mfc0 (ifid_inst (if_id c)) \<or> is_mtc0 (ifid_inst (if_id c))"
    and ok: "move_ok (ifid_inst (if_id c)) (idex_inst (id_ex c))" "move_ok (ifid_inst (if_id c)) (exmem_inst (ex_mem c))"
  shows "moving (id_ex (forwarding_unit c5)) (moved (ifid_inst (if_id c)) r' k)"
proof -
  note ret = advances_retired [OF rel ex adv]
  let ?i = "ifid_inst (if_id c)"
  have "moving (id_ex c5) (moved ?i (regs c5) (cp0 c5))" using adv mv unfolding advances_def Let_def by blast
  moreover have "idex_inst (id_ex c5) = ?i" "mem_wb c5 = mem_wb c" "exmem_inst (ex_mem c5) = idex_inst (id_ex c)"
    using adv by (simp_all add: advances_def Let_def)
  ultimately have d: "moving (id_ex c5) (moved ?i (regs c5) (cp0 c5))" "idex_inst (id_ex c5) = ?i" "mem_wb c5 = mem_wb c"
    "exmem_inst (ex_mem c5) = idex_inst (id_ex c)" by blast+
  have w: "quiet_wb (mem_wb c5)" "memwb_inst (mem_wb c5) = exmem_inst (ex_mem c)" using rel d(3) by (simp_all add: mid_rel_def)
  obtain c' where c': "interpret_mem (retire_wb c5) m = Inr (c', m')" "gpr (commit (mem_wb c') (regs c')) = r'"
    using ret(2,3) by (auto elim: retiresE)
  show ?thesis
  proof (cases "is_mfc0 ?i")
    case True
    have "forwarding_unit c5 = c5"
      by (rule forwarding_unit_mfc0 [OF ret(1) w(1)]) (use d w True ok in \<open>simp_all add: moving_def move_ok_def\<close>)
    moreover have "k (unat (GET_RD ?i) + 1) = cp0 c5 (unat (GET_RD ?i) + 1)"
      using mfc0_settled [OF ret(1) w(1), of ?i] d w True ok ret(6) by (simp add: move_ok_def)
    ultimately show ?thesis using d True by (simp add: moved_def)
  next
    case False
    then have mt: "is_mtc0 ?i" using mv by blast
    have "moving (id_ex (forwarding_unit c5)) (gpr (commit (mem_wb c') (regs c')) (unat (GET_RT (idex_inst (id_ex c5)))))"
      by (rule mtc0_forward [OF _ _ ret(1) w(1) _ _ c'(1)])
        (use d w mt False ok advances_load(2) [OF rel ex adv] in \<open>auto simp: moved_def move_ok_def\<close>)
    then show ?thesis using d False c'(2) by (simp add: moved_def)
  qed
qed

lemma advances_abs:
  assumes rel: "mid_rel c m p" and ex: "isa_do (mid_abs c m p) = Some (r', k, m')"
    and adv: "advances c c5 pc inst"
  defines "wait \<equiv> isa_interlock (ifid_inst (if_id c)) inst"
    and "bd \<equiv> ifid_is_branch_delay (if_id c) \<or> isa_taken (idex_inst (id_ex c)) (i_regs (mid_abs c m p))"
  shows "pipe_abs (forwarding_unit c5) m = \<lparr>i_regs = r', i_cp0 = k, i_mem = m', i_cur = ifid_inst (if_id c),
     i_cur_npc = ifid_next_pc (if_id c), i_cur_bd = bd, i_nxt = (if wait then 0 else inst),
     i_nxt_npc = (if wait then ifid_next_pc (if_id c) else pc + 4), i_nxt_bd = (wait \<and> bd),
     i_pc = (if wait then pc else pc + 4), i_prev = idex_inst (id_ex c), i_prev2 = exmem_inst (ex_mem c)\<rparr>"
proof -
  have i: "memwb_inst (mem_wb c) = exmem_inst (ex_mem c)" using rel by (simp add: mid_rel_def)
  have t: "ex_taken (id_ex c) = isa_taken (idex_inst (id_ex c)) (i_regs (mid_abs c m p))"
    using mid_ex_stage [OF rel ex] by (simp add: executes_def)
  have k: "retired_cp0 (forwarding_unit c5) = k"
    using advances_retired(6) [OF rel ex adv] by (simp add: retired_cp0_def)
  from adv i k show ?thesis
    unfolding advances_def Let_def t wait_def bd_def
    by (simp add: pipe_abs_def advances_retired(5) [OF rel ex adv] cong: if_cong)
qed

lemma advances_rel:
  assumes rel: "mid_rel c m p" and ex: "isa_do (mid_abs c m p) = Some (r', k, m')"
    and adv: "advances c c5 pc inst"
  shows "pipe_rel (forwarding_unit c5) m"
proof -
  let ?d = "id_ex (forwarding_unit c5)" and ?a = "pipe_abs (forwarding_unit c5) m"
  note ret = advances_retired [OF rel ex adv]
  have inst: "idex_inst ?d = ifid_inst (if_id c)" using adv by (simp add: advances_def Let_def)
  have a: "i_regs ?a = r'" "i_cp0 ?a = k" "i_prev ?a = idex_inst (id_ex c)" "i_prev2 ?a = exmem_inst (ex_mem c)"
    "i_nxt ?a = ifid_inst (if_id c5)"
    using adv by (simp_all add: advances_abs [OF rel ex adv] advances_def Let_def)
  have "control_table ?d \<and> fields_latched ?d \<and> interlocked ?d (i_nxt ?a)
      \<and> (reads_ok (idex_inst ?d) (i_prev ?a) \<and> reads_ok (idex_inst ?d) (i_prev2 ?a) \<longrightarrow> operands ?d (i_regs ?a))"
    if "plain (idex_inst ?d)"
    using advances_decoded [OF rel ex adv] that by (simp only: inst a) blast
  moreover have "linking ?d" if "GET_OPCODE (idex_inst ?d) = OPCODE_JAL" "link_ok (idex_inst ?d) (i_prev ?a) (i_prev2 ?a)"
    using advances_linking [OF rel ret(1) adv] that by (simp only: inst a)
  moreover have "moving ?d (moved (idex_inst ?d) (i_regs ?a) (i_cp0 ?a))"
    if "is_mfc0 (idex_inst ?d) \<or> is_mtc0 (idex_inst ?d)" "move_ok (idex_inst ?d) (i_prev ?a)" "move_ok (idex_inst ?d) (i_prev2 ?a)"
    using advances_moving [OF rel ex adv] that by (simp only: inst a)
  moreover have "eret_table ?d" if "idex_inst ?d = INSTRUCTION_ERET"
    using adv rel that by (simp add: forwarding_unit_eret advances_def mid_rel_def Let_def)
  ultimately have "ready ?d ?a" by (simp only: ready_def) blast
  moreover have "regs c5 0 = 0" using rel adv by (simp add: mid_rel_def advances_def Let_def)
  ultimately show ?thesis
    using ret rel adv by (auto simp: pipe_rel_def mid_rel_def advances_def Let_def)
qed

lemma tick_core_simulates:
  assumes rel: "pipe_rel core mem" and step: "isa_step (pipe_abs core mem) = Some a"
  shows "\<exists>core' mem'. tick_core core mem g = Inr (core', mem', g) \<and> pipe_rel core' mem'
     \<and> pipe_abs core' mem' = a"
proof -
  let ?p = "memwb_inst (mem_wb core)"
  obtain c m where c: "interpret_wb core g = Inr (retire_wb core, g)"
    "interpret_mem (retire_wb core) mem = Inr (c, m)" "mid_rel c m ?p" "mid_abs c m ?p = pipe_abs core mem"
    using back_stages [OF rel] by blast
  let ?s = "mid_abs c m ?p"
  let ?npc = "isa_next_pc (idex_inst (id_ex c)) (idex_next_pc (id_ex c)) (i_regs ?s) (PC c)"
  from step [folded c(4)] obtain r' k m' inst where ex: "isa_do ?s = Some (r', k, m')"
    and ld: "isa_load MEM_OP_WORD m ?npc = Some inst"
    by (auto simp: isa_step_def bind_eq_Some_conv Let_def)
  have npc: "ex_pc (id_ex c) (PC c) = ?npc" using mid_ex_stage [OF c(3) ex] by (simp add: executes_def)
  then have "isa_load MEM_OP_WORD m (ex_pc (id_ex c) (PC c)) = Some inst" using ld by simp
  then obtain c5 where c5: "interpret_if (interpret_id (interpret_ex c)) m = Inr c5" "advances c c5 ?npc inst"
    using front_stages [of m c inst] c(3) unfolding mid_rel_def npc by blast
  have "tick_core core mem g = Inr (forwarding_unit c5, m, g)"
    by (simp add: tick_core_def c c5(1) Let_def)
  moreover have "pipe_abs (forwarding_unit c5) m = a"
    using step [folded c(4)] ex ld advances_abs [OF c(3) ex c5(2)]
    by (simp add: isa_step_def Let_def cong: if_cong)
  ultimately show ?thesis using advances_rel [OF c(3) ex c5(2)] by blast
qed

end
