(* ===== verification/Machine.thy ===== *)
theory Machine
  imports Pipe_Refine
begin

unbundle bit_operations_syntax

text \<open>
  The simulated machine with one core as an implementation of the sequential machine:
  the tick simulation lifted to whole runs, and runs that start with an empty pipeline.
\<close>

section \<open>The machine with one core\<close>

definition hw_abs :: "hardware_t \<times> bool \<Rightarrow> isa_t" where
  "hw_abs s = pipe_abs (hd (cores (hw_cpu (fst s)))) (hw_mmu (fst s))"

definition hw_rel :: "bool \<Rightarrow> hardware_t \<times> bool \<Rightarrow> bool" where
  "hw_rel g s \<longleftrightarrow> snd s = g \<and> length (cores (hw_cpu (fst s))) = 1
     \<and> pipe_rel (hd (cores (hw_cpu (fst s)))) (hw_mmu (fst s))"

lemma hw_simulate:
  assumes "hw_rel g s" and "isa_step (hw_abs s) = Some a"
  shows "\<exists>t. hw_step s = Inr t \<and> hw_rel g t \<and> hw_abs t = a"
proof -
  obtain hw core where s: "s = (hw, g)" "cores (hw_cpu hw) = [core]" "pipe_rel core (hw_mmu hw)"
    using assms(1) by (cases s) (auto simp: hw_rel_def length_Suc_conv)
  from assms(2) have "isa_step (pipe_abs core (hw_mmu hw)) = Some a" by (simp add: hw_abs_def s)
  from tick_core_simulates [OF s(3) this, of g] obtain core' mem' where
    "tick_core core (hw_mmu hw) g = Inr (core', mem', g)" "pipe_rel core' mem'" "pipe_abs core' mem' = a" by blast
  then show ?thesis
    by (simp add: hw_step_def tick_def s hw_rel_def hw_abs_def)
qed

interpretation pipeline: forward_simulation hw_step isa_step hw_abs "hw_rel g"
  for g
  by unfold_locales (rule hw_simulate)

text \<open>A core whose pipeline registers are clear: after reset, an exception or ERET.\<close>

definition flushed :: "core_t \<Rightarrow> bool" where
  "flushed core \<longleftrightarrow> if_id core = zero_if_id \<and> id_ex core = zero_id_ex \<and> ex_mem core = zero_ex_mem
     \<and> mem_wb core = zero_mem_wb \<and> regs core 0 = 0"

definition isa_start :: "(nat \<Rightarrow> u32) \<Rightarrow> cp0_t \<Rightarrow> mmu_t \<Rightarrow> isa_t" where
  "isa_start r c m = \<lparr>i_regs = gpr r, i_cp0 = c, i_mem = m, i_cur = 0, i_cur_npc = 0, i_cur_bd = False, i_nxt = 0,
     i_nxt_npc = 0, i_nxt_bd = False, i_pc = r REG_PC, i_prev = 0, i_prev2 = 0\<rparr>"

lemma flushed_rel:
  assumes "flushed core" and "mmu_wf mem"
  shows "pipe_rel core mem" "pipe_abs core mem = isa_start (regs core) (cp0 core) mem"
  using assms
  by (simp_all add: flushed_def pipe_rel_def pipe_abs_def isa_start_def retires_def retired_def
      retired_cp0_def ex_cp0_def commit_cp0_def retire_wb_def commit_def interpret_mem_plain zero_defs quiet_wb_def
      quiet_ex_def quiet_inst_def bubble_def GET_OPCODE_def mem_latch_def ready_def)

text \<open>
  C1. The pipeline refines the sequential machine.  From any state with an empty
  pipeline, if the instruction-set machine can take \<open>n\<close> steps on the program in memory,
  then \<open>n\<close> clock ticks of the simulator complete without a fault and the pipeline then
  stands for exactly the abstract state reached: registers and memory after retiring
  what is in flight, the instructions in the delay slots, and the program counter.
\<close>

theorem pipeline_refines_isa:
  assumes "flushed core" and "mmu_wf mem"
    and "opt_iter isa_step n (isa_start (regs core) (cp0 core) mem) = Some a"
  shows "\<exists>hw'. res_iter hw_step n (\<lparr>hw_cpu = \<lparr>cores = [core]\<rparr>, hw_mmu = mem\<rparr>, g) = Inr (hw', g)
     \<and> pipe_abs (hd (cores (hw_cpu hw'))) (hw_mmu hw') = a"
proof -
  let ?s = "(\<lparr>hw_cpu = \<lparr>cores = [core]\<rparr>, hw_mmu = mem\<rparr>, g)"
  have "hw_rel g ?s" "hw_abs ?s = isa_start (regs core) (cp0 core) mem"
    using flushed_rel [OF assms(1,2)] by (simp_all add: hw_rel_def hw_abs_def)
  with pipeline.simulate_iter [of g ?s n a] assms(3) obtain t where
    "res_iter hw_step n ?s = Inr t" "hw_rel g t" "hw_abs t = a" by auto
  then show ?thesis by (cases t) (auto simp: hw_rel_def hw_abs_def)
qed

section \<open>A concrete run\<close>

lemma nop_opcode: "GET_OPCODE 0 = 0"
  by (simp add: GET_OPCODE_def)

lemma quiet_inst_nop [simp]: "quiet_inst 0"
  by (simp add: quiet_inst_def nop_opcode)

lemma isa_do_exec:
  assumes "GET_OPCODE (i_cur s) \<noteq> OPCODE_JAL" "GET_OPCODE (i_cur s) \<noteq> OPCODE_CP0"
    and "GET_OPCODE (i_prev s) \<noteq> OPCODE_CP0" "GET_OPCODE (i_prev2 s) \<noteq> OPCODE_CP0"
  shows "isa_do s = map_option (\<lambda>(r, m). (r, i_cp0 s, m)) (isa_exec (i_cur s) (i_regs s) (i_mem s))"
  using assms by (simp add: isa_do_def is_mfc0_def is_mtc0_def reads_ok_def gpr_ok_def)

lemma isa_do_link:
  assumes "GET_OPCODE (i_cur s) = OPCODE_JAL" and "link_ok (i_cur s) (i_prev s) (i_prev2 s)"
  shows "isa_do s = Some (isa_wr (i_regs s) 31 (i_cur_npc s + 4), i_cp0 s, i_mem s)"
  using assms by (simp add: isa_do_def)

lemmas isa_nop = isa_exec_nop isa_next_pc_nop isa_taken_nop nop_opcode

lemma demo_fetch:
  "isa_load MEM_OP_WORD demo_mem 0x80000000 = Some 0x2402000A"
  "isa_load MEM_OP_WORD demo_mem 0x80000004 = Some 0"
  "isa_load MEM_OP_WORD demo_mem 0x80000008 = Some 0"
  "isa_load MEM_OP_WORD demo_mem 0x80000080 = Some 0"
  by (simp_all add: isa_load_def demo_mem_backed) (simp_all add: demo_mem_def GET_BIGWORD_def SET_BIGWORD_def)

lemma demo_fields:
  "GET_OPCODE 0x2402000A = OPCODE_ADDIU" "GET_RS 0x2402000A = 0" "GET_RT 0x2402000A = 2"
  "SIGN_EXTEND (GET_IMM 0x2402000A) = 10"
  by (simp_all add: GET_OPCODE_def GET_RS_def GET_RT_def GET_IMM_def SIGN_EXTEND_def)

lemma demo_exec: "isa_exec 0x2402000A r m = Some (isa_wr r 2 (r 0 + 10), m)"
  by (simp add: demo_fields isa_exec_def isa_i_type_def is_load_op_def is_store_op_def Let_def)

lemma demo_next: "isa_next_pc 0x2402000A npc r pc = pc" "\<not> isa_taken 0x2402000A r"
  by (simp_all add: demo_fields isa_next_pc_def isa_taken_def Let_def)

lemma demo_no_interlock: "\<not> isa_interlock 0 inst" "\<not> isa_interlock 0x2402000A inst"
  by (simp_all add: isa_interlock_def is_load_op_def GET_OPCODE_def)

lemma demo_core_flushed: "flushed demo_core"
  by (simp add: flushed_def demo_core_def zero_core_def)

text \<open>A program that calls a function: \<open>jal\<close> with \<open>addiu $v0, $0, 10\<close> in its delay slot; the function returns.\<close>

definition call_mem :: mmu_t where
  "call_mem = demo_mem\<lparr>pmem := set_big MEM_OP_WORD (set_big MEM_OP_WORD (set_big MEM_OP_WORD (pmem demo_mem)
     0 0x0C000004) 4 0x2402000A) 16 0x03E00008\<rparr>"

lemma call_mem_wf: "mmu_wf call_mem"
  by (simp add: call_mem_def demo_mem_wf)

lemma call_backed:
  "ram_backed call_mem 0x80000000" "host_pos call_mem 0x80000000 = 0"
  "ram_backed call_mem 0x80000004" "host_pos call_mem 0x80000004 = 4"
  "ram_backed call_mem 0x80000008" "host_pos call_mem 0x80000008 = 8"
  "ram_backed call_mem 0x80000010" "host_pos call_mem 0x80000010 = 16"
  "ram_backed call_mem 0x80000014" "host_pos call_mem 0x80000014 = 20"
  by (simp_all add: ram_backed_def host_pos_def translate_vaddr_def translate_paddr_def demo_mem_def call_mem_def)

lemma call_fetch:
  "isa_load MEM_OP_WORD call_mem 0x80000000 = Some 0x0C000004"
  "isa_load MEM_OP_WORD call_mem 0x80000004 = Some 0x2402000A"
  "isa_load MEM_OP_WORD call_mem 0x80000008 = Some 0"
  "isa_load MEM_OP_WORD call_mem 0x80000010 = Some 0x03E00008"
  "isa_load MEM_OP_WORD call_mem 0x80000014 = Some 0"
  by (simp_all add: isa_load_def call_backed)
    (simp_all add: call_mem_def demo_mem_def GET_BIGWORD_def SET_BIGWORD_def)

lemma call_jal:
  "GET_OPCODE 0x0C000004 = OPCODE_JAL" "isa_taken 0x0C000004 r" "\<not> isa_interlock 0x0C000004 inst"
  "isa_next_pc 0x0C000004 0x80000004 r pc = 0x80000010" "link_ok 0x0C000004 0 0"
proof -
  show o: "GET_OPCODE 0x0C000004 = OPCODE_JAL" by (simp add: GET_OPCODE_def)
  then show "isa_taken 0x0C000004 r" "\<not> isa_interlock 0x0C000004 inst"
    by (simp_all add: isa_taken_def isa_interlock_def is_load_op_def)
  show "isa_next_pc 0x0C000004 0x80000004 r pc = 0x80000010"
    using o by (simp add: isa_next_pc_def GET_ADDRESS_def)
  show "link_ok 0x0C000004 0 0"
    by (simp add: link_ok_def isa_writes_def GET_RT_def GET_RS_def GET_RD_def GET_OPCODE_def GET_FUNCT_def)
qed

lemma call_jr:
  "GET_OPCODE 0x03E00008 = OPCODE_R" "isa_taken 0x03E00008 r" "\<not> isa_interlock 0x03E00008 inst"
  "isa_next_pc 0x03E00008 npc r pc = r 31" "r 0 = 0 \<Longrightarrow> isa_exec 0x03E00008 r m = Some (r, m)"
proof -
  have f: "GET_OPCODE 0x03E00008 = OPCODE_R" "GET_FUNCT 0x03E00008 = FUNCT_JR" "GET_RS 0x03E00008 = 31" "GET_RT 0x03E00008 = 0"
    by (simp_all add: GET_OPCODE_def GET_FUNCT_def GET_RS_def GET_RT_def)
  from f(1) show "GET_OPCODE 0x03E00008 = OPCODE_R" .
  show "isa_taken 0x03E00008 r" "\<not> isa_interlock 0x03E00008 inst" "isa_next_pc 0x03E00008 npc r pc = r 31"
    by (simp_all add: f isa_taken_def isa_interlock_def is_load_op_def isa_next_pc_def)
  show "isa_exec 0x03E00008 r m = Some (r, m)" if "r 0 = 0"
    using that sint_bounds32 [of "r 31"] by (simp add: f isa_exec_def no_overflow_def)
qed

lemma call_run: "opt_iter isa_step 5 (isa_start (regs demo_core) (cp0 demo_core) call_mem) = Some
   \<lparr>i_regs = isa_wr (isa_wr (gpr (regs demo_core)) 31 0x80000008) 2 10, i_cp0 = (\<lambda>_. 0), i_mem = call_mem, i_cur = 0,
    i_cur_npc = 0x80000018, i_cur_bd = True, i_nxt = 0, i_nxt_npc = 0x8000000C, i_nxt_bd = False,
    i_pc = 0x8000000C, i_prev = 0x03E00008, i_prev2 = 0x2402000A\<rparr>"
proof -
  have five: "(5 :: nat) = Suc (Suc (Suc (Suc (Suc 0))))" by simp
  show ?thesis
    unfolding five
    by (simp add: isa_start_def isa_step_def isa_do_exec isa_do_link demo_core_def call_fetch isa_nop demo_no_interlock
        demo_exec demo_next demo_fields call_jal call_jr isa_wr_def Let_def zero_core_def)
qed

theorem pipeline_refines_isa_witness:
  "flushed demo_core \<and> mmu_wf call_mem
   \<and> (\<exists>hw'. res_iter hw_step 5 (\<lparr>hw_cpu = \<lparr>cores = [demo_core]\<rparr>, hw_mmu = call_mem\<rparr>, False) = Inr (hw', False)
        \<and> i_regs (pipe_abs (hd (cores (hw_cpu hw'))) (hw_mmu hw')) 31 = 0x80000008
        \<and> i_regs (pipe_abs (hd (cores (hw_cpu hw'))) (hw_mmu hw')) REG_V0 = 10
        \<and> i_pc (pipe_abs (hd (cores (hw_cpu hw'))) (hw_mmu hw')) = 0x8000000C)"
  using pipeline_refines_isa [OF demo_core_flushed call_mem_wf call_run, of False]
    demo_core_flushed call_mem_wf
  by (auto simp: isa_wr_def)

end
