(* ===== verification/Traps.thy ===== *)
theory Traps
  imports Machine
begin

unbundle bit_operations_syntax

text \<open>
  Exceptions, return from exceptions and the exit system call, at the level of whole
  ticks: what they keep, what they record, and where the machine continues.
\<close>

section \<open>Exceptions\<close>

lemma tick_core_after_wb:
  assumes "interpret_wb core g = Inr (c, g')" and "flushed c"
  shows "tick_core core mem g = tick_core c mem g'"
proof -
  have "interpret_wb c g' = Inr (c, g')"
    using interpret_wb_quiet [of c g'] assms(2)
    by (simp add: flushed_def quiet_wb_def quiet_inst_def zero_mem_wb_def GET_OPCODE_def retire_wb_def commit_def commit_cp0_def)
  with assms(1) show ?thesis by (simp add: tick_core_def)
qed

lemma interpret_ex_cp0 [simp]: "cp0 (interpret_ex core) = cp0 core"
  by (cases "idex_exception (id_ex core) = EXC_None") (simp_all add: interpret_ex_normal interpret_ex_exception)

lemma tick_core_cp0:
  assumes "tick_core core mem g = Inr (core', mem', g')" and "interpret_wb core g = Inr (c, g'')"
  shows "cp0 core' = cp0 c \<and> g'' = g'"
proof -
  obtain c1 c2 c3 where t: "interpret_wb core g = Inr (c1, g')" "interpret_mem c1 mem = Inr (c2, mem')"
    "interpret_if (interpret_id (interpret_ex c2)) mem' = Inr c3" "core' = forwarding_unit c3"
    using assms(1) by (rule tick_coreE)
  then show ?thesis
    using assms(2) interpret_mem_frame(2) [OF t(2)] interpret_if_frame(1) [OF t(3)] by simp
qed

lemma tick_core_mem:
  assumes "tick_core core mem g = Inr (core', mem', g')" and "interpret_wb core g = Inr (c, g'')"
    and "exmem_exception (ex_mem c) \<noteq> EXC_None \<or> \<not> exmem_c_mem_write (ex_mem c)"
  shows "mem' = mem"
proof -
  obtain c1 c2 where "interpret_wb core g = Inr (c1, g')" "interpret_mem c1 mem = Inr (c2, mem')"
    using assms(1) by (rule tick_coreE)
  then show ?thesis
    using assms(2,3) by (auto simp: interpret_mem_def Let_def bind_res_eq_Inr split: if_splits)
qed

lemma isa_step_start:
  assumes "isa_load MEM_OP_WORD m (r REG_PC) = Some inst"
  shows "isa_step (isa_start r c m) = Some (isa_fetched (gpr r) c m inst (r REG_PC))"
  using assms
  by (simp add: isa_step_def isa_do_exec isa_start_def isa_fetched_def isa_nop isa_interlock_def is_load_op_def Let_def)

text \<open>A tick that starts by flushing the pipeline restarts the machine at its program counter.\<close>

lemma tick_restarts:
  assumes wb: "interpret_wb core g = Inr (c, g')" and fl: "flushed c" and "mmu_wf mem"
    and "isa_load MEM_OP_WORD mem (PC c) = Some inst"
  shows "\<exists>core'. tick_core core mem g = Inr (core', mem, g')
     \<and> pipe_rel core' mem \<and> pipe_abs core' mem = isa_fetched (gpr (regs c)) (cp0 c) mem inst (PC c)"
proof -
  note rel = flushed_rel [OF fl assms(3)]
  from tick_core_simulates [OF rel(1), unfolded rel(2), OF isa_step_start [of mem "regs c" _ "cp0 c", OF assms(4)], of g']
  obtain core' mem' where t: "tick_core c mem g' = Inr (core', mem', g')" "pipe_rel core' mem'"
    "pipe_abs core' mem' = isa_fetched (gpr (regs c)) (cp0 c) mem inst (PC c)" by blast
  have tk: "tick_core core mem g = Inr (core', mem', g')" using t(1) tick_core_after_wb [OF wb fl] by simp
  have "mem' = mem" using tick_core_mem [OF tk wb] fl by (simp add: flushed_def zero_ex_mem_def)
  then show ?thesis using tk t by auto
qed


lemma flushed_handle_exception: "regs core 0 = 0 \<Longrightarrow> flushed (handle_exception core)"
  by (simp add: flushed_def)

lemma flushed_eret: "regs core 0 = 0 \<Longrightarrow> flushed (eret core)"
  by (simp add: flushed_def)

definition exception_vector :: "cp0_t \<Rightarrow> u32" where
  "exception_vector c = (if c REG_SR AND SR_BEV \<noteq> 0 then c REG_EBASE else 0x80000080)"

definition exception_cp0 :: "mem_wb_t \<Rightarrow> cp0_t \<Rightarrow> cp0_t" where
  "exception_cp0 w c = (\<lambda>i. if i = REG_SR then c REG_SR OR SR_EXL
     else if i = REG_EPC then memwb_next_pc w
     else if i = REG_CAUSE then get_cause (memwb_exception w) (memwb_is_branch_delay w)
     else if i = REG_BADVADDR \<and> memwb_exception w = EXC_AddressErrorLoad then memwb_BadVAddr w
     else c i)"

lemma or_exl_and_bev: "(x OR SR_EXL) AND SR_BEV = x AND SR_BEV"
  by (rule bit_word_eqI) (auto simp: bit_simps)

lemma handle_exception_regs:
  "PC (handle_exception core) = exception_vector (cp0 core)"
  "gpr (regs (handle_exception core)) = gpr (regs core)"
  "cp0 (handle_exception core) = exception_cp0 (mem_wb core) (cp0 core)"
  by (auto simp: handle_exception_def Let_def flush_front_def set_cp0_def exception_vector_def
      exception_cp0_def or_exl_and_bev fun_eq_iff)

text \<open>
  Exception entry: when an instruction that raised an exception reaches write-back,
  the tick changes neither general registers nor memory, records the address after the
  instruction, the cause and the exception level in coprocessor 0 and nothing else, and
  leaves the pipeline refining the sequential machine as it starts at the exception vector.
\<close>

lemma exception_entry:
  assumes "memwb_exception (mem_wb core) \<noteq> EXC_None" and "memwb_inst (mem_wb core) \<noteq> INSTRUCTION_ERET"
    and "memwb_exception (mem_wb core) = EXC_Syscall \<longrightarrow> regs core REG_V0 \<noteq> 10"
    and "regs core 0 = 0" and "mmu_wf mem"
    and "isa_load MEM_OP_WORD mem (exception_vector (cp0 core)) = Some inst"
  shows "\<exists>core'. tick_core core mem g = Inr (core', mem, g)
     \<and> pipe_rel core' mem \<and> pipe_abs core' mem =
         isa_fetched (gpr (regs core)) (exception_cp0 (mem_wb core) (cp0 core)) mem inst (exception_vector (cp0 core))"
proof -
  have "interpret_wb core g = Inr (handle_exception core, g)"
    using assms(1-3) by (auto simp: interpret_wb_def)
  from tick_restarts [OF this flushed_handle_exception [OF assms(4)] assms(5)] assms(6)
  show ?thesis unfolding handle_exception_regs by blast
qed

text \<open>
  Return from exception: when ERET reaches write-back, the tick clears the exception
  level, keeps registers and memory, and leaves the pipeline refining the sequential
  machine as it starts at the saved program counter.
\<close>

lemma eret_resumes:
  assumes "memwb_inst (mem_wb core) = INSTRUCTION_ERET" and "regs core 0 = 0" and "mmu_wf mem"
    and "isa_load MEM_OP_WORD mem (cp0 core REG_EPC) = Some inst"
  shows "\<exists>core'. tick_core core mem g = Inr (core', mem, g)
     \<and> pipe_rel core' mem \<and> pipe_abs core' mem =
         isa_fetched (gpr (regs core)) ((cp0 core)(REG_SR := cp0 core REG_SR AND NOT SR_EXL)) mem inst (cp0 core REG_EPC)"
proof -
  have "interpret_wb core g = Inr (eret core, g)"
    using assms(1) by (simp add: interpret_wb_def)
  from tick_restarts [OF this flushed_eret [OF assms(2)] assms(3), of inst] assms(4)
  show ?thesis by simp
qed

lemma tick_core_gpr:
  assumes "tick_core core mem g = Inr (core', mem', g')" and "interpret_wb core g = Inr (c, g'')"
  shows "gpr (regs core') = gpr (regs c)"
proof -
  obtain c1 c2 c3 where t: "interpret_wb core g = Inr (c1, g')" "interpret_mem c1 mem = Inr (c2, mem')"
    "interpret_if (interpret_id (interpret_ex c2)) mem' = Inr c3" "core' = forwarding_unit c3"
    using assms(1) by (rule tick_coreE)
  have "gpr (regs (interpret_ex c2)) = gpr (regs c2)"
    by (cases "idex_exception (id_ex c2) = EXC_None") (simp_all add: interpret_ex_normal interpret_ex_exception)
  moreover have "gpr (regs c3) = gpr (regs (interpret_ex c2))"
    using interpret_if_frame(5) [OF t(3)] by (auto simp: gpr_def fun_eq_iff)
  ultimately show ?thesis
    using t assms(2) interpret_mem_frame(1) [OF t(2)] by simp
qed

lemma tick_core_memwb:
  assumes "tick_core core mem g = Inr (core', mem', g')" and "interpret_wb core g = Inr (c, g'')"
    and "exmem_exception (ex_mem c) \<noteq> EXC_None"
  shows "memwb_exception (mem_wb core') = exmem_exception (ex_mem c)
     \<and> memwb_next_pc (mem_wb core') = exmem_next_pc (ex_mem c)
     \<and> memwb_inst (mem_wb core') = exmem_inst (ex_mem c)
     \<and> memwb_is_branch_delay (mem_wb core') = exmem_is_branch_delay (ex_mem c)"
proof -
  obtain c1 c2 c3 where t: "interpret_wb core g = Inr (c1, g')" "interpret_mem c1 mem = Inr (c2, mem')"
    "interpret_if (interpret_id (interpret_ex c2)) mem' = Inr c3" "core' = forwarding_unit c3"
    using assms(1) by (rule tick_coreE)
  have "mem_wb (interpret_ex c2) = mem_wb c2"
    by (cases "idex_exception (id_ex c2) = EXC_None") (simp_all add: interpret_ex_normal interpret_ex_exception)
  moreover have "mem_wb c3 = mem_wb (interpret_ex c2)" using interpret_if_frame(4) [OF t(3)] by simp
  moreover have "c1 = c" using t(1) assms(2) by simp
  ultimately show ?thesis
    using t(2,4) assms(3) by (auto simp: interpret_mem_def mem_latch_def Let_def)
qed

text \<open>
  C7. Precise exceptions: two ticks after an exception is raised in the execute stage,
  registers hold what the instructions before the faulting one wrote and memory is
  untouched; the faulting instruction and those behind it had no effect.  The cause and the
  branch-delay flag are those of the faulting instruction; the saved program counter is the
  address after it, not its own.
\<close>

theorem precise_exception:
  assumes "regs core 0 = 0" and "quiet_wb (mem_wb core)"
    and "exmem_exception (ex_mem core) \<noteq> EXC_None" and "exmem_inst (ex_mem core) \<noteq> INSTRUCTION_ERET"
    and "exmem_exception (ex_mem core) = EXC_Syscall \<longrightarrow> commit (mem_wb core) (regs core) REG_V0 \<noteq> 10"
    and t1: "tick_core core mem g = Inr (c1, m1, g1)" and t2: "tick_core c1 m1 g1 = Inr (c2, m2, g2)"
  shows "m2 = mem \<and> g2 = g \<and> gpr (regs c2) = gpr (commit (mem_wb core) (regs core))
     \<and> cp0 c2 REG_EPC = exmem_next_pc (ex_mem core)
     \<and> cp0 c2 REG_CAUSE = get_cause (exmem_exception (ex_mem core)) (exmem_is_branch_delay (ex_mem core))"
proof -
  have wb1: "interpret_wb core g = Inr (retire_wb core, g)" by (rule interpret_wb_quiet [OF assms(2,1)])
  have ex: "ex_mem (retire_wb core) = ex_mem core" by (simp add: retire_wb_def)
  have g1: "g1 = g" using tick_core_cp0 [OF t1 wb1] by simp
  have m1: "m1 = mem" using tick_core_mem [OF t1 wb1] assms(3) ex by simp
  have r1: "gpr (regs c1) = gpr (commit (mem_wb core) (regs core))"
    using tick_core_gpr [OF t1 wb1] by (simp add: retire_wb_def)
  note w1 = tick_core_memwb [OF t1 wb1, unfolded ex, OF assms(3)]
  have "regs c1 REG_V0 = commit (mem_wb core) (regs core) REG_V0"
    using fun_cong [OF r1, of 2] by (simp add: gpr_def)
  then have wb2: "interpret_wb c1 g1 = Inr (handle_exception c1, g1)"
    using w1 assms(3-5) by (auto simp: interpret_wb_def)
  show ?thesis
    using tick_core_cp0 [OF t2 wb2] tick_core_gpr [OF t2 wb2] tick_core_mem [OF t2 wb2] g1 m1 r1 w1
    by (simp add: handle_exception_regs exception_cp0_def zero_ex_mem_def)
qed

section \<open>A concrete exception\<close>

definition demo_fault :: core_t where
  "demo_fault = demo_core\<lparr>ex_mem := zero_ex_mem\<lparr>exmem_exception := EXC_ArithmeticOverflow,
     exmem_c_reg_write := True, exmem_reg_dst := 2, exmem_next_pc := 0x80000008\<rparr>\<rparr>"

lemma demo_fault_ticks:
  "\<exists>c1 m1 g1 c2 m2 g2. tick_core demo_fault demo_mem False = Inr (c1, m1, g1)
     \<and> tick_core c1 m1 g1 = Inr (c2, m2, g2)"
proof -
  have q: "quiet_wb (mem_wb demo_fault)" "regs demo_fault 0 = 0" "id_ex demo_fault = zero_id_ex"
    "if_id demo_fault = zero_if_id" "PC demo_fault = 0x80000000" "cp0 demo_fault = (\<lambda>_. 0)"
    "exmem_exception (ex_mem demo_fault) = EXC_ArithmeticOverflow" "exmem_inst (ex_mem demo_fault) = 0"
    by (simp_all add: demo_fault_def demo_core_def zero_core_def zero_defs quiet_wb_def GET_OPCODE_def)
  have wb: "interpret_wb demo_fault False = Inr (retire_wb demo_fault, False)"
    by (rule interpret_wb_quiet [OF q(1,2)])
  have r: "retire_wb demo_fault = demo_fault"
    by (simp add: retire_wb_def commit_def commit_cp0_def demo_fault_def demo_core_def zero_core_def zero_mem_wb_def)
  obtain c where c: "interpret_mem demo_fault demo_mem = Inr (c, demo_mem)"
    using q(7) by (auto simp: interpret_mem_def Let_def)
  have "isa_load MEM_OP_WORD demo_mem (ex_pc (id_ex c) (PC c)) = Some 0x2402000A"
    using interpret_mem_frame [OF c] q demo_fetch(1) by (simp add: ex_pc_def zero_id_ex_def)
  from front_stages [OF demo_mem_wf _ _ this] obtain c5 where
    c5: "interpret_if (interpret_id (interpret_ex c)) demo_mem = Inr c5"
    using interpret_mem_frame [OF c] q by (auto simp: zero_defs)
  have t1: "tick_core demo_fault demo_mem False = Inr (forwarding_unit c5, demo_mem, False)"
    by (simp add: tick_core_def wb r c c5 Let_def)
  let ?c = "forwarding_unit c5"
  have w: "memwb_exception (mem_wb ?c) = EXC_ArithmeticOverflow" "memwb_inst (mem_wb ?c) = 0"
    using tick_core_memwb [OF t1 wb] q r by simp_all
  have "regs ?c 0 = 0"
    using fun_cong [OF tick_core_gpr [OF t1 wb], of 0] q r by (simp add: gpr_def)
  moreover have "cp0 ?c = (\<lambda>_. 0)" using tick_core_cp0 [OF t1 wb] q r by simp
  moreover have "interpret_wb ?c False = Inr (handle_exception ?c, False)"
    using w by (simp add: interpret_wb_def)
  ultimately have "\<exists>c2. tick_core ?c demo_mem False = Inr (c2, demo_mem, False)"
    using tick_restarts [of ?c False "handle_exception ?c" False demo_mem 0] demo_mem_wf demo_fetch(4)
      flushed_handle_exception [of ?c]
    by (auto simp: handle_exception_regs exception_vector_def)
  with t1 show ?thesis by blast
qed

theorem precise_exception_witness:
  "\<exists>c1 m1 g1 c2. tick_core demo_fault demo_mem False = Inr (c1, m1, g1)
     \<and> tick_core c1 m1 g1 = Inr (c2, demo_mem, False) \<and> cp0 c2 REG_EPC = 0x80000008
     \<and> regs c2 REG_V0 = 0"
proof -
  obtain c1 m1 g1 c2 m2 g2 where t: "tick_core demo_fault demo_mem False = Inr (c1, m1, g1)"
    "tick_core c1 m1 g1 = Inr (c2, m2, g2)" using demo_fault_ticks by blast
  have q: "quiet_wb (mem_wb demo_fault)" "regs demo_fault 0 = 0" "regs demo_fault REG_V0 = 0"
    "exmem_exception (ex_mem demo_fault) = EXC_ArithmeticOverflow" "exmem_inst (ex_mem demo_fault) = 0"
    "exmem_next_pc (ex_mem demo_fault) = 0x80000008" "commit (mem_wb demo_fault) (regs demo_fault) = regs demo_fault"
    by (simp_all add: demo_fault_def demo_core_def zero_core_def zero_mem_wb_def zero_ex_mem_def
        quiet_wb_def GET_OPCODE_def commit_def)
  have p: "m2 = demo_mem \<and> g2 = False \<and> gpr (regs c2) = gpr (regs demo_fault) \<and> cp0 c2 REG_EPC = 0x80000008"
    using precise_exception [OF q(2,1) _ _ _ t] q by simp
  then have "gpr (regs c2) REG_V0 = 0" using q(3) by simp
  then have "regs c2 REG_V0 = 0" by (simp add: gpr_def)
  with p t show ?thesis by blast
qed

end
