(* ===== verification/Drain.thy ===== *)
theory Drain
  imports Traps
begin

unbundle bit_operations_syntax

text \<open>
  The two ticks an instruction that does not complete -- one that raises an exception,
  the exit call, or ERET -- spends in the pipeline before it reaches write-back: the
  instructions before it retire, it passes the memory stage without effect, and what is
  fetched behind it is never carried out.
\<close>

section \<open>The tick in which it executes\<close>

lemma pipe_tick:
  assumes "pipe_rel core mem"
  obtains c m p where "mid_rel c m p" "mid_abs c m p = pipe_abs core mem"
    "\<And>g inst. isa_load MEM_OP_WORD m (ex_pc (id_ex c) (PC c)) = Some inst \<Longrightarrow>
       \<exists>c5. tick_core core mem g = Inr (forwarding_unit c5, m, g) \<and> advances c c5 (ex_pc (id_ex c) (PC c)) inst"
proof -
  have "\<exists>c m. interpret_wb core g = Inr (retire_wb core, g)
     \<and> interpret_mem (retire_wb core) mem = Inr (c, m) \<and> mid_rel c m (memwb_inst (mem_wb core))
     \<and> mid_abs c m (memwb_inst (mem_wb core)) = pipe_abs core mem" for g
    by (rule back_stages [OF assms])
  then obtain c m where c: "\<And>g. interpret_wb core g = Inr (retire_wb core, g)"
    "interpret_mem (retire_wb core) mem = Inr (c, m)" "mid_rel c m (memwb_inst (mem_wb core))"
    "mid_abs c m (memwb_inst (mem_wb core)) = pipe_abs core mem" by fastforce
  have "\<exists>c5. tick_core core mem g = Inr (forwarding_unit c5, m, g) \<and> advances c c5 (ex_pc (id_ex c) (PC c)) inst"
    if ld: "isa_load MEM_OP_WORD m (ex_pc (id_ex c) (PC c)) = Some inst" for g inst
  proof -
    obtain c5 where c5: "interpret_if (interpret_id (interpret_ex c)) m = Inr c5"
      "advances c c5 (ex_pc (id_ex c) (PC c)) inst"
      using front_stages [OF _ _ _ ld] c(3) unfolding mid_rel_def by blast
    then have "tick_core core mem g = Inr (forwarding_unit c5, m, g)" by (simp add: tick_core_def c Let_def)
    with c5(2) show ?thesis by blast
  qed
  with c(3,4) show thesis by (rule that)
qed

section \<open>The tick in which it passes the memory stage\<close>

definition passed_on :: "ex_mem_t \<Rightarrow> exception_t \<Rightarrow> mem_wb_t \<Rightarrow> bool" where
  "passed_on x e w \<longleftrightarrow> memwb_inst w = exmem_inst x \<and> memwb_exception w = e
     \<and> memwb_next_pc w = exmem_next_pc x \<and> memwb_is_branch_delay w = exmem_is_branch_delay x"

text \<open>The memory stage passes \<open>x\<close> on with exception \<open>e\<close> and leaves memory as it is.\<close>

definition drains :: "ex_mem_t \<Rightarrow> mmu_t \<Rightarrow> exception_t \<Rightarrow> bool" where
  "drains x m e \<longleftrightarrow> (\<forall>core. ex_mem core = x \<longrightarrow>
     (\<exists>w. interpret_mem core m = Inr (core\<lparr>mem_wb := w\<rparr>, m) \<and> passed_on x e w))"

lemma drains_exception: "exmem_exception x = e \<Longrightarrow> e \<noteq> EXC_None \<Longrightarrow> drains x m e"
  by (auto simp: drains_def interpret_mem_def passed_on_def mem_latch_def Let_def)

lemma drains_idle:
  "exmem_exception x = EXC_None \<Longrightarrow> \<not> exmem_c_mem_read x \<Longrightarrow> \<not> exmem_c_mem_write x \<Longrightarrow> drains x m EXC_None"
  by (auto simp: drains_def interpret_mem_def passed_on_def mem_latch_def Let_def)

text \<open>Stores to the device descriptors, which are read-only, are the one access the memory stage rejects.\<close>

definition descriptor_area :: "u32 \<Rightarrow> bool" where
  "descriptor_area v \<longleftrightarrow> IO_DESCRIPTOR_AREA \<le> v \<and> v < IO_REGISTER_AREA"

lemma drains_store:
  assumes "exmem_exception x = EXC_None" "\<not> exmem_c_mem_read x" "exmem_c_mem_write x"
    and "is_store_op (GET_OPCODE (exmem_inst x))" and "descriptor_area (exmem_alu_res x)"
  shows "drains x m EXC_AddressErrorStore"
proof -
  have "mmu_write m (exmem_alu_res x) v s = Inr (EXC_AddressErrorStore, m)" for v s
    using assms(5) leD [of IO_REGISTER_AREA "exmem_alu_res x"] by (auto simp: mmu_write_def descriptor_area_def)
  then have "mem_store core m x (mem_latch x w) =
      Inr ((mem_latch x w)\<lparr>memwb_exception := EXC_AddressErrorStore\<rparr>, m)" for core w
    using assms(4) by (auto simp: mem_store_def mem_latch_def is_store_op_def Let_def)
  with assms(1-3) show ?thesis
    by (auto simp: drains_def interpret_mem_def passed_on_def mem_latch_def Let_def)
qed

text \<open>
  The pipeline with an incomplete instruction in the memory stage, which will pass it on with
  exception \<open>e\<close>; \<open>r\<close> and \<open>k\<close> are the registers and coprocessor registers the instruction saw.
\<close>

definition pending :: "core_t \<Rightarrow> mmu_t \<Rightarrow> (nat \<Rightarrow> u32) \<Rightarrow> cp0_t \<Rightarrow> exception_t \<Rightarrow> bool" where
  "pending c m r k e \<longleftrightarrow> mmu_wf m \<and> regs c 0 = 0 \<and> quiet_wb (mem_wb c) \<and> gpr (commit (mem_wb c) (regs c)) = r
     \<and> commit_cp0 (mem_wb c) (cp0 c) = k
     \<and> drains (ex_mem c) m e \<and> idex_exception (id_ex c) = EXC_None \<and> ifid_exception (if_id c) = EXC_None
     \<and> \<not> idex_c_jump (id_ex c) \<and> \<not> idex_c_beq (id_ex c) \<and> \<not> idex_c_bne (id_ex c)"

lemma advances_pending:
  assumes rel: "mid_rel c m p" and adv: "advances c c5 pc inst"
    and "\<not> may_transfer (ifid_inst (if_id c))" and "drains (ex_result (id_ex c) (ex_mem c)) m e"
  shows "pending (forwarding_unit c5) m (i_regs (mid_abs c m p)) (i_cp0 (mid_abs c m p)) e"
proof -
  have w: "mem_wb c5 = mem_wb c" "cp0 c5 = cp0 c" "\<forall>i. i \<noteq> REG_PC \<longrightarrow> regs c5 i = regs c i" "quiet_wb (mem_wb c)"
    using adv rel by (simp_all add: advances_def mid_rel_def Let_def)
  then have "gpr (regs c5) = gpr (regs c)" by (auto simp: gpr_def)
  then have "gpr (commit (mem_wb c5) (regs c5)) = i_regs (mid_abs c m p)"
    using w(1,4) by (simp add: gpr_commit quiet_wb_def mid_abs_def)
  moreover have "commit_cp0 (mem_wb c5) (cp0 c5) = i_cp0 (mid_abs c m p)" using w by (simp add: mid_abs_def)
  ultimately show ?thesis using assms w by (simp add: pending_def advances_def mid_rel_def Let_def)
qed

lemma ex_mem_retire_wb: "ex_mem (retire_wb core) = ex_mem core"
  by (simp add: retire_wb_def)

lemma drain_tick:
  assumes p: "pending c m r k e" and ld: "isa_load MEM_OP_WORD m (PC c) = Some inst"
  shows "\<exists>c' c5. tick_core c m g = Inr (forwarding_unit c5, m, g) \<and> advances c' c5 (PC c) inst
     \<and> id_ex c' = id_ex c \<and> ex_mem c' = ex_mem c \<and> if_id c' = if_id c
     \<and> passed_on (ex_mem c) e (mem_wb c5) \<and> gpr (regs c5) = r \<and> cp0 c5 = k"
proof -
  have q: "mmu_wf m" "regs c 0 = 0" "quiet_wb (mem_wb c)" "gpr (commit (mem_wb c) (regs c)) = r"
    "drains (ex_mem c) m e" "idex_exception (id_ex c) = EXC_None" "ifid_exception (if_id c) = EXC_None"
    "commit_cp0 (mem_wb c) (cp0 c) = k"
    using p by (simp_all add: pending_def)
  have wb: "interpret_wb c g = Inr (retire_wb c, g)" by (rule interpret_wb_quiet [OF q(3,2)])
  obtain w where w: "interpret_mem (retire_wb c) m = Inr ((retire_wb c)\<lparr>mem_wb := w\<rparr>, m)" "passed_on (ex_mem c) e w"
    using q(5) unfolding drains_def by (metis ex_mem_retire_wb)
  let ?c = "(retire_wb c)\<lparr>mem_wb := w\<rparr>"
  have fr: "id_ex ?c = id_ex c" "if_id ?c = if_id c" "ex_mem ?c = ex_mem c" "regs ?c = commit (mem_wb c) (regs c)"
    by (simp_all add: retire_wb_def)
  have "PC ?c = PC c" using q(3) unfolding fr by (auto simp: commit_def isa_wr_def quiet_wb_def)
  then have ex: "ex_pc (id_ex c) (commit (mem_wb c) (regs c) REG_PC) = PC c"
    using p unfolding fr by (simp add: pending_def ex_pc_def)
  obtain c5 where c5: "interpret_if (interpret_id (interpret_ex ?c)) m = Inr c5" "advances ?c c5 (PC c) inst"
    using front_stages [OF q(1), of ?c inst] q(6,7) ld unfolding fr ex by blast
  have t: "tick_core c m g = Inr (forwarding_unit c5, m, g)" by (simp add: tick_core_def wb w c5 Let_def)
  have "passed_on (ex_mem c) e (mem_wb c5)" using c5(2) w(2) by (simp add: advances_def Let_def)
  with t c5(2) fr tick_core_gpr [OF t wb] tick_core_cp0 [OF t wb] q(4,8) show ?thesis
    by (intro exI [of _ ?c] exI [of _ c5]) (simp add: retire_wb_def)
qed

end
