(* ===== verification/Exit.thy ===== *)
theory Exit
  imports Drain
begin

unbundle bit_operations_syntax

text \<open>
  The exit system call: from a SYSCALL in the execute stage with \<open>$v0\<close> = 10 to the tick
  that sets \<open>g_finished\<close>.
\<close>

lemma r_alu_lines:
  assumes "control_table d" and "is_r_alu (idex_inst d)"
  shows "ex_pc d pc = pc" "idex_c_alu_op d = 2" "\<not> idex_c_mem_read d" "\<not> idex_c_mem_write d"
  using assms by (auto simp: control_table_def ex_pc_def class_defs Let_def)

lemma ex_result_syscall:
  assumes "control_table d" and "fields_latched d" and "is_syscall (idex_inst d)"
  shows "exmem_exception (ex_result d x) = EXC_Syscall"
  using assms r_alu_lines(2) [OF assms(1)]
  by (simp add: ex_result_def alu_def alu_r_type_def is_syscall_def fields_latched_def class_defs Let_def)

lemma syscall_class: "is_syscall inst \<Longrightarrow> is_r_alu inst \<and> plain inst \<and> inst \<noteq> INSTRUCTION_ERET \<and> inst \<noteq> 0"
  by (auto simp: is_syscall_def class_defs GET_OPCODE_def GET_FUNCT_def)

section \<open>The instruction behind the call\<close>

text \<open>
  The exit branch of write-back flushes nothing.  In the tick that sets the flag the
  instruction behind the call is in the memory stage, so its load or store is carried out;
  it is not written back.  \<open>mem_behind\<close> is the memory it leaves, \<open>None\<close> for an access on which
  nothing is claimed: one without a step of the sequential machine, or with operands the
  simulator may forward wrongly.
\<close>

definition mem_behind :: "isa_t \<Rightarrow> mmu_t option" where
  "mem_behind a = (let inst = i_nxt a; opc = GET_OPCODE inst in
     if is_load_op opc \<or> is_any_store_op opc then
       if GET_RD (i_cur a) = 0 \<and> reads_ok inst (i_prev a)
       then map_option snd (isa_exec inst (i_regs a) (i_mem a)) else None
     else Some (i_mem a))"

text \<open>The memory stage takes \<open>x\<close> without a fault, and leaves memory \<open>m'\<close>.\<close>

definition passes :: "ex_mem_t \<Rightarrow> (nat \<Rightarrow> u32) \<Rightarrow> mmu_t \<Rightarrow> mmu_t \<Rightarrow> bool" where
  "passes x r m m' \<longleftrightarrow> (\<forall>core. ex_mem core = x \<longrightarrow> gpr (regs core) = r \<longrightarrow>
     (\<exists>core'. interpret_mem core m = Inr (core', m')))"

lemma passes_idle:
  assumes "\<not> exmem_c_mem_read x" "\<not> exmem_c_mem_write x"
  shows "passes x r m m"
proof -
  have "drains x m (exmem_exception x)"
    using drains_exception [of x "exmem_exception x" m] drains_idle [of x m] assms by (cases "exmem_exception x = EXC_None") auto
  then show ?thesis unfolding passes_def drains_def by blast
qed

lemma passes_completes: "completes x r m r' m' \<Longrightarrow> passes x r m m'"
  unfolding completes_def passes_def by (metis gpr_less)

lemma forward_no_hit:
  assumes "exmem_reg_dst (ex_mem core) = 0"
  shows "id_ex (forwarding_unit (core\<lparr>ex_mem := zero_ex_mem\<rparr>)) = id_ex (forwarding_unit core)"
proof -
  have e: "\<not> ex_hit core r" "\<not> ex_hit (core\<lparr>ex_mem := zero_ex_mem\<rparr>) r" "wb_hit (core\<lparr>ex_mem := zero_ex_mem\<rparr>) r = wb_hit core r"
    "\<not> ex_hit (core\<lparr>id_ex := d\<rparr>) r" "\<not> ex_hit (core\<lparr>ex_mem := zero_ex_mem, id_ex := d\<rparr>) r"
    "wb_hit (core\<lparr>id_ex := d\<rparr>) r = wb_hit core r" "wb_hit (core\<lparr>ex_mem := zero_ex_mem, id_ex := d\<rparr>) r = wb_hit core r" for r d
    using assms by (auto simp: ex_hit_def wb_hit_def zero_ex_mem_def)
  show ?thesis
    by (cases "wb_hit core (idex_rs (id_ex core))"; cases "wb_hit core (idex_rt (id_ex core))")
      (simp_all add: forwarding_unit_def forward_a_def forward_b_def e Let_def)
qed

text \<open>The operands of the instruction behind a SYSCALL, which itself writes no register.\<close>

lemma advances_decoded_behind:
  assumes rel: "mid_rel c m p" and adv: "advances c c5 pc inst" and dst: "exmem_reg_dst (ex_mem c5) = 0"
    and pl: "plain (ifid_inst (if_id c))" and ok: "reads_ok (ifid_inst (if_id c)) (exmem_inst (ex_mem c))"
  shows "decoded (id_ex (forwarding_unit c5)) (i_regs (mid_abs c m p))"
proof -
  let ?c = "c5\<lparr>ex_mem := zero_ex_mem\<rparr>"
  have d: "control_table (id_ex c5)" "fields_latched (id_ex c5)" "operands (id_ex c5) (regs c5)"
    "idex_inst (id_ex c5) = ifid_inst (if_id c)" "mem_wb c5 = mem_wb c" "\<forall>i. i \<noteq> REG_PC \<longrightarrow> regs c5 i = regs c i"
    using adv pl by (simp_all add: advances_def Let_def)
  have w: "quiet_wb (mem_wb c5)" "memwb_inst (mem_wb c5) = exmem_inst (ex_mem c)" using rel d(5) by (simp_all add: mid_rel_def)
  have z: "ex_mem ?c = zero_ex_mem" "id_ex ?c = id_ex c5" "regs ?c = regs c5" "mem_wb ?c = mem_wb c5" by simp_all
  have q: "quiet_ex zero_ex_mem" by (simp add: quiet_ex_def zero_ex_mem_def)
  have mem: "interpret_mem (retire_wb ?c) m = Inr ((retire_wb ?c)\<lparr>mem_wb := mem_latch zero_ex_mem (mem_wb c5)\<rparr>, m)"
    using interpret_mem_plain [of "retire_wb ?c" zero_ex_mem m] by (simp add: retire_wb_def zero_ex_mem_def)
  have "gpr (regs c5) = gpr (regs c)" using d(6) by (auto simp: gpr_def)
  then have r: "gpr (commit (mem_wb c5) (regs c5)) = i_regs (mid_abs c m p)"
    using w(1) d(5) by (simp add: mid_abs_def gpr_commit quiet_wb_def)
  have "commit (mem_latch zero_ex_mem (mem_wb c5)) v = v" for v
    by (simp add: commit_def mem_latch_def zero_ex_mem_def)
  with r have r': "gpr (commit (mem_wb (retire_wb ?c\<lparr>mem_wb := mem_latch zero_ex_mem (mem_wb c5)\<rparr>))
      (regs (retire_wb ?c\<lparr>mem_wb := mem_latch zero_ex_mem (mem_wb c5)\<rparr>))) = i_regs (mid_abs c m p)"
    by (simp add: retire_wb_def)
  have "operands (id_ex (forwarding_unit ?c)) (i_regs (mid_abs c m p))"
    unfolding r' [symmetric]
    by (rule operands_forward [OF _ _ _ _ _ _ _ mem])
      (use d w q pl ok in \<open>simp_all add: zero_ex_mem_def reads_ok_def gpr_ok_def is_mtc0_def GET_OPCODE_def\<close>)
  then show ?thesis using d by (simp add: decoded_def forward_no_hit [OF dst])
qed

section \<open>The three ticks of the call\<close>

text \<open>After the first tick: SYSCALL in the memory stage, \<open>w\<close> or a bubble behind the next instruction.\<close>

definition exit_pending :: "core_t \<Rightarrow> mmu_t \<Rightarrow> (nat \<Rightarrow> u32) \<Rightarrow> mmu_t \<Rightarrow> u32 \<Rightarrow> u32 \<Rightarrow> bool" where
  "exit_pending c m r m' w pc \<longleftrightarrow> (\<exists>k. pending c m r k EXC_Syscall) \<and> exmem_inst (ex_mem c) \<noteq> INSTRUCTION_ERET
     \<and> ifid_inst (if_id c) \<in> {0, w} \<and> (\<forall>x. passes (ex_result (id_ex c) x) r m m') \<and> PC c \<in> {pc, pc + 4}"

definition exit_raised :: "core_t \<Rightarrow> mmu_t \<Rightarrow> (nat \<Rightarrow> u32) \<Rightarrow> mmu_t \<Rightarrow> u32 \<Rightarrow> bool" where
  "exit_raised c m r m' pc \<longleftrightarrow> mmu_wf m \<and> gpr (regs c) = r
     \<and> memwb_exception (mem_wb c) = EXC_Syscall \<and> memwb_inst (mem_wb c) \<noteq> INSTRUCTION_ERET
     \<and> passes (ex_mem c) r m m' \<and> idex_exception (id_ex c) = EXC_None \<and> ifid_exception (if_id c) = EXC_None
     \<and> \<not> idex_c_jump (id_ex c) \<and> \<not> idex_c_beq (id_ex c) \<and> \<not> idex_c_bne (id_ex c)
     \<and> PC c \<in> {pc, pc + 4, pc + 8}"

lemma passes_behind:
  assumes mem: "mem_behind a = Some m'" and wf: "mmu_wf (i_mem a)"
    and lines: "idex_inst d = i_nxt a" "idex_c_mem_read d = is_load_op (GET_OPCODE (i_nxt a))"
      "idex_c_mem_write d = is_any_store_op (GET_OPCODE (i_nxt a))"
    and dec: "plain (i_nxt a) \<Longrightarrow> GET_RD (i_cur a) = 0 \<Longrightarrow> reads_ok (i_nxt a) (i_prev a) \<Longrightarrow> decoded d (i_regs a)"
  shows "passes (ex_result d x) (i_regs a) (i_mem a) m'"
proof (cases "is_load_op (GET_OPCODE (i_nxt a)) \<or> is_any_store_op (GET_OPCODE (i_nxt a))")
  case True
  then obtain r' where e: "isa_exec (i_nxt a) (i_regs a) (i_mem a) = Some (r', m')" "GET_RD (i_cur a) = 0" "reads_ok (i_nxt a) (i_prev a)"
    using mem by (auto simp: mem_behind_def Let_def split: if_splits)
  have "completes (ex_result d x) (i_regs a) (i_mem a) r' m'"
    by (rule exec_completes [OF dec [OF isa_exec_plain [OF e(1)] e(2,3)] wf]) (simp add: e(1) lines(1))
  then show ?thesis by (rule passes_completes)
next
  case False
  then have "m' = i_mem a" using mem by (simp add: mem_behind_def Let_def)
  with False lines show ?thesis using passes_idle [of "ex_result d x"] by simp
qed

lemma exit_first_tick:
  assumes rel: "pipe_rel core mem" and a: "a = pipe_abs core mem" and sys: "is_syscall (i_cur a)"
    and nt: "\<not> may_transfer (i_nxt a)" and mb: "mem_behind a = Some m'"
    and ld: "isa_load MEM_OP_WORD (i_mem a) (i_pc a) = Some w"
  shows "\<exists>c1. tick_core core mem g = Inr (c1, i_mem a, g) \<and> exit_pending c1 (i_mem a) (i_regs a) m' w (i_pc a)"
proof -
  obtain c m p where mid: "mid_rel c m p" "mid_abs c m p = a"
    and tick: "\<And>g inst. isa_load MEM_OP_WORD m (ex_pc (id_ex c) (PC c)) = Some inst \<Longrightarrow>
       \<exists>c5. tick_core core mem g = Inr (forwarding_unit c5, m, g) \<and> advances c c5 (ex_pc (id_ex c) (PC c)) inst"
    using pipe_tick [OF rel] a by metis
  note s = mid_abs_sel [of c m p, unfolded mid(2)]
  have cls: "is_r_alu (idex_inst (id_ex c))" "plain (idex_inst (id_ex c))" "idex_inst (id_ex c) \<noteq> INSTRUCTION_ERET"
    "idex_inst (id_ex c) \<noteq> 0" using syscall_class sys s by auto
  then have "\<not> bubble (id_ex c)" by (auto simp: bubble_def zero_id_ex_def)
  then have d: "control_table (id_ex c)" "fields_latched (id_ex c)"
    using mid(1) cls by (auto simp: mid_rel_def ready_def decoded_def)
  obtain c5 where c5: "tick_core core mem g = Inr (forwarding_unit c5, m, g)" and adv: "advances c c5 (PC c) w"
    using tick [of w g] ld s r_alu_lines(1) [OF d(1) cls(1)] by auto
  have adv': "ex_mem c5 = ex_result (id_ex c) (ex_mem c)" "idex_inst (id_ex c5) = i_nxt a"
    "idex_c_mem_read (id_ex c5) = is_load_op (GET_OPCODE (i_nxt a))"
    "idex_c_mem_write (id_ex c5) = is_any_store_op (GET_OPCODE (i_nxt a))"
    "ifid_inst (if_id c5) \<in> {0, w}" "PC c5 \<in> {PC c, PC c + 4}"
    using adv by (simp_all add: advances_def s Let_def)
  have x: "exmem_exception (ex_result (id_ex c) (ex_mem c)) = EXC_Syscall"
    using ex_result_syscall [OF d] sys s by simp
  then have "pending (forwarding_unit c5) m (i_regs a) (i_cp0 a) EXC_Syscall"
    using advances_pending [OF mid(1) adv _ drains_exception] nt s mid(2) by simp
  moreover have "passes (ex_result (id_ex (forwarding_unit c5)) x) (i_regs a) (i_mem a) m'" for x
  proof (rule passes_behind [OF mb])
    have "GET_RD (i_cur a) = 0 \<Longrightarrow> exmem_reg_dst (ex_mem c5) = 0"
      using d cls(1) control_lines(1) [OF d(1)] by (simp add: adv'(1) ex_dst_def fields_latched_def s Let_def)
    then show "decoded (id_ex (forwarding_unit c5)) (i_regs a)"
      if "plain (i_nxt a)" "GET_RD (i_cur a) = 0" "reads_ok (i_nxt a) (i_prev a)"
      using advances_decoded_behind [OF mid(1) adv] that s mid(2) by simp
  qed (use mid(1) s adv' in \<open>simp_all add: mid_rel_def\<close>)
  ultimately have "exit_pending (forwarding_unit c5) m (i_regs a) m' w (PC c)"
    using cls adv' s by (auto simp: exit_pending_def)
  with c5 s show ?thesis by auto
qed

lemma exit_second_tick:
  assumes p: "exit_pending c m r m' w pc" and nt: "\<not> may_transfer w" and b: "ram_backed m pc" "ram_backed m (pc + 4)"
  shows "\<exists>c2. tick_core c m g = Inr (c2, m, g) \<and> exit_raised c2 m r m' pc"
proof -
  obtain k where k: "pending c m r k EXC_Syscall" using p by (auto simp: exit_pending_def)
  have q: "mmu_wf m" "exmem_inst (ex_mem c) \<noteq> INSTRUCTION_ERET" "ifid_inst (if_id c) \<in> {0, w}"
    "\<And>x. passes (ex_result (id_ex c) x) r m m'" "PC c \<in> {pc, pc + 4}"
    using p by (auto simp: exit_pending_def pending_def)
  have "ram_backed m (PC c)" using q(5) b by auto
  then obtain w1 where "isa_load MEM_OP_WORD m (PC c) = Some w1" by (simp add: isa_load_def)
  then obtain c' c5 where t: "tick_core c m g = Inr (forwarding_unit c5, m, g)" "advances c' c5 (PC c) w1"
    "id_ex c' = id_ex c" "ex_mem c' = ex_mem c" "if_id c' = if_id c" "passed_on (ex_mem c) EXC_Syscall (mem_wb c5)" "gpr (regs c5) = r"
    using drain_tick [OF k, of w1 g] by auto
  have "\<not> may_transfer (ifid_inst (if_id c))" using q(3) nt by (auto simp: may_transfer_def GET_OPCODE_def GET_FUNCT_def)
  then have j: "\<not> idex_c_jump (id_ex c5)" "\<not> idex_c_beq (id_ex c5)" "\<not> idex_c_bne (id_ex c5)"
    using t(2,5) by (simp_all add: advances_def Let_def)
  have x: "ex_mem c5 = ex_result (id_ex c) (ex_mem c)" "idex_exception (id_ex c5) = EXC_None"
    "ifid_exception (if_id c5) = EXC_None" "PC c5 \<in> {PC c, PC c + 4}"
    using t(2-4) by (simp_all add: advances_def Let_def)
  have w: "memwb_exception (mem_wb c5) = EXC_Syscall" "memwb_inst (mem_wb c5) \<noteq> INSTRUCTION_ERET"
    using t(6) q(2) by (simp_all add: passed_on_def)
  have "pc + 4 + 4 = pc + 8" by simp
  with x(4) q(5) have pc: "PC c5 \<in> {pc, pc + 4, pc + 8}" by (metis insertE insertI1 insertI2 singletonD)
  have "passes (ex_mem c5) r m m'" using q(4) x(1) by simp
  then have "exit_raised (forwarding_unit c5) m r m' pc"
    unfolding exit_raised_def forwarding_unit_frame using q(1) t(7) w x(2,3) j pc by simp
  with t(1) show ?thesis by blast
qed

lemma exit_third_tick:
  assumes p: "exit_raised c m r m' pc" and v0: "r REG_V0 = 10"
    and b: "ram_backed m pc" "ram_backed m (pc + 4)" "ram_backed m (pc + 8)"
  shows "\<exists>c3. tick_core c m g = Inr (c3, m', True) \<and> gpr (regs c3) = r"
proof -
  have q: "mmu_wf m" "gpr (regs c) = r" "memwb_exception (mem_wb c) = EXC_Syscall" "memwb_inst (mem_wb c) \<noteq> INSTRUCTION_ERET"
    "passes (ex_mem c) r m m'" "idex_exception (id_ex c) = EXC_None" "ifid_exception (if_id c) = EXC_None"
    "\<not> idex_c_jump (id_ex c)" "\<not> idex_c_beq (id_ex c)" "\<not> idex_c_bne (id_ex c)" "PC c \<in> {pc, pc + 4, pc + 8}"
    using p unfolding exit_raised_def by blast+
  have "regs c REG_V0 = 10" using v0 q(2) by (auto simp: gpr_def)
  then have wb: "interpret_wb c g = Inr (c, True)" using q(3,4) by (simp add: interpret_wb_def)
  obtain c' where c': "interpret_mem c m = Inr (c', m')" using q(2,5) unfolding passes_def by blast
  have fr: "regs c' = regs c" "if_id c' = if_id c" "id_ex c' = id_ex c" using interpret_mem_frame [OF c'] by simp_all
  have wf: "mmu_wf m'" using interpret_mem_wf [OF c'] q(1) by simp
  have "ram_backed m (PC c)" using q(11) b by auto
  then have "ram_backed m' (PC c)" using interpret_mem_translate [OF c'] by (simp add: ram_backed_def)
  then obtain w where "isa_load MEM_OP_WORD m' (ex_pc (id_ex c') (PC c')) = Some w"
    using q(8-10) by (simp add: isa_load_def ex_pc_def fr)
  then obtain c5 where c5: "interpret_if (interpret_id (interpret_ex c')) m' = Inr c5"
    using front_stages [OF wf, of c' w] q(6,7) fr by auto
  have t: "tick_core c m g = Inr (forwarding_unit c5, m', True)" by (simp add: tick_core_def wb c' c5 Let_def)
  then show ?thesis using tick_core_gpr [OF t wb] q(2) by blast
qed

text \<open>
  When the machine, seen as the sequential one, stands before the exit call: SYSCALL with
  \<open>$v0\<close> = 10, no jump or branch among the two instructions behind it, the first of them with
  a known effect on memory, and the words fetched meanwhile readable.
\<close>

definition at_exit :: "isa_t \<Rightarrow> bool" where
  "at_exit a \<longleftrightarrow> is_syscall (i_cur a) \<and> i_regs a REG_V0 = 10
     \<and> \<not> may_transfer (i_nxt a) \<and> mem_behind a \<noteq> None
     \<and> (case isa_load MEM_OP_WORD (i_mem a) (i_pc a) of None \<Rightarrow> False | Some w \<Rightarrow> \<not> may_transfer w)
     \<and> ram_backed (i_mem a) (i_pc a + 4) \<and> ram_backed (i_mem a) (i_pc a + 8)"

definition mem_at_exit :: "isa_t \<Rightarrow> mmu_t" where
  "mem_at_exit a = (case mem_behind a of None \<Rightarrow> i_mem a | Some m \<Rightarrow> m)"

text \<open>Only a store directly behind the call makes a difference.\<close>

lemma mem_at_exit_no_store:
  assumes "\<not> is_any_store_op (GET_OPCODE (i_nxt a))"
  shows "mem_at_exit a = i_mem a"
proof -
  have "m' = i_mem a" if "isa_exec (i_nxt a) (i_regs a) (i_mem a) = Some (r', m')" "is_load_op (GET_OPCODE (i_nxt a))" for r' m'
    using that(1) by (cases rule: isa_exec_cases) (use assms that(2) in \<open>auto simp: class_defs\<close>)
  then show ?thesis using assms by (auto simp: mem_at_exit_def mem_behind_def Let_def split: option.split)
qed

lemma exit_ticks:
  assumes rel: "pipe_rel core mem" and ex: "at_exit (pipe_abs core mem)"
  shows "\<exists>c1 c2 c3. tick_core core mem g = Inr (c1, i_mem (pipe_abs core mem), g)
     \<and> tick_core c1 (i_mem (pipe_abs core mem)) g = Inr (c2, i_mem (pipe_abs core mem), g)
     \<and> tick_core c2 (i_mem (pipe_abs core mem)) g = Inr (c3, mem_at_exit (pipe_abs core mem), True)
     \<and> ram_backed (i_mem (pipe_abs core mem)) (PC c1) \<and> ram_backed (i_mem (pipe_abs core mem)) (PC c2)
     \<and> gpr (regs c3) = i_regs (pipe_abs core mem)"
proof -
  let ?a = "pipe_abs core mem"
  obtain w where w: "isa_load MEM_OP_WORD (i_mem ?a) (i_pc ?a) = Some w" "\<not> may_transfer w"
    using ex by (auto simp: at_exit_def split: option.splits)
  have mb: "mem_behind ?a = Some (mem_at_exit ?a)" using ex by (auto simp: at_exit_def mem_at_exit_def)
  have e: "is_syscall (i_cur ?a)" "i_regs ?a REG_V0 = 10" "\<not> may_transfer (i_nxt ?a)" using ex by (simp_all add: at_exit_def)
  have b: "ram_backed (i_mem ?a) (i_pc ?a)" "ram_backed (i_mem ?a) (i_pc ?a + 4)" "ram_backed (i_mem ?a) (i_pc ?a + 8)"
    using w(1) ex by (simp_all add: at_exit_def isa_load_def split: if_splits)
  obtain c1 where c1: "tick_core core mem g = Inr (c1, i_mem ?a, g)"
    "exit_pending c1 (i_mem ?a) (i_regs ?a) (mem_at_exit ?a) w (i_pc ?a)"
    using exit_first_tick [OF rel refl e(1,3) mb w(1)] by blast
  obtain c2 where c2: "tick_core c1 (i_mem ?a) g = Inr (c2, i_mem ?a, g)"
    "exit_raised c2 (i_mem ?a) (i_regs ?a) (mem_at_exit ?a) (i_pc ?a)"
    using exit_second_tick [OF c1(2) w(2) b(1,2)] by blast
  obtain c3 where c3: "tick_core c2 (i_mem ?a) g = Inr (c3, mem_at_exit ?a, True)" "gpr (regs c3) = i_regs ?a"
    using exit_third_tick [OF c2(2) e(2) b] by blast
  have "ram_backed (i_mem ?a) (PC c1)" "ram_backed (i_mem ?a) (PC c2)"
    using c1(2) c2(2) b by (auto simp: exit_pending_def exit_raised_def)
  with c1(1) c2(1) c3 show ?thesis by blast
qed

text \<open>
  C6. The exit call: when SYSCALL with \<open>$v0\<close> = 10 is about to execute and neither of the
  two instructions behind it is a jump or branch, two ticks retire everything before it and
  leave the finished flag as it is; the third sets it.  The registers are then exactly those
  of the sequential machine at the call: nothing behind it is written back.  Memory is that
  of the sequential machine, except that a store directly behind the call has been carried
  out, since the exit flushes nothing.
\<close>

theorem exit_syscall:
  assumes "pipe_rel core mem" and "at_exit (pipe_abs core mem)"
  shows "\<exists>c1 c2 c3 m. tick_core core mem False = Inr (c1, m, False)
     \<and> tick_core c1 m False = Inr (c2, m, False) \<and> tick_core c2 m False = Inr (c3, mem_at_exit (pipe_abs core mem), True)
     \<and> gpr (regs c3) = i_regs (pipe_abs core mem) \<and> m = i_mem (pipe_abs core mem)"
  using exit_ticks [OF assms, of False] by blast

section \<open>A program that exits\<close>

text \<open>\<open>addiu $v0, $zero, 10\<close>, \<open>syscall\<close>, \<open>sw $v0, 64($t1)\<close>, with the base of KSEG0 in \<open>$t1\<close>.\<close>

definition exit_mem :: mmu_t where
  "exit_mem = demo_mem\<lparr>pmem := set_big MEM_OP_WORD (set_big MEM_OP_WORD (pmem demo_mem) 4 0x0000000C) 8 0xAD220040\<rparr>"

definition exit_core :: core_t where
  "exit_core = demo_core\<lparr>regs := (regs demo_core)(9 := 0x80000000)\<rparr>"

definition exit_regs :: "nat \<Rightarrow> u32" where
  "exit_regs = isa_wr (gpr (regs exit_core)) 2 10"

lemma exit_regs_sel: "exit_regs 2 = 10" "exit_regs 9 = 0x80000000"
  by (simp_all add: exit_regs_def exit_core_def isa_wr_def gpr_def)

lemma exit_mem_wf: "mmu_wf exit_mem"
  by (simp add: exit_mem_def demo_mem_wf)

lemma exit_core_flushed: "flushed exit_core"
  using demo_core_flushed by (simp add: flushed_def exit_core_def)

lemma exit_backed:
  "ram_backed exit_mem 0x80000000" "host_pos exit_mem 0x80000000 = 0"
  "ram_backed exit_mem 0x80000004" "host_pos exit_mem 0x80000004 = 4"
  "ram_backed exit_mem 0x80000008" "host_pos exit_mem 0x80000008 = 8"
  "ram_backed exit_mem 0x8000000C" "host_pos exit_mem 0x8000000C = 12"
  "ram_backed exit_mem 0x80000010" "host_pos exit_mem 0x80000010 = 16"
  "ram_backed exit_mem 0x80000014" "host_pos exit_mem 0x80000014 = 20"
  "ram_backed exit_mem 0x80000040" "host_pos exit_mem 0x80000040 = 64"
  by (simp_all add: ram_backed_def host_pos_def translate_vaddr_def translate_paddr_def demo_mem_def exit_mem_def)

lemma exit_fetch:
  "isa_load MEM_OP_WORD exit_mem 0x80000000 = Some 0x2402000A"
  "isa_load MEM_OP_WORD exit_mem 0x80000004 = Some 0x0000000C"
  "isa_load MEM_OP_WORD exit_mem 0x80000008 = Some 0xAD220040"
  "isa_load MEM_OP_WORD exit_mem 0x8000000C = Some 0"
  "isa_load MEM_OP_WORD exit_mem 0x80000040 = Some 0"
  by (simp_all add: isa_load_def exit_backed)
    (simp_all add: exit_mem_def demo_mem_def GET_BIGWORD_def SET_BIGWORD_def)

definition exit_state :: isa_t where
  "exit_state = \<lparr>i_regs = exit_regs, i_cp0 = (\<lambda>_. 0), i_mem = exit_mem, i_cur = 0xC, i_cur_npc = 0x80000008,
    i_cur_bd = False, i_nxt = 0xAD220040, i_nxt_npc = 0x8000000C, i_nxt_bd = False, i_pc = 0x8000000C,
    i_prev = 0x2402000A, i_prev2 = 0\<rparr>"

lemma exit_no_interlock: "\<not> isa_interlock 0xC inst"
  by (simp add: isa_interlock_def is_load_op_def GET_OPCODE_def)

lemma exit_run: "opt_iter isa_step 3 (isa_start (regs exit_core) (cp0 exit_core) exit_mem) = Some exit_state"
  by (simp add: numeral_3_eq_3 isa_start_def isa_step_def isa_do_exec exit_core_def demo_core_def exit_fetch isa_nop demo_no_interlock
   demo_exec demo_next demo_fields exit_no_interlock Let_def zero_core_def exit_state_def exit_regs_def)

definition exit_mem_end :: mmu_t where
  "exit_mem_end = exit_mem\<lparr>pmem := set_big MEM_OP_WORD (pmem exit_mem) 64 10\<rparr>"

lemma exit_behind: "mem_behind exit_state = Some exit_mem_end"
proof -
  have f: "GET_OPCODE 0xAD220040 = OPCODE_SW" "GET_RS 0xAD220040 = 9" "GET_RT 0xAD220040 = 2"
    "SIGN_EXTEND (GET_IMM 0xAD220040) = 64" "GET_RD 0xC = 0"
    by (simp_all add: GET_OPCODE_def GET_RS_def GET_RT_def GET_RD_def GET_IMM_def SIGN_EXTEND_def)
  have "no_overflow 0x80000000 64" by (simp add: no_overflow_def)
  then have "isa_exec 0xAD220040 exit_regs exit_mem = Some (exit_regs, exit_mem_end)"
    by (simp add: isa_exec_def f exit_regs_sel is_load_op_def is_store_op_def isa_write_def isa_store_def exit_backed
        exit_mem_end_def Let_def)
  moreover have "reads_ok 0xAD220040 0x2402000A" using demo_fields(1) by (simp add: reads_ok_def gpr_ok_def is_mtc0_def)
  ultimately show ?thesis by (simp add: mem_behind_def exit_state_def f is_load_op_def is_any_store_op_def is_store_op_def)
qed

lemma exit_state_at: "at_exit exit_state"
  by (simp add: at_exit_def exit_behind)
    (simp add: exit_state_def is_syscall_def exit_fetch exit_backed exit_regs_sel may_transfer_def GET_OPCODE_def GET_FUNCT_def)

theorem exit_syscall_witness:
  "\<exists>core mem c1 c2 c3 m m'. pipe_rel core mem \<and> at_exit (pipe_abs core mem)
     \<and> tick_core core mem False = Inr (c1, m, False) \<and> tick_core c1 m False = Inr (c2, m, False)
     \<and> tick_core c2 m False = Inr (c3, m', True) \<and> gpr (regs c3) REG_V0 = 10
     \<and> isa_load MEM_OP_WORD m 0x80000040 = Some 0 \<and> isa_load MEM_OP_WORD m' 0x80000040 = Some 10"
proof -
  let ?s = "(\<lparr>hw_cpu = \<lparr>cores = [exit_core]\<rparr>, hw_mmu = exit_mem\<rparr>, False)"
  have "hw_rel False ?s" "opt_iter isa_step 3 (hw_abs ?s) = Some exit_state"
    using flushed_rel [OF exit_core_flushed exit_mem_wf] exit_run by (simp_all add: hw_rel_def hw_abs_def)
  then obtain t where t: "hw_rel False t" "hw_abs t = exit_state" using pipeline.simulate_iter by blast
  let ?c = "hd (cores (hw_cpu (fst t)))" and ?m = "hw_mmu (fst t)"
  have rel: "pipe_rel ?c ?m" and abs: "pipe_abs ?c ?m = exit_state"
    using t by (simp_all add: hw_rel_def hw_abs_def)
  have "i_regs exit_state REG_V0 = 10" "i_mem exit_state = exit_mem" by (simp_all add: exit_state_def exit_regs_sel)
  moreover have "isa_load MEM_OP_WORD exit_mem_end 0x80000040 = Some 10"
    using exit_backed(13,14) by (simp add: isa_load_def exit_mem_end_def ram_backed_def host_pos_def get_set_BIGWORD)
  moreover have "mem_at_exit exit_state = exit_mem_end" by (simp add: mem_at_exit_def exit_behind)
  moreover have "at_exit (pipe_abs ?c ?m)" using exit_state_at abs by simp
  moreover note exit_syscall [OF rel this]
  ultimately show ?thesis using rel abs exit_fetch(5) by fastforce
qed

end
