(* ===== verification/Trap_Machine.thy ===== *)
theory Trap_Machine
  imports Exit
begin

unbundle bit_operations_syntax

text \<open>
  The sequential machine with its exceptions: besides executing an instruction it can
  trap into the handler and return from it.  A trap and a return take three clock ticks
  of the pipeline; the simulation counts them.
\<close>

section \<open>The machine with traps\<close>

text \<open>
  What an instruction raises: SYSCALL, a store to the device descriptors, and a sum that
  leaves the signed range -- of ADDI, but in this processor also of the address of a load
  or store and of the two operands of a jump or branch.
\<close>

definition isa_raises :: "isa_t \<Rightarrow> exception_t option" where
  "isa_raises s =
     (let inst = i_cur s; opc = GET_OPCODE inst; a = i_regs s (unat (GET_RS inst));
          b = i_regs s (unat (GET_RT inst)); imm = SIGN_EXTEND (GET_IMM inst)
      in if is_syscall inst then Some EXC_Syscall
         else if \<not> (reads_ok inst (i_prev s) \<and> reads_ok inst (i_prev2 s)) then None
         else if opc = OPCODE_ADDI \<or> is_load_op opc \<or> is_store_op opc then
           if \<not> no_overflow a imm then Some EXC_ArithmeticOverflow
           else if is_store_op opc \<and> descriptor_area (a + imm) then Some EXC_AddressErrorStore
           else None
         else if opc = OPCODE_R \<and> GET_FUNCT inst = FUNCT_JR \<or> opc = OPCODE_BEQ \<or> opc = OPCODE_BNE \<or> opc = OPCODE_J then
           if \<not> no_overflow a b then Some EXC_ArithmeticOverflow else None
         else None)"

text \<open>
  The instructions fetched behind a trap have no effect, but they must be readable, and
  the first of them, which reaches the execute stage, must not redirect fetching.
\<close>

definition shadow_pc :: "isa_t \<Rightarrow> u32" where
  "shadow_pc s = isa_next_pc (i_cur s) (i_cur_npc s) (i_regs s) (i_pc s)"

definition shadow_ok :: "isa_t \<Rightarrow> bool" where
  "shadow_ok s \<longleftrightarrow> \<not> may_transfer (i_nxt s)
     \<and> ram_backed (i_mem s) (shadow_pc s) \<and> ram_backed (i_mem s) (shadow_pc s + 4)"

definition trap_cp0 :: "exception_t \<Rightarrow> isa_t \<Rightarrow> cp0_t" where
  "trap_cp0 e s = (i_cp0 s)(REG_EPC := i_cur_npc s, REG_CAUSE := get_cause e (i_cur_bd s),
     REG_SR := i_cp0 s REG_SR OR SR_EXL)"

definition eret_cp0 :: "isa_t \<Rightarrow> cp0_t" where
  "eret_cp0 s = (i_cp0 s)(REG_SR := i_cp0 s REG_SR AND NOT SR_EXL)"

inductive trap_step :: "isa_t \<Rightarrow> nat \<Rightarrow> isa_t \<Rightarrow> bool" where
  exec: "isa_step s = Some t \<Longrightarrow> trap_step s 1 t"
| trap: "isa_raises s = Some e \<Longrightarrow> e = EXC_Syscall \<longrightarrow> i_regs s REG_V0 \<noteq> 10 \<Longrightarrow> shadow_ok s \<Longrightarrow>
    isa_load MEM_OP_WORD (i_mem s) (exception_vector (i_cp0 s)) = Some inst \<Longrightarrow>
    trap_step s 3 (isa_fetched (i_regs s) (trap_cp0 e s) (i_mem s) inst (exception_vector (i_cp0 s)))"
| eret: "i_cur s = INSTRUCTION_ERET \<Longrightarrow> shadow_ok s \<Longrightarrow>
    isa_load MEM_OP_WORD (i_mem s) (i_cp0 s REG_EPC) = Some inst \<Longrightarrow>
    trap_step s 3 (isa_fetched (i_regs s) (eret_cp0 s) (i_mem s) inst (i_cp0 s REG_EPC))"

inductive_cases trap_stepE: "trap_step s k t"

section \<open>The machine is deterministic\<close>

lemma raises_class: "isa_raises s = Some e \<Longrightarrow> plain (i_cur s) \<and> i_cur s \<noteq> 0 \<and> e \<noteq> EXC_None"
  by (auto simp: isa_raises_def is_syscall_def class_defs GET_OPCODE_def GET_FUNCT_def Let_def split: if_splits)

lemma descriptor_not_backed: "descriptor_area v \<Longrightarrow> \<not> ram_backed m v"
  by (auto simp: descriptor_area_def ram_backed_def)

lemma raises_no_exec:
  assumes "isa_raises s = Some e"
  shows "isa_exec (i_cur s) (i_regs s) (i_mem s) = None"
proof (rule ccontr)
  assume "isa_exec (i_cur s) (i_regs s) (i_mem s) \<noteq> None"
  then obtain r m where "isa_exec (i_cur s) (i_regs s) (i_mem s) = Some (r, m)" by auto
  then show False
    using assms
    by (cases rule: isa_exec_cases)
      (auto simp: isa_raises_def class_defs is_syscall_def isa_r_type_def isa_i_type_def isa_write_def isa_store_def
        descriptor_not_backed Let_def split: if_splits)
qed

lemma raises_no_step: "isa_raises s = Some e \<Longrightarrow> isa_step s = None"
  using raises_class [of s e] raises_no_exec [of s e] plain_not_move [of "i_cur s"]
  by (simp add: isa_step_def isa_do_def plain_def Let_def)

lemma eret_no_exec: "isa_exec INSTRUCTION_ERET r m = None"
  using isa_exec_plain [of INSTRUCTION_ERET r m] by (cases "isa_exec INSTRUCTION_ERET r m") (auto simp: plain_def eret_fields)

lemma eret_no_step: "i_cur s = INSTRUCTION_ERET \<Longrightarrow> isa_step s = None \<and> isa_raises s = None"
  using move_not_eret [of "i_cur s"]
  by (auto simp: isa_step_def isa_do_def eret_no_exec isa_raises_def class_defs is_syscall_def eret_fields Let_def)

lemma trap_step_deterministic: "trap_step s k t \<Longrightarrow> trap_step s k' t' \<Longrightarrow> k = k' \<and> t = t'"
  by (auto elim!: trap_stepE simp: raises_no_step dest: eret_no_step)

section \<open>The pipeline traps like the machine\<close>

lemma isa_raises_cases:
  assumes "isa_raises s = Some e"
  defines "inst \<equiv> i_cur s"
  defines "opc \<equiv> GET_OPCODE inst" and "a \<equiv> i_regs s (unat (GET_RS inst))" and "b \<equiv> i_regs s (unat (GET_RT inst))"
    and "imm \<equiv> SIGN_EXTEND (GET_IMM inst)"
  obtains (sys) "is_syscall inst" "e = EXC_Syscall"
    | (addi) "opc = OPCODE_ADDI" "\<not> no_overflow a imm" "e = EXC_ArithmeticOverflow"
    | (addr) "is_load_op opc \<or> is_any_store_op opc" "\<not> no_overflow a imm" "e = EXC_ArithmeticOverflow"
    | (store) "is_store_op opc" "no_overflow a imm" "descriptor_area (a + imm)" "e = EXC_AddressErrorStore"
    | (compare) "is_jr inst \<or> opc = OPCODE_BEQ \<or> opc = OPCODE_BNE \<or> opc = OPCODE_J" "\<not> no_overflow a b"
        "e = EXC_ArithmeticOverflow"
  using assms(1)
  unfolding isa_raises_def Let_def assms(2) [symmetric] opc_def [symmetric] a_def [symmetric] b_def [symmetric] imm_def [symmetric]
  by (auto simp: is_jr_def opc_def is_any_store_op_def split: if_splits)

lemma overflow_check: "check_soverflow p q = 1 \<longleftrightarrow> \<not> no_overflow p q"
  by (auto simp: no_overflow_check check_soverflow_def)

lemma ex_result_sum:
  assumes "idex_c_alu_op d = 0"
  shows "exmem_exception (ex_result d x) = (if no_overflow (idex_rs_value d)
     (if idex_c_alu_src d then idex_sign_ext_imm d else idex_rt_value d) then EXC_None else EXC_ArithmeticOverflow)"
  using assms by (simp add: ex_result_def alu_def overflow_check Let_def)

lemma raises_drains:
  assumes dec: "decoded d (i_regs s)" and i: "i_cur s = idex_inst d" and raise: "isa_raises s = Some e"
    and ns: "\<not> is_syscall (idex_inst d)"
  shows "drains (ex_result d x) m e"
proof -
  note ct = control_lines [OF decoded_control [OF dec]]
  have v: "idex_rs_value d = i_regs s (unat (GET_RS (idex_inst d)))"
    "idex_rt_value d = i_regs s (unat (GET_RT (idex_inst d)))" "idex_sign_ext_imm d = SIGN_EXTEND (GET_IMM (idex_inst d))"
    using dec by (simp_all add: decoded_def operands_def fields_latched_def Let_def)
  from raise show ?thesis
  proof (cases rule: isa_raises_cases)
    case sys
    with ns i show ?thesis by simp
  next
    case addi
    then have "idex_c_alu_op d = 3" "idex_c_alu_src d" using ct i by (simp_all add: class_defs)
    with addi i v show ?thesis
      by (intro drains_exception) (simp_all add: ex_result_def alu_def alu_i_type_def overflow_check Let_def)
  next
    case addr
    then have "idex_c_alu_op d = 0" "idex_c_alu_src d"
      using ct i mem_op_class [of "GET_OPCODE (idex_inst d)"] class_disjoint(5) by auto
    with addr i v show ?thesis by (intro drains_exception) (simp_all add: ex_result_sum)
  next
    case store
    then have st: "is_any_store_op (GET_OPCODE (idex_inst d))" "\<not> is_load_op (GET_OPCODE (idex_inst d))"
      using i class_disjoint(2,3) by auto
    have "ex_result d x = (ex_latch d x)\<lparr>exmem_reg_dst := ex_dst d,
        exmem_alu_res := i_regs s (unat (GET_RS (idex_inst d))) + SIGN_EXTEND (GET_IMM (idex_inst d))\<rparr>"
      using ex_result_address [OF dec disjI2 [OF st(1)]] store i by simp
    with store st ct i show ?thesis by (intro drains_store [of _ m, folded store(4)]) simp_all
  next
    case compare
    then have "idex_c_alu_op d = 0" "\<not> idex_c_alu_src d"
      using ct i class_disjoint(5-7) compare_class by (metis (no_types))+
    with compare i v show ?thesis by (intro drains_exception) (simp_all add: ex_result_sum)
  qed
qed

lemma eret_drains:
  assumes "eret_table d"
  shows "drains (ex_result d x) m EXC_None" "ex_pc d pc = pc"
  using assms sint_bounds32 [of "idex_rs_value d"]
  by (auto simp: eret_table_def ex_result_sum no_overflow_def ex_pc_def intro: drains_idle)

text \<open>An instruction that does not complete: it raises \<open>e\<close>, or it is ERET and raises nothing.\<close>

definition stops :: "isa_t \<Rightarrow> exception_t \<Rightarrow> bool" where
  "stops s e \<longleftrightarrow> isa_raises s = Some e \<or> i_cur s = INSTRUCTION_ERET \<and> e = EXC_None"

lemma stops_ex_stage:
  assumes "stops s e" and "ready d s" and i: "i_cur s = idex_inst d" "i_cur_npc s = idex_next_pc d"
  shows "drains (ex_result d x) m e" "ex_pc d pc = isa_next_pc (i_cur s) (i_cur_npc s) (i_regs s) pc"
proof -
  have "i_cur s \<noteq> 0" using assms(1) raises_class by (auto simp: stops_def)
  then have nb: "\<not> bubble d" using i by (auto simp: bubble_def zero_id_ex_def)
  have "drains (ex_result d x) m e \<and> ex_pc d pc = isa_next_pc (i_cur s) (i_cur_npc s) (i_regs s) pc"
  proof (cases "isa_raises s = Some e")
    case True
    then have pl: "plain (idex_inst d)" using raises_class i by force
    then have r: "control_table d" "fields_latched d"
      "reads_ok (idex_inst d) (i_prev s) \<and> reads_ok (idex_inst d) (i_prev2 s) \<Longrightarrow> operands d (i_regs s)"
      using assms(2) nb by (auto simp: ready_def)
    show ?thesis
    proof (cases "is_syscall (idex_inst d)")
      case sys: True
      then have "e = EXC_Syscall" "isa_next_pc (i_cur s) (i_cur_npc s) (i_regs s) pc = pc"
        using True i by (simp_all add: isa_raises_def isa_next_pc_def is_syscall_def)
      moreover have "ex_pc d pc = pc" using r_alu_lines(1) [OF r(1)] syscall_class [OF sys] by blast
      ultimately show ?thesis using ex_result_syscall [OF r(1,2) sys] by (simp add: drains_exception)
    next
      case ns: False
      then have "reads_ok (idex_inst d) (i_prev s) \<and> reads_ok (idex_inst d) (i_prev2 s)"
        using True i by (auto simp: isa_raises_def Let_def split: if_splits)
      then have "decoded d (i_regs s)" using r by (simp add: decoded_def)
      then show ?thesis using True i pl ns raises_drains [of d s] ex_pc_decoded [of d "i_regs s"] by simp
    qed
  next
    case False
    then have "i_cur s = INSTRUCTION_ERET" "e = EXC_None" "eret_table d"
      using assms(1,2) nb i by (auto simp: stops_def ready_def)
    with eret_drains [of d] show ?thesis by (simp add: isa_next_pc_def eret_fields)
  qed
  then show "drains (ex_result d x) m e" "ex_pc d pc = isa_next_pc (i_cur s) (i_cur_npc s) (i_regs s) pc" by blast+
qed

lemma ex_result_address_info [simp]:
  "exmem_next_pc (ex_result d x) = idex_next_pc d" "exmem_is_branch_delay (ex_result d x) = idex_is_branch_delay d"
  by (simp_all add: ex_result_def alu_def alu_r_type_def alu_i_type_def ex_latch_def Let_def)

lemma stop_first_tick:
  assumes rel: "pipe_rel core mem" and s: "s = pipe_abs core mem" and stop: "stops s e" and sh: "shadow_ok s"
  shows "\<exists>c1. tick_core core mem g = Inr (c1, i_mem s, g) \<and> pending c1 (i_mem s) (i_regs s) (i_cp0 s) e
     \<and> exmem_inst (ex_mem c1) = i_cur s \<and> exmem_next_pc (ex_mem c1) = i_cur_npc s
     \<and> exmem_is_branch_delay (ex_mem c1) = i_cur_bd s
     \<and> PC c1 \<in> {shadow_pc s, shadow_pc s + 4} \<and> ram_backed (i_mem s) (PC c1)"
proof -
  obtain c m p where mid: "mid_rel c m p" "mid_abs c m p = s"
    and tick: "\<And>g inst. isa_load MEM_OP_WORD m (ex_pc (id_ex c) (PC c)) = Some inst \<Longrightarrow>
       \<exists>c5. tick_core core mem g = Inr (forwarding_unit c5, m, g) \<and> advances c c5 (ex_pc (id_ex c) (PC c)) inst"
    using pipe_tick [OF rel] s by metis
  note sel = mid_abs_sel [of c m p, unfolded mid(2)]
  have "ready (id_ex c) s" using mid by (simp add: mid_rel_def)
  note ex = stops_ex_stage [OF stop this, unfolded sel, OF refl refl]
  let ?pc = "isa_next_pc (idex_inst (id_ex c)) (idex_next_pc (id_ex c)) (i_regs s) (PC c)"
  have sh': "\<not> may_transfer (ifid_inst (if_id c))" "ram_backed m ?pc" "ram_backed m (?pc + 4)"
    using sh by (simp_all add: shadow_ok_def shadow_pc_def sel)
  then obtain inst where "isa_load MEM_OP_WORD m ?pc = Some inst" by (simp add: isa_load_def)
  then obtain c5 where t: "tick_core core mem g = Inr (forwarding_unit c5, m, g)" "advances c c5 ?pc inst" using tick [of inst g] unfolding ex(2) by blast
  have "pending (forwarding_unit c5) m (i_regs s) (i_cp0 s) e"
    using advances_pending [OF mid(1) t(2) sh'(1) ex(1)] mid(2) by simp
  then show ?thesis
    using t sh' by (simp add: sel shadow_pc_def advances_def Let_def)
qed

text \<open>What the two kinds of instruction that stop do at write-back, and what the tick after leaves.\<close>

lemma stop_second_tick:
  assumes p: "pending c1 m r k e" and "ram_backed m (PC c1)"
  shows "\<exists>c2. tick_core c1 m g = Inr (c2, m, g) \<and> gpr (regs c2) = r \<and> regs c2 0 = 0 \<and> cp0 c2 = k
     \<and> passed_on (ex_mem c1) e (mem_wb c2) \<and> PC c2 \<in> {PC c1, PC c1 + 4}"
proof -
  obtain inst where "isa_load MEM_OP_WORD m (PC c1) = Some inst" using assms(2) by (simp add: isa_load_def)
  from drain_tick [OF p this, of g] obtain c' c5 where t: "tick_core c1 m g = Inr (forwarding_unit c5, m, g)"
    "passed_on (ex_mem c1) e (mem_wb c5)" "gpr (regs c5) = r" "cp0 c5 = k" "advances c' c5 (PC c1) inst" by blast
  have "r 0 = 0" using p commit_zero by (auto simp: pending_def)
  with t(3) have "regs c5 0 = 0" by auto
  moreover have "PC c5 \<in> {PC c1, PC c1 + 4}" using t(5) by (simp add: advances_def Let_def)
  ultimately show ?thesis using t by (intro exI [of _ "forwarding_unit c5"]) simp
qed

definition stopped_cp0 :: "exception_t \<Rightarrow> isa_t \<Rightarrow> cp0_t" where
  "stopped_cp0 e s = (if i_cur s = INSTRUCTION_ERET then eret_cp0 s else trap_cp0 e s)"

definition stopped_pc :: "isa_t \<Rightarrow> u32" where
  "stopped_pc s = (if i_cur s = INSTRUCTION_ERET then i_cp0 s REG_EPC else exception_vector (i_cp0 s))"

text \<open>The state in which the machine continues, with the word \<open>inst\<close> fetched.\<close>

definition resumed :: "exception_t \<Rightarrow> isa_t \<Rightarrow> u32 \<Rightarrow> isa_t" where
  "resumed e s inst = isa_fetched (i_regs s) (stopped_cp0 e s) (i_mem s) inst (stopped_pc s)"

lemma stop_third_tick:
  assumes p: "passed_on x e (mem_wb c)" and x: "exmem_inst x = i_cur s" "exmem_next_pc x = i_cur_npc s"
      "exmem_is_branch_delay x = i_cur_bd s"
    and stop: "stops s e" and v0: "e = EXC_Syscall \<longrightarrow> i_regs s REG_V0 \<noteq> 10"
    and c: "gpr (regs c) = i_regs s" "regs c 0 = 0" "cp0 c = i_cp0 s" "mmu_wf (i_mem s)"
    and ld: "isa_load MEM_OP_WORD (i_mem s) (stopped_pc s) = Some inst"
  shows "\<exists>c3. tick_core c (i_mem s) g = Inr (c3, i_mem s, g) \<and> pipe_rel c3 (i_mem s)
     \<and> pipe_abs c3 (i_mem s) = resumed e s inst"
proof (cases "i_cur s = INSTRUCTION_ERET")
  case True
  then have "memwb_inst (mem_wb c) = INSTRUCTION_ERET" using p x by (simp add: passed_on_def)
  from eret_resumes [OF this c(2,4)] ld c(1,3) True show ?thesis
    by (simp add: resumed_def stopped_pc_def stopped_cp0_def eret_cp0_def)
next
  case False
  with stop have e: "e \<noteq> EXC_None" "e = EXC_Syscall \<or> e = EXC_ArithmeticOverflow \<or> e = EXC_AddressErrorStore"
    by (auto simp: stops_def isa_raises_def Let_def split: if_splits)
  have w: "memwb_exception (mem_wb c) = e" "memwb_inst (mem_wb c) \<noteq> INSTRUCTION_ERET"
    "memwb_next_pc (mem_wb c) = i_cur_npc s" "memwb_is_branch_delay (mem_wb c) = i_cur_bd s"
    using p x False by (simp_all add: passed_on_def)
  have v: "regs c REG_V0 = i_regs s REG_V0" using fun_cong [OF c(1), of 2] by (simp add: gpr_def)
  have "exception_cp0 (mem_wb c) (cp0 c) = trap_cp0 e s"
    using e w c(3) by (auto simp: exception_cp0_def trap_cp0_def fun_eq_iff)
  with exception_entry [of c "i_mem s" inst g] ld e w v v0 c False show ?thesis
    by (simp add: resumed_def stopped_pc_def stopped_cp0_def)
qed

lemma stop_ticks:
  assumes rel: "pipe_rel core mem" and s: "s = pipe_abs core mem" and stop: "stops s e" and sh: "shadow_ok s"
    and v0: "e = EXC_Syscall \<longrightarrow> i_regs s REG_V0 \<noteq> 10"
    and ld: "isa_load MEM_OP_WORD (i_mem s) (stopped_pc s) = Some inst"
  obtains c1 c2 c3 where "tick_core core mem g = Inr (c1, i_mem s, g)" "tick_core c1 (i_mem s) g = Inr (c2, i_mem s, g)"
    "tick_core c2 (i_mem s) g = Inr (c3, i_mem s, g)" "pipe_rel c3 (i_mem s)"
    "pipe_abs c3 (i_mem s) = resumed e s inst"
    "ram_backed (i_mem s) (PC c1)" "ram_backed (i_mem s) (shadow_pc s + 8) \<Longrightarrow> ram_backed (i_mem s) (PC c2)"
proof -
  obtain c1 where c1: "tick_core core mem g = Inr (c1, i_mem s, g)" "pending c1 (i_mem s) (i_regs s) (i_cp0 s) e"
    "exmem_inst (ex_mem c1) = i_cur s" "exmem_next_pc (ex_mem c1) = i_cur_npc s"
    "exmem_is_branch_delay (ex_mem c1) = i_cur_bd s" "ram_backed (i_mem s) (PC c1)"
    "PC c1 \<in> {shadow_pc s, shadow_pc s + 4}"
    using stop_first_tick [OF rel s stop sh] by blast
  obtain c2 where c2: "tick_core c1 (i_mem s) g = Inr (c2, i_mem s, g)" "gpr (regs c2) = i_regs s" "regs c2 0 = 0"
    "cp0 c2 = i_cp0 s" "passed_on (ex_mem c1) e (mem_wb c2)" "PC c2 \<in> {PC c1, PC c1 + 4}"
    using stop_second_tick [OF c1(2,6)] by metis
  have "mmu_wf (i_mem s)" using c1(2) by (simp add: pending_def)
  from stop_third_tick [OF c2(5) c1(3-5) stop v0 c2(2-4) this ld, of g]
  obtain c3 where "tick_core c2 (i_mem s) g = Inr (c3, i_mem s, g)" "pipe_rel c3 (i_mem s)"
    "pipe_abs c3 (i_mem s) = resumed e s inst" by blast
  moreover have "ram_backed (i_mem s) (PC c2)" if "ram_backed (i_mem s) (shadow_pc s + 8)"
    using that c2(6) c1(7) sh by (auto simp: shadow_ok_def add.assoc)
  ultimately show thesis using that c1(1,6) c2(1) by blast
qed

section \<open>Refinement of the machine with traps\<close>

text \<open>A step of the machine executes an instruction or takes or leaves a trap.\<close>

lemma trap_step_cases:
  assumes "trap_step s k t"
  obtains (exec) "k = 1" "isa_step s = Some t"
    | (stop) e inst where "k = 3" "stops s e" "shadow_ok s" "e = EXC_Syscall \<longrightarrow> i_regs s REG_V0 \<noteq> 10"
        "isa_load MEM_OP_WORD (i_mem s) (stopped_pc s) = Some inst" "t = resumed e s inst"
  using assms
proof cases
  case exec
  then show thesis using that(1) by blast
next
  case (trap e inst)
  then have "i_cur s \<noteq> INSTRUCTION_ERET" using eret_no_step by force
  with trap show thesis by (intro that(2) [of e inst]) (simp_all add: stops_def resumed_def stopped_pc_def stopped_cp0_def)
next
  case (eret inst)
  then show thesis by (intro that(2) [of EXC_None inst]) (simp_all add: stops_def resumed_def stopped_pc_def stopped_cp0_def)
qed

lemma hw_step_single:
  "tick_core core mem g = Inr (core', mem', g') \<Longrightarrow>
     hw_step (\<lparr>hw_cpu = \<lparr>cores = [core]\<rparr>, hw_mmu = mem\<rparr>, g) = Inr (\<lparr>hw_cpu = \<lparr>cores = [core']\<rparr>, hw_mmu = mem'\<rparr>, g')"
  by (simp add: hw_step_def tick_def)

lemma trap_simulate:
  assumes rel: "hw_rel g s" and step: "trap_step (hw_abs s) k a"
  shows "\<exists>t. res_iter hw_step k s = Inr t \<and> hw_rel g t \<and> hw_abs t = a"
  using step
proof (cases rule: trap_step_cases)
  case exec
  with hw_simulate [OF rel exec(2)] show ?thesis by auto
next
  case (stop e inst)
  obtain core mem where s: "s = (\<lparr>hw_cpu = \<lparr>cores = [core]\<rparr>, hw_mmu = mem\<rparr>, g)" "pipe_rel core mem"
    using rel by (cases s; cases "fst s"; cases "hw_cpu (fst s)") (auto simp: hw_rel_def length_Suc_conv)
  let ?s = "pipe_abs core mem"
  have abs: "hw_abs s = ?s" by (simp add: s hw_abs_def)
  from stop_ticks [OF s(2) refl stop(2-5) [unfolded abs]] obtain c1 c2 c3 where
    "tick_core core mem g = Inr (c1, i_mem ?s, g)" "tick_core c1 (i_mem ?s) g = Inr (c2, i_mem ?s, g)"
    "tick_core c2 (i_mem ?s) g = Inr (c3, i_mem ?s, g)" "pipe_rel c3 (i_mem ?s)"
    "pipe_abs c3 (i_mem ?s) = resumed e ?s inst" by metis
  then show ?thesis
    using stop(1,6) by (simp add: numeral_3_eq_3 s hw_step_single hw_rel_def hw_abs_def)
qed

interpretation kernel: timed_simulation hw_step trap_step hw_abs "hw_rel g"
  for g
  by unfold_locales (rule trap_simulate)

text \<open>
  C2. Traps are transparent to programs.  From any state with an empty pipeline, every run
  of the sequential machine with exceptions -- system calls, overflows, rejected stores
  and returns from the handler, in any order -- is a run of the pipeline with the number
  of ticks the machine counts: it does not fault and reaches the same registers, memory,
  program counter and registers of coprocessor 0, the address and cause of a trap and what
  the handler moved there included.
\<close>

theorem pipeline_refines_traps:
  assumes "flushed core" and "mmu_wf mem"
    and "timed_run trap_step (isa_start (regs core) (cp0 core) mem) n a"
  shows "\<exists>hw'. res_iter hw_step n (\<lparr>hw_cpu = \<lparr>cores = [core]\<rparr>, hw_mmu = mem\<rparr>, g) = Inr (hw', g)
     \<and> pipe_abs (hd (cores (hw_cpu hw'))) (hw_mmu hw') = a"
proof -
  let ?s = "(\<lparr>hw_cpu = \<lparr>cores = [core]\<rparr>, hw_mmu = mem\<rparr>, g)"
  have "hw_rel g ?s" "hw_abs ?s = isa_start (regs core) (cp0 core) mem"
    using flushed_rel [OF assms(1,2)] by (simp_all add: hw_rel_def hw_abs_def)
  with kernel.simulate_run [OF assms(3)] obtain t where
    "res_iter hw_step n ?s = Inr t" "hw_rel g t" "hw_abs t = a" by blast
  then show ?thesis by (cases t) (auto simp: hw_rel_def hw_abs_def)
qed

section \<open>A system call and its return\<close>

text \<open>The program makes a system call; the handler moves the saved address to \<open>$k0\<close> and returns.\<close>

abbreviation (input) MFC0_K0_EPC :: u32 where "MFC0_K0_EPC \<equiv> 0x401A7000"

definition trap_mem :: mmu_t where
  "trap_mem = demo_mem\<lparr>pmem := set_big MEM_OP_WORD (set_big MEM_OP_WORD (set_big MEM_OP_WORD (pmem demo_mem) 0 0xC)
     0x80 MFC0_K0_EPC) 0x84 INSTRUCTION_ERET\<rparr>"

lemma trap_mem_wf: "mmu_wf trap_mem"
  by (simp add: trap_mem_def demo_mem_wf)

lemma trap_backed:
  "ram_backed trap_mem 0x80000000" "host_pos trap_mem 0x80000000 = 0"
  "ram_backed trap_mem 0x80000004" "host_pos trap_mem 0x80000004 = 4"
  "ram_backed trap_mem 0x80000008" "ram_backed trap_mem 0x8000000C"
  "ram_backed trap_mem 0x80000080" "host_pos trap_mem 0x80000080 = 0x80"
  "ram_backed trap_mem 0x80000084" "host_pos trap_mem 0x80000084 = 0x84"
  "ram_backed trap_mem 0x80000088" "host_pos trap_mem 0x80000088 = 0x88"
  "ram_backed trap_mem 0x8000008C" "ram_backed trap_mem 0x80000090"
  by (simp_all add: ram_backed_def host_pos_def translate_vaddr_def translate_paddr_def demo_mem_def trap_mem_def)

lemma trap_fetch:
  "isa_load MEM_OP_WORD trap_mem 0x80000000 = Some 0xC" "isa_load MEM_OP_WORD trap_mem 0x80000004 = Some 0"
  "isa_load MEM_OP_WORD trap_mem 0x80000080 = Some MFC0_K0_EPC"
  "isa_load MEM_OP_WORD trap_mem 0x80000084 = Some INSTRUCTION_ERET" "isa_load MEM_OP_WORD trap_mem 0x80000088 = Some 0"
  by (simp_all add: isa_load_def trap_backed)
    (simp_all add: trap_mem_def demo_mem_def GET_BIGWORD_def SET_BIGWORD_def)

definition trap_at :: "(nat \<Rightarrow> u32) \<Rightarrow> cp0_t \<Rightarrow> u32 \<Rightarrow> u32 \<Rightarrow> u32 \<Rightarrow> u32 \<Rightarrow> isa_t" where
  "trap_at r c inst nxt pc p = \<lparr>i_regs = r, i_cp0 = c, i_mem = trap_mem, i_cur = inst, i_cur_npc = pc + 4,
     i_cur_bd = False, i_nxt = nxt, i_nxt_npc = pc + 8, i_nxt_bd = False, i_pc = pc + 8, i_prev = p, i_prev2 = 0\<rparr>"

lemma isa_step_fetched:
  assumes "isa_load MEM_OP_WORD trap_mem (pc + 4) = Some i2" and "\<not> isa_interlock inst i2"
  shows "isa_step (isa_fetched r c trap_mem inst pc) = Some (trap_at r c inst i2 pc 0)"
  using assms by (simp add: isa_step_def isa_do_exec isa_fetched_def trap_at_def isa_nop Let_def)

lemma mfc0_fields:
  "is_mfc0 MFC0_K0_EPC" "GET_OPCODE MFC0_K0_EPC = OPCODE_CP0" "GET_RT MFC0_K0_EPC = 26" "GET_RD MFC0_K0_EPC = 14"
  by (simp_all add: is_mfc0_def GET_OPCODE_def GET_RS_def GET_RT_def GET_RD_def)

lemma mfc0_step:
  "isa_step (trap_at r c MFC0_K0_EPC INSTRUCTION_ERET 0x80000080 0) =
     Some (trap_at (isa_wr r 26 (c REG_EPC)) c INSTRUCTION_ERET 0 0x80000084 MFC0_K0_EPC)"
proof -
  have "isa_next_pc MFC0_K0_EPC npc r pc = pc" "\<not> isa_taken MFC0_K0_EPC r" for npc pc
    using move_next [of MFC0_K0_EPC] mfc0_fields(1) by blast+
  moreover have "\<not> isa_interlock INSTRUCTION_ERET 0" by (simp add: isa_interlock_def is_load_op_def eret_fields)
  ultimately show ?thesis
    by (simp add: isa_step_def isa_do_def trap_at_def mfc0_fields mfc0_ok_def nop_opcode trap_fetch Let_def)
qed

definition trap_regs :: cp0_t where
  "trap_regs = (\<lambda>_. 0)(REG_EPC := 0x80000004, REG_CAUSE := get_cause EXC_Syscall False, REG_SR := SR_EXL)"

lemma call_trap:
  assumes "r REG_V0 \<noteq> 10"
  shows "trap_step (trap_at r (\<lambda>_. 0) 0xC 0 0x80000000 0) 3 (isa_fetched r trap_regs trap_mem MFC0_K0_EPC 0x80000080)"
proof -
  let ?s = "trap_at r (\<lambda>_. 0) 0xC 0 0x80000000 0"
  have i: "is_syscall 0xC" "GET_OPCODE 0xC = 0" "GET_FUNCT 0xC = 0xC"
    by (simp_all add: is_syscall_def GET_OPCODE_def GET_FUNCT_def)
  have "isa_raises ?s = Some EXC_Syscall" by (simp add: isa_raises_def trap_at_def i)
  moreover have "shadow_ok ?s"
    by (simp add: shadow_ok_def shadow_pc_def trap_at_def isa_next_pc_def i may_transfer_def GET_OPCODE_def GET_FUNCT_def trap_backed)
  moreover have "exception_vector (i_cp0 ?s) = 0x80000080" by (simp add: exception_vector_def trap_at_def)
  moreover have "trap_cp0 EXC_Syscall ?s = trap_regs" by (simp add: trap_cp0_def trap_at_def trap_regs_def)
  ultimately show ?thesis
    using trap_step.trap [of ?s EXC_Syscall MFC0_K0_EPC] trap_fetch(3) assms by (simp add: trap_at_def)
qed

lemma call_return:
  "trap_step (trap_at r trap_regs INSTRUCTION_ERET 0 0x80000084 p) 3
     (isa_fetched r (trap_regs(REG_SR := 0)) trap_mem 0 0x80000004)"
proof -
  let ?s = "trap_at r trap_regs INSTRUCTION_ERET 0 0x80000084 p"
  have "shadow_ok ?s"
    by (simp add: shadow_ok_def shadow_pc_def trap_at_def isa_next_pc_def eret_fields may_transfer_def GET_OPCODE_def
        GET_FUNCT_def trap_backed)
  moreover have "eret_cp0 ?s = trap_regs(REG_SR := 0)" by (simp add: eret_cp0_def trap_at_def trap_regs_def)
  moreover have "trap_regs REG_EPC = 0x80000004" by (simp add: trap_regs_def)
  ultimately show ?thesis
    using trap_step.eret [of ?s 0] trap_fetch(2) by (simp add: trap_at_def)
qed

lemma call_trace:
  fixes r :: "nat \<Rightarrow> u32"
  assumes "r REG_PC = 0x80000000" and "r REG_V0 \<noteq> 10"
  shows "timed_run trap_step (isa_start r (\<lambda>_. 0) trap_mem) 10
     (isa_fetched (isa_wr (gpr r) 26 0x80000004) (trap_regs(REG_SR := 0)) trap_mem 0 0x80000004)"
proof -
  note more = timed_run.more [of trap_step] and exec = trap_step.exec
  have e: "\<not> isa_interlock 0xC i" "\<not> isa_interlock MFC0_K0_EPC i" for i
    by (simp_all add: isa_interlock_def is_load_op_def mfc0_fields(2)) (simp add: GET_OPCODE_def)
  let ?r = "isa_wr (gpr r) 26 (trap_regs REG_EPC)"
  have "timed_run trap_step (trap_at ?r trap_regs INSTRUCTION_ERET 0 0x80000084 MFC0_K0_EPC) (3 + 0)
      (isa_fetched ?r (trap_regs(REG_SR := 0)) trap_mem 0 0x80000004)"
    by (rule more [OF call_return timed_run.stop])
  note more [OF exec [OF mfc0_step] this]
  note more [OF exec [OF isa_step_fetched] this, OF _ e(2)]
  note more [OF call_trap this]
  note run = more [OF exec [OF isa_step_fetched] this, OF _ e(1)]
  have "trap_step (isa_start r (\<lambda>_. 0) trap_mem) 1 (isa_fetched (gpr r) (\<lambda>_. 0) trap_mem 0xC 0x80000000)"
    using exec [OF isa_step_start [of trap_mem r "0xC" "\<lambda>_. 0"]] assms(1) trap_fetch(1) by simp
  from more [OF this run] show ?thesis using assms(2) trap_fetch by (simp add: trap_regs_def)
qed

theorem pipeline_refines_traps_witness:
  "\<exists>hw'. res_iter hw_step 10 (\<lparr>hw_cpu = \<lparr>cores = [demo_core]\<rparr>, hw_mmu = trap_mem\<rparr>, False) = Inr (hw', False)
     \<and> i_pc (pipe_abs (hd (cores (hw_cpu hw'))) (hw_mmu hw')) = 0x80000008
     \<and> i_regs (pipe_abs (hd (cores (hw_cpu hw'))) (hw_mmu hw')) 26 = 0x80000004
     \<and> i_cp0 (pipe_abs (hd (cores (hw_cpu hw'))) (hw_mmu hw')) REG_SR = 0"
proof -
  have "cp0 demo_core = (\<lambda>_. 0)" "regs demo_core REG_PC = 0x80000000" "regs demo_core REG_V0 \<noteq> 10"
    by (simp_all add: demo_core_def zero_core_def)
  then show ?thesis
    using pipeline_refines_traps [OF demo_core_flushed trap_mem_wf, of 10 _ False] call_trace [of "regs demo_core"]
    by (fastforce simp: isa_fetched_def trap_regs_def isa_wr_def)
qed

end
