(* ===== verification/Elf.thy ===== *)
theory Elf
  imports Mem
begin

unbundle bit_operations_syntax

text \<open>
  The ELF loader \<open>elf.c\<close>.  The file is a list of bytes with a position; \<open>fread\<close>, \<open>fseek\<close> and
  \<open>ftell\<close> are modelled as the C library documents them for a regular file: a read past
  the end is short, a seek to a non-negative offset succeeds, a read of zero bytes
  returns zero items.  The file system is a parameter that maps paths to contents, and
  so is the outcome of \<open>fclose\<close>.  Error returns are the negative codes of \<open>elf.h\<close>; writes
  through a null pointer or past the simulated memory are faults.
\<close>

section \<open>Constants and structures\<close>

abbreviation (input) ELF_ERROR_IO_ERROR :: int where "ELF_ERROR_IO_ERROR \<equiv> - 1"
abbreviation (input) ELF_ERROR_NOT_ELF :: int where "ELF_ERROR_NOT_ELF \<equiv> - 3"
abbreviation (input) ELF_ERROR_NOT_SUPPORTED :: int where "ELF_ERROR_NOT_SUPPORTED \<equiv> - 4"

abbreviation (input) EI_CLASS :: nat where "EI_CLASS \<equiv> 4"
abbreviation (input) EI_DATA :: nat where "EI_DATA \<equiv> 5"
abbreviation (input) EI_NIDENT :: nat where "EI_NIDENT \<equiv> 16"
abbreviation (input) ELFCLASS32 :: u8 where "ELFCLASS32 \<equiv> 1"
abbreviation (input) ELFDATA2MSB :: u8 where "ELFDATA2MSB \<equiv> 2"
abbreviation (input) ET_EXEC :: u16 where "ET_EXEC \<equiv> 2"
abbreviation (input) EM_MIPS :: u16 where "EM_MIPS \<equiv> 8"
abbreviation (input) PT_NULL :: u32 where "PT_NULL \<equiv> 0"
abbreviation (input) PT_LOAD :: u32 where "PT_LOAD \<equiv> 1"
abbreviation (input) PT_NOTE :: u32 where "PT_NOTE \<equiv> 4"
abbreviation (input) PT_MIPS_ABIFLAGS :: u32 where "PT_MIPS_ABIFLAGS \<equiv> 0x70000003"

record ehdr =
  e_ident :: "u8 list"
  e_type :: u16
  e_machine :: u16
  e_version :: u32
  e_entry :: u32
  e_phoff :: u32
  e_shoff :: u32
  e_flags :: u32
  e_ehsize :: u16
  e_phentsize :: u16
  e_phnum :: u16
  e_shentsize :: u16
  e_shnum :: u16
  e_shstrndx :: u16

text \<open>The six words of a program header the loader reads.\<close>

record p_header =
  p_type :: u32
  p_offset :: u32
  p_vaddr :: u32
  p_paddr :: u32
  p_filesz :: u32
  p_memsz :: u32

record stream =
  st_data :: "u8 list"
  st_pos :: nat

section \<open>The stream\<close>

text \<open>\<open>fread(buf, size, 1, stream)\<close>: whether one item was read, the bytes stored, the stream.\<close>

definition fread :: "nat \<Rightarrow> stream \<Rightarrow> bool \<times> u8 list \<times> stream" where
  "fread sz s = (let got = take sz (drop (st_pos s) (st_data s)) in
     (sz \<noteq> 0 \<and> length got = sz, got, s\<lparr>st_pos := st_pos s + length got\<rparr>))"

definition fseek :: "nat \<Rightarrow> stream \<Rightarrow> stream" where
  "fseek off s = s\<lparr>st_pos := off\<rparr>"

section \<open>The file header\<close>

definition check_magic_number :: "u8 list \<Rightarrow> int" where
  "check_magic_number ident =
     (if ident ! 0 \<noteq> 0x7F \<or> ident ! 1 \<noteq> 0x45 \<or> ident ! 2 \<noteq> 0x4C \<or> ident ! 3 \<noteq> 0x46
      then ELF_ERROR_NOT_ELF else 0)"

definition check_elf_class_32 :: "u8 list \<Rightarrow> int" where
  "check_elf_class_32 ident = (if ident ! EI_CLASS \<noteq> ELFCLASS32 then ELF_ERROR_NOT_SUPPORTED else 0)"

definition check_data_encoding :: "u8 list \<Rightarrow> int" where
  "check_data_encoding ident = (if ident ! EI_DATA \<noteq> ELFDATA2MSB then ELF_ERROR_NOT_SUPPORTED else 0)"

definition read_elf_ident :: "stream \<Rightarrow> (int + u8 list) \<times> stream" where
  "read_elf_ident s = (case fread EI_NIDENT s of (ok, ident, s) \<Rightarrow>
     if \<not> ok then (Inl ELF_ERROR_IO_ERROR, s)
     else if check_magic_number ident \<noteq> 0 then (Inl (check_magic_number ident), s)
     else if check_elf_class_32 ident \<noteq> 0 then (Inl (check_elf_class_32 ident), s)
     else if check_data_encoding ident \<noteq> 0 then (Inl (check_data_encoding ident), s)
     else (Inr ident, s))"

definition be_half :: "u8 list \<Rightarrow> u16" where
  "be_half buf = push_bit 8 (ucast (buf ! 0)) OR ucast (buf ! 1)"

definition be_word :: "u8 list \<Rightarrow> u32" where
  "be_word buf = push_bit 24 (ucast (buf ! 0)) OR push_bit 16 (ucast (buf ! 1))
     OR push_bit 8 (ucast (buf ! 2)) OR ucast (buf ! 3)"

primrec read_be_half_words :: "nat \<Rightarrow> stream \<Rightarrow> (int + u16 list) \<times> stream" where
  "read_be_half_words 0 s = (Inr [], s)"
| "read_be_half_words (Suc n) s = (case fread 2 s of (ok, buf, s) \<Rightarrow>
     if \<not> ok then (Inl ELF_ERROR_IO_ERROR, s)
     else (case read_be_half_words n s of (r, s) \<Rightarrow> (map_sum id (Cons (be_half buf)) r, s)))"

primrec read_be_words :: "nat \<Rightarrow> stream \<Rightarrow> (int + u32 list) \<times> stream" where
  "read_be_words 0 s = (Inr [], s)"
| "read_be_words (Suc n) s = (case fread 4 s of (ok, buf, s) \<Rightarrow>
     if \<not> ok then (Inl ELF_ERROR_IO_ERROR, s)
     else (case read_be_words n s of (r, s) \<Rightarrow> (map_sum id (Cons (be_word buf)) r, s)))"

definition check_type :: "u16 \<Rightarrow> int" where
  "check_type t = (if t \<noteq> ET_EXEC then ELF_ERROR_NOT_SUPPORTED else 0)"

definition check_machine :: "u16 \<Rightarrow> int" where
  "check_machine m = (if m \<noteq> EM_MIPS then ELF_ERROR_NOT_SUPPORTED else 0)"

definition read_type_and_machine :: "stream \<Rightarrow> (int + u16 list) \<times> stream" where
  "read_type_and_machine s = (case read_be_half_words 2 s of
       (Inl e, s) \<Rightarrow> (Inl e, s)
     | (Inr hs, s) \<Rightarrow>
         if check_type (hs ! 0) \<noteq> 0 then (Inl (check_type (hs ! 0)), s)
         else if check_machine (hs ! 1) \<noteq> 0 then (Inl (check_machine (hs ! 1)), s)
         else (Inr hs, s))"

definition mk_ehdr :: "u8 list \<Rightarrow> u16 list \<Rightarrow> u32 list \<Rightarrow> u16 list \<Rightarrow> ehdr" where
  "mk_ehdr ident tm ws hs = \<lparr>e_ident = ident, e_type = tm ! 0, e_machine = tm ! 1,
     e_version = ws ! 0, e_entry = ws ! 1, e_phoff = ws ! 2, e_shoff = ws ! 3, e_flags = ws ! 4,
     e_ehsize = hs ! 0, e_phentsize = hs ! 1, e_phnum = hs ! 2, e_shentsize = hs ! 3,
     e_shnum = hs ! 4, e_shstrndx = hs ! 5\<rparr>"

definition read_ehdr :: "stream \<Rightarrow> (int + ehdr) \<times> stream" where
  "read_ehdr s = (case read_elf_ident s of
       (Inl e, s) \<Rightarrow> (Inl e, s)
     | (Inr ident, s) \<Rightarrow> (case read_type_and_machine s of
         (Inl e, s) \<Rightarrow> (Inl e, s)
       | (Inr tm, s) \<Rightarrow> (case read_be_words 5 s of
           (Inl e, s) \<Rightarrow> (Inl e, s)
         | (Inr ws, s) \<Rightarrow> (case read_be_half_words 6 s of
             (Inl e, s) \<Rightarrow> (Inl e, s)
           | (Inr hs, s) \<Rightarrow> (Inr (mk_ehdr ident tm ws hs), s)))))"

section \<open>Segments\<close>

text \<open>
  Writing a block through a host pointer.  A block of no bytes touches nothing, so the
  null pointer and the bound matter only for blocks that are not empty.
\<close>

definition put_bytes :: "bytes \<Rightarrow> nat \<Rightarrow> u8 list \<Rightarrow> bytes" where
  "put_bytes a p bs = (\<lambda>q. if p \<le> q \<and> q < p + length bs then bs ! (q - p) else a q)"

definition write_block :: "mmu_t \<Rightarrow> nat option \<Rightarrow> u8 list \<Rightarrow> mmu_t res" where
  "write_block mem ptr bs =
     (if bs = [] then Inr mem
      else case ptr of
        None \<Rightarrow> Inl NullDeref
      | Some p \<Rightarrow> if p + length bs \<le> pmem_len mem
          then Inr (mem\<lparr>pmem := put_bytes (pmem mem) p bs\<rparr>) else Inl OutOfBounds)"

definition copy_segment :: "stream \<Rightarrow> p_header \<Rightarrow> mmu_t \<Rightarrow> (int \<times> stream \<times> mmu_t) res" where
  "copy_segment s phdr mem =
     (let segmem = translate_paddr (translate_vaddr (p_vaddr phdr)) mem in
      bind_res (write_block mem segmem (replicate (unat (p_memsz phdr)) 0)) (\<lambda>mem.
      case fread (unat (p_filesz phdr)) (fseek (unat (p_offset phdr)) s) of (ok, got, s) \<Rightarrow>
      bind_res (write_block mem segmem got) (\<lambda>mem.
        Inr (if ok then 0 else ELF_ERROR_IO_ERROR, s, mem))))"

definition mk_phdr :: "u32 list \<Rightarrow> p_header" where
  "mk_phdr ws = \<lparr>p_type = ws ! 0, p_offset = ws ! 1, p_vaddr = ws ! 2, p_paddr = ws ! 3,
     p_filesz = ws ! 4, p_memsz = ws ! 5\<rparr>"

definition copy_cur_segment_aux :: "stream \<Rightarrow> mmu_t \<Rightarrow> (int \<times> stream \<times> mmu_t) res" where
  "copy_cur_segment_aux s mem = (case read_be_words 6 s of
       (Inl e, s) \<Rightarrow> Inr (ELF_ERROR_IO_ERROR, s, mem)
     | (Inr ws, s) \<Rightarrow> (let phdr = mk_phdr ws in
         if p_type phdr = PT_NULL \<or> p_type phdr = PT_NOTE \<or> p_type phdr = PT_MIPS_ABIFLAGS
         then Inr (0, s, mem)
         else if p_type phdr = PT_LOAD then copy_segment s phdr mem
         else Inr (ELF_ERROR_NOT_SUPPORTED, s, mem)))"

definition copy_cur_segment :: "ehdr \<Rightarrow> stream \<Rightarrow> mmu_t \<Rightarrow> (int \<times> stream \<times> mmu_t) res" where
  "copy_cur_segment h s mem =
     (let origin = st_pos s in
      bind_res (copy_cur_segment_aux s mem) (\<lambda>(retval, s, mem).
        Inr (retval, fseek (origin + unat (e_phentsize h)) s, mem)))"

primrec copy_segments_loop :: "nat \<Rightarrow> ehdr \<Rightarrow> stream \<Rightarrow> mmu_t \<Rightarrow> (int \<times> stream \<times> mmu_t) res" where
  "copy_segments_loop 0 h s mem = Inr (0, s, mem)"
| "copy_segments_loop (Suc n) h s mem =
     bind_res (copy_cur_segment h s mem) (\<lambda>(retval, s, mem).
       if retval \<noteq> 0 then Inr (retval, s, mem) else copy_segments_loop n h s mem)"

definition copy_all_segments :: "ehdr \<Rightarrow> stream \<Rightarrow> mmu_t \<Rightarrow> (int \<times> stream \<times> mmu_t) res" where
  "copy_all_segments h s mem =
     copy_segments_loop (unat (e_phnum h)) h (fseek (unat (e_phoff h)) s) mem"

section \<open>Loading a file\<close>

definition elf_open :: "(string \<Rightarrow> u8 list option) \<Rightarrow> string \<Rightarrow> int + (ehdr \<times> stream)" where
  "elf_open fs path = (case fs path of
       None \<Rightarrow> Inl ELF_ERROR_IO_ERROR
     | Some bs \<Rightarrow> (case read_ehdr \<lparr>st_data = bs, st_pos = 0\<rparr> of
         (Inl e, _) \<Rightarrow> Inl e
       | (Inr h, s) \<Rightarrow> Inr (h, s)))"

definition elf_close :: "bool \<Rightarrow> int" where
  "elf_close fclose_ok = (if fclose_ok then 0 else ELF_ERROR_IO_ERROR)"

text \<open>The return code, the value of \<open>*entry\<close> and the memory after the call.\<close>

definition elf_dump ::
  "(string \<Rightarrow> u8 list option) \<Rightarrow> bool \<Rightarrow> string \<Rightarrow> u32 \<Rightarrow> mmu_t \<Rightarrow> (int \<times> u32 \<times> mmu_t) res" where
  "elf_dump fs fclose_ok path entry mem = (case elf_open fs path of
       Inl e \<Rightarrow> Inr (e, entry, mem)
     | Inr (h, s) \<Rightarrow>
         bind_res (copy_all_segments h s mem) (\<lambda>(retval, s, mem).
           Inr (if retval \<noteq> 0 then retval else elf_close fclose_ok, e_entry h, mem)))"

section \<open>Random access to a file\<close>

text \<open>The reference the stream-based parser is compared with: fields at fixed offsets.\<close>

definition half_at :: "u8 list \<Rightarrow> nat \<Rightarrow> u16" where
  "half_at bs p = be_half (take 2 (drop p bs))"

definition word_at :: "u8 list \<Rightarrow> nat \<Rightarrow> u32" where
  "word_at bs p = be_word (take 4 (drop p bs))"

definition header_code :: "u8 list \<Rightarrow> int" where
  "header_code bs =
     (if length bs < 16 then ELF_ERROR_IO_ERROR
      else if take 4 bs \<noteq> [0x7F, 0x45, 0x4C, 0x46] then ELF_ERROR_NOT_ELF
      else if bs ! 4 \<noteq> ELFCLASS32 \<or> bs ! 5 \<noteq> ELFDATA2MSB then ELF_ERROR_NOT_SUPPORTED
      else if length bs < 20 then ELF_ERROR_IO_ERROR
      else if half_at bs 16 \<noteq> ET_EXEC \<or> half_at bs 18 \<noteq> EM_MIPS then ELF_ERROR_NOT_SUPPORTED
      else if length bs < 52 then ELF_ERROR_IO_ERROR
      else 0)"

definition phdr_at :: "u8 list \<Rightarrow> nat \<Rightarrow> p_header" where
  "phdr_at bs p = \<lparr>p_type = word_at bs p, p_offset = word_at bs (p + 4), p_vaddr = word_at bs (p + 8),
     p_paddr = word_at bs (p + 12), p_filesz = word_at bs (p + 16), p_memsz = word_at bs (p + 20)\<rparr>"

lemma read_be_half_words_at:
  "read_be_half_words n \<lparr>st_data = bs, st_pos = p\<rparr> =
     (if n = 0 \<or> p + 2 * n \<le> length bs
      then (Inr (map (\<lambda>i. half_at bs (p + 2 * i)) [0..<n]), \<lparr>st_data = bs, st_pos = p + 2 * n\<rparr>)
      else (Inl ELF_ERROR_IO_ERROR, \<lparr>st_data = bs, st_pos = max p (length bs)\<rparr>))"
proof (induction n arbitrary: p)
  case (Suc n)
  have m: "map (\<lambda>i. half_at bs (p + 2 * i)) [0..<Suc n]
      = half_at bs p # map (\<lambda>i. half_at bs (p + 2 + 2 * i)) [0..<n]"
    by (simp add: upt_conv_Cons map_Suc_upt [symmetric] algebra_simps del: upt_Suc)
  show ?case
    using Suc.IH [of "p + 2"] unfolding m
    by (auto simp: fread_def half_at_def Let_def min_def max_def)
qed simp

lemma read_be_words_at:
  "read_be_words n \<lparr>st_data = bs, st_pos = p\<rparr> =
     (if n = 0 \<or> p + 4 * n \<le> length bs
      then (Inr (map (\<lambda>i. word_at bs (p + 4 * i)) [0..<n]), \<lparr>st_data = bs, st_pos = p + 4 * n\<rparr>)
      else (Inl ELF_ERROR_IO_ERROR, \<lparr>st_data = bs, st_pos = max p (length bs)\<rparr>))"
proof (induction n arbitrary: p)
  case (Suc n)
  have m: "map (\<lambda>i. word_at bs (p + 4 * i)) [0..<Suc n]
      = word_at bs p # map (\<lambda>i. word_at bs (p + 4 + 4 * i)) [0..<n]"
    by (simp add: upt_conv_Cons map_Suc_upt [symmetric] algebra_simps del: upt_Suc)
  show ?case
    using Suc.IH [of "p + 4"] unfolding m
    by (auto simp: fread_def word_at_def Let_def min_def max_def)
qed simp

lemma list_four: "4 \<le> length xs \<Longrightarrow> take 4 xs = [xs ! 0, xs ! 1, xs ! 2, xs ! 3]"
  by (rule nth_equalityI) (auto simp: less_Suc_eq numeral_eq_Suc)

lemma check_magic_take:
  "4 \<le> length bs \<Longrightarrow> check_magic_number (take 16 bs) =
     (if take 4 bs \<noteq> [0x7F, 0x45, 0x4C, 0x46] then ELF_ERROR_NOT_ELF else 0)"
  by (simp add: check_magic_number_def list_four)

definition ehdr_at :: "u8 list \<Rightarrow> ehdr" where
  "ehdr_at bs = \<lparr>e_ident = take 16 bs, e_type = half_at bs 16, e_machine = half_at bs 18,
     e_version = word_at bs 20, e_entry = word_at bs 24, e_phoff = word_at bs 28, e_shoff = word_at bs 32,
     e_flags = word_at bs 36, e_ehsize = half_at bs 40, e_phentsize = half_at bs 42,
     e_phnum = half_at bs 44, e_shentsize = half_at bs 46, e_shnum = half_at bs 48,
     e_shstrndx = half_at bs 50\<rparr>"

lemma elf_open_at:
  "elf_open fs path = (case fs path of
       None \<Rightarrow> Inl ELF_ERROR_IO_ERROR
     | Some bs \<Rightarrow> if header_code bs \<noteq> 0 then Inl (header_code bs)
         else Inr (ehdr_at bs, \<lparr>st_data = bs, st_pos = 52\<rparr>))"
proof (cases "fs path")
  case (Some bs)
  have n2: "[0..<2] = [0, 1 :: nat]" and n5: "[0..<5] = [0, 1, 2, 3, 4 :: nat]"
    and n6: "[0..<6] = [0, 1, 2, 3, 4, 5 :: nat]" by (simp_all add: upt_rec)
  have id: "read_elf_ident \<lparr>st_data = bs, st_pos = 0\<rparr> =
     (if length bs < 16 then (Inl ELF_ERROR_IO_ERROR, \<lparr>st_data = bs, st_pos = length bs\<rparr>)
      else if take 4 bs \<noteq> [0x7F, 0x45, 0x4C, 0x46] then (Inl ELF_ERROR_NOT_ELF, \<lparr>st_data = bs, st_pos = 16\<rparr>)
      else if bs ! 4 \<noteq> ELFCLASS32 \<or> bs ! 5 \<noteq> ELFDATA2MSB
      then (Inl ELF_ERROR_NOT_SUPPORTED, \<lparr>st_data = bs, st_pos = 16\<rparr>)
      else (Inr (take 16 bs), \<lparr>st_data = bs, st_pos = 16\<rparr>))"
    by (auto simp: read_elf_ident_def fread_def Let_def min_def check_magic_take
        check_elf_class_32_def check_data_encoding_def)
  show ?thesis
    by (auto simp: Some elf_open_def read_ehdr_def id read_type_and_machine_def read_be_half_words_at
        read_be_words_at header_code_def check_type_def check_machine_def mk_ehdr_def ehdr_at_def n2 n5 n6)
qed (simp add: elf_open_def)

end
