(* ===== verification/Elf_Load.thy ===== *)
theory Elf_Load
  imports Elf
begin

text \<open>
  Correctness of the ELF loader: equivalence with a random-access parser, the memory a
  successful load leaves, and freedom from faults for segments that fit.
\<close>

section \<open>The program header table\<close>

definition load_segment :: "u8 list \<Rightarrow> p_header \<Rightarrow> mmu_t \<Rightarrow> (int \<times> mmu_t) res" where
  "load_segment bs phdr mem =
     (let a = translate_paddr (translate_vaddr (p_vaddr phdr)) mem;
          got = take (unat (p_filesz phdr)) (drop (unat (p_offset phdr)) bs) in
      bind_res (write_block mem a (replicate (unat (p_memsz phdr)) 0)) (\<lambda>mem.
      bind_res (write_block mem a got) (\<lambda>mem.
        Inr (if p_filesz phdr \<noteq> 0 \<and> length got = unat (p_filesz phdr) then 0 else ELF_ERROR_IO_ERROR, mem))))"

definition load_entry :: "u8 list \<Rightarrow> nat \<Rightarrow> mmu_t \<Rightarrow> (int \<times> mmu_t) res" where
  "load_entry bs p mem =
     (if length bs < p + 24 then Inr (ELF_ERROR_IO_ERROR, mem)
      else if p_type (phdr_at bs p) \<in> {PT_NULL, PT_NOTE, PT_MIPS_ABIFLAGS} then Inr (0, mem)
      else if p_type (phdr_at bs p) = PT_LOAD then load_segment bs (phdr_at bs p) mem
      else Inr (ELF_ERROR_NOT_SUPPORTED, mem))"

primrec load_entries :: "u8 list \<Rightarrow> nat list \<Rightarrow> mmu_t \<Rightarrow> (int \<times> mmu_t) res" where
  "load_entries bs [] mem = Inr (0, mem)"
| "load_entries bs (p # ps) mem = bind_res (load_entry bs p mem) (\<lambda>(retval, mem).
     if retval \<noteq> 0 then Inr (retval, mem) else load_entries bs ps mem)"

definition phdr_offsets :: "u8 list \<Rightarrow> nat list" where
  "phdr_offsets bs = map (\<lambda>i. unat (word_at bs 28) + i * unat (half_at bs 42)) [0..<unat (half_at bs 44)]"

lemma copy_segment_at:
  "copy_segment \<lparr>st_data = bs, st_pos = p\<rparr> phdr mem =
     bind_res (load_segment bs phdr mem) (\<lambda>(rv, mem).
       Inr (rv, \<lparr>st_data = bs, st_pos = unat (p_offset phdr)
          + length (take (unat (p_filesz phdr)) (drop (unat (p_offset phdr)) bs))\<rparr>, mem))"
  by (simp add: copy_segment_def load_segment_def fread_def fseek_def Let_def bind_res_assoc unat_eq_zero)

lemma copy_cur_segment_at:
  "copy_cur_segment h \<lparr>st_data = bs, st_pos = p\<rparr> mem =
     bind_res (load_entry bs p mem) (\<lambda>(rv, mem).
       Inr (rv, \<lparr>st_data = bs, st_pos = p + unat (e_phentsize h)\<rparr>, mem))"
proof -
  have n6: "[0..<6] = [0, 1, 2, 3, 4, 5 :: nat]" by (simp add: upt_rec)
  have ph: "mk_phdr (map (\<lambda>i. word_at bs (p + 4 * i)) [0..<6]) = phdr_at bs p"
    by (simp add: mk_phdr_def phdr_at_def n6)
  show ?thesis
    by (auto simp: copy_cur_segment_def copy_cur_segment_aux_def read_be_words_at load_entry_def ph Let_def
        copy_segment_at bind_res_assoc fseek_def split_def intro!: bind_res_cong)
qed

lemma copy_segments_loop_at:
  "bind_res (copy_segments_loop n h \<lparr>st_data = bs, st_pos = p\<rparr> mem) (\<lambda>(rv, s, mem). f rv mem) =
     bind_res (load_entries bs (map (\<lambda>i. p + i * unat (e_phentsize h)) [0..<n]) mem) (\<lambda>(rv, mem). f rv mem)"
proof (induction n arbitrary: p mem)
  case (Suc n)
  let ?k = "unat (e_phentsize h)"
  have m: "map (\<lambda>i. p + i * ?k) [0..<Suc n] = p # map (\<lambda>i. p + ?k + i * ?k) [0..<n]"
    by (simp add: upt_conv_Cons map_Suc_upt [symmetric] algebra_simps del: upt_Suc)
  have "bind_res (copy_segments_loop (Suc n) h \<lparr>st_data = bs, st_pos = p\<rparr> mem) (\<lambda>(rv, s, mem). f rv mem)
      = bind_res (load_entry bs p mem) (\<lambda>(rv, mem). if rv \<noteq> 0 then f rv mem
          else bind_res (copy_segments_loop n h \<lparr>st_data = bs, st_pos = p + ?k\<rparr> mem) (\<lambda>(rv, s, mem). f rv mem))"
    by (auto simp: copy_cur_segment_at bind_res_assoc intro!: bind_res_cong)
  also have "\<dots> = bind_res (load_entries bs (p # map (\<lambda>i. p + ?k + i * ?k) [0..<n]) mem) (\<lambda>(rv, mem). f rv mem)"
    by (auto simp: Suc.IH bind_res_assoc intro!: bind_res_cong)
  finally show ?case unfolding m .
qed simp

lemma elf_dump_closed:
  "elf_dump fs fclose_ok path entry mem = (case fs path of
       None \<Rightarrow> Inr (ELF_ERROR_IO_ERROR, entry, mem)
     | Some bs \<Rightarrow>
         if header_code bs \<noteq> 0 then Inr (header_code bs, entry, mem)
         else bind_res (load_entries bs (phdr_offsets bs) mem) (\<lambda>(retval, mem).
           Inr (if retval \<noteq> 0 then retval else elf_close fclose_ok, word_at bs 24, mem)))"
proof (cases "fs path")
  case (Some bs)
  have e: "e_entry (ehdr_at bs) = word_at bs 24" "e_phoff (ehdr_at bs) = word_at bs 28"
    "e_phentsize (ehdr_at bs) = half_at bs 42" "e_phnum (ehdr_at bs) = half_at bs 44"
    by (simp_all add: ehdr_at_def)
  have "bind_res (copy_segments_loop (unat (half_at bs 44)) (ehdr_at bs) \<lparr>st_data = bs, st_pos = unat (word_at bs 28)\<rparr> mem)
       (\<lambda>(retval, s, mem). Inr (if retval \<noteq> 0 then retval else elf_close fclose_ok, word_at bs 24, mem))
     = bind_res (load_entries bs (phdr_offsets bs) mem)
       (\<lambda>(retval, mem). Inr (if retval \<noteq> 0 then retval else elf_close fclose_ok, word_at bs 24, mem))"
    using copy_segments_loop_at [of "unat (half_at bs 44)" "ehdr_at bs" bs "unat (word_at bs 28)" mem
        "\<lambda>retval mem. Inr (if retval \<noteq> 0 then retval else elf_close fclose_ok, word_at bs 24, mem)"]
    by (simp add: e phdr_offsets_def)
  then show ?thesis
    by (simp add: elf_dump_def elf_open_at Some copy_all_segments_def fseek_def e)
qed (simp add: elf_dump_def elf_open_at)

text \<open>
  C13. The loader reads the file it is given: for every file, \<open>elf_dump\<close>, which reads
  sequentially and seeks back and forth, has the same result -- return code, entry point,
  memory, fault -- as a parser that accesses the header and the program header table at
  their offsets.  In particular the return code for a malformed header is the one
  \<open>elf.h\<close> documents, and memory is then untouched.
\<close>

theorem elf_dump_random_access:
  "elf_dump fs fclose_ok path entry mem = (case fs path of
       None \<Rightarrow> Inr (ELF_ERROR_IO_ERROR, entry, mem)
     | Some bs \<Rightarrow>
         if header_code bs \<noteq> 0 then Inr (header_code bs, entry, mem)
         else bind_res (load_entries bs (phdr_offsets bs) mem) (\<lambda>(retval, mem).
           Inr (if retval \<noteq> 0 then retval else elf_close fclose_ok, word_at bs 24, mem)))"
  by (rule elf_dump_closed)

section \<open>What a load leaves in memory\<close>

definition covers :: "u8 list \<Rightarrow> mmu_t \<Rightarrow> nat \<Rightarrow> nat \<Rightarrow> bool" where
  "covers bs mem p q \<longleftrightarrow> (let h = phdr_at bs p in p_type h = PT_LOAD \<and>
     (case translate_paddr (translate_vaddr (p_vaddr h)) mem of None \<Rightarrow> False
      | Some a \<Rightarrow> a \<le> q \<and> q < a + max (unat (p_filesz h)) (unat (p_memsz h))))"

lemma put_bytes_nth: "k < length bs \<Longrightarrow> put_bytes a p bs (p + k) = bs ! k"
  by (simp add: put_bytes_def)

lemma put_bytes_outside: "q < p \<or> p + length bs \<le> q \<Longrightarrow> put_bytes a p bs q = a q"
  by (auto simp: put_bytes_def)

lemma put_bytes_Nil [simp]: "put_bytes a p [] = a"
  by (rule ext) (auto simp: put_bytes_def)

lemma write_block_frame:
  assumes "write_block mem a bs = Inr mem'"
  shows "mem' = mem\<lparr>pmem := (case a of None \<Rightarrow> pmem mem | Some p \<Rightarrow> put_bytes (pmem mem) p bs)\<rparr>"
  using assms
  by (auto simp: write_block_def split: if_splits option.splits)

lemma load_segment_frame:
  assumes "load_segment bs h mem = Inr (rv, mem')"
  shows "mem' = mem\<lparr>pmem := pmem mem'\<rparr>"
  using assms by (auto simp: load_segment_def bind_res_eq_Inr Let_def dest!: write_block_frame)

lemma load_entry_frame: "load_entry bs p mem = Inr (rv, mem') \<Longrightarrow> mem' = mem\<lparr>pmem := pmem mem'\<rparr>"
  by (auto simp: load_entry_def split: if_splits dest: load_segment_frame)

lemma load_entries_frame: "load_entries bs ps mem = Inr (rv, mem') \<Longrightarrow> mem' = mem\<lparr>pmem := pmem mem'\<rparr>"
proof (induction ps arbitrary: mem)
  case (Cons p ps)
  then obtain rv1 mem1 where 1: "load_entry bs p mem = Inr (rv1, mem1)"
    and 2: "if rv1 \<noteq> 0 then rv1 = rv \<and> mem1 = mem' else load_entries bs ps mem1 = Inr (rv, mem')"
    by (auto simp: bind_res_eq_Inr split: if_splits)
  from load_entry_frame [OF 1] 2 Cons.IH [of mem1] show ?case
    by (auto split: if_splits) (metis mmu_t.update_convs(1) mmu_t.surjective)
qed simp


lemma load_segment_outside:
  assumes "load_segment bs h mem = Inr (rv, mem')"
    and "\<And>a. translate_paddr (translate_vaddr (p_vaddr h)) mem = Some a \<Longrightarrow>
      q < a \<or> a + max (unat (p_filesz h)) (unat (p_memsz h)) \<le> q"
  shows "pmem mem' q = pmem mem q"
proof (cases "translate_paddr (translate_vaddr (p_vaddr h)) mem")
  case None
  with assms(1) show ?thesis
    by (auto simp: load_segment_def Let_def bind_res_eq_Inr dest!: write_block_frame)
next
  case (Some a)
  with assms(2) have "q < a \<or> a + unat (p_filesz h) \<le> q" "q < a \<or> a + unat (p_memsz h) \<le> q" by auto
  with assms(1) Some show ?thesis
    by (auto simp: load_segment_def Let_def bind_res_eq_Inr put_bytes_def dest!: write_block_frame)
qed

lemma load_segment_inside:
  assumes "load_segment bs h mem = Inr (0, mem')"
    and "translate_paddr (translate_vaddr (p_vaddr h)) mem = Some a"
    and "k < max (unat (p_filesz h)) (unat (p_memsz h))"
  shows "pmem mem' (a + k) = (if k < unat (p_filesz h) then bs ! (unat (p_offset h) + k) else 0)"
  using assms
  by (auto simp: load_segment_def Let_def bind_res_eq_Inr put_bytes_def split: if_splits
      dest!: write_block_frame)

lemma translate_frame:
  "mem' = mem\<lparr>pmem := x\<rparr> \<Longrightarrow> translate_paddr p mem' = translate_paddr p mem"
  by simp

lemma covers_frame: "mem' = mem\<lparr>pmem := x\<rparr> \<Longrightarrow> covers bs mem' p q = covers bs mem p q"
  by (simp add: covers_def)

lemma load_entry_outside:
  "load_entry bs p mem = Inr (rv, mem') \<Longrightarrow> \<not> covers bs mem p q \<Longrightarrow> pmem mem' q = pmem mem q"
  by (auto simp: load_entry_def covers_def Let_def not_less split: if_splits option.splits
      intro!: load_segment_outside)

lemma load_entries_outside:
  "load_entries bs ps mem = Inr (rv, mem') \<Longrightarrow> \<forall>p\<in>set ps. \<not> covers bs mem p q \<Longrightarrow> pmem mem' q = pmem mem q"
proof (induction ps arbitrary: mem)
  case (Cons p ps)
  from Cons.prems(1) obtain rv1 mem1 where 1: "load_entry bs p mem = Inr (rv1, mem1)"
    and 2: "if rv1 \<noteq> 0 then rv1 = rv \<and> mem1 = mem' else load_entries bs ps mem1 = Inr (rv, mem')"
    by (auto simp: bind_res_eq_Inr split: if_splits)
  have "pmem mem1 q = pmem mem q" using load_entry_outside [OF 1] Cons.prems(2) by simp
  moreover have "\<forall>p\<in>set ps. \<not> covers bs mem1 p q"
    using Cons.prems(2) covers_frame [OF load_entry_frame [OF 1]] by simp
  ultimately show ?case using 2 Cons.IH [of mem1] by (auto split: if_splits)
qed simp

lemma load_entries_append:
  "load_entries bs (ps @ qs) mem = bind_res (load_entries bs ps mem) (\<lambda>(rv, mem).
     if rv \<noteq> 0 then Inr (rv, mem) else load_entries bs qs mem)"
  by (induction ps arbitrary: mem) (auto simp: bind_res_assoc intro!: bind_res_cong)

lemma load_entries_inside:
  assumes "load_entries bs (ps @ p # qs) mem = Inr (0, mem')" and "p_type (phdr_at bs p) = PT_LOAD"
    and a: "translate_paddr (translate_vaddr (p_vaddr (phdr_at bs p))) mem = Some a"
    and k: "k < max (unat (p_filesz (phdr_at bs p))) (unat (p_memsz (phdr_at bs p)))"
    and later: "\<forall>p'\<in>set qs. \<not> covers bs mem p' (a + k)"
  shows "pmem mem' (a + k) =
    (if k < unat (p_filesz (phdr_at bs p)) then bs ! (unat (p_offset (phdr_at bs p)) + k) else 0)"
proof -
  from assms(1) obtain mem1 where 1: "load_entries bs ps mem = Inr (0, mem1)"
    and 2: "load_entries bs (p # qs) mem1 = Inr (0, mem')"
    unfolding load_entries_append by (auto simp: bind_res_eq_Inr split: if_splits)
  from 2 obtain mem2 where 3: "load_entry bs p mem1 = Inr (0, mem2)" and 4: "load_entries bs qs mem2 = Inr (0, mem')"
    by (auto simp: bind_res_eq_Inr split: if_splits)
  note f1 = load_entries_frame [OF 1] and f2 = load_entry_frame [OF 3]
  have "load_segment bs (phdr_at bs p) mem1 = Inr (0, mem2)"
    using 3 assms(2) by (auto simp: load_entry_def split: if_splits)
  from load_segment_inside [OF this _ k] a have "pmem mem2 (a + k) =
      (if k < unat (p_filesz (phdr_at bs p)) then bs ! (unat (p_offset (phdr_at bs p)) + k) else 0)"
    using translate_frame [OF f1] by simp
  moreover have "pmem mem' (a + k) = pmem mem2 (a + k)"
    using load_entries_outside [OF 4] later covers_frame [OF f1] covers_frame [OF f2] by simp
  ultimately show ?thesis by simp
qed


lemma elf_dump_ok:
  assumes "fs path = Some bs" and "elf_dump fs fclose_ok path entry mem = Inr (0, e, mem')"
  shows "load_entries bs (phdr_offsets bs) mem = Inr (0, mem') \<and> e = word_at bs 24"
proof -
  have "\<exists>rv m. load_entries bs (phdr_offsets bs) mem = Inr (rv, m) \<and> (if rv \<noteq> 0 then rv else elf_close fclose_ok) = 0
      \<and> word_at bs 24 = e \<and> m = mem'"
    using assms(2) unfolding elf_dump_closed
    by (auto simp: assms(1) bind_res_eq_Inr split: if_split_asm)
  then show ?thesis by (auto split: if_splits)
qed

text \<open>
  C14. After a successful load every byte of a loadable segment is in memory: at each
  position of the segment that no later segment covers, the file byte where the file
  supplies one, and zero in the rest of the segment's memory size; and the entry point
  is the header's.
\<close>

theorem elf_dump_loads_segments:
  assumes "fs path = Some bs" and "elf_dump fs fclose_ok path entry mem = Inr (0, e, mem')"
    and "phdr_offsets bs = ps @ p # qs" and "p_type (phdr_at bs p) = PT_LOAD"
    and "translate_paddr (translate_vaddr (p_vaddr (phdr_at bs p))) mem = Some a"
    and "k < max (unat (p_filesz (phdr_at bs p))) (unat (p_memsz (phdr_at bs p)))"
    and "\<forall>p'\<in>set qs. \<not> covers bs mem p' (a + k)"
  shows "e = word_at bs 24 \<and> pmem mem' (a + k) =
    (if k < unat (p_filesz (phdr_at bs p)) then bs ! (unat (p_offset (phdr_at bs p)) + k) else 0)"
  using elf_dump_ok [OF assms(1,2)] load_entries_inside [OF _ assms(4-7), of ps mem'] assms(3)
  by (metis (lifting))

section \<open>Freedom from faults\<close>

definition fits :: "u8 list \<Rightarrow> mmu_t \<Rightarrow> nat \<Rightarrow> bool" where
  "fits bs mem p \<longleftrightarrow> (let h = phdr_at bs p in p_type h = PT_LOAD \<longrightarrow>
     (case translate_paddr (translate_vaddr (p_vaddr h)) mem of None \<Rightarrow> False
      | Some a \<Rightarrow> a + max (unat (p_filesz h)) (unat (p_memsz h)) \<le> pmem_len mem))"

lemma write_block_fits: "a + length bs \<le> pmem_len mem \<Longrightarrow> \<exists>mem'. write_block mem (Some a) bs = Inr mem'"
  by (simp add: write_block_def)

lemma load_segment_fits:
  assumes "translate_paddr (translate_vaddr (p_vaddr h)) mem = Some a"
    and "a + max (unat (p_filesz h)) (unat (p_memsz h)) \<le> pmem_len mem"
  shows "\<exists>rv mem'. load_segment bs h mem = Inr (rv, mem')"
  using assms by (auto simp: load_segment_def write_block_def Let_def)

lemma load_entry_fits: "fits bs mem p \<Longrightarrow> \<exists>rv mem'. load_entry bs p mem = Inr (rv, mem')"
  by (auto simp: load_entry_def fits_def Let_def split: option.splits dest: load_segment_fits)

lemma fits_frame: "mem' = mem\<lparr>pmem := x\<rparr> \<Longrightarrow> fits bs mem' p = fits bs mem p"
  by (simp add: fits_def Let_def split: option.split)

lemma load_entries_fits:
  "\<forall>p\<in>set ps. fits bs mem p \<Longrightarrow> \<exists>rv mem'. load_entries bs ps mem = Inr (rv, mem')"
proof (induction ps arbitrary: mem)
  case (Cons p ps)
  then obtain rv mem1 where 1: "load_entry bs p mem = Inr (rv, mem1)" using load_entry_fits by fastforce
  have "\<forall>p\<in>set ps. fits bs mem1 p" using Cons.prems fits_frame [OF load_entry_frame [OF 1]] by simp
  with Cons.IH 1 show ?case by (cases "rv = 0") auto
qed simp

text \<open>
  C15. The loader does not fault on a file whose loadable segments fit: if each of them
  translates to an address from which its file and memory sizes stay inside the simulated
  memory, \<open>elf_dump\<close> returns a code for every file system and every content of the file.
\<close>

theorem elf_dump_safe:
  assumes "\<forall>bs. fs path = Some bs \<longrightarrow> (\<forall>p\<in>set (phdr_offsets bs). fits bs mem p)"
  shows "\<exists>code e mem'. elf_dump fs fclose_ok path entry mem = Inr (code, e, mem')"
proof (cases "fs path")
  case (Some bs)
  with assms load_entries_fits [of "phdr_offsets bs" bs mem] show ?thesis
    unfolding elf_dump_closed by auto
qed (simp add: elf_dump_closed)


section \<open>Fetching what was loaded\<close>

lemma be_word_at:
  assumes "p + 4 \<le> length bs" and "\<And>j. j < 4 \<Longrightarrow> m (q + j) = bs ! (p + j)"
  shows "GET_BIGWORD m q = word_at bs p"
proof -
  have "m q = bs ! p" "m (q + 1) = bs ! (p + 1)" "m (q + 2) = bs ! (p + 2)" "m (q + 3) = bs ! (p + 3)"
    using assms(2) [of 0] assms(2) [of 1] assms(2) [of 2] assms(2) [of 3] by simp_all
  with assms(1) show ?thesis
    by (simp add: GET_BIGWORD_def word_at_def be_word_def)
qed

lemma full_read: "(f :: u32) \<noteq> 0 \<Longrightarrow> min (l - i) (unat f) = unat f \<Longrightarrow> i + unat f \<le> l"
  using unat_eq_zero [of f] by (auto simp: min_def split: if_splits)

lemma load_entries_length:
  assumes "load_entries bs (ps @ p # qs) mem = Inr (0, mem')" and "p_type (phdr_at bs p) = PT_LOAD"
  shows "unat (p_offset (phdr_at bs p)) + unat (p_filesz (phdr_at bs p)) \<le> length bs"
  using assms
  by (auto simp: load_entries_append bind_res_eq_Inr load_entry_def load_segment_def Let_def
      split: if_splits dest: full_read)

text \<open>
  C16. The machine fetches what the file holds: after a successful load, reading the word
  at any offset of a segment's file contents through the MMU returns the big-endian word
  at that offset of the segment in the file.
\<close>

theorem loaded_word_is_fetched:
  assumes "mmu_wf mem" and "fs path = Some bs" and "elf_dump fs fclose_ok path entry mem = Inr (0, e, mem')"
    and "phdr_offsets bs = ps @ p # qs" and "p_type (phdr_at bs p) = PT_LOAD"
    and "translate_paddr (translate_vaddr (p_vaddr (phdr_at bs p))) mem = Some a"
    and "k + 4 \<le> unat (p_filesz (phdr_at bs p))"
    and "\<forall>p'\<in>set qs. \<forall>j<4. \<not> covers bs mem p' (a + (k + j))"
    and "ram_backed mem v" and "host_pos mem v = a + k"
  shows "mmu_read mem' v d MEM_OP_WORD = Inr (EXC_None, word_at bs (unat (p_offset (phdr_at bs p)) + k))"
proof -
  have le: "load_entries bs (ps @ p # qs) mem = Inr (0, mem')"
    using elf_dump_ok [OF assms(2,3)] assms(4) by simp
  have fr: "mem' = mem\<lparr>pmem := pmem mem'\<rparr>" by (rule load_entries_frame [OF le])
  have "pmem mem' (a + k + j) = bs ! (unat (p_offset (phdr_at bs p)) + k + j)" if "j < 4" for j
    using load_entries_inside [OF le assms(5,6), of "k + j"] that assms(7,8)
    by (simp add: add.assoc)
  then have "GET_BIGWORD (pmem mem') (a + k) = word_at bs (unat (p_offset (phdr_at bs p)) + k)"
    using load_entries_length [OF le assms(5)] assms(7) by (intro be_word_at) auto
  moreover have "mmu_wf mem'" "ram_backed mem' v" "host_pos mem' v = a + k"
    using assms(1,9,10) by (subst fr, simp)+
  ultimately show ?thesis by (simp add: mmu_read_ram)
qed


section \<open>A small executable\<close>

text \<open>One segment with one instruction, \<open>addiu $v0, $zero, 10\<close>, loaded and entered at 0x80000000.\<close>

definition demo_elf :: "u8 list" where
  "demo_elf =
     [0x7F, 0x45, 0x4C, 0x46, 1, 2, 1, 0, 0, 0, 0, 0, 0, 0, 0, 0,
      0, 2, 0, 8, 0, 0, 0, 1, 0x80, 0, 0, 0, 0, 0, 0, 52, 0, 0, 0, 0,
      0, 0, 0, 0, 0, 52, 0, 32, 0, 1, 0, 0, 0, 0, 0, 0,
      0, 0, 0, 1, 0, 0, 0, 84, 0x80, 0, 0, 0, 0x80, 0, 0, 0,
      0, 0, 0, 4, 0, 0, 0, 8, 0, 0, 0, 5, 0, 0, 0, 4,
      0x24, 0x02, 0x00, 0x0A]"

lemma demo_elf_header: "header_code demo_elf = 0"
  by (simp add: header_code_def demo_elf_def half_at_def be_half_def)

lemma demo_elf_phdr:
  "phdr_offsets demo_elf = [52]"
  "phdr_at demo_elf 52 = \<lparr>p_type = 1, p_offset = 84, p_vaddr = 0x80000000, p_paddr = 0x80000000,
     p_filesz = 4, p_memsz = 8\<rparr>"
  by (simp_all add: phdr_offsets_def phdr_at_def demo_elf_def half_at_def be_half_def word_at_def be_word_def)

lemma demo_elf_translate: "translate_paddr (translate_vaddr 0x80000000) demo_mem = Some 0"
  by (simp add: translate_vaddr_def translate_paddr_def demo_mem_def)

lemma demo_elf_load:
  "\<exists>mem'. elf_dump (\<lambda>_. Some demo_elf) True ''prog'' 0 demo_mem = Inr (0, 0x80000000, mem')"
proof -
  have "word_at demo_elf 24 = 0x80000000" by (simp add: demo_elf_def word_at_def be_word_def)
  moreover have "\<exists>m. load_segment demo_elf (phdr_at demo_elf 52) demo_mem = Inr (0, m)"
    by (simp add: demo_elf_phdr load_segment_def demo_elf_translate write_block_def Let_def)
      (simp add: demo_elf_def demo_mem_def)
  moreover have "length demo_elf = 88" by (simp add: demo_elf_def)
  ultimately show ?thesis
    by (auto simp: elf_dump_closed demo_elf_header demo_elf_phdr load_entry_def elf_close_def)
qed

theorem elf_dump_loads_segments_witness:
  "\<exists>mem'. elf_dump (\<lambda>_. Some demo_elf) True ''prog'' 0 demo_mem = Inr (0, 0x80000000, mem')
     \<and> pmem mem' 0 = 0x24 \<and> pmem mem' 7 = 0"
proof -
  obtain mem' where m: "elf_dump (\<lambda>_. Some demo_elf) True ''prog'' 0 demo_mem = Inr (0, 0x80000000, mem')"
    using demo_elf_load by blast
  note seg = elf_dump_loads_segments [OF _ m, of demo_elf "[]" 52 "[]" 0, THEN conjunct2]
  have "pmem mem' (0 + 0) = demo_elf ! 84" "pmem mem' (0 + 7) = 0"
    using seg [of 0] seg [of 7] by (simp_all add: demo_elf_phdr demo_elf_translate)
  moreover have "demo_elf ! 84 = 0x24" by (simp add: demo_elf_def)
  ultimately show ?thesis using m by simp
qed

theorem elf_dump_safe_witness:
  "phdr_offsets demo_elf = [52] \<and> fits demo_elf demo_mem 52
   \<and> (\<exists>code e mem'. elf_dump (\<lambda>_. Some demo_elf) True ''prog'' 0 demo_mem = Inr (code, e, mem'))"
proof -
  have "\<forall>p\<in>set (phdr_offsets demo_elf). fits demo_elf demo_mem p"
    by (simp add: demo_elf_phdr fits_def demo_elf_translate) (simp add: demo_mem_def)
  then show ?thesis
    using elf_dump_safe [of "\<lambda>_. Some demo_elf" "''prog''" demo_mem True 0] by (simp add: demo_elf_phdr(1))
qed

theorem loaded_word_is_fetched_witness:
  "\<exists>mem'. elf_dump (\<lambda>_. Some demo_elf) True ''prog'' 0 demo_mem = Inr (0, 0x80000000, mem')
     \<and> mmu_read mem' 0x80000000 0 MEM_OP_WORD = Inr (EXC_None, 0x2402000A)"
proof -
  obtain mem' where m: "elf_dump (\<lambda>_. Some demo_elf) True ''prog'' 0 demo_mem = Inr (0, 0x80000000, mem')"
    using demo_elf_load by blast
  have "word_at demo_elf 84 = 0x2402000A" by (simp add: demo_elf_def word_at_def be_word_def)
  then show ?thesis
    using loaded_word_is_fetched [OF demo_mem_wf _ m, of demo_elf "[]" 52 "[]" 0 0 "0x80000000" 0] m
    by (simp add: demo_elf_phdr demo_elf_translate demo_mem_backed)
qed

end
