(* ===== verification/Instr_Format.thy ===== *)
theory Instr_Format
  imports Cpu
begin

unbundle bit_operations_syntax

text \<open>
  The bit-field views of an instruction word in \<open>cpu.h\<close>, and that they agree with the macros
  of \<open>mips32.h\<close> the simulator uses instead.  The union stores a 32-bit word; its fields are
  packed and allocated from the least significant bit, as on the little-endian hosts the
  rest of the program is written for.
\<close>

section \<open>The three formats\<close>

record instr_r_t =
  r_funct :: "6 word"
  r_shamt :: "5 word"
  r_rd :: "5 word"
  r_rt :: "5 word"
  r_rs :: "5 word"
  r_opcode :: "6 word"

record instr_i_t =
  im_immediate :: u16
  im_rt :: "5 word"
  im_rs :: "5 word"
  im_opcode :: "6 word"

record instr_j_t =
  j_address :: "26 word"
  j_opcode :: "6 word"

text \<open>The union \<open>instr_t\<close> is its raw word; reading a member takes the fields from it.\<close>

type_synonym instr_t = u32

definition instr_r :: "instr_t \<Rightarrow> instr_r_t" where
  "instr_r raw = \<lparr>r_funct = ucast raw, r_shamt = ucast (drop_bit 6 raw), r_rd = ucast (drop_bit 11 raw),
     r_rt = ucast (drop_bit 16 raw), r_rs = ucast (drop_bit 21 raw), r_opcode = ucast (drop_bit 26 raw)\<rparr>"

definition instr_i :: "instr_t \<Rightarrow> instr_i_t" where
  "instr_i raw = \<lparr>im_immediate = ucast raw, im_rt = ucast (drop_bit 16 raw), im_rs = ucast (drop_bit 21 raw),
     im_opcode = ucast (drop_bit 26 raw)\<rparr>"

definition instr_j :: "instr_t \<Rightarrow> instr_j_t" where
  "instr_j raw = \<lparr>j_address = ucast raw, j_opcode = ucast (drop_bit 26 raw)\<rparr>"

text \<open>The word behind given fields.\<close>

definition raw_r :: "instr_r_t \<Rightarrow> instr_t" where
  "raw_r i = ucast (r_funct i) OR push_bit 6 (ucast (r_shamt i)) OR push_bit 11 (ucast (r_rd i))
     OR push_bit 16 (ucast (r_rt i)) OR push_bit 21 (ucast (r_rs i)) OR push_bit 26 (ucast (r_opcode i))"

definition raw_i :: "instr_i_t \<Rightarrow> instr_t" where
  "raw_i i = ucast (im_immediate i) OR push_bit 16 (ucast (im_rt i)) OR push_bit 21 (ucast (im_rs i))
     OR push_bit 26 (ucast (im_opcode i))"

definition raw_j :: "instr_j_t \<Rightarrow> instr_t" where
  "raw_j i = ucast (j_address i) OR push_bit 26 (ucast (j_opcode i))"

section \<open>Agreement with the macros\<close>

lemma GET_take_bit:
  "GET_RS raw = take_bit 5 (drop_bit 21 raw)" "GET_RT raw = take_bit 5 (drop_bit 16 raw)"
  "GET_RD raw = take_bit 5 (drop_bit 11 raw)" "GET_SHAMT raw = take_bit 5 (drop_bit 6 raw)"
  "GET_FUNCT raw = take_bit 6 raw" "GET_IMM raw = take_bit 16 raw" "GET_ADDRESS raw = take_bit 26 raw"
  by (simp_all add: field_defs take_bit_eq_mask)

lemma GET_OPCODE_take_bit: "GET_OPCODE raw = take_bit 6 (drop_bit 26 raw)"
  by (rule bit_word_eqI) (auto simp: GET_OPCODE_def bit_take_bit_iff bit_drop_bit_eq dest: bit_imp_le_length)

lemma ucast_field: "LENGTH('a::len) \<le> 32 \<Longrightarrow> ucast (ucast (w :: u32) :: 'a word) = take_bit LENGTH('a) w"
  by (rule bit_word_eqI) (auto simp: bit_take_bit_iff bit_ucast_iff)

lemma GET_r:
  "ucast (r_opcode (instr_r raw)) = GET_OPCODE raw" "ucast (r_rs (instr_r raw)) = GET_RS raw"
  "ucast (r_rt (instr_r raw)) = GET_RT raw" "ucast (r_rd (instr_r raw)) = GET_RD raw"
  "ucast (r_shamt (instr_r raw)) = GET_SHAMT raw" "ucast (r_funct (instr_r raw)) = GET_FUNCT raw"
  by (simp_all add: GET_take_bit GET_OPCODE_take_bit instr_r_def ucast_field)

lemma GET_i:
  "ucast (im_opcode (instr_i raw)) = GET_OPCODE raw" "ucast (im_rs (instr_i raw)) = GET_RS raw"
  "ucast (im_rt (instr_i raw)) = GET_RT raw" "ucast (im_immediate (instr_i raw)) = GET_IMM raw"
  by (simp_all add: GET_take_bit GET_OPCODE_take_bit instr_i_def ucast_field)

lemma GET_j:
  "ucast (j_opcode (instr_j raw)) = GET_OPCODE raw" "ucast (j_address (instr_j raw)) = GET_ADDRESS raw"
  by (simp_all add: GET_take_bit GET_OPCODE_take_bit instr_j_def ucast_field)

text \<open>The fields of each format make up the word: no bit is outside them.\<close>

lemma take_bit_join:
  "take_bit n w OR push_bit n (take_bit m (drop_bit n w)) = take_bit (n + m) (w :: u32)"
  "take_bit n w OR push_bit n (take_bit m (drop_bit n w)) OR x = take_bit (n + m) (w :: u32) OR x"
proof -
  show *: "take_bit n w OR push_bit n (take_bit m (drop_bit n w)) = take_bit (n + m) w"
    by (rule bit_word_eqI) (auto simp: bit_or_iff bit_take_bit_iff bit_push_bit_iff bit_drop_bit_eq)
  show "take_bit n w OR push_bit n (take_bit m (drop_bit n w)) OR x = take_bit (n + m) w OR x"
    by (simp flip: * add: or.assoc)
qed

lemma take_bit_whole: "take_bit 32 (w :: u32) = w"
  by (rule bit_word_eqI) (auto simp: bit_take_bit_iff dest: bit_imp_le_length)

lemma raw_of_fields: "raw_r (instr_r raw) = raw" "raw_i (instr_i raw) = raw" "raw_j (instr_j raw) = raw"
  by (simp_all add: raw_r_def instr_r_def raw_i_def instr_i_def raw_j_def instr_j_def ucast_field take_bit_join take_bit_whole)

end
