(* ===== verification/Disasm.thy ===== *)
theory Disasm
  imports Instr_Format
begin

unbundle bit_operations_syntax

text \<open>
  The disassembler \<open>disasm.c\<close>: the text of an instruction, written with two \<open>snprintf\<close> calls
  into a buffer of a given size.  The buffer is the list of characters before its
  terminating zero.
\<close>

section \<open>Formatted output\<close>

text \<open>The conversion \<open>%08X\<close>: eight upper-case hexadecimal digits.\<close>

definition hex_digit :: "nat \<Rightarrow> char" where
  "hex_digit n = ''0123456789ABCDEF'' ! n"

definition hex8 :: "u32 \<Rightarrow> string" where
  "hex8 w = map (\<lambda>i. hex_digit (unat (drop_bit (28 - 4 * i) w AND 15))) [0..<8]"

definition fmt_hex :: "u32 \<Rightarrow> string" where
  "fmt_hex w = ''0x'' @ hex8 w"

text \<open>\<open>snprintf\<close>: the length it reports and the characters it stores in a buffer of \<open>n\<close> bytes.\<close>

definition snprintf :: "nat \<Rightarrow> string \<Rightarrow> nat \<times> string" where
  "snprintf n s = (length s, take (n - 1) s)"

section \<open>The text of an instruction\<close>

abbreviation (input) INSTRUCTION_BUFFER_SIZE :: nat where "INSTRUCTION_BUFFER_SIZE \<equiv> 1024"

text \<open>Reading an array element, which may lie outside the array.\<close>

definition array_get :: "nat \<Rightarrow> (nat \<Rightarrow> 'a) \<Rightarrow> nat \<Rightarrow> 'a res" where
  "array_get n a i = (if i < n then Inr (a i) else Inl OutOfBounds)"

definition table_get :: "string list \<Rightarrow> u32 \<Rightarrow> string res" where
  "table_get xs i = array_get (length xs) ((!) xs) (unat i)"

definition reg_text :: "string \<Rightarrow> core_t \<Rightarrow> u32 \<Rightarrow> string res" where
  "reg_text label core r =
     bind_res (table_get reg_names r) (\<lambda>name.
     bind_res (array_get NUM_REGISTERS (regs core) (unat r)) (\<lambda>v.
     Inr (label @ '' = '' @ name @ '' = '' @ fmt_hex v)))"

definition is_i_type :: "u32 \<Rightarrow> bool" where
  "is_i_type opc \<longleftrightarrow> opc \<in> {OPCODE_BEQ, OPCODE_BNE, OPCODE_ADDI, OPCODE_ADDIU, OPCODE_SLTI,
     OPCODE_SLTIU, OPCODE_ANDI, OPCODE_ORI, OPCODE_LUI, OPCODE_SB, OPCODE_SC, OPCODE_SH,
     OPCODE_LBU, OPCODE_LHU, OPCODE_LW, OPCODE_SW, OPCODE_SWL, OPCODE_SWR, OPCODE_LWR, OPCODE_LWL}"

definition newline :: string where "newline = [CHR 0x0A]"

definition tab :: string where "tab = [CHR 0x09]"

text \<open>The second \<open>snprintf\<close>, with its reads of the tables of names and of the registers.\<close>

definition instruction_body :: "u32 \<Rightarrow> core_t \<Rightarrow> string res" where
  "instruction_body instr core = (let opc = GET_OPCODE instr in
     if opc = OPCODE_R then
       bind_res (table_get funct_codes (GET_FUNCT instr)) (\<lambda>name.
       bind_res (reg_text ''rs'' core (GET_RS instr)) (\<lambda>rs.
       bind_res (reg_text ''rt'' core (GET_RT instr)) (\<lambda>rt.
       bind_res (reg_text ''rd'' core (GET_RD instr)) (\<lambda>rd.
       Inr (name @ ''  '' @ rs @ '',  '' @ rt @ '',  '' @ rd @ '',  shamt = '' @ fmt_hex (GET_SHAMT instr) @ newline)))))
     else if opc = OPCODE_J \<or> opc = OPCODE_JAL then
       bind_res (table_get op_codes opc) (\<lambda>name. Inr (name @ ''   '' @ fmt_hex (GET_IMM instr) @ newline))
     else if is_i_type opc then
       bind_res (table_get op_codes opc) (\<lambda>name.
       bind_res (reg_text ''rs'' core (GET_RS instr)) (\<lambda>rs.
       bind_res (reg_text ''rt'' core (GET_RT instr)) (\<lambda>rt.
       Inr (name @ ''  '' @ rs @ '',  '' @ rt @ '',  imm = '' @ fmt_hex (GET_IMM instr) @ newline))))
     else if opc = OPCODE_CP0 then
       bind_res (table_get op_codes opc) (\<lambda>name.
       bind_res (table_get cp0_codes (GET_RS instr)) (\<lambda>oper.
       bind_res (reg_text ''rt'' core (GET_RT instr)) (\<lambda>rt.
       bind_res (table_get cp0_reg_names (GET_RD instr)) (\<lambda>rd.
       bind_res (array_get (CP0_NUM_REGS + 1) (cp0 core) (unat (GET_RD instr))) (\<lambda>v.
       Inr (name @ '', '' @ oper @ ''  '' @ rt @ '',  rd = '' @ rd @ '' = '' @ fmt_hex v @ newline))))))
     else Inr (''Unknown instruction: '' @ fmt_hex instr @ newline))"

text \<open>
  The returned count and the buffer.  The second call writes at offset \<open>i\<close>; were \<open>i\<close> larger than
  the buffer, the unsigned difference \<open>buf_size - i\<close> would wrap and the write leave it.
\<close>

definition instruction_string :: "u32 \<Rightarrow> core_t \<Rightarrow> nat \<Rightarrow> (nat \<times> string) res" where
  "instruction_string instr core buf_size =
     (case snprintf buf_size (fmt_hex instr @ tab) of (i, buf) \<Rightarrow>
      bind_res (instruction_body instr core) (\<lambda>body.
        if i > buf_size then Inl OutOfBounds
        else case snprintf (buf_size - i) body of (j, buf') \<Rightarrow> Inr (i + j, take i buf @ buf')))"

definition print_instruction :: "u32 \<Rightarrow> core_t \<Rightarrow> string res" where
  "print_instruction instr core =
     bind_res (instruction_string instr core INSTRUCTION_BUFFER_SIZE) (\<lambda>(i, buf). Inr buf)"

section \<open>Reads inside the tables\<close>

definition reg_shown :: "string \<Rightarrow> core_t \<Rightarrow> u32 \<Rightarrow> string" where
  "reg_shown label core r = label @ '' = '' @ reg_names ! unat r @ '' = '' @ fmt_hex (regs core (unat r))"

lemma reg_text_field:
  "reg_text l core (GET_RS instr) = Inr (reg_shown l core (GET_RS instr))"
  "reg_text l core (GET_RT instr) = Inr (reg_shown l core (GET_RT instr))"
  "reg_text l core (GET_RD instr) = Inr (reg_shown l core (GET_RD instr))"
proof -
  have "reg_text l core r = Inr (reg_shown l core r)" if "unat r < 32" for r
    using that by (simp add: reg_text_def reg_shown_def table_get_def array_get_def)
  then show "reg_text l core (GET_RS instr) = Inr (reg_shown l core (GET_RS instr))"
    "reg_text l core (GET_RT instr) = Inr (reg_shown l core (GET_RT instr))"
    "reg_text l core (GET_RD instr) = Inr (reg_shown l core (GET_RD instr))" by simp_all
qed

lemma length_cp0_reg_names [simp]: "length cp0_reg_names = 40"
  by (simp add: cp0_reg_names_def)

text \<open>Every read but that of the coprocessor operation is inside its table or register file.\<close>

lemma instruction_body_closed:
  "instruction_body instr core = (let opc = GET_OPCODE instr in
     if opc = OPCODE_R then
       Inr (funct_codes ! unat (GET_FUNCT instr) @ ''  '' @ reg_shown ''rs'' core (GET_RS instr)
         @ '',  '' @ reg_shown ''rt'' core (GET_RT instr) @ '',  '' @ reg_shown ''rd'' core (GET_RD instr)
         @ '',  shamt = '' @ fmt_hex (GET_SHAMT instr) @ newline)
     else if opc = OPCODE_J \<or> opc = OPCODE_JAL then
       Inr (op_codes ! unat opc @ ''   '' @ fmt_hex (GET_IMM instr) @ newline)
     else if is_i_type opc then
       Inr (op_codes ! unat opc @ ''  '' @ reg_shown ''rs'' core (GET_RS instr)
         @ '',  '' @ reg_shown ''rt'' core (GET_RT instr) @ '',  imm = '' @ fmt_hex (GET_IMM instr) @ newline)
     else if opc = OPCODE_CP0 then
       if unat (GET_RS instr) < 5 then
         Inr (op_codes ! unat opc @ '', '' @ cp0_codes ! unat (GET_RS instr) @ ''  ''
           @ reg_shown ''rt'' core (GET_RT instr) @ '',  rd = '' @ cp0_reg_names ! unat (GET_RD instr)
           @ '' = '' @ fmt_hex (cp0 core (unat (GET_RD instr))) @ newline)
       else Inl OutOfBounds
     else Inr (''Unknown instruction: '' @ fmt_hex instr @ newline))"
proof -
  have "unat (GET_RD instr) < 40" "unat (GET_RD instr) < 41" using unat_GET_RD_less [of instr] by linarith+
  then show ?thesis by (simp add: instruction_body_def reg_text_field table_get_def array_get_def Let_def cong: if_cong)
qed

section \<open>Length of the text\<close>

lemma length_hex8 [simp]: "length (hex8 w) = 8"
  by (simp add: hex8_def)

lemma length_fmt_hex [simp]: "length (fmt_hex w) = 10"
  by (simp add: fmt_hex_def)

lemma nth_length_le: "list_all (\<lambda>s. length s \<le> n) xs \<Longrightarrow> i < length xs \<Longrightarrow> length (xs ! i) \<le> n"
  by (simp add: list_all_length)

lemma table_widths:
  "i < 64 \<Longrightarrow> length (op_codes ! i) \<le> 19" "i < 64 \<Longrightarrow> length (funct_codes ! i) \<le> 19"
  "i < 5 \<Longrightarrow> length (cp0_codes ! i) \<le> 19" "i < 33 \<Longrightarrow> length (reg_names ! i) \<le> 4"
  "i < 40 \<Longrightarrow> length (cp0_reg_names ! i) \<le> 19"
  using nth_length_le [of 19 op_codes i] nth_length_le [of 19 funct_codes i] nth_length_le [of 19 cp0_codes i]
    nth_length_le [of 4 reg_names i] nth_length_le [of 19 cp0_reg_names i]
  by (simp_all add: op_codes_def funct_codes_def cp0_codes_def reg_names_def cp0_reg_names_def)

lemma length_reg_shown: "unat r < 32 \<Longrightarrow> length (reg_shown l core r) \<le> length l + 20"
  using table_widths(4) [of "unat r"] by (simp add: reg_shown_def)

lemma instruction_body_length:
  assumes "instruction_body instr core = Inr s"
  shows "length s \<le> 200"
proof -
  note rt = length_reg_shown [of "GET_RS instr" "''rs''" core] length_reg_shown [of "GET_RT instr" "''rt''" core]
    length_reg_shown [of "GET_RD instr" "''rd''" core]
  have w: "length (op_codes ! unat (GET_OPCODE instr)) \<le> 19" "length (funct_codes ! unat (GET_FUNCT instr)) \<le> 19"
    "length (cp0_reg_names ! unat (GET_RD instr)) \<le> 19"
    "unat (GET_RS instr) < 5 \<Longrightarrow> length (cp0_codes ! unat (GET_RS instr)) \<le> 19"
    using table_widths(1-3) table_widths(5) [OF order_less_le_trans [OF unat_GET_RD_less]] by simp_all
  show ?thesis
    using assms rt w
    by (auto simp: instruction_body_closed newline_def Let_def split: if_splits)
qed


lemma instruction_string_full:
  "instruction_string instr core INSTRUCTION_BUFFER_SIZE =
     bind_res (instruction_body instr core) (\<lambda>body. Inr (11 + length body, fmt_hex instr @ tab @ body))"
  by (auto simp: instruction_string_def snprintf_def tab_def dest: instruction_body_length intro!: bind_res_cong)

text \<open>
  C30. The buffer is large enough: in a buffer of the size the simulator uses, the text of
  an instruction is never truncated, the returned count is its length, and at most 211 of
  the 1024 bytes are used.
\<close>

theorem instruction_string_fits:
  assumes "instruction_string instr core INSTRUCTION_BUFFER_SIZE = Inr (n, s)"
  shows "n = length s \<and> n \<le> 211 \<and> (\<exists>body. instruction_body instr core = Inr body \<and> s = fmt_hex instr @ tab @ body)"
  using assms instruction_body_length
  by (auto simp: instruction_string_full bind_res_eq_Inr tab_def)

theorem instruction_string_fits_witness:
  "\<exists>n s. instruction_string 0 zero_core INSTRUCTION_BUFFER_SIZE = Inr (n, s) \<and> n = length s \<and> n \<le> 211"
proof -
  obtain body where "instruction_body 0 zero_core = Inr body"
    by (auto simp: instruction_body_closed GET_OPCODE_def)
  then have "instruction_string 0 zero_core INSTRUCTION_BUFFER_SIZE = Inr (11 + length body, fmt_hex 0 @ tab @ body)"
    by (simp add: instruction_string_full)
  then show ?thesis using instruction_string_fits [of 0 zero_core] by blast
qed

text \<open>
  C31. Disassembly reads outside its tables exactly on coprocessor instructions whose
  operation field is above 4, such as ERET; on every other word it succeeds.
\<close>

theorem instruction_string_fault:
  "instruction_string instr core INSTRUCTION_BUFFER_SIZE = Inl f \<longleftrightarrow>
     f = OutOfBounds \<and> GET_OPCODE instr = OPCODE_CP0 \<and> 5 \<le> unat (GET_RS instr)"
proof -
  have "\<not> is_i_type OPCODE_CP0" by (simp add: is_i_type_def)
  then show ?thesis
    by (auto simp: instruction_string_full bind_res_eq_Inl instruction_body_closed Let_def)
qed

section \<open>Hexadecimal digits\<close>

lemma hex_digit_inj: "m < 16 \<Longrightarrow> n < 16 \<Longrightarrow> hex_digit m = hex_digit n \<Longrightarrow> m = n"
proof -
  have "distinct ''0123456789ABCDEF''" by simp
  then show "m < 16 \<Longrightarrow> n < 16 \<Longrightarrow> hex_digit m = hex_digit n \<Longrightarrow> m = n"
    unfolding hex_digit_def by (subst (asm) nth_eq_iff_index_eq) simp_all
qed

lemma nibble_less: "unat (w AND 15 :: u32) < 16"
proof -
  have "(15 :: u32) = mask 4" by (simp add: mask_numeral)
  then show ?thesis using unat_and_mask_less [of w 4] by simp
qed

lemma bit_nibble: "k < 4 \<Longrightarrow> bit (w AND 15 :: u32) k = bit w k"
proof -
  have m: "(15 :: u32) = mask 4" by (simp add: mask_numeral)
  show "k < 4 \<Longrightarrow> ?thesis" unfolding m by (simp only: bit_and_iff bit_mask_iff) simp
qed

lemma hex8_inj:
  assumes "hex8 v = hex8 w"
  shows "v = w"
proof (rule bit_word_eqI)
  fix n assume "n < LENGTH(32)"
  then have n: "n < 32" by simp
  define i where "i = 7 - n div 4"
  have "n div 4 \<le> 7" using n by simp
  then have "28 - 4 * i = 4 * (n div 4)" by (simp add: i_def diff_mult_distrib2)
  then have i: "i < 8" "28 - 4 * i + n mod 4 = n" by (simp_all add: i_def)
  have "hex8 v ! i = hex8 w ! i" using assms by simp
  then have "drop_bit (28 - 4 * i) v AND 15 = drop_bit (28 - 4 * i) w AND 15"
    using i(1) hex_digit_inj [OF nibble_less nibble_less] by (auto simp: hex8_def word_unat_eq_iff)
  then have "bit (drop_bit (28 - 4 * i) v AND 15) (n mod 4) = bit (drop_bit (28 - 4 * i) w AND 15) (n mod 4)"
    by simp
  then show "bit v n = bit w n"
    by (simp add: bit_nibble bit_drop_bit_eq i(2))
qed

section \<open>The text names the instruction\<close>

lemma word_of_i_fields:
  "raw = GET_IMM raw OR push_bit 16 (GET_RT raw) OR push_bit 21 (GET_RS raw) OR push_bit 26 (GET_OPCODE raw)"
  using raw_of_fields(2) [of raw] unfolding raw_i_def GET_i by simp

lemma word_of_r_fields:
  "raw = GET_FUNCT raw OR push_bit 6 (GET_SHAMT raw) OR push_bit 11 (GET_RD raw) OR push_bit 16 (GET_RT raw)
     OR push_bit 21 (GET_RS raw) OR push_bit 26 (GET_OPCODE raw)"
  using raw_of_fields(1) [of raw] unfolding raw_r_def GET_r by simp

text \<open>The first word of a text, up to a blank or comma.\<close>

definition mnemonic :: "string \<Rightarrow> string" where
  "mnemonic s = takeWhile (\<lambda>c. c \<noteq> CHR 0x20 \<and> c \<noteq> CHR 0x2C) s"

lemma mnemonic_append: "c = CHR 0x20 \<or> c = CHR 0x2C \<Longrightarrow> mnemonic (xs @ c # ys) = mnemonic xs"
  by (induction xs) (auto simp: mnemonic_def)

lemma nth_eq_filter:
  "distinct (filter P xs) \<Longrightarrow> i < length xs \<Longrightarrow> j < length xs \<Longrightarrow> xs ! i = xs ! j \<Longrightarrow> P (xs ! i) \<Longrightarrow> i = j"
proof (induction xs arbitrary: i j)
  case (Cons x xs)
  then show ?case by (cases i; cases j) (auto split: if_splits)
qed simp

definition invalid_name :: "string \<Rightarrow> bool" where
  "invalid_name s \<longleftrightarrow> s = ''Invalid instruction'' \<or> s = ''Invalid function''"

lemma names_distinct: "distinct (filter (\<lambda>s. \<not> invalid_name s) op_codes)" "distinct (filter (\<lambda>s. \<not> invalid_name s) funct_codes)"
  by (simp_all add: op_codes_def funct_codes_def invalid_name_def)

lemma names_plain:
  "i < 64 \<Longrightarrow> mnemonic (op_codes ! i) = (if invalid_name (op_codes ! i) then ''Invalid'' else op_codes ! i)"
  "i < 64 \<Longrightarrow> mnemonic (funct_codes ! i) = (if invalid_name (funct_codes ! i) then ''Invalid'' else funct_codes ! i)"
proof -
  have l: "list_all (\<lambda>s. mnemonic s = (if invalid_name s then ''Invalid'' else s)) op_codes"
    "list_all (\<lambda>s. mnemonic s = (if invalid_name s then ''Invalid'' else s)) funct_codes"
    by (simp_all add: op_codes_def funct_codes_def invalid_name_def mnemonic_def)
  show "i < 64 \<Longrightarrow> mnemonic (op_codes ! i) = (if invalid_name (op_codes ! i) then ''Invalid'' else op_codes ! i)"
    "i < 64 \<Longrightarrow> mnemonic (funct_codes ! i) = (if invalid_name (funct_codes ! i) then ''Invalid'' else funct_codes ! i)"
    using l by (simp_all only: list_all_length length_op_codes length_funct_codes)
qed

lemma names_disjoint: "list_all (\<lambda>s. s \<notin> set op_codes) funct_codes" "''Unknown'' \<notin> set op_codes" "''Unknown'' \<notin> set funct_codes"
   "''Invalid'' \<notin> set op_codes" "''Invalid'' \<notin> set funct_codes" "''Invalid instruction'' \<notin> set funct_codes"
  by (simp_all add: op_codes_def funct_codes_def)


lemma i_type_valid: "is_i_type opc \<Longrightarrow> \<not> invalid_name (op_codes ! unat opc)"
proof -
  have "list_all (\<lambda>i. \<not> invalid_name (op_codes ! i)) [4, 5, 8, 9, 10, 11, 12, 13, 15, 40, 56, 41, 36, 37, 35, 43, 46, 42, 38, 34]"
    by (simp add: invalid_name_def op_codes_def)
  then show "is_i_type opc \<Longrightarrow> \<not> invalid_name (op_codes ! unat opc)" by (auto simp: is_i_type_def)
qed

definition named_op :: "u32 \<Rightarrow> bool" where
  "named_op opc \<longleftrightarrow> opc \<in> {OPCODE_J, OPCODE_JAL, OPCODE_CP0} \<or> is_i_type opc"

text \<open>Instructions whose text shows all of their fields, and their operation by a name of its own.\<close>

definition shows_all :: "u32 \<Rightarrow> bool" where
  "shows_all instr \<longleftrightarrow> GET_OPCODE instr \<notin> {OPCODE_J, OPCODE_JAL, OPCODE_CP0}
     \<and> (GET_OPCODE instr = OPCODE_R \<longrightarrow> funct_codes ! unat (GET_FUNCT instr) \<noteq> ''Invalid function'')"

lemma body_mnemonic:
  assumes "instruction_body i core = Inr s"
  shows "mnemonic s = (if GET_OPCODE i = OPCODE_R then mnemonic (funct_codes ! unat (GET_FUNCT i))
    else if named_op (GET_OPCODE i) then mnemonic (op_codes ! unat (GET_OPCODE i)) else ''Unknown'')"
proof -
  have u: "mnemonic (''Unknown instruction: '' @ xs) = ''Unknown''" for xs by (simp add: mnemonic_def)
  show ?thesis
    using assms u by (auto simp: instruction_body_closed named_op_def Let_def mnemonic_append split: if_splits)
qed

lemma same_mnemonic:
  assumes i: "instruction_body i core = Inr s" "shows_all i" and i': "instruction_body i' core' = Inr s'" and eq: "mnemonic s = mnemonic s'"
  shows "GET_OPCODE i = OPCODE_R \<and> GET_OPCODE i' = OPCODE_R \<and> GET_FUNCT i' = GET_FUNCT i
     \<or> is_i_type (GET_OPCODE i) \<and> GET_OPCODE i' = GET_OPCODE i
     \<or> GET_OPCODE i \<noteq> OPCODE_R \<and> \<not> named_op (GET_OPCODE i) \<and> GET_OPCODE i' \<noteq> OPCODE_R \<and> \<not> named_op (GET_OPCODE i')"
proof -
  let ?f = "\<lambda>i. funct_codes ! unat (GET_FUNCT i)" and ?o = "\<lambda>i. op_codes ! unat (GET_OPCODE i)"
  have mem: "?f j \<in> set funct_codes" "?o j \<in> set op_codes" for j by simp_all
  have m: "mnemonic (?f j) = (if invalid_name (?f j) then ''Invalid'' else ?f j)" "mnemonic (?o j) = (if invalid_name (?o j) then ''Invalid'' else ?o j)" for j
    by (rule names_plain, simp)+
  have fo: "?f j \<noteq> ?o k" "?f j \<noteq> ''Unknown''" "?o j \<noteq> ''Unknown''" "?f j \<noteq> ''Invalid''" "?o j \<noteq> ''Invalid''"
    "?f j \<noteq> ''Invalid instruction''" for j k
    using names_disjoint [unfolded list_all_iff] by (metis mem)+
  have inj: "\<not> invalid_name (?f j) \<Longrightarrow> ?f j = ?f k \<Longrightarrow> GET_FUNCT j = GET_FUNCT k"
    "\<not> invalid_name (?o j) \<Longrightarrow> ?o j = ?o k \<Longrightarrow> GET_OPCODE j = GET_OPCODE k" for j k
    using nth_eq_filter [OF names_distinct(2), of "unat (GET_FUNCT j)" "unat (GET_FUNCT k)"]
      nth_eq_filter [OF names_distinct(1), of "unat (GET_OPCODE j)" "unat (GET_OPCODE k)"] by (auto simp: word_unat_eq_iff)
  note e = eq [unfolded body_mnemonic [OF i(1)] body_mnemonic [OF i'] m]
  consider (r) "GET_OPCODE i = OPCODE_R" "\<not> invalid_name (?f i)" | (op) "is_i_type (GET_OPCODE i)" "GET_OPCODE i \<noteq> OPCODE_R" "named_op (GET_OPCODE i)"
    | (unknown) "GET_OPCODE i \<noteq> OPCODE_R" "\<not> named_op (GET_OPCODE i)"
    using i(2) fo by (auto simp: shows_all_def invalid_name_def named_op_def)
  then show ?thesis
  proof cases
    case r
    with e fo inj(1) [of i i'] show ?thesis by (simp split: if_splits)
  next
    case op
    with e fo not_sym [OF fo(1)] inj(2) [of i i'] i_type_valid [OF op(1)] show ?thesis by (simp split: if_splits)
  next
    case unknown
    with e not_sym [OF fo(2) [of i']] not_sym [OF fo(3) [of i']] show ?thesis by (simp split: if_splits)
  qed
qed

section \<open>The text shows the operands\<close>

lemma append_split_at: "c \<notin> set xs \<Longrightarrow> c \<notin> set ys \<Longrightarrow> xs @ c # as = ys @ c # bs \<Longrightarrow> xs = ys \<and> as = bs"
proof (induction xs arbitrary: ys)
  case (Cons x xs)
  then show ?case by (cases ys) auto
qed (auto simp: append_eq_Cons_conv Cons_eq_append_conv)

lemma fmt_hex_split: "fmt_hex v @ as = fmt_hex w @ bs \<Longrightarrow> v = w \<and> as = bs"
  using hex8_inj [of v w] by (auto simp: fmt_hex_def append_eq_append_conv)

lemma reg_shown_split:
  assumes "reg_shown l core r @ as = reg_shown l core' r' @ bs" and "unat r < 32" "unat r' < 32"
  shows "r' = r \<and> regs core' (unat r) = regs core (unat r) \<and> as = bs"
proof -
  have "list_all (\<lambda>s. CHR 0x20 \<notin> set s) reg_names" by (simp add: reg_names_def)
  then have p: "CHR 0x20 \<notin> set (reg_names ! unat r)" "CHR 0x20 \<notin> set (reg_names ! unat r')"
    using assms(2,3) by (simp_all add: list_all_length)
  have "reg_names ! unat r @ CHR 0x20 # (''= '' @ fmt_hex (regs core (unat r)) @ as)
      = reg_names ! unat r' @ CHR 0x20 # (''= '' @ fmt_hex (regs core' (unat r')) @ bs)"
    using assms(1) by (simp add: reg_shown_def)
  from append_split_at [OF p this] have n: "reg_names ! unat r = reg_names ! unat r'"
    and v: "fmt_hex (regs core (unat r)) @ as = fmt_hex (regs core' (unat r')) @ bs" by simp_all
  have "r' = r" using n assms(2,3) by (simp add: nth_eq_iff_index_eq word_unat_eq_iff)
  with fmt_hex_split [OF v] show ?thesis by simp
qed

text \<open>Two operands and what follows them.\<close>

lemma operands_split:
  assumes "reg_shown ''rs'' core (GET_RS i) @ '',  '' @ reg_shown ''rt'' core (GET_RT i) @ as
      = reg_shown ''rs'' core' (GET_RS i') @ '',  '' @ reg_shown ''rt'' core' (GET_RT i') @ bs"
  shows "GET_RS i' = GET_RS i \<and> GET_RT i' = GET_RT i \<and> as = bs \<and> regs core' (unat (GET_RS i)) = regs core (unat (GET_RS i))
    \<and> regs core' (unat (GET_RT i)) = regs core (unat (GET_RT i))"
proof -
  note rs = reg_shown_split [OF assms unat_GET_RS_less unat_GET_RS_less]
  then have "reg_shown ''rt'' core (GET_RT i) @ as = reg_shown ''rt'' core' (GET_RT i') @ bs" by simp
  from reg_shown_split [OF this unat_GET_RT_less unat_GET_RT_less] rs show ?thesis by blast
qed

lemma i_type_text:
  assumes "instruction_body i core = Inr s" "instruction_body i' core' = Inr s"
    and "is_i_type (GET_OPCODE i)" "GET_OPCODE i' = GET_OPCODE i"
  shows "i' = i \<and> regs core' (unat (GET_RS i)) = regs core (unat (GET_RS i)) \<and> regs core' (unat (GET_RT i)) = regs core (unat (GET_RT i))"
proof -
  have n: "GET_OPCODE i \<noteq> OPCODE_R" "GET_OPCODE i \<noteq> OPCODE_J" "GET_OPCODE i \<noteq> OPCODE_JAL"
    using assms(3) by (auto simp: is_i_type_def)
  have "reg_shown ''rs'' core (GET_RS i) @ '',  '' @ reg_shown ''rt'' core (GET_RT i) @ '',  imm = '' @ fmt_hex (GET_IMM i) @ newline
      = reg_shown ''rs'' core' (GET_RS i') @ '',  '' @ reg_shown ''rt'' core' (GET_RT i') @ '',  imm = '' @ fmt_hex (GET_IMM i') @ newline"
    using trans [OF assms(1) assms(2) [symmetric]] assms(3,4) n by (simp add: instruction_body_closed)
  note ops = operands_split [OF this]
  then have "GET_IMM i' = GET_IMM i" using fmt_hex_split [of "GET_IMM i" newline "GET_IMM i'" newline] by simp
  then have "i' = i" using ops assms(4) word_of_i_fields [of i] word_of_i_fields [of i'] by simp
  with ops show ?thesis by blast
qed

lemma r_type_text:
  assumes "instruction_body i core = Inr s" "instruction_body i' core' = Inr s"
    and "GET_OPCODE i = OPCODE_R" "GET_OPCODE i' = OPCODE_R" "GET_FUNCT i' = GET_FUNCT i"
  shows "i' = i \<and> regs core' (unat (GET_RS i)) = regs core (unat (GET_RS i)) \<and> regs core' (unat (GET_RT i)) = regs core (unat (GET_RT i))"
proof -
  let ?t = "\<lambda>i core. '',  '' @ reg_shown ''rd'' core (GET_RD i) @ '',  shamt = '' @ fmt_hex (GET_SHAMT i) @ newline"
  have "reg_shown ''rs'' core (GET_RS i) @ '',  '' @ reg_shown ''rt'' core (GET_RT i) @ ?t i core
      = reg_shown ''rs'' core' (GET_RS i') @ '',  '' @ reg_shown ''rt'' core' (GET_RT i') @ ?t i' core'"
    using trans [OF assms(1) assms(2) [symmetric]] assms(3-5) by (simp add: instruction_body_closed)
  note ops = operands_split [OF this]
  then have "reg_shown ''rd'' core (GET_RD i) @ '',  shamt = '' @ fmt_hex (GET_SHAMT i) @ newline
      = reg_shown ''rd'' core' (GET_RD i') @ '',  shamt = '' @ fmt_hex (GET_SHAMT i') @ newline" by simp
  note rd = reg_shown_split [OF this unat_GET_RD_less unat_GET_RD_less]
  then have "GET_SHAMT i' = GET_SHAMT i" using fmt_hex_split [of "GET_SHAMT i" newline "GET_SHAMT i'" newline] by simp
  then have "i' = i" using ops rd assms(3-5) word_of_r_fields [of i] word_of_r_fields [of i'] by simp
  with ops show ?thesis by blast
qed

lemma unknown_text:
  assumes "instruction_body i core = Inr s" "instruction_body i' core' = Inr s"
    and "GET_OPCODE i \<noteq> OPCODE_R" "\<not> named_op (GET_OPCODE i)" "GET_OPCODE i' \<noteq> OPCODE_R" "\<not> named_op (GET_OPCODE i')"
  shows "i' = i"
  using trans [OF assms(1) assms(2) [symmetric]] assms(3-6) fmt_hex_split [of i newline i' newline]
  by (simp add: instruction_body_closed named_op_def)



end
