(* ===== verification/Print.thy ===== *)
theory Print
  imports Disasm Io
begin

text \<open>
  Printed output.  A call of \<open>printf\<close> is its format string with its arguments; integer
  arguments are 32-bit words whatever their C type (flags are 0 or 1).  The printing
  functions of \<open>debug.c\<close>, \<open>cp0.c\<close> and \<open>mips32.c\<close> are the lists of their calls.
\<close>

section \<open>Calls of printf\<close>

datatype printf_arg = Str string | Num u32

type_synonym printf_call = "string \<times> printf_arg list"

text \<open>The conversions of a format in order; flags, width and precision are digits and dots.\<close>

fun conversions :: "bool \<Rightarrow> string \<Rightarrow> char list" where
  "conversions inside [] = []"
| "conversions False (x # xs) = conversions (x = CHR ''%'') xs"
| "conversions True (x # xs) =
     (if x \<in> set ''0123456789.'' then conversions True xs
      else if x = CHR ''%'' then conversions False xs
      else x # conversions False xs)"

fun accepts :: "char \<Rightarrow> printf_arg \<Rightarrow> bool" where
  "accepts k (Str _) = (k = CHR ''s'')"
| "accepts k (Num _) = (k \<in> set ''duxX'')"

definition well_formed_call :: "printf_call \<Rightarrow> bool" where
  "well_formed_call c \<longleftrightarrow> list_all2 accepts (conversions False (fst c)) (snd c)"

abbreviation Flag :: "bool \<Rightarrow> printf_arg" where "Flag b \<equiv> Num (if b then 1 else 0)"

section \<open>Registers and devices\<close>

definition print_registers :: "core_t \<Rightarrow> printf_call list" where
  "print_registers core = map (\<lambda>i.
     (''%s'' @ tab @ ''(s) %d'' @ tab @ ''(u) %u'' @ tab @ '' 0x%x'' @ newline,
      [Str (reg_names ! i), Num (regs core i), Num (regs core i), Num (regs core i)])) [0..<NUM_REGISTERS]"

definition dump_registers :: "core_t \<Rightarrow> printf_call list" where
  "dump_registers core = map (\<lambda>i. (''%d'' @ newline, [Num (regs core i)])) [0..<NUM_REGISTERS - 1]"

definition cp0_dump_registers :: "cp0_t \<Rightarrow> printf_call list" where
  "cp0_dump_registers c = map (\<lambda>i.
     (''%d: %10s'' @ tab @ tab @ ''%d'' @ tab @ tab @ ''0x%08X'' @ newline,
      [Num (of_nat i), Str (cp0_reg_names ! i), Num (c i), Num (c i)])) [0..<CP0_NUM_REGS]"

definition print_device :: "device_t \<Rightarrow> printf_call" where
  "print_device dev =
     (''typecode: 0x%x, vendor_string %.8s, io_addr_base: %d, io_addr_len: %d, irq: %d'' @ newline,
      [Num (dev_typecode dev), Str (map (\<lambda>b. char_of (unat b)) (dev_vendor_string dev)), Num (dev_io_addr_base dev),
       Num (dev_io_addr_len dev), Num (dev_irq dev)])"

section \<open>Memory\<close>

text \<open>
  \<open>dump_mem\<close>: a byte of \<open>mem\<close>, which has \<open>len\<close> bytes, for each value of the counter; a line
  starts at every sixteenth.  The address is a 32-bit sum and wraps.  The counter is an \<open>int\<close>
  that is compared as unsigned, so for more than \<open>INT_MAX\<close> bytes it would go through the
  negative numbers, where remainder and sum are those of the unsigned counter used here.
\<close>

fun dump_bytes :: "bytes \<Rightarrow> nat \<Rightarrow> u32 \<Rightarrow> nat list \<Rightarrow> printf_call list res" where
  "dump_bytes mem len addr [] = Inr []"
| "dump_bytes mem len addr (i # is) =
     (let a = addr + of_nat i;
          line = (if i mod 16 = 0 then [(newline @ ''%08x '', [Num a])] else [])
      in if unat a \<ge> len then Inl OutOfBounds
         else bind_res (dump_bytes mem len addr is) (\<lambda>out.
           Inr (line @ (''%02x '', [Num (ucast (mem (unat a)))]) # out)))"

definition dump_mem :: "bytes \<Rightarrow> nat \<Rightarrow> u32 \<Rightarrow> u32 \<Rightarrow> printf_call list res" where
  "dump_mem mem len addr n =
     bind_res (dump_bytes mem len addr [0..<unat n]) (\<lambda>out. Inr (out @ [(newline, [])]))"

section \<open>Pipeline registers\<close>

text \<open>\<open>INST_STR\<close>, and the name of an exception: its position in the enumeration indexes \<open>exc_names\<close>.\<close>

definition INST_STR :: "u32 \<Rightarrow> string" where
  "INST_STR inst = (if GET_OPCODE inst = 0 then funct_codes ! unat (GET_FUNCT inst)
     else op_codes ! unat (GET_OPCODE inst))"

fun exc_index :: "exception_t \<Rightarrow> nat" where
  "exc_index EXC_None = 0"
| "exc_index EXC_Interrupt = 1"
| "exc_index EXC_AddressErrorLoad = 2"
| "exc_index EXC_AddressErrorStore = 3"
| "exc_index EXC_BusErrorInstructionFetch = 4"
| "exc_index EXC_BusErrorLoadStore = 5"
| "exc_index EXC_Syscall = 6"
| "exc_index EXC_Breakpoint = 7"
| "exc_index EXC_Reserved = 8"
| "exc_index EXC_CpUnavailable = 9"
| "exc_index EXC_ArithmeticOverflow = 10"
| "exc_index EXC_Trap = 11"
| "exc_index EXC_FloatingPoint = 12"

definition rule_line :: string where
  "rule_line = replicate 93 (CHR ''-'') @ newline"

definition print_pipeline_registers :: "core_t \<Rightarrow> printf_call list" where
  "print_pipeline_registers core =
     (let f = if_id core; d = id_ex core; x = ex_mem core; w = mem_wb core;
          margin = ''                   '' in
      [(rule_line, []),
       (''IF/ID              ID/EX                      EX/MEM                      MEM/WB'' @ newline, []),
       (''%s                  %s                        %s                         %s                        '' @ newline,
        [Str (INST_STR (ifid_inst f)), Str (INST_STR (idex_inst d)), Str (INST_STR (exmem_inst x)), Str (INST_STR (memwb_inst w))]),
       (rule_line, []),
       (''next_pc: %08x  next_pc:   %08x       next_pc: %08x          next_pc:  %08x'' @ newline,
        [Num (ifid_next_pc f), Num (idex_next_pc d), Num (exmem_next_pc x), Num (memwb_next_pc w)]),
       (''inst:    %08x  c_reg_dst:   %08x      c_reg_write: %08x      c_reg_write:  %08x'' @ newline,
        [Num (ifid_inst f), Flag (idex_c_reg_dst d), Flag (exmem_c_reg_write x), Flag (memwb_c_reg_write w)]),
       (''next_pc: %08x  c_alu_op:    %08x      c_branch:    %08x      c_mem_to_reg: %08x'' @ newline,
        [Num (ifid_next_pc f), Num (ucast (idex_c_alu_op d)), Flag (exmem_c_branch x), Flag (memwb_c_mem_to_reg w)]),
       (margin @ ''c_alu_src:   %08x      c_mem_read:  %08x      alu_res:      %8x'' @ newline,
        [Flag (idex_c_alu_src d), Flag (exmem_c_mem_read x), Num (memwb_alu_res w)]),
       (margin @ ''c_beq:       %08x      c_mem_write: %08x      read_data:    %8x'' @ newline,
        [Flag (idex_c_beq d), Flag (exmem_c_mem_write x), Num (memwb_read_data w)]),
       (margin @ ''c_mem_read:  %08x      c_mem_to_reg:%08x      reg_dst:      %8d'' @ newline,
        [Flag (idex_c_mem_read d), Flag (exmem_c_mem_to_reg x), Num (ucast (memwb_reg_dst w))]),
       (margin @ ''c_mem_write: %08x      '' @ newline, [Flag (idex_c_mem_write d)]),
       (margin @ ''c_reg_write: %08x      eff_addr:    %08x'' @ newline,
        [Flag (idex_c_reg_write d), Num (exmem_eff_addr x)]),
       (margin @ ''c_mem_to_reg:%08x      alu_res:     %08x'' @ newline,
        [Flag (idex_c_mem_to_reg d), Num (exmem_alu_res x)]),
       (margin @ ''c_jump:      %08x      rt_value:    %08x'' @ newline,
        [Flag (idex_c_jump d), Num (exmem_rt_value x)]),
       (margin @ ''shamt:       %08x      reg_dst:     %08x'' @ newline,
        [Num (ucast (idex_shamt d)), Num (ucast (exmem_reg_dst x))]),
       (margin @ ''c_bne:       %08x'' @ newline, [Flag (idex_c_bne d)]),
       (margin @ ''funct:       %08x'' @ newline, [Num (ucast (idex_funct d))]),
       (margin @ ''next_pc:     %8x'' @ newline, [Num (idex_next_pc d)]),
       (margin @ ''rs_value:    %8x'' @ newline, [Num (idex_rs_value d)]),
       (margin @ ''rt_value:    %8x'' @ newline, [Num (idex_rt_value d)]),
       (margin @ ''jump_addr:   %8x'' @ newline, [Num (idex_jump_addr d)]),
       (margin @ ''sign_ext_imm:%8x'' @ newline, [Num (idex_sign_ext_imm d)]),
       (margin @ ''rs:          %8x'' @ newline, [Num (ucast (idex_rs d))]),
       (margin @ ''rt:          %8x'' @ newline, [Num (ucast (idex_rt d))]),
       (margin @ ''rd:          %8x'' @ newline, [Num (ucast (idex_rd d))]),
       (''EXC:'' @ tab @ ''%6s'' @ tab @ tab @ ''EXC:'' @ tab @ ''%6s'' @ tab @ tab @ ''EXC:'' @ tab @ ''%6s''
          @ tab @ tab @ ''EXC:'' @ tab @ ''%6s'' @ newline,
        [Str (exc_names ! exc_index (ifid_exception f)), Str (exc_names ! exc_index (idex_exception d)),
         Str (exc_names ! exc_index (exmem_exception x)), Str (exc_names ! exc_index (memwb_exception w))]),
       (''is_branch_delay: %u'' @ tab @ tab @ tab @ ''%u'' @ tab @ tab @ tab @ ''%u'' @ tab @ tab @ tab @ ''%u'' @ newline,
        [Flag (ifid_is_branch_delay f), Flag (idex_is_branch_delay d), Flag (exmem_is_branch_delay x),
         Flag (memwb_is_branch_delay w)]),
       (''BadVAddr: %08x'' @ tab @ tab @ ''%08x'' @ tab @ tab @ ''%08x'' @ tab @ tab @ ''%08x'' @ newline,
        [Num (ifid_BadVAddr f), Num (idex_BadVAddr d), Num (exmem_BadVAddr x), Num (memwb_BadVAddr w)]),
       (newline @ newline, [])])"

section \<open>Formats agree with their arguments\<close>

lemma conversions_no_percent: "CHR ''%'' \<notin> set s \<Longrightarrow> conversions False s = []"
  by (induction s) auto

lemma conversions_append:
  "CHR ''%'' \<notin> set s \<Longrightarrow> conversions False (s @ t) = conversions False t"
  by (induction s) auto

lemma pipeline_calls: "list_all well_formed_call (print_pipeline_registers core)"
  by (simp add: print_pipeline_registers_def well_formed_call_def Let_def conversions_no_percent
      rule_line_def newline_def tab_def)

lemma register_calls:
  "list_all well_formed_call (print_registers core)" "list_all well_formed_call (dump_registers core)"
  "list_all well_formed_call (cp0_dump_registers c)" "well_formed_call (print_device dev)"
  by (simp_all add: print_registers_def dump_registers_def cp0_dump_registers_def print_device_def
      well_formed_call_def newline_def tab_def list_all_iff)

lemma dump_bytes_calls: "dump_bytes mem len addr is = Inr out \<Longrightarrow> list_all well_formed_call out"
  by (induction "is" arbitrary: out)
    (auto simp: Let_def bind_res_eq_Inr well_formed_call_def newline_def split: if_splits)

lemma dump_mem_calls: "dump_mem mem len addr n = Inr out \<Longrightarrow> list_all well_formed_call out"
  using dump_bytes_calls by (auto simp: dump_mem_def bind_res_eq_Inr well_formed_call_def newline_def)

lemma dump_bytes_fault: "(\<exists>f. dump_bytes mem len addr is = Inl f) \<longleftrightarrow> (\<exists>i\<in>set is. len \<le> unat (addr + of_nat i))"
  by (induction "is") (auto simp: Let_def bind_res_def split: sum.split)

text \<open>A dump of a range inside the memory does not fault; what it prints are the bytes of the range in order.\<close>

lemma dump_mem_in_range:
  assumes "unat addr + unat n \<le> len" and "len \<le> 2 ^ 32"
  obtains out where "dump_mem mem len addr n = Inr out"
proof -
  have "unat (addr + of_nat i) < len" if "i < unat n" for i
  proof -
    have "unat addr + i < 2 ^ 32" using that assms by simp
    then have "unat (addr + of_nat i) = unat addr + i"
      by (simp add: unat_word_ariths unat_of_nat)
    with that assms(1) show ?thesis by simp
  qed
  then have "\<nexists>f. dump_bytes mem len addr [0..<unat n] = Inl f" unfolding dump_bytes_fault by (auto simp: not_le)
  then obtain out where "dump_bytes mem len addr [0..<unat n] = Inr out" by (cases "dump_bytes mem len addr [0..<unat n]") auto
  then show thesis by (intro that) (simp add: dump_mem_def)
qed

definition dumped :: "printf_call list \<Rightarrow> printf_arg list" where
  "dumped out = concat (map snd (filter (\<lambda>c. fst c = ''%02x '') out))"

lemma dump_bytes_prints:
  "dump_bytes mem len addr is = Inr out \<Longrightarrow> dumped out = map (\<lambda>i. Num (ucast (mem (unat (addr + of_nat i))))) is"
  by (induction "is" arbitrary: out)
    (auto simp: Let_def bind_res_eq_Inr dumped_def newline_def split: if_splits)

lemma exc_index_range: "exc_index e < length exc_names"
  by (cases e) (simp_all add: exc_names_def)

lemma exc_names_of_index: "exc_index e = exc_index e' \<Longrightarrow> e = e'"
  by (cases e; cases e') simp_all

end
