(* ===== verification/Loops.thy ===== *)
theory Loops
  imports Prelude
begin

text \<open>
  Loops of the C program that may run forever.  A loop is given by its body: from a state
  the body faults, leaves the loop with a result, or goes on with a new state; the body
  itself may fail to return.  \<open>loop\<close> is \<open>None\<close> when the iteration does not end.
\<close>

partial_function (option) loop :: "('s \<Rightarrow> ('r + 's) res option) \<Rightarrow> 's \<Rightarrow> 'r res option" where
  "loop body s = Option.bind (body s) (\<lambda>r. case r of
       Inl f \<Rightarrow> Some (Inl f)
     | Inr x \<Rightarrow> (case x of Inl y \<Rightarrow> Some (Inr y) | Inr s' \<Rightarrow> loop body s'))"

lemma loop_fault: "body s = Some (Inl f) \<Longrightarrow> loop body s = Some (Inl f)"
  by (subst loop.simps) simp

lemma loop_return: "body s = Some (Inr (Inl y)) \<Longrightarrow> loop body s = Some (Inr y)"
  by (subst loop.simps) simp

lemma loop_next: "body s = Some (Inr (Inr s')) \<Longrightarrow> loop body s = loop body s'"
  by (subst loop.simps) simp

lemma loop_induct:
  assumes "loop body s = Some (Inr y)"
    and "\<And>s y. body s = Some (Inr (Inl y)) \<Longrightarrow> P s y"
    and "\<And>s s' y. body s = Some (Inr (Inr s')) \<Longrightarrow> loop body s' = Some (Inr y) \<Longrightarrow> P s' y \<Longrightarrow> P s y"
  shows "P s y"
proof -
  let ?P = "\<lambda>b s (r :: _ res). b = body \<longrightarrow> (\<forall>y. r = Inr y \<longrightarrow> loop body s = Some (Inr y) \<and> P s y)"
  from assms(1) have "?P body s (Inr y)"
  proof (rule loop.raw_induct [where P = ?P, rotated], intro impI allI)
    fix lp b s r y
    assume ih: "\<And>b s r. lp b s = Some r \<Longrightarrow> ?P b s r" and b: "b = body" and r: "r = Inr y"
      and eq: "Option.bind (b s) (\<lambda>r. case r of Inl f \<Rightarrow> Some (Inl f)
        | Inr x \<Rightarrow> (case x of Inl y \<Rightarrow> Some (Inr y) | Inr s' \<Rightarrow> lp b s')) = Some r"
    from eq [unfolded b r] obtain x where x: "body s = Some (Inr x)"
      and c: "(case x of Inl z \<Rightarrow> Some (Inr z) | Inr s' \<Rightarrow> lp body s') = Some (Inr y)"
      by (cases "body s"; cases "the (body s)") simp_all
    show "loop body s = Some (Inr y) \<and> P s y"
    proof (cases x)
      case (Inl z)
      then show ?thesis using x c assms(2) loop_return [of body s] by auto
    next
      case (Inr s')
      then have "loop body s' = Some (Inr y) \<and> P s' y" using c ih by auto
      then show ?thesis using x Inr assms(3) loop_next [of body s s'] by auto
    qed
  qed
  then show ?thesis by blast
qed

lemma loop_invariant:
  assumes "loop body s = Some (Inr y)" and "I s"
    and "\<And>s s'. I s \<Longrightarrow> body s = Some (Inr (Inr s')) \<Longrightarrow> I s'"
    and "\<And>s y. I s \<Longrightarrow> body s = Some (Inr (Inl y)) \<Longrightarrow> Q y"
  shows "Q y"
proof -
  have "I s \<longrightarrow> Q y" using assms(1) by (rule loop_induct) (use assms(3,4) in blast)+
  with assms(2) show ?thesis by blast
qed

text \<open>A loop that can always go on never returns.\<close>

lemma loop_forever:
  assumes "P s" and "\<And>s. P s \<Longrightarrow> \<exists>s'. body s = Some (Inr (Inr s')) \<and> P s'"
  shows "loop body s = None"
proof (rule ccontr)
  assume "loop body s \<noteq> None"
  then obtain r where "loop body s = Some r" by blast
  then have "body = body \<longrightarrow> \<not> P s"
  proof (rule loop.raw_induct [where P = "\<lambda>b s r. b = body \<longrightarrow> \<not> P s", rotated], intro impI notI)
    fix lp b s r
    assume ih: "\<And>b s r. lp b s = Some r \<Longrightarrow> b = body \<longrightarrow> \<not> P s" and b: "b = body" and "P s"
      and eq: "Option.bind (b s) (\<lambda>r. case r of Inl f \<Rightarrow> Some (Inl f)
        | Inr x \<Rightarrow> (case x of Inl y \<Rightarrow> Some (Inr y) | Inr s' \<Rightarrow> lp b s')) = Some r"
    from assms(2) [OF \<open>P s\<close>] obtain s' where "body s = Some (Inr (Inr s'))" "P s'" by blast
    with eq b ih show False by auto
  qed
  with assms(1) show False by simp
qed

text \<open>Counting iterations: \<open>n\<close> rounds of the body, then the loop.\<close>

primrec rounds :: "('s \<Rightarrow> ('r + 's) res option) \<Rightarrow> nat \<Rightarrow> 's \<Rightarrow> 's option" where
  "rounds body 0 s = Some s"
| "rounds body (Suc n) s = (case body s of Some (Inr (Inr s')) \<Rightarrow> rounds body n s' | _ \<Rightarrow> None)"

lemma loop_rounds: "rounds body n s = Some t \<Longrightarrow> loop body s = loop body t"
  by (induction n arbitrary: s) (auto split: option.splits sum.splits simp: loop_next)

end
