(* ===== verification/Debug.thy ===== *)
theory Debug
  imports Print Mem Loops
begin

text \<open>
  The interactive debugger \<open>debug.c\<close>.  Standard input is the list of characters still to be
  read; what the commands print is the list of their \<open>printf\<close> calls.  The prompt loop may run
  forever (at the end of input the command buffer keeps its last content), so it is a
  partial function whose value is \<open>None\<close> when it does not return.
\<close>

section \<open>Simulator settings\<close>

record simulator_t =
  sim_cores :: nat
  sim_memsz :: nat
  sim_program :: "string option"
  sim_logging :: bool
  sim_log_file :: "string option"
  sim_finished :: bool
  sim_debug :: bool

section \<open>Reading commands\<close>

text \<open>\<open>fgets(c, 3, stdin)\<close>: at most two characters, up to and including a newline; \<open>None\<close> at the end.\<close>

definition fgets3 :: "string \<Rightarrow> (string \<times> string) option" where
  "fgets3 input = (case input of
       [] \<Rightarrow> None
     | [x] \<Rightarrow> Some ([x], [])
     | x # y # rest \<Rightarrow> if x = CHR 0x0A then Some ([x], y # rest) else Some ([x, y], rest))"

text \<open>The C string in the buffer, and its first byte (zero for the initial buffer).\<close>

definition c_string :: "string \<Rightarrow> string" where
  "c_string c = takeWhile (\<lambda>x. x \<noteq> CHR 0x00) c"

definition first_byte :: "string \<Rightarrow> char" where
  "first_byte c = (case c of [] \<Rightarrow> CHR 0x00 | x # _ \<Rightarrow> x)"

text \<open>
  \<open>scanf("%X", &addr)\<close>: white space, an optional sign and prefix, hexadecimal digits; the value
  is that of \<open>strtoul\<close> (saturating at 64 bits) stored in 32 bits.
\<close>

definition is_space :: "char \<Rightarrow> bool" where
  "is_space x \<longleftrightarrow> x = CHR 0x20 \<or> (of_char x :: nat) \<in> {9..13}"

definition hex_value :: "char \<Rightarrow> nat option" where
  "hex_value x = (let n = of_char x :: nat in
     if 48 \<le> n \<and> n \<le> 57 then Some (n - 48)
     else if 65 \<le> n \<and> n \<le> 70 then Some (n - 55)
     else if 97 \<le> n \<and> n \<le> 102 then Some (n - 87) else None)"

fun hex_digits :: "string \<Rightarrow> nat list \<times> string" where
  "hex_digits [] = ([], [])"
| "hex_digits (x # xs) = (case hex_value x of
       None \<Rightarrow> ([], x # xs)
     | Some d \<Rightarrow> (case hex_digits xs of (ds, rest) \<Rightarrow> (d # ds, rest)))"

definition scan_sign :: "string \<Rightarrow> bool \<times> string" where
  "scan_sign s = (case s of
       x # xs \<Rightarrow> if x = CHR 0x2D then (True, xs) else if x = CHR 0x2B then (False, xs) else (False, s)
     | [] \<Rightarrow> (False, s))"

definition scan_prefix :: "string \<Rightarrow> string" where
  "scan_prefix s = (case s of
       x # y # xs \<Rightarrow> if x = CHR 0x30 \<and> (y = CHR 0x78 \<or> y = CHR 0x58) then xs else s
     | _ \<Rightarrow> s)"

definition scan_hex :: "string \<Rightarrow> u32 option \<times> string" where
  "scan_hex s = (case scan_sign (dropWhile is_space s) of (neg, s) \<Rightarrow>
     case hex_digits (scan_prefix s) of (ds, rest) \<Rightarrow>
       if ds = [] then (None, rest)
       else let v = min (foldl (\<lambda>a d. 16 * a + d) 0 ds) (2 ^ 64 - 1)
            in (Some (if neg then - of_nat v else of_nat v), rest))"

section \<open>The prompt\<close>

definition help_text :: string where
  "help_text = concat (map (\<lambda>l. l @ newline)
     [''DEBUG COMMANDS:'',
      ''h'' @ tab @ tab @ ''- Prints this message'',
      ''r'' @ tab @ tab @ ''- Prints all GP registers'',
      ''0'' @ tab @ tab @ ''- Prints all special registers (CP0)'',
      ''p'' @ tab @ tab @ ''- Prints pipeline registers'',
      ''i'' @ tab @ tab @ ''- Prints current instruction'',
      ''[v|s|t]<N>'' @ tab @ ''- Prints register v/s/t number <N>'',
      ''m'' @ tab @ tab @ ''- Print from memory (will ask for addr)'',
      ''c'' @ tab @ tab @ ''- Continue executing'',
      ''d'' @ tab @ tab @ ''- List IO devices '',
      ''q'' @ tab @ tab @ ''- Quit'',
      [CHR 0x27, CHR 0x5C, CHR ''n'', CHR 0x27] @ tab @ tab @ ''- Step'',
      []])"

definition prompt :: printf_call where
  "prompt = (''> '', [])"

datatype dbg_next = Stay | Leave

text \<open>
  One command: whether the loop goes on, the settings, the remaining input and what is
  printed.  \<open>seek_end\<close> is the effect of \<open>fseek(stdin, 0, SEEK_END)\<close> on the input, which
  depends on the kind of file standard input is.
\<close>

definition debug_command :: "(string \<Rightarrow> string) \<Rightarrow> u32 \<Rightarrow> core_t \<Rightarrow> mmu_t \<Rightarrow> simulator_t \<Rightarrow> string \<Rightarrow> string
    \<Rightarrow> (dbg_next \<times> simulator_t \<times> string \<times> printf_call list) res" where
  "debug_command seek_end inst core mem sim input c =
     (let k = first_byte c;
          show_reg = (''%s = %u'' @ newline,
            [Str (c_string c), Num (regs core (unat (register_to_number (c_string c))))]);
          show_word = (\<lambda>addr word. [(''@: '', []), (''[0x%08X] = 0x%08X'' @ newline, [Num addr, Num word])])
      in if k = CHR ''h'' then Inr (Stay, sim, input, [(help_text, [])])
      else if k = CHR ''r'' then Inr (Stay, sim, input, print_registers core)
      else if k = CHR ''i'' then
        bind_res (print_instruction inst core) (\<lambda>s. Inr (Stay, sim, input, [(''%s'', [Str s])]))
      else if k = CHR ''m'' then (case scan_hex input of
          (None, rest) \<Rightarrow> Inr (Stay, sim, seek_end rest, show_word 0 0)
        | (Some addr, rest) \<Rightarrow>
            bind_res (mmu_read mem addr 0 MEM_OP_WORD) (\<lambda>(e, word).
              Inr (Stay, sim, seek_end rest, show_word addr word)))
      else if k = CHR ''p'' then Inr (Stay, sim, input, print_pipeline_registers core)
      else if k = CHR ''0'' then Inr (Stay, sim, input, cp0_dump_registers (cp0 core) @ [show_reg])
      else if k = CHR ''v'' \<or> k = CHR ''s'' \<or> k = CHR ''t'' then Inr (Stay, sim, input, [show_reg])
      else if k = CHR ''c'' then Inr (Stay, sim\<lparr>sim_debug := False\<rparr>, input, [])
      else if k = CHR ''q'' then Inr (Leave, sim\<lparr>sim_finished := True\<rparr>, input, [])
      else if k = CHR ''d'' then Inr (Stay, sim, input, map print_device (devices mem))
      else Inr (Leave, sim, input, []))"

text \<open>The body of the prompt loop on settings, input, command buffer and printed calls.\<close>

type_synonym dbg_state = "simulator_t \<times> string \<times> string \<times> printf_call list"

definition debug_round :: "(string \<Rightarrow> string) \<Rightarrow> u32 \<Rightarrow> core_t \<Rightarrow> mmu_t \<Rightarrow> dbg_state
    \<Rightarrow> ((simulator_t \<times> string \<times> printf_call list) + dbg_state) res option" where
  "debug_round seek_end inst core mem = (\<lambda>(sim, input, c, out).
     let (c, input) = (case fgets3 input of None \<Rightarrow> (c, input) | Some (l, rest) \<Rightarrow> (l, rest)) in
     Some (bind_res (debug_command seek_end inst core mem sim input c) (\<lambda>(nxt, sim, input, calls).
       Inr (if nxt = Leave then Inl (sim, input, out @ prompt # calls)
            else Inr (sim, input, c, out @ prompt # calls)))))"

definition debug_greeting :: "core_t \<Rightarrow> string \<Rightarrow> printf_call list" where
  "debug_greeting core s = [(''PC: 0x%08X'' @ newline, [Num (regs core REG_PC)]), (''%s'', [Str s])]"

definition debug :: "(string \<Rightarrow> string) \<Rightarrow> u32 \<Rightarrow> core_t \<Rightarrow> mmu_t \<Rightarrow> simulator_t \<Rightarrow> string
    \<Rightarrow> (simulator_t \<times> string \<times> printf_call list) res option" where
  "debug seek_end inst core mem sim input =
     (case print_instruction inst core of
        Inl f \<Rightarrow> Some (Inl f)
      | Inr s \<Rightarrow> loop (debug_round seek_end inst core mem) (sim, input, [], debug_greeting core s))"

section \<open>What the debugger can change\<close>

definition settings_step :: "simulator_t \<Rightarrow> simulator_t \<Rightarrow> bool" where
  "settings_step sim sim' \<longleftrightarrow> sim_cores sim' = sim_cores sim \<and> sim_memsz sim' = sim_memsz sim
     \<and> sim_program sim' = sim_program sim \<and> sim_logging sim' = sim_logging sim
     \<and> sim_log_file sim' = sim_log_file sim
     \<and> (sim_finished sim \<longrightarrow> sim_finished sim') \<and> (sim_debug sim' \<longrightarrow> sim_debug sim)"

lemma debug_command_settings:
  "debug_command seek_end inst core mem sim input c = Inr (nxt, sim', input', ev) \<Longrightarrow> settings_step sim sim'"
  by (auto simp: debug_command_def Let_def settings_step_def bind_res_eq_Inr
      split: if_splits option.splits prod.splits)

lemma settings_step_trans: "settings_step a b \<Longrightarrow> settings_step b c \<Longrightarrow> settings_step a c"
  by (simp add: settings_step_def)

lemma debug_round_settings:
  "debug_round seek_end inst core mem (sim, input, c, out) = Some (Inr (Inl (sim', r))) \<Longrightarrow> settings_step sim sim'"
  "debug_round seek_end inst core mem (sim, input, c, out) = Some (Inr (Inr (sim', r2))) \<Longrightarrow> settings_step sim sim'"
  by (auto simp: debug_round_def bind_res_eq_Inr split: option.splits prod.splits if_splits
      dest: debug_command_settings)

text \<open>
  C33. Debugging is observation: whatever commands are entered, when the prompt returns the
  settings of the simulation are those it started with, except that the run may have been
  ended and the debugger switched off.
\<close>

theorem debug_only_observes:
  assumes "debug seek_end inst core mem sim input = Some (Inr (sim', input', out))"
  shows "settings_step sim sim'"
proof -
  obtain s where "loop (debug_round seek_end inst core mem)
      (sim, input, [], debug_greeting core s) = Some (Inr (sim', input', out))"
    using assms by (auto simp: debug_def split: sum.splits)
  then have "settings_step sim (fst (sim', input', out))"
  proof (rule loop_invariant [where I = "\<lambda>st. settings_step sim (fst st)"])
    show "settings_step sim (fst (sim, input, [], debug_greeting core s))"
      by (simp add: settings_step_def)
  qed (auto dest!: debug_round_settings elim: settings_step_trans)
  then show ?thesis by simp
qed

section \<open>Single rounds\<close>

lemma debug_round_newline:
  "debug_round seek_end inst core mem (sim, CHR 0x0A # rest, c, out) = Some (Inr (Inl (sim, rest, out @ [prompt])))"
  by (cases rest) (simp_all add: debug_round_def fgets3_def debug_command_def first_byte_def)

lemma debug_newline:
  assumes "print_instruction inst core = Inr s"
  shows "debug seek_end inst core mem sim (CHR 0x0A # rest) =
     Some (Inr (sim, rest, debug_greeting core s @ [prompt]))"
  using assms by (simp add: debug_def loop_return [where body = "debug_round seek_end inst core mem", OF debug_round_newline])

definition demo_sim :: simulator_t where
  "demo_sim = \<lparr>sim_cores = 1, sim_memsz = 4096, sim_program = None, sim_logging = False,
     sim_log_file = None, sim_finished = False, sim_debug = True\<rparr>"

theorem debug_only_observes_witness:
  "\<exists>sim' out. debug id 0 zero_core demo_mem demo_sim [CHR 0x0A] = Some (Inr (sim', [], out))
     \<and> sim_cores sim' = 1"
proof -
  obtain s where s: "print_instruction 0 zero_core = Inr s"
    by (auto simp: print_instruction_def instruction_string_full instruction_body_closed GET_OPCODE_def)
  show ?thesis
    using debug_newline [OF s, of id demo_mem demo_sim "[]"]
      debug_only_observes [OF debug_newline [OF s, of id demo_mem demo_sim "[]"]]
    by (auto simp: settings_step_def demo_sim_def)
qed

text \<open>
  The command \<open>c\<close> switches the debugger off but does not leave the prompt: the line
  \<open>c\<close> followed by further input behaves as the prompt on that input with debugging off.
\<close>

lemma debug_c_stays_in_prompt:
  "loop (debug_round seek_end inst core mem) (sim, CHR ''c'' # CHR 0x0A # rest, c, out) =
     loop (debug_round seek_end inst core mem) (sim\<lparr>sim_debug := False\<rparr>, rest, [CHR ''c'', CHR 0x0A], out @ [prompt])"
  by (rule loop_next) (simp add: debug_round_def fgets3_def debug_command_def first_byte_def)

definition printing :: "char \<Rightarrow> bool" where
  "printing k \<longleftrightarrow> k \<in> {CHR ''h'', CHR ''r'', CHR ''p'', CHR ''0'', CHR ''v'', CHR ''s'', CHR ''t'', CHR ''c'', CHR ''d''}"

text \<open>
  C35. End of input: once the last command read is one that only prints (or \<open>c\<close>), the prompt
  repeats it forever and the debugger does not return.
\<close>

theorem debug_hangs_at_end_of_input:
  assumes "printing (first_byte c)"
  shows "loop (debug_round seek_end inst core mem) (sim, [], c, out) = None"
proof (rule loop_forever [where P = "\<lambda>(sim, input, c', out). input = [] \<and> c' = c"])
  fix st :: dbg_state
  assume "case st of (sim, input, c', out) \<Rightarrow> input = [] \<and> c' = c"
  then obtain sim out where st: "st = (sim, [], c, out)" by (cases st) auto
  show "\<exists>s'. debug_round seek_end inst core mem st = Some (Inr (Inr s'))
      \<and> (case s' of (sim, input, c', out) \<Rightarrow> input = [] \<and> c' = c)"
    using assms
    by (auto simp: st debug_round_def fgets3_def debug_command_def printing_def Let_def)
qed simp

theorem debug_hangs_at_end_of_input_witness:
  "printing (first_byte ''r'')
   \<and> loop (debug_round id 0 zero_core demo_mem) (demo_sim, [], ''r'', []) = None"
  using debug_hangs_at_end_of_input [of "''r''"] by (simp add: printing_def first_byte_def)

section \<open>What the debugger prints\<close>

lemma help_text_plain: "CHR ''%'' \<notin> set help_text"
  by (simp add: help_text_def newline_def tab_def)

lemma debug_command_calls:
  assumes "debug_command seek_end inst core mem sim input c = Inr (nxt, sim', input', calls)"
  shows "list_all well_formed_call calls"
proof -
  have h: "well_formed_call (help_text, [])"
    by (simp add: well_formed_call_def conversions_no_percent help_text_plain)
  have s: "well_formed_call (''%s = %u'' @ newline, [Str a, Num v])" "well_formed_call (''@: '', [])"
    "well_formed_call (''[0x%08X] = 0x%08X'' @ newline, [Num v, Num w])" "well_formed_call (''%s'', [Str a])" for a v w
    by (simp_all add: well_formed_call_def newline_def)
  have "list_all well_formed_call (map print_device devs)" for devs
    using register_calls(4) by (simp add: list_all_iff)
  with h s assms show ?thesis
    using pipeline_calls register_calls
    by (auto simp: debug_command_def Let_def bind_res_eq_Inr split: if_splits option.splits prod.splits)
qed

lemma greeting_calls: "list_all well_formed_call (debug_greeting core s)" "well_formed_call prompt"
  by (simp_all add: debug_greeting_def prompt_def well_formed_call_def newline_def)

text \<open>
  C34. Every \<open>printf\<close> of the debugger is well typed: whatever is entered at the prompt, in each
  call made the conversions of the format string match the arguments in number and kind.
\<close>

theorem debug_printf_typed:
  assumes "debug seek_end inst core mem sim input = Some (Inr (sim', input', out))"
  shows "list_all well_formed_call out"
proof -
  obtain s where "loop (debug_round seek_end inst core mem) (sim, input, [], debug_greeting core s)
      = Some (Inr (sim', input', out))" using assms by (auto simp: debug_def split: sum.splits)
  then have "list_all well_formed_call (snd (snd (sim', input', out)))"
  proof (rule loop_invariant [where I = "\<lambda>(sim, input, c, out). list_all well_formed_call out"])
    show "case (sim, input, [], debug_greeting core s) of (sim, input, c, out) \<Rightarrow> list_all well_formed_call out"
      by (simp add: greeting_calls)
  qed (auto simp: debug_round_def bind_res_eq_Inr greeting_calls dest: debug_command_calls
      split: option.splits prod.splits if_splits)
  then show ?thesis by simp
qed

theorem debug_printf_typed_witness:
  "\<exists>out. debug id 0 zero_core demo_mem demo_sim [CHR 0x0A] = Some (Inr (demo_sim, [], out))
     \<and> list_all well_formed_call out"
proof -
  obtain s where s: "print_instruction 0 zero_core = Inr s"
    by (auto simp: print_instruction_def instruction_string_full instruction_body_closed GET_OPCODE_def)
  show ?thesis
    using debug_newline [OF s, of id demo_mem demo_sim "[]"]
      debug_printf_typed [OF debug_newline [OF s, of id demo_mem demo_sim "[]"]] by blast
qed

end
