(* ===== verification/Sim.thy ===== *)
theory Sim
  imports Traps Elf_Load Debug
begin

unbundle bit_operations_syntax

text \<open>
  The driver of \<open>sim.c\<close>: \<open>hw_init\<close> with \<open>init_io\<close>, the main loop \<open>run\<close>, and \<open>simulate\<close>.  What the
  C library decides -- allocations, the file system, the effect of seeking on standard
  input -- is an argument.  The global \<open>g_finished\<close> is part of the state of \<open>run\<close>.
\<close>

section \<open>Hardware\<close>

text \<open>Outcomes of the allocations, in the order the code makes them.\<close>

record allocs =
  hw_ok :: bool
  mmu_ok :: bool
  cpu_ok :: bool
  dev_ok :: bool
  buf_ok :: bool

definition init_io :: "bool \<Rightarrow> hardware_t \<Rightarrow> hardware_t" where
  "init_io alloc_ok hw = hw\<lparr>hw_mmu := mmu_add_device (hw_mmu hw) (shutdown_device_create alloc_ok)\<rparr>"

definition update_core0 :: "(core_t \<Rightarrow> core_t) \<Rightarrow> cpu_t \<Rightarrow> cpu_t" where
  "update_core0 f cpu = cpu\<lparr>cores := (cores cpu)[0 := f (cores cpu ! 0)]\<rparr>"

text \<open>The conversion of the \<open>size_t\<close> number of cores to the \<open>int\<close> parameter of \<open>cpu_init\<close>.\<close>

definition size_as_int :: "nat \<Rightarrow> int" where
  "size_as_int n = sint (of_nat n :: u32)"

definition hw_init :: "allocs \<Rightarrow> nat \<Rightarrow> nat \<Rightarrow> hardware_t res" where
  "hw_init al n_cores memsz =
     (if \<not> hw_ok al then Inl (ProcExit 1)
      else case mmu_init (mmu_ok al) memsz of
        None \<Rightarrow> Inl (ProcExit (- 1))
      | Some mmu \<Rightarrow>
          bind_res (cpu_init (cpu_ok al) (size_as_int n_cores)) (\<lambda>c. case c of
            None \<Rightarrow> Inl (ProcExit (- 1))
          | Some cpu \<Rightarrow>
              let sp = (KSEG0_VSTART + size_kseg0 mmu) - 4;
                  cpu = update_core0 (\<lambda>core. core\<lparr>regs := (regs core)(REG_SP := sp)\<rparr>) cpu
              in Inr (init_io (dev_ok al) \<lparr>hw_cpu = cpu, hw_mmu = mmu\<rparr>)))"

section \<open>The main loop\<close>

record run_state =
  r_hw :: hardware_t
  r_finished :: bool
  r_sim :: simulator_t
  r_stdin :: string
  r_log :: string

definition core0 :: "hardware_t \<Rightarrow> core_t res" where
  "core0 hw = (case cores (hw_cpu hw) of [] \<Rightarrow> Inl OutOfBounds | c # _ \<Rightarrow> Inr c)"

text \<open>What one pass appends to the log: the program counter, then the instruction text.\<close>

definition log_text :: "u32 \<Rightarrow> core_t \<Rightarrow> string res" where
  "log_text inst core = bind_res (instruction_string inst core INSTRUCTION_BUFFER_SIZE) (\<lambda>(len, buf).
     Inr (snd (snprintf INSTRUCTION_BUFFER_SIZE (fmt_hex (regs core REG_PC) @ '': '')) @ buf))"

definition run_debug :: "(string \<Rightarrow> string) \<Rightarrow> u32 \<Rightarrow> core_t \<Rightarrow> run_state
    \<Rightarrow> (simulator_t \<times> string \<times> printf_call list) res option" where
  "run_debug seek_end inst core s =
     (if sim_debug (r_sim s) then debug seek_end inst core (hw_mmu (r_hw s)) (r_sim s) (r_stdin s)
      else Some (Inr (r_sim s, r_stdin s, [])))"

text \<open>After the debugger: the tick and the log entry.\<close>

definition run_tick :: "u32 \<Rightarrow> simulator_t \<Rightarrow> string \<Rightarrow> run_state \<Rightarrow> run_state res" where
  "run_tick inst sim input s =
     bind_res (tick (r_hw s) (r_finished s)) (\<lambda>(hw, g).
     bind_res (core0 hw) (\<lambda>core.
     bind_res (if sim_logging sim then log_text inst core else Inr []) (\<lambda>txt.
       Inr \<lparr>r_hw = hw, r_finished = g, r_sim = sim, r_stdin = input, r_log = r_log s @ txt\<rparr>)))"

definition run_body :: "(string \<Rightarrow> string) \<Rightarrow> run_state \<Rightarrow> (run_state + run_state) res option" where
  "run_body seek_end s =
     (if r_finished s \<or> sim_finished (r_sim s) then Some (Inr (Inl s))
      else case bind_res (core0 (r_hw s)) (\<lambda>core.
             bind_res (mmu_read (hw_mmu (r_hw s)) (PC core) 0 MEM_OP_WORD) (\<lambda>(e, inst). Inr (core, inst))) of
        Inl f \<Rightarrow> Some (Inl f)
      | Inr (core, inst) \<Rightarrow>
          Option.bind (run_debug seek_end inst core s) (\<lambda>r.
            Some (bind_res r (\<lambda>(sim, input, ev). bind_res (run_tick inst sim input s) (\<lambda>s. Inr (Inr s))))))"

text \<open>The value returned is \<open>$v1\<close> of core 0 as an \<open>int\<close>.\<close>

definition run :: "(string \<Rightarrow> string) \<Rightarrow> bool \<Rightarrow> simulator_t \<Rightarrow> hardware_t \<Rightarrow> string
    \<Rightarrow> (int \<times> run_state) res option" where
  "run seek_end calloc_ok sim hw input =
     map_option (\<lambda>r. bind_res r (\<lambda>s. bind_res (core0 (r_hw s)) (\<lambda>core.
         Inr (sint (regs core REG_V1), s))))
       (loop (run_body seek_end)
         \<lparr>r_hw = hw, r_finished = False,
          r_sim = (if calloc_ok then sim else sim\<lparr>sim_logging := False\<rparr>), r_stdin = input, r_log = []\<rparr>)"

section \<open>The whole simulation\<close>

record env =
  env_fs :: "string \<Rightarrow> u8 list option"
  env_fclose_ok :: bool
  env_allocs :: allocs
  env_seek_end :: "string \<Rightarrow> string"
  env_stdin :: string

definition load_program :: "env \<Rightarrow> string \<Rightarrow> hardware_t \<Rightarrow> hardware_t res" where
  "load_program env path hw =
     bind_res (core0 hw) (\<lambda>core.
     bind_res (elf_dump (env_fs env) (env_fclose_ok env) path (PC core) (hw_mmu hw)) (\<lambda>(retval, entry, mem).
       if retval \<noteq> 0 then Inl (ProcExit 0)
       else Inr \<lparr>hw_cpu = update_core0 (set_PC entry) (hw_cpu hw), hw_mmu = mem\<rparr>))"

definition simulate :: "env \<Rightarrow> simulator_t \<Rightarrow> (int \<times> run_state) res option" where
  "simulate env sim =
     (case bind_res (hw_init (env_allocs env) (sim_cores sim) (sim_memsz sim)) (\<lambda>hw.
        case sim_program sim of None \<Rightarrow> Inl NullDeref | Some path \<Rightarrow> load_program env path hw) of
        Inl f \<Rightarrow> Some (Inl f)
      | Inr hw \<Rightarrow> run (env_seek_end env) (buf_ok (env_allocs env)) sim hw (env_stdin env))"

section \<open>Releasing the hardware\<close>

text \<open>
  The blocks a successful \<open>hw_init\<close> has allocated, and the functions that free them; freeing a
  block that is not allocated is \<open>None\<close>.  The simulator exits without calling \<open>hw_free\<close>.
\<close>

datatype block = Blk_hw | Blk_mmu | Blk_pmem | Blk_descriptors | Blk_cores | Blk_cpu | Blk_device | Blk_realdevice

definition hw_blocks :: "allocs \<Rightarrow> block list" where
  "hw_blocks al = [Blk_hw, Blk_mmu, Blk_pmem, Blk_descriptors, Blk_cores, Blk_cpu]
     @ (if dev_ok al then [Blk_device, Blk_realdevice] else [])"

definition free_block :: "block \<Rightarrow> block list \<Rightarrow> block list option" where
  "free_block b heap = (if b \<in> set heap then Some (remove1 b heap) else None)"

definition cpu_free :: "block list \<Rightarrow> block list option" where
  "cpu_free heap = Option.bind (free_block Blk_cores heap) (free_block Blk_cpu)"

definition mmu_free :: "block list \<Rightarrow> block list option" where
  "mmu_free heap = Option.bind (free_block Blk_pmem heap) (free_block Blk_mmu)"

definition hw_free :: "block list \<Rightarrow> block list option" where
  "hw_free heap = Option.bind (Option.bind (cpu_free heap) mmu_free) (free_block Blk_hw)"

end
