(* ===== verification/Runs.thy ===== *)
theory Runs
  imports Trap_Machine Sim
begin

text \<open>
  Whole runs: the main loop returns once the program makes its exit call, with the value
  the sequential machine has in \<open>$v1\<close>; from an ELF file to the exit status.
\<close>

section \<open>Passes of the main loop\<close>

definition quiet_sim :: "simulator_t \<Rightarrow> bool" where
  "quiet_sim sim \<longleftrightarrow> \<not> sim_finished sim \<and> \<not> sim_debug sim \<and> \<not> sim_logging sim"

definition run_at :: "simulator_t \<Rightarrow> string \<Rightarrow> core_t \<Rightarrow> mmu_t \<Rightarrow> bool \<Rightarrow> run_state" where
  "run_at sim input core mem g = \<lparr>r_hw = \<lparr>hw_cpu = \<lparr>cores = [core]\<rparr>, hw_mmu = mem\<rparr>, r_finished = g,
     r_sim = sim, r_stdin = input, r_log = []\<rparr>"

lemma run_body_tick:
  assumes "quiet_sim sim" and "mmu_wf mem" and "ram_backed mem (PC core)"
    and "tick_core core mem False = Inr (core', mem', g)"
  shows "run_body seek_end (run_at sim input core mem False) = Some (Inr (Inr (run_at sim input core' mem' g)))"
  using assms
  by (simp add: run_body_def run_at_def quiet_sim_def core0_def mmu_read_ram run_debug_def run_tick_def tick_def)

lemma ram_backed_abs:
  assumes "pipe_rel core mem"
  shows "ram_backed (i_mem (pipe_abs core mem)) v = ram_backed mem v"
proof -
  obtain c m where "interpret_mem (retire_wb core) mem = Inr (c, m)" using assms by (auto simp: pipe_rel_def retires_def)
  then show ?thesis using interpret_mem_translate [of "retire_wb core" mem c m]
    by (simp add: pipe_abs_def retired_def ram_backed_def)
qed

text \<open>
  \<open>run\<close> reads the word at the program counter before every tick, also when the tick is
  about to redirect it, so a step counts only when the words at the addresses its ticks
  start from are readable.
\<close>

definition run_step :: "isa_t \<Rightarrow> nat \<Rightarrow> isa_t \<Rightarrow> bool" where
  "run_step s k t \<longleftrightarrow> trap_step s k t \<and> ram_backed (i_mem s) (i_pc s)
     \<and> (k = 1 \<or> ram_backed (i_mem s) (shadow_pc s + 8))"

lemma rounds_add: "rounds body (m + n) s = Option.bind (rounds body m s) (rounds body n)"
  by (induction m arbitrary: s) (auto split: option.split sum.split)

lemma stop_rounds:
  assumes q: "quiet_sim sim" and rel: "pipe_rel core mem" and s: "s = pipe_abs core mem"
    and stop: "stops s e" "shadow_ok s" "e = EXC_Syscall \<longrightarrow> i_regs s REG_V0 \<noteq> 10"
      "isa_load MEM_OP_WORD (i_mem s) (stopped_pc s) = Some inst"
    and b: "ram_backed mem (PC core)" "ram_backed (i_mem s) (shadow_pc s + 8)"
  shows "\<exists>core'. rounds (run_body seek_end) 3 (run_at sim input core mem False)
      = Some (run_at sim input core' (i_mem s) False) \<and> pipe_rel core' (i_mem s)
        \<and> pipe_abs core' (i_mem s) = resumed e s inst"
proof -
  obtain c1 c2 c3 where c: "tick_core core mem False = Inr (c1, i_mem s, False)"
    "tick_core c1 (i_mem s) False = Inr (c2, i_mem s, False)" "tick_core c2 (i_mem s) False = Inr (c3, i_mem s, False)"
    "ram_backed (i_mem s) (PC c1)" "ram_backed (i_mem s) (PC c2)"
    "pipe_rel c3 (i_mem s)" "pipe_abs c3 (i_mem s) = resumed e s inst"
    using stop_ticks [OF rel s stop] b(2) by metis
  have w: "mmu_wf mem" using rel by (simp add: pipe_rel_def)
  then have w': "mmu_wf (i_mem s)" using tick_core_wf [OF c(1)] by simp
  show ?thesis
    using run_body_tick [OF q w b(1) c(1)] run_body_tick [OF q w' c(4) c(2)] run_body_tick [OF q w' c(5) c(3)] c(6,7)
    by (auto simp: numeral_3_eq_3)
qed

lemma run_round:
  assumes q: "quiet_sim sim" and rel: "pipe_rel core mem" and step: "run_step (pipe_abs core mem) k t"
  shows "\<exists>core' mem'. rounds (run_body seek_end) k (run_at sim input core mem False) = Some (run_at sim input core' mem' False)
      \<and> pipe_rel core' mem' \<and> pipe_abs core' mem' = t"
proof -
  have b: "ram_backed mem (PC core)"
    using step ram_backed_abs [OF rel] by (simp add: run_step_def pipe_abs_def)
  from step have "trap_step (pipe_abs core mem) k t" by (simp add: run_step_def)
  then show ?thesis
  proof (cases rule: trap_step_cases)
    case exec
    obtain core' mem' where c: "tick_core core mem False = Inr (core', mem', False)" "pipe_rel core' mem'" "pipe_abs core' mem' = t"
      using tick_core_simulates [OF rel exec(2), of False] by blast
    have "mmu_wf mem" using rel by (simp add: pipe_rel_def)
    with run_body_tick [OF q _ b c(1)] c exec(1) show ?thesis by auto
  next
    case (stop e inst)
    with stop_rounds [OF q rel refl stop(2-5) b, of seek_end input] step show ?thesis by (auto simp: run_step_def)
  qed
qed

lemma run_rounds:
  assumes "timed_run run_step s n t" and "quiet_sim sim"
  shows "pipe_rel core mem \<Longrightarrow> pipe_abs core mem = s \<Longrightarrow>
    \<exists>core' mem'. rounds (run_body seek_end) n (run_at sim input core mem False) = Some (run_at sim input core' mem' False)
      \<and> pipe_rel core' mem' \<and> pipe_abs core' mem' = t"
  using assms(1)
proof (induction arbitrary: core mem rule: timed_run.induct)
  case (more s k u n t)
  obtain core' mem' where r: "rounds (run_body seek_end) k (run_at sim input core mem False) = Some (run_at sim input core' mem' False)"
    "pipe_rel core' mem'" "pipe_abs core' mem' = u"
    using run_round [OF assms(2) more.prems(1), of k u seek_end input] more.hyps(1) more.prems(2) by auto
  from more.IH [OF r(2,3)] show ?case by (simp add: rounds_add r(1))
qed auto

lemma exit_rounds:
  assumes q: "quiet_sim sim" and rel: "pipe_rel core mem" and ex: "at_exit (pipe_abs core mem)"
  shows "\<exists>core'. rounds (run_body seek_end) 3 (run_at sim input core mem False)
      = Some (run_at sim input core' (mem_at_exit (pipe_abs core mem)) True) \<and> gpr (regs core') = i_regs (pipe_abs core mem)"
proof -
  let ?a = "pipe_abs core mem"
  obtain c1 c2 c3 where c: "tick_core core mem False = Inr (c1, i_mem ?a, False)"
    "tick_core c1 (i_mem ?a) False = Inr (c2, i_mem ?a, False)" "tick_core c2 (i_mem ?a) False = Inr (c3, mem_at_exit ?a, True)"
    "ram_backed (i_mem ?a) (PC c1)" "ram_backed (i_mem ?a) (PC c2)" "gpr (regs c3) = i_regs ?a"
    using exit_ticks [OF rel ex] by blast
  have "ram_backed (i_mem ?a) (i_pc ?a)" using ex by (auto simp: at_exit_def isa_load_def split: if_splits)
  then have b: "ram_backed mem (PC core)" using ram_backed_abs [OF rel] by (simp add: pipe_abs_def)
  have w: "mmu_wf mem" using rel by (simp add: pipe_rel_def)
  moreover have w': "mmu_wf (i_mem ?a)" using tick_core_wf [OF c(1)] w by simp
  ultimately show ?thesis
    using run_body_tick [OF q w b c(1)] run_body_tick [OF q w' c(4) c(2)] run_body_tick [OF q w' c(5) c(3)] c(6)
    by (auto simp: numeral_3_eq_3)
qed

lemma run_returns:
  assumes "quiet_sim sim" and "flushed core" and "mmu_wf mem"
    and "timed_run run_step (isa_start (regs core) (cp0 core) mem) n a" and "at_exit a"
  shows "\<exists>core'. run seek_end calloc_ok sim \<lparr>hw_cpu = \<lparr>cores = [core]\<rparr>, hw_mmu = mem\<rparr> input
      = Some (Inr (sint (i_regs a REG_V1), run_at sim input core' (mem_at_exit a) True)) \<and> gpr (regs core') = i_regs a"
proof -
  let ?s = "run_at sim input core mem False"
  note rel = flushed_rel [OF assms(2,3)]
  obtain core1 mem1 where r1: "rounds (run_body seek_end) n ?s = Some (run_at sim input core1 mem1 False)"
    "pipe_rel core1 mem1" "pipe_abs core1 mem1 = a"
    using run_rounds [OF assms(4,1) rel(1), of seek_end input] rel(2) by auto
  from exit_rounds [OF assms(1) r1(2), of seek_end input] r1(3) assms(5) obtain core2 where
    r2: "rounds (run_body seek_end) 3 (run_at sim input core1 mem1 False) = Some (run_at sim input core2 (mem_at_exit a) True)"
    and g: "gpr (regs core2) = i_regs a" by auto
  have "rounds (run_body seek_end) (n + 3) ?s = Some (run_at sim input core2 (mem_at_exit a) True)"
    by (simp add: rounds_add r1(1) r2)
  moreover have "run_body seek_end (run_at sim input core2 (mem_at_exit a) True) = Some (Inr (Inl (run_at sim input core2 (mem_at_exit a) True)))"
    by (simp add: run_body_def run_at_def)
  ultimately have lp: "loop (run_body seek_end) ?s = Some (Inr (run_at sim input core2 (mem_at_exit a) True))"
    using loop_rounds loop_return by metis
  have "regs core2 REG_V1 = i_regs a REG_V1" using fun_cong [OF g, of 3] by (simp add: gpr_def)
  moreover have "sim\<lparr>sim_logging := False\<rparr> = sim" using assms(1) by (simp add: quiet_sim_def)
  ultimately have "run seek_end calloc_ok sim \<lparr>hw_cpu = \<lparr>cores = [core]\<rparr>, hw_mmu = mem\<rparr> input
      = Some (Inr (sint (i_regs a REG_V1), run_at sim input core2 (mem_at_exit a) True))"
    using lp by (simp add: run_def core0_def) (simp add: run_at_def)
  with g show ?thesis by blast
qed

section \<open>Reset\<close>

definition boot_mem :: "bool \<Rightarrow> nat \<Rightarrow> mmu_t" where
  "boot_mem dev sz = mmu_add_device \<lparr>pmem = (\<lambda>_. 0), pmem_len = sz, size_total = of_nat sz,
        device_descriptor_start = (\<lambda>_. 0), next_io_register = IO_REGISTER_AREA,
        devices = [], size_kseg0 = of_nat (sz div 8), size_kseg1 = of_nat (sz div 8),
        size_kseg2 = of_nat (sz div 4), size_kuseg = of_nat (sz div 2)\<rparr> (shutdown_device_create dev)"

definition boot_core :: "nat \<Rightarrow> core_t" where
  "boot_core sz = zero_core\<lparr>cp0 := (\<lambda>_. 0)(REG_SR := SR_IE),
     regs := (\<lambda>_. 0)(REG_SP := 0x80000000 + of_nat (sz div 8) - 4)\<rparr>"

lemma hw_init_ok:
  assumes "hw_ok al" "mmu_ok al" "cpu_ok al" and "size_as_int m = int (Suc n)"
  shows "hw_init al m sz = Inr \<lparr>hw_cpu = \<lparr>cores = boot_core sz # replicate n zero_core\<rparr>,
     hw_mmu = boot_mem (dev_ok al) sz\<rparr>"
  using assms
  by (simp add: hw_init_def mmu_init_def cpu_init_def init_io_def update_core0_def nat_add_distrib boot_core_def boot_mem_def
      zero_core_def Let_def)

lemma mmu_add_device_frame [simp]:
  "pmem (mmu_add_device m d) = pmem m" "pmem_len (mmu_add_device m d) = pmem_len m"
  "size_kseg0 (mmu_add_device m d) = size_kseg0 m" "size_kseg1 (mmu_add_device m d) = size_kseg1 m"
  "size_kuseg (mmu_add_device m d) = size_kuseg m"
  by (simp_all add: mmu_add_device_def device_descriptor_add_def Let_def split: option.split)

lemma boot_mem_sel [simp]:
  "pmem (boot_mem dev sz) = (\<lambda>_. 0)" "pmem_len (boot_mem dev sz) = sz"
  "size_kseg0 (boot_mem dev sz) = of_nat (sz div 8)" "size_kseg1 (boot_mem dev sz) = of_nat (sz div 8)"
  "size_kuseg (boot_mem dev sz) = of_nat (sz div 2)"
  by (simp_all add: boot_mem_def)

lemma boot_mem_wf [simp]: "mmu_wf (boot_mem dev sz)"
  by (simp add: mmu_wf_def)

lemma boot_core_flushed: "flushed (set_PC entry (boot_core sz))"
  by (simp add: flushed_def boot_core_def zero_core_def)

lemma elf_dump_frame:
  assumes "elf_dump fs ok path entry mem = Inr (rv, e, mem')"
  shows "mmu_wf mem' = mmu_wf mem" "pmem_len mem' = pmem_len mem"
proof -
  have "mmu_wf m' = mmu_wf m \<and> pmem_len m' = pmem_len m" if "load_entries bs ps m = Inr (c, m')" for bs ps m c m'
    using load_entries_frame [OF that] by (metis mmu_wf_pmem mmu_t.select_convs(2) mmu_t.update_convs(1) mmu_t.cases_scheme)
  then show "mmu_wf mem' = mmu_wf mem" "pmem_len mem' = pmem_len mem"
    using assms by (auto simp: elf_dump_closed bind_res_eq_Inr split: option.splits if_splits)
qed

lemma simulate_returns:
  assumes "quiet_sim sim" and "sim_cores sim = 1" and "sim_program sim = Some path"
    and "hw_ok (env_allocs env)" "mmu_ok (env_allocs env)" "cpu_ok (env_allocs env)"
    and "elf_dump (env_fs env) (env_fclose_ok env) path 0 (boot_mem (dev_ok (env_allocs env)) (sim_memsz sim)) = Inr (0, entry, mem)"
    and "timed_run run_step (isa_start (regs (set_PC entry (boot_core (sim_memsz sim)))) (cp0 (boot_core (sim_memsz sim))) mem) n a"
    and "at_exit a"
  shows "\<exists>s. simulate env sim = Some (Inr (sint (i_regs a REG_V1), s)) \<and> r_finished s \<and> hw_mmu (r_hw s) = mem_at_exit a \<and> r_log s = []"
proof -
  let ?c = "boot_core (sim_memsz sim)" and ?m = "boot_mem (dev_ok (env_allocs env)) (sim_memsz sim)"
  have hw: "hw_init (env_allocs env) (sim_cores sim) (sim_memsz sim) = Inr \<lparr>hw_cpu = \<lparr>cores = [?c]\<rparr>, hw_mmu = ?m\<rparr>"
    using hw_init_ok [OF assms(4-6), of _ 0] assms(2) by (simp add: size_as_int_def)
  have "PC ?c = 0" by (simp add: boot_core_def)
  then have "load_program env path \<lparr>hw_cpu = \<lparr>cores = [?c]\<rparr>, hw_mmu = ?m\<rparr>
      = Inr \<lparr>hw_cpu = \<lparr>cores = [set_PC entry ?c]\<rparr>, hw_mmu = mem\<rparr>"
    using assms(7) by (simp add: load_program_def core0_def update_core0_def)
  moreover have "mmu_wf mem" using elf_dump_frame(1) [OF assms(7)] by simp
  ultimately show ?thesis
    using run_returns [of sim "set_PC entry ?c" mem n a "env_seek_end env" "buf_ok (env_allocs env)" "env_stdin env"]
      assms(1,8,9) boot_core_flushed
    by (auto simp: simulate_def hw assms(3) run_at_def)
qed

text \<open>
  C5. From file to exit status: if the ELF file loads into the memory of the reset machine
  and the sequential machine, started at the entry point with the stack pointer at the top
  of KSEG0, reaches the exit call -- through any number of system calls, exceptions and
  returns from its handler -- then \<open>simulate\<close> returns the signed value of \<open>$v1\<close>.  Memory is
  as that machine left it, but for a store directly behind the call, which has been carried
  out.  The words behind the call must be readable, the first two hold no jump or branch,
  and a load or store in the first have an effect the sequential machine defines.
\<close>

theorem simulate_runs_program:
  assumes "quiet_sim sim" and "sim_cores sim = 1" and "sim_program sim = Some path"
    and "hw_ok (env_allocs env)" "mmu_ok (env_allocs env)" "cpu_ok (env_allocs env)"
    and "elf_dump (env_fs env) (env_fclose_ok env) path 0 (boot_mem (dev_ok (env_allocs env)) (sim_memsz sim)) = Inr (0, entry, mem)"
    and "timed_run run_step (isa_start (regs (set_PC entry (boot_core (sim_memsz sim)))) (cp0 (boot_core (sim_memsz sim))) mem) n a"
    and "at_exit a"
  shows "\<exists>s. simulate env sim = Some (Inr (sint (i_regs a REG_V1), s)) \<and> r_finished s \<and> hw_mmu (r_hw s) = mem_at_exit a"
  using simulate_returns [OF assms] by blast

section \<open>A program that exits with status 7\<close>

text \<open>One segment: \<open>addiu $v0, $zero, 10\<close>, \<open>addiu $v1, $zero, 7\<close>, \<open>syscall\<close>.\<close>

definition exit_elf :: "u8 list" where
  "exit_elf =
     [0x7F, 0x45, 0x4C, 0x46, 1, 2, 1, 0, 0, 0, 0, 0, 0, 0, 0, 0,
      0, 2, 0, 8, 0, 0, 0, 1, 0x80, 0, 0, 0, 0, 0, 0, 52, 0, 0, 0, 0,
      0, 0, 0, 0, 0, 52, 0, 32, 0, 1, 0, 0, 0, 0, 0, 0,
      0, 0, 0, 1, 0, 0, 0, 84, 0x80, 0, 0, 0, 0x80, 0, 0, 0,
      0, 0, 0, 12, 0, 0, 0, 12, 0, 0, 0, 5, 0, 0, 0, 4,
      0x24, 0x02, 0x00, 0x0A, 0x24, 0x03, 0x00, 0x07, 0, 0, 0, 0xC]"

definition exit_sim :: simulator_t where
  "exit_sim = demo_sim\<lparr>sim_program := Some ''prog'', sim_debug := False\<rparr>"

definition exit_env :: env where
  "exit_env = \<lparr>env_fs = (\<lambda>_. Some exit_elf), env_fclose_ok = True,
     env_allocs = \<lparr>hw_ok = True, mmu_ok = True, cpu_ok = True, dev_ok = True, buf_ok = True\<rparr>,
     env_seek_end = (\<lambda>_. []), env_stdin = []\<rparr>"

definition prog_mem :: mmu_t where
  "prog_mem = (boot_mem True 4096)\<lparr>pmem := put_bytes (put_bytes (\<lambda>_. 0) 0 (replicate 12 0)) 0 (drop 84 exit_elf)\<rparr>"

lemma exit_elf_load:
  "elf_dump (\<lambda>_. Some exit_elf) True ''prog'' 0 (boot_mem True 4096) = Inr (0, 0x80000000, prog_mem)"
proof -
  have h: "header_code exit_elf = 0" by (simp add: header_code_def exit_elf_def half_at_def be_half_def)
  have ph: "phdr_offsets exit_elf = [52]"
    "phdr_at exit_elf 52 = \<lparr>p_type = 1, p_offset = 84, p_vaddr = 0x80000000, p_paddr = 0x80000000,
       p_filesz = 12, p_memsz = 12\<rparr>"
    by (simp_all add: phdr_offsets_def phdr_at_def exit_elf_def half_at_def be_half_def word_at_def be_word_def)
  have w: "word_at exit_elf 24 = 0x80000000" "length exit_elf = 96" by (simp_all add: exit_elf_def word_at_def be_word_def)
  have "translate_paddr (translate_vaddr 0x80000000) (boot_mem True 4096) = Some 0"
    by (simp add: translate_vaddr_def translate_paddr_def)
  then have "load_segment exit_elf (phdr_at exit_elf 52) (boot_mem True 4096) = Inr (0, prog_mem)"
    by (simp add: ph load_segment_def write_block_def Let_def prog_mem_def w)
  then show ?thesis
    by (simp add: elf_dump_closed h ph w load_entry_def elf_close_def)
qed

lemma prog_backed:
  "ram_backed prog_mem 0x80000000" "host_pos prog_mem 0x80000000 = 0"
  "ram_backed prog_mem 0x80000004" "host_pos prog_mem 0x80000004 = 4"
  "ram_backed prog_mem 0x80000008" "host_pos prog_mem 0x80000008 = 8"
  "ram_backed prog_mem 0x8000000C" "host_pos prog_mem 0x8000000C = 12"
  "ram_backed prog_mem 0x80000010" "host_pos prog_mem 0x80000010 = 16"
  "ram_backed prog_mem 0x80000014" "host_pos prog_mem 0x80000014 = 20"
  "ram_backed prog_mem 0x80000018" "host_pos prog_mem 0x80000018 = 24"
  by (simp_all add: ram_backed_def host_pos_def translate_vaddr_def translate_paddr_def prog_mem_def)

lemma prog_fetch:
  "isa_load MEM_OP_WORD prog_mem 0x80000000 = Some 0x2402000A"
  "isa_load MEM_OP_WORD prog_mem 0x80000004 = Some 0x24030007"
  "isa_load MEM_OP_WORD prog_mem 0x80000008 = Some 0xC"
  "isa_load MEM_OP_WORD prog_mem 0x8000000C = Some 0"
  "isa_load MEM_OP_WORD prog_mem 0x80000010 = Some 0"
  by (simp_all add: isa_load_def prog_backed)
    (simp_all add: prog_mem_def put_bytes_def exit_elf_def GET_BIGWORD_def)

lemma prog_second:
  "isa_exec 0x24030007 r m = Some (isa_wr r 3 (r 0 + 7), m)" "isa_next_pc 0x24030007 npc r pc = pc"
  "\<not> isa_interlock 0x24030007 inst" "\<not> isa_taken 0x24030007 r" "GET_OPCODE 0x24030007 = 9"
proof -
  have "GET_OPCODE 0x24030007 = OPCODE_ADDIU" "GET_RS 0x24030007 = 0" "GET_RT 0x24030007 = 3"
    "SIGN_EXTEND (GET_IMM 0x24030007) = 7"
    by (simp_all add: GET_OPCODE_def GET_RS_def GET_RT_def GET_IMM_def SIGN_EXTEND_def)
  then show "isa_exec 0x24030007 r m = Some (isa_wr r 3 (r 0 + 7), m)" "isa_next_pc 0x24030007 npc r pc = pc"
    "\<not> isa_interlock 0x24030007 inst" "\<not> isa_taken 0x24030007 r" "GET_OPCODE 0x24030007 = 9"
    by (simp_all add: isa_exec_def isa_i_type_def is_load_op_def is_store_op_def isa_next_pc_def isa_taken_def isa_interlock_def Let_def)
qed

definition prog_end :: isa_t where
  "prog_end = \<lparr>i_regs = isa_wr (isa_wr (gpr (regs (set_PC 0x80000000 (boot_core 4096)))) 2 10) 3 7,
     i_cp0 = cp0 (boot_core 4096), i_mem = prog_mem,
     i_cur = 0xC, i_cur_npc = 0x8000000C, i_cur_bd = False, i_nxt = 0, i_nxt_npc = 0x80000010, i_nxt_bd = False,
     i_pc = 0x80000010, i_prev = 0x24030007, i_prev2 = 0x2402000A\<rparr>"

lemma exec_run:
  assumes "opt_iter (\<lambda>s. if ram_backed (i_mem s) (i_pc s) then isa_step s else None) n s = Some t"
  shows "timed_run run_step s n t"
  using assms
proof (induction n arbitrary: s)
  case (Suc n)
  then obtain u where "isa_step s = Some u" "ram_backed (i_mem s) (i_pc s)" "timed_run run_step u n t"
    by (auto simp: bind_eq_Some_conv split: if_splits)
  moreover from this have "run_step s 1 u" by (simp add: run_step_def trap_step.exec [simplified])
  ultimately show ?case using timed_run.more [of run_step s 1 u n t] by simp
qed (simp add: timed_run.stop)

lemma prog_run:
  "timed_run run_step (isa_start (regs (set_PC 0x80000000 (boot_core 4096))) (cp0 (boot_core 4096)) prog_mem) 4 prog_end"
proof (rule exec_run)
  define r where "r = regs (set_PC 0x80000000 (boot_core 4096))"
  have r: "r 0 = 0" "r REG_PC = 0x80000000" by (simp_all add: r_def boot_core_def)
  have four: "(4 :: nat) = Suc (Suc (Suc (Suc 0)))" by simp
  show "opt_iter (\<lambda>s. if ram_backed (i_mem s) (i_pc s) then isa_step s else None) 4
      (isa_start (regs (set_PC 0x80000000 (boot_core 4096))) (cp0 (boot_core 4096)) prog_mem) = Some prog_end"
    unfolding prog_end_def r_def [symmetric] four
    by (simp add: r isa_start_def isa_step_def isa_do_exec prog_fetch prog_backed isa_nop
        demo_no_interlock demo_exec demo_next demo_fields prog_second Let_def exit_no_interlock isa_wr_def del: fun_upd_apply)
      (simp add: r)
qed

lemma prog_end_exits: "at_exit prog_end" "mem_at_exit prog_end = prog_mem"
proof -
  have b: "mem_behind prog_end = Some prog_mem"
    by (simp add: mem_behind_def prog_end_def nop_opcode is_load_op_def is_any_store_op_def is_store_op_def)
  then show "mem_at_exit prog_end = prog_mem" by (simp add: mem_at_exit_def)
  show "at_exit prog_end"
    by (simp add: at_exit_def b)
      (simp add: prog_end_def is_syscall_def prog_fetch prog_backed isa_wr_def may_transfer_def GET_OPCODE_def GET_FUNCT_def)
qed

theorem simulate_runs_program_witness:
  "\<exists>s. simulate exit_env exit_sim = Some (Inr (7, s)) \<and> r_finished s \<and> hw_mmu (r_hw s) = prog_mem"
proof -
  have s: "quiet_sim exit_sim" "sim_cores exit_sim = 1" "sim_program exit_sim = Some ''prog''" "sim_memsz exit_sim = 4096"
    by (simp_all add: exit_sim_def demo_sim_def quiet_sim_def)
  have e: "hw_ok (env_allocs exit_env)" "mmu_ok (env_allocs exit_env)" "cpu_ok (env_allocs exit_env)"
    by (simp_all add: exit_env_def)
  have l: "elf_dump (env_fs exit_env) (env_fclose_ok exit_env) ''prog'' 0
      (boot_mem (dev_ok (env_allocs exit_env)) (sim_memsz exit_sim)) = Inr (0, 0x80000000, prog_mem)"
    using exit_elf_load by (simp add: exit_env_def s)
  have "sint (i_regs prog_end REG_V1) = 7" by (simp add: prog_end_def isa_wr_def)
  then show ?thesis
    using simulate_runs_program [OF s(1-3) e l, of 4 prog_end] prog_run prog_end_exits s(4) by simp
qed

end
