(* ===== verification/Multi_Core.thy ===== *)
theory Multi_Core
  imports Machine
begin

unbundle bit_operations_syntax

text \<open>
  The machine with any number of cores.  Cores share memory and are ticked in order; the
  instruction in the execute stage of a core reaches memory one tick later, after the cores
  behind it have had their turn.  The abstract machine is a list of sequential cores on one
  memory that take turns: in its turn a core completes the instruction it has begun, as a
  whole, on the memory as it then is, and fetches the next word.  That the pipelines
  implement it says that the simulated cores see a sequentially consistent memory.
\<close>

section \<open>Sequential cores that share memory\<close>

definition isa_fetch_pc :: "isa_t \<Rightarrow> u32" where
  "isa_fetch_pc s = isa_next_pc (i_cur s) (i_cur_npc s) (i_regs s) (i_pc s)"

text \<open>The state behind an instruction with result \<open>(r, c, m)\<close> when the word fetched is \<open>inst\<close>.\<close>

definition isa_next :: "isa_t \<Rightarrow> u32 \<Rightarrow> (nat \<Rightarrow> u32) \<times> (nat \<Rightarrow> u32) \<times> mmu_t \<Rightarrow> isa_t" where
  "isa_next s inst = (\<lambda>(r, c, m).
     let pc = isa_fetch_pc s; bd = i_nxt_bd s \<or> isa_taken (i_cur s) (i_regs s);
         wait = isa_interlock (i_nxt s) inst
     in \<lparr>i_regs = r, i_cp0 = c, i_mem = m, i_cur = i_nxt s, i_cur_npc = i_nxt_npc s, i_cur_bd = bd,
         i_nxt = (if wait then 0 else inst),
         i_nxt_npc = (if wait then i_nxt_npc s else pc + 4), i_nxt_bd = (wait \<and> bd),
         i_pc = (if wait then pc else pc + 4), i_prev = i_cur s, i_prev2 = i_prev s\<rparr>)"

lemma isa_step_next:
  "isa_step s = Option.bind (isa_do s) (\<lambda>res.
     map_option (\<lambda>inst. isa_next s inst res) (isa_load MEM_OP_WORD (i_mem s) (isa_fetch_pc s)))"
  by (cases "isa_do s"; cases "isa_load MEM_OP_WORD (i_mem s) (isa_fetch_pc s)")
    (auto simp: isa_step_def isa_next_def isa_fetch_pc_def Let_def)

text \<open>
  A core between its turns: not started, or with an instruction begun and the word fetched
  behind it.  The memory in the state is the one at the time; the turn is given the shared one.
\<close>

datatype seq_core = Fresh isa_t | Begun isa_t u32

fun complete :: "seq_core \<Rightarrow> mmu_t \<Rightarrow> isa_t option" where
  "complete (Fresh s) m = Some (s\<lparr>i_mem := m\<rparr>)"
| "complete (Begun s inst) m =
     map_option (isa_next (s\<lparr>i_mem := m\<rparr>) inst) (isa_do (s\<lparr>i_mem := m\<rparr>))"

definition turn :: "seq_core \<Rightarrow> mmu_t \<Rightarrow> (seq_core \<times> mmu_t) option" where
  "turn q m = Option.bind (complete q m) (\<lambda>s.
     if isa_do s = None then None
     else map_option (\<lambda>inst. (Begun s inst, i_mem s)) (isa_load MEM_OP_WORD (i_mem s) (isa_fetch_pc s)))"

fun turns :: "seq_core list \<Rightarrow> mmu_t \<Rightarrow> (seq_core list \<times> mmu_t) option" where
  "turns [] m = Some ([], m)"
| "turns (q # qs) m = Option.bind (turn q m) (\<lambda>(q, m). map_option (\<lambda>(qs, m). (q # qs, m)) (turns qs m))"

definition shared_step :: "seq_core list \<times> mmu_t \<Rightarrow> (seq_core list \<times> mmu_t) option" where
  "shared_step = (\<lambda>(qs, m). turns qs m)"

text \<open>A core that is alone on its memory is the sequential machine.\<close>

lemma turn_alone:
  assumes "turn q m = Some (q', m')"
  shows "complete q m \<noteq> None" "i_mem (the (complete q m)) = m'" "complete q' m' = isa_step (the (complete q m))"
  using assms by (auto simp: turn_def bind_eq_Some_conv isa_step_next split: if_splits)

section \<open>Stores of other cores\<close>

text \<open>Whether an instruction has a result depends on memory only through the addresses that are backed.\<close>

definition same_ram :: "mmu_t \<Rightarrow> mmu_t \<Rightarrow> bool" where
  "same_ram m m' \<longleftrightarrow> (\<forall>v. ram_backed m' v = ram_backed m v)"

lemma same_ram_refl [simp]: "same_ram m m"
  by (simp add: same_ram_def)

lemma same_ram_trans: "same_ram m m' \<Longrightarrow> same_ram m' m'' \<Longrightarrow> same_ram m m''"
  by (simp add: same_ram_def)

lemma isa_access_same_ram:
  assumes "same_ram m m'"
  shows "isa_read opc n old m' v = None \<longleftrightarrow> isa_read opc n old m v = None"
    "isa_write opc m' v x = None \<longleftrightarrow> isa_write opc m v x = None"
  using assms by (simp_all add: isa_read_def isa_write_def isa_load_def isa_store_def same_ram_def)

lemma isa_exec_same_ram:
  "same_ram m m' \<Longrightarrow> isa_exec inst r m' = None \<longleftrightarrow> isa_exec inst r m = None"
  by (simp add: isa_exec_def isa_access_same_ram [of m m'] Let_def if_distrib [of "\<lambda>x. x = None"] cong: if_cong)

lemma isa_do_same_ram:
  "same_ram (i_mem s) m \<Longrightarrow> isa_do (s\<lparr>i_mem := m\<rparr>) = None \<longleftrightarrow> isa_do s = None"
  by (simp add: isa_do_def isa_exec_same_ram Let_def if_distrib [of "\<lambda>x. x = None"] cong: if_cong)

text \<open>The memory stage does not move the memory map.\<close>

lemma interpret_mem_same_ram:
  "interpret_mem core m = Inr (core', m') \<Longrightarrow> same_ram m m'"
  by (simp add: same_ram_def ram_backed_def interpret_mem_translate [of core m core' m'])

section \<open>A turn of a core\<close>

text \<open>
  A pipeline tracks a sequential core when it represents what the core will be after
  completing its instruction on whatever the other cores make of the memory.
\<close>

definition tracks :: "mmu_t \<Rightarrow> core_t \<Rightarrow> seq_core \<Rightarrow> bool" where
  "tracks m core q \<longleftrightarrow> (\<forall>m'. mmu_wf m' \<and> same_ram m m' \<longrightarrow>
     pipe_rel core m' \<and> complete q m' = Some (pipe_abs core m'))"

lemma tracksD:
  "tracks m core q \<Longrightarrow> mmu_wf m' \<Longrightarrow> same_ram m m' \<Longrightarrow> pipe_rel core m' \<and> complete q m' = Some (pipe_abs core m')"
  by (simp add: tracks_def)

lemma tracks_same_ram: "tracks m core q \<Longrightarrow> same_ram m m' \<Longrightarrow> tracks m' core q"
  unfolding tracks_def using same_ram_trans by blast

lemma flushed_tracks: "flushed core \<Longrightarrow> tracks m core (Fresh (isa_start (regs core) (cp0 core) m))"
  by (simp add: tracks_def flushed_rel) (simp add: isa_start_def)

lemma mid_abs_mem: "(mid_abs c m p)\<lparr>i_mem := m'\<rparr> = mid_abs c m' p"
  by (simp add: mid_abs_def)

lemma mid_rel_mem: "mid_rel c m p \<Longrightarrow> mmu_wf m' \<Longrightarrow> mid_rel c m' p"
  by (simp add: mid_rel_def ready_def mid_abs_def)

lemma advances_tracks:
  assumes rel: "mid_rel c m p" and ex: "isa_do (mid_abs c m p) \<noteq> None"
    and adv: "advances c c5 (isa_fetch_pc (mid_abs c m p)) inst"
  shows "tracks m (forwarding_unit c5) (Begun (mid_abs c m p) inst)"
  unfolding tracks_def
proof (intro allI impI)
  fix m' assume m': "mmu_wf m' \<and> same_ram m m'"
  have rel': "mid_rel c m' p" using mid_rel_mem [OF rel] m' by blast
  have "isa_do (mid_abs c m' p) \<noteq> None"
    using isa_do_same_ram [of "mid_abs c m p" m'] ex m' by (simp add: mid_abs_mem)
  then obtain r k n where ex': "isa_do (mid_abs c m' p) = Some (r, k, n)" by auto
  have regs: "i_regs (mid_abs c m' p) = i_regs (mid_abs c m p)" by (simp add: mid_abs_def)
  then have "isa_fetch_pc (mid_abs c m' p) = isa_fetch_pc (mid_abs c m p)" by (simp add: isa_fetch_pc_def)
  then have "pipe_abs (forwarding_unit c5) m' = isa_next (mid_abs c m' p) inst (r, k, n)"
    using advances_abs [OF rel' ex' adv] by (simp add: isa_next_def Let_def cong: if_cong)
  with advances_rel [OF rel' ex' adv] ex'
  show "pipe_rel (forwarding_unit c5) m' \<and>
      complete (Begun (mid_abs c m p) inst) m' = Some (pipe_abs (forwarding_unit c5) m')"
    by (simp add: mid_abs_mem)
qed

lemma tick_core_turn:
  assumes tr: "tracks m core q" and wf: "mmu_wf m" and turn: "turn q m = Some (q', m')"
  shows "\<exists>core'. tick_core core m g = Inr (core', m', g) \<and> tracks m' core' q' \<and> mmu_wf m' \<and> same_ram m m'"
proof -
  let ?p = "memwb_inst (mem_wb core)"
  have rel: "pipe_rel core m" "complete q m = Some (pipe_abs core m)" using tracksD [OF tr wf] by simp_all
  obtain c n where c: "interpret_wb core g = Inr (retire_wb core, g)"
    "interpret_mem (retire_wb core) m = Inr (c, n)" "mid_rel c n ?p" "mid_abs c n ?p = pipe_abs core m"
    using back_stages [OF rel(1)] by blast
  let ?s = "mid_abs c n ?p"
  from turn rel(2) obtain inst where t: "isa_do ?s \<noteq> None" "isa_load MEM_OP_WORD n (isa_fetch_pc ?s) = Some inst"
    "q' = Begun ?s inst" "m' = n"
    unfolding c(4) [symmetric] by (auto simp: turn_def split: if_splits)
  have "ex_pc (id_ex c) (PC c) = isa_fetch_pc ?s"
    using mid_ex_stage [OF c(3)] t(1) by (auto simp: executes_def isa_fetch_pc_def)
  then obtain c5 where c5: "interpret_if (interpret_id (interpret_ex c)) n = Inr c5" "advances c c5 (isa_fetch_pc ?s) inst"
    using front_stages [of n c inst] c(3) t(2) unfolding mid_rel_def by auto
  have "tick_core core m g = Inr (forwarding_unit c5, m', g)"
    by (simp add: tick_core_def c c5(1) t(4) Let_def)
  with advances_tracks [OF c(3) t(1) c5(2)] interpret_mem_same_ram [OF c(2)] c(3) t(3,4) show ?thesis
    by (auto simp: mid_rel_def)
qed

section \<open>The cores in turn\<close>

lemma tick_cores_turns:
  assumes "list_all2 (tracks m) cs qs" and "mmu_wf m" and "turns qs m = Some (qs', m')"
  shows "\<exists>cs'. tick_cores cs m g = Inr (cs', m', g) \<and> list_all2 (tracks m') cs' qs' \<and> mmu_wf m' \<and> same_ram m m'"
  using assms
proof (induction cs arbitrary: m m' qs qs')
  case (Cons core cs)
  then obtain q ps where q: "qs = q # ps" "tracks m core q" "list_all2 (tracks m) cs ps"
    by (auto simp: list_all2_Cons1)
  with Cons.prems(3) obtain q1 m1 ps1 where
    t: "turn q m = Some (q1, m1)" "turns ps m1 = Some (ps1, m')" "qs' = q1 # ps1"
    by (auto simp: bind_eq_Some_conv)
  obtain core1 where c: "tick_core core m g = Inr (core1, m1, g)" "tracks m1 core1 q1" "mmu_wf m1" "same_ram m m1"
    using tick_core_turn [OF q(2) Cons.prems(2) t(1)] by blast
  have "list_all2 (tracks m1) cs ps" using q(3) by (rule list_all2_mono) (rule tracks_same_ram [OF _ c(4)])
  from Cons.IH [OF this c(3) t(2)] obtain cs1 where
    "tick_cores cs m1 g = Inr (cs1, m', g)" "list_all2 (tracks m') cs1 ps1" "mmu_wf m'" "same_ram m1 m'" by blast
  with c t(3) show ?case by (auto intro: tracks_same_ram same_ram_trans)
qed simp

definition cores_track :: "bool \<Rightarrow> hardware_t \<times> bool \<Rightarrow> seq_core list \<times> mmu_t \<Rightarrow> bool" where
  "cores_track g s a \<longleftrightarrow> snd s = g \<and> hw_mmu (fst s) = snd a \<and> mmu_wf (snd a)
     \<and> list_all2 (tracks (snd a)) (cores (hw_cpu (fst s))) (fst a)"

lemma hw_step_turns:
  assumes "cores_track g s a" and "shared_step a = Some b"
  shows "\<exists>t. hw_step s = Inr t \<and> cores_track g t b"
proof -
  obtain hw qs m qs' m' where s: "s = (hw, g)" "a = (qs, m)" "b = (qs', m')" "hw_mmu hw = m" "mmu_wf m"
    "list_all2 (tracks m) (cores (hw_cpu hw)) qs" "turns qs m = Some (qs', m')"
    using assms by (cases s; cases a; cases b) (simp add: cores_track_def shared_step_def)
  from tick_cores_turns [OF s(6,5,7), of g] show ?thesis
    by (auto simp: hw_step_def tick_def s(1-4) cores_track_def)
qed

interpretation shared: relational_simulation hw_step shared_step "cores_track g"
  for g
  by unfold_locales (rule hw_step_turns)

definition shared_start :: "core_t list \<Rightarrow> mmu_t \<Rightarrow> seq_core list \<times> mmu_t" where
  "shared_start cs m = (map (\<lambda>core. Fresh (isa_start (regs core) (cp0 core) m)) cs, m)"

lemma start_tracks:
  assumes "list_all flushed cs" and "mmu_wf m"
  shows "cores_track g (\<lparr>hw_cpu = \<lparr>cores = cs\<rparr>, hw_mmu = m\<rparr>, g) (shared_start cs m)"
  using assms by (auto simp: cores_track_def shared_start_def list_all_iff list_all2_conv_all_nth intro: flushed_tracks)

lemma cores_track_complete:
  assumes "cores_track g (hw, g) (qs, m)"
  shows "map (\<lambda>core. Some (pipe_abs core m)) (cores (hw_cpu hw)) = map (\<lambda>q. complete q m) qs"
  using assms tracksD [of m _ _ m]
  by (auto simp: cores_track_def list_all2_conv_all_nth intro!: nth_equalityI)

text \<open>
  C3. The cores share a sequentially consistent memory.  Take any number of cores with empty
  pipelines.  If the sequential cores that share the memory -- each in its turn completing one
  whole instruction on the memory its predecessors left -- can take \<open>n\<close> rounds, then \<open>n\<close> ticks
  of the simulator complete without a fault, memory is the one of the sequential cores, and
  every pipeline stands for its sequential core with the instruction it has begun completed.
\<close>

theorem cores_share_memory:
  assumes "list_all flushed cs" and "mmu_wf mem"
    and "opt_iter shared_step n (shared_start cs mem) = Some (qs, m)"
  shows "\<exists>hw'. res_iter hw_step n (\<lparr>hw_cpu = \<lparr>cores = cs\<rparr>, hw_mmu = mem\<rparr>, g) = Inr (hw', g) \<and> hw_mmu hw' = m
     \<and> map (\<lambda>core. Some (pipe_abs core m)) (cores (hw_cpu hw')) = map (\<lambda>q. complete q m) qs"
proof -
  from shared.simulate_rel_iter [OF start_tracks [OF assms(1,2)] assms(3)] obtain t where
    t: "res_iter hw_step n (\<lparr>hw_cpu = \<lparr>cores = cs\<rparr>, hw_mmu = mem\<rparr>, g) = Inr t" "cores_track g t (qs, m)" by blast
  then obtain hw' where "t = (hw', g)" by (cases t) (simp add: cores_track_def)
  with t cores_track_complete [of g hw' qs m] show ?thesis by (auto simp: cores_track_def)
qed

section \<open>Two cores that communicate\<close>

text \<open>
  Core 0 executes \<open>sw $t0, 64($t1)\<close>, core 1 in the same tick \<open>lw $t2, 64($t1)\<close>.  Core 0 has
  its turn first, so the load sees the store.
\<close>

definition share_mem :: mmu_t where
  "share_mem = demo_mem\<lparr>pmem := set_big MEM_OP_WORD (set_big MEM_OP_WORD (\<lambda>_. 0) 0 0xAD280040) 32 0x8D2A0040\<rparr>"

definition share_cores :: "core_t list" where
  "share_cores = [zero_core\<lparr>regs := (\<lambda>_. 0)(REG_PC := 0x80000000, 8 := 42, 9 := 0x80000000)\<rparr>,
     zero_core\<lparr>regs := (\<lambda>_. 0)(REG_PC := 0x80000020, 9 := 0x80000000)\<rparr>]"

definition stored_mem :: mmu_t where
  "stored_mem = share_mem\<lparr>pmem := set_big MEM_OP_WORD (pmem share_mem) 64 42\<rparr>"

lemma share_backed:
  "ram_backed share_mem 0x80000000" "host_pos share_mem 0x80000000 = 0"
  "ram_backed share_mem 0x80000004" "host_pos share_mem 0x80000004 = 4"
  "ram_backed share_mem 0x80000008" "host_pos share_mem 0x80000008 = 8"
  "ram_backed share_mem 0x80000020" "host_pos share_mem 0x80000020 = 32"
  "ram_backed share_mem 0x80000024" "host_pos share_mem 0x80000024 = 36"
  "ram_backed share_mem 0x80000028" "host_pos share_mem 0x80000028 = 40"
  "ram_backed share_mem 0x80000040" "host_pos share_mem 0x80000040 = 64"
  "ram_backed stored_mem 0x8000000C" "host_pos stored_mem 0x8000000C = 12"
  "ram_backed stored_mem 0x8000002C" "host_pos stored_mem 0x8000002C = 44"
  "ram_backed stored_mem 0x80000040" "host_pos stored_mem 0x80000040 = 64"
  by (simp_all add: ram_backed_def host_pos_def translate_vaddr_def translate_paddr_def demo_mem_def share_mem_def
      stored_mem_def)

lemma share_fetch:
  "isa_load MEM_OP_WORD share_mem 0x80000000 = Some 0xAD280040" "isa_load MEM_OP_WORD share_mem 0x80000004 = Some 0"
  "isa_load MEM_OP_WORD share_mem 0x80000008 = Some 0" "isa_load MEM_OP_WORD share_mem 0x80000020 = Some 0x8D2A0040"
  "isa_load MEM_OP_WORD share_mem 0x80000024 = Some 0" "isa_load MEM_OP_WORD share_mem 0x80000028 = Some 0"
  "isa_store MEM_OP_WORD share_mem 0x80000040 42 = Some stored_mem"
  "isa_load MEM_OP_WORD stored_mem 0x80000040 = Some 42" "isa_load MEM_OP_WORD share_mem 0x80000040 = Some 0"
  "isa_load MEM_OP_WORD stored_mem 0x8000000C = Some 0" "isa_load MEM_OP_WORD stored_mem 0x8000002C = Some 0"
  by (simp_all add: isa_load_def isa_store_def share_backed)
    (simp_all add: share_mem_def stored_mem_def GET_BIGWORD_def SET_BIGWORD_def)

lemma share_fields:
  "GET_OPCODE 0xAD280040 = OPCODE_SW" "GET_RS 0xAD280040 = 9" "GET_RT 0xAD280040 = 8"
  "SIGN_EXTEND (GET_IMM 0xAD280040) = 64"
  "GET_OPCODE 0x8D2A0040 = OPCODE_LW" "GET_RS 0x8D2A0040 = 9" "GET_RT 0x8D2A0040 = 10"
  "SIGN_EXTEND (GET_IMM 0x8D2A0040) = 64" "GET_RS 0 = 0" "GET_RT 0 = 0"
  by (simp_all add: GET_OPCODE_def GET_RS_def GET_RT_def GET_IMM_def SIGN_EXTEND_def)

lemma share_exec:
  "r 9 = 0x80000000 \<Longrightarrow> isa_exec 0xAD280040 r m = map_option (\<lambda>m'. (r, m')) (isa_store MEM_OP_WORD m 0x80000040 (r 8))"
  "r 9 = 0x80000000 \<Longrightarrow> isa_exec 0x8D2A0040 r m = map_option (\<lambda>x. (isa_wr r 10 x, m)) (isa_load MEM_OP_WORD m 0x80000040)"
  by (simp_all add: isa_exec_def share_fields is_load_op_def is_store_op_def no_overflow_def isa_write_def isa_read_def Let_def)

lemma share_next:
  "isa_next_pc 0xAD280040 npc r pc = pc" "isa_next_pc 0x8D2A0040 npc r pc = pc"
  "\<not> isa_taken 0xAD280040 r" "\<not> isa_taken 0x8D2A0040 r"
  "\<not> isa_interlock 0xAD280040 inst" "\<not> isa_interlock 0x8D2A0040 0" "\<not> isa_interlock 0 inst"
  by (simp_all add: share_fields isa_next_pc_def isa_taken_def isa_interlock_def is_load_op_def nop_opcode)

lemma share_flushed: "list_all flushed share_cores" "mmu_wf share_mem"
  by (simp_all add: share_cores_def flushed_def zero_core_def share_mem_def demo_mem_wf)

text \<open>Evaluation from the left: a continuation is not simplified before it is applied.\<close>

lemma bind_first: "x = y \<Longrightarrow> Option.bind x f = Option.bind y f"
  by simp

lemma map_option_first: "x = y \<Longrightarrow> map_option f x = map_option f y"
  by simp

definition share_end :: "seq_core list" where
  "share_end = [
     Begun \<lparr>i_regs = gpr ((\<lambda>_. 0)(REG_PC := 0x80000000, 8 := 42, 9 := 0x80000000)), i_cp0 = (\<lambda>_. 0), i_mem = stored_mem,
       i_cur = 0, i_cur_npc = 0x80000008, i_cur_bd = False, i_nxt = 0, i_nxt_npc = 0x8000000C, i_nxt_bd = False,
       i_pc = 0x8000000C, i_prev = 0xAD280040, i_prev2 = 0\<rparr> 0,
     Begun \<lparr>i_regs = (gpr ((\<lambda>_. 0)(REG_PC := 0x80000020, 9 := 0x80000000)))(10 := 42), i_cp0 = (\<lambda>_. 0), i_mem = stored_mem,
       i_cur = 0, i_cur_npc = 0x80000028, i_cur_bd = False, i_nxt = 0, i_nxt_npc = 0x8000002C, i_nxt_bd = False,
       i_pc = 0x8000002C, i_prev = 0x8D2A0040, i_prev2 = 0\<rparr> 0]"

lemmas share_eval = turn_def isa_next_def isa_fetch_pc_def isa_do_exec share_fetch isa_nop share_exec share_next
  share_fields isa_wr_def gpr_def Let_def

lemma share_run: "opt_iter shared_step 4 (shared_start share_cores share_mem) = Some (share_end, stored_mem)"
proof -
  have four: "(4 :: nat) = Suc (Suc (Suc (Suc 0)))" by simp
  show ?thesis
    unfolding four share_end_def
    by (simp add: shared_start_def shared_step_def share_cores_def isa_start_def zero_core_def share_eval
        cong: bind_first map_option_first)
qed

lemma share_done: "map (map_option (\<lambda>s. i_regs s 10)) (map (\<lambda>q. complete q stored_mem) share_end) = map Some [0, 42]"
  by (simp add: share_end_def share_eval)

lemma map_Some_map:
  assumes "map (\<lambda>x. Some (f x)) xs = map g ys" and "map (map_option h) (map g ys) = map Some zs"
  shows "map (\<lambda>x. h (f x)) xs = zs"
proof -
  have "map Some (map (\<lambda>x. h (f x)) xs) = map Some zs"
    using assms(2) [folded assms(1)] by (simp add: comp_def)
  then show ?thesis by (simp only: inj_map_eq_map [OF inj_Some])
qed

theorem cores_share_memory_witness:
  "list_all flushed share_cores \<and> mmu_wf share_mem
   \<and> (\<exists>hw'. res_iter hw_step 4 (\<lparr>hw_cpu = \<lparr>cores = share_cores\<rparr>, hw_mmu = share_mem\<rparr>, False) = Inr (hw', False)
        \<and> hw_mmu hw' = stored_mem
        \<and> map (\<lambda>core. i_regs (pipe_abs core stored_mem) 10) (cores (hw_cpu hw')) = [0, 42])"
proof -
  from cores_share_memory [OF share_flushed share_run, of False] obtain hw' where
    "res_iter hw_step 4 (\<lparr>hw_cpu = \<lparr>cores = share_cores\<rparr>, hw_mmu = share_mem\<rparr>, False) = Inr (hw', False)"
    "hw_mmu hw' = stored_mem" and
    hw: "map (\<lambda>core. Some (pipe_abs core stored_mem)) (cores (hw_cpu hw')) = map (\<lambda>q. complete q stored_mem) share_end"
    by (elim exE conjE) (rule that)
  with map_Some_map [OF hw share_done] share_flushed show ?thesis by (intro conjI exI)
qed

end
