(* ===== verification/Driver.thy ===== *)
theory Driver
  imports Runs Multi_Core
begin

text \<open>
  The driver around runs: reset and its failures, programs that do not load, the machine
  invariant from reset on, and that logging and debugging do not change a run.
\<close>

section \<open>Reset and load\<close>

lemma boot_core_inv: "pipe_inv (boot_core sz)" "pipe_inv zero_core"
  by (simp_all add: pipe_inv_def boot_core_def zero_core_def zero_defs)

lemma pipe_inv_set_PC: "pipe_inv (set_PC v c) = pipe_inv c"
  by (simp add: pipe_inv_def)

lemma hw_init_cases:
  assumes "hw_init al n sz = Inr hw"
  shows "hw = \<lparr>hw_cpu = \<lparr>cores = boot_core sz # replicate (nat (size_as_int n) - 1) zero_core\<rparr>,
     hw_mmu = boot_mem (dev_ok al) sz\<rparr>"
proof -
  have ok: "hw_ok al" "mmu_ok al" "cpu_ok al" "0 < size_as_int n"
    using assms by (auto simp: hw_init_def mmu_init_def cpu_init_def split: if_splits option.splits)
  then have "size_as_int n = int (Suc (nat (size_as_int n) - 1))" by simp
  from hw_init_ok [OF ok(1-3) this, of sz] assms show ?thesis by auto
qed

lemma hw_init_inv: "hw_init al n sz = Inr hw \<Longrightarrow> hw_inv (hw, g)"
  using boot_core_inv by (auto simp: hw_inv_def dest!: hw_init_cases)

lemma load_program_cases:
  assumes "load_program env path hw = Inr hw'"
  obtains c cs entry where "cores (hw_cpu hw) = c # cs" "cores (hw_cpu hw') = set_PC entry c # cs"
    "mmu_wf (hw_mmu hw') = mmu_wf (hw_mmu hw)" "pmem_len (hw_mmu hw') = pmem_len (hw_mmu hw)"
proof -
  obtain c cs entry mem where c: "cores (hw_cpu hw) = c # cs"
    and e: "elf_dump (env_fs env) (env_fclose_ok env) path (PC c) (hw_mmu hw) = Inr (0, entry, mem)"
    and hw': "hw' = \<lparr>hw_cpu = update_core0 (set_PC entry) (hw_cpu hw), hw_mmu = mem\<rparr>"
    using assms(1) by (auto simp: load_program_def core0_def bind_res_eq_Inr split: list.splits if_splits)
  show thesis
    by (rule that [OF c, of entry]) (use elf_dump_frame [OF e] in \<open>simp_all add: hw' c update_core0_def\<close>)
qed

lemma load_program_inv:
  assumes "load_program env path hw = Inr hw'" and "hw_inv (hw, g)"
  shows "hw_inv (hw', g) \<and> length (cores (hw_cpu hw')) = length (cores (hw_cpu hw))"
  using assms(1)
proof (rule load_program_cases)
  fix c cs entry
  assume "cores (hw_cpu hw) = c # cs" "cores (hw_cpu hw') = set_PC entry c # cs" "mmu_wf (hw_mmu hw') = mmu_wf (hw_mmu hw)"
  with assms(2) pipe_inv_set_PC [where v = entry and c = c] show ?thesis by (simp add: hw_inv_def)
qed

text \<open>
  C8. From reset on: after \<open>hw_init\<close> and a successful load, with any number of cores, every
  state the clock can reach keeps its number of cores, register 0 at zero, every index in
  the pipeline registers within the register file, and the segment sizes of the memory.
\<close>

theorem machine_invariant_from_reset:
  assumes "hw_init al n sz = Inr hw" and "load_program env path hw = Inr hw'"
    and "res_reach hw_step (hw', False) (hw'', g)"
  shows "hw_inv (hw'', g) \<and> length (cores (hw_cpu hw'')) = length (cores (hw_cpu hw))"
proof -
  have i: "hw_inv (hw', False) \<and> length (cores (hw_cpu hw')) = length (cores (hw_cpu hw))"
    using load_program_inv [OF assms(2)] hw_init_inv [OF assms(1)] by metis
  have "length (cores (hw_cpu (fst t))) = length (cores (hw_cpu (fst s)))"
    if "res_reach hw_step s t" "hw_inv s" for s t
    using that
  proof (induction rule: res_reach.induct)
    case (step s t u)
    obtain hw g where s: "s = (hw, g)" by (cases s)
    have "length (cores (hw_cpu (fst t))) = length (cores (hw_cpu (fst s)))"
      using step.hyps(1) step.prems
      by (auto simp: s hw_step_def tick_def bind_res_eq_Inr hw_inv_def dest!: tick_cores_inv)
    with step machine.step_invar show ?case by metis
  qed simp
  with assms(3) i machine.reach_invar show ?thesis by fastforce
qed

text \<open>
  C26. A program that cannot be opened or whose header is rejected stops the simulator
  before the first tick -- with exit status 0, which a caller reads as success.
\<close>

theorem simulate_bad_program:
  assumes "hw_init (env_allocs env) (sim_cores sim) (sim_memsz sim) = Inr hw" and "sim_program sim = Some path"
    and "case env_fs env path of None \<Rightarrow> True | Some bs \<Rightarrow> header_code bs \<noteq> 0"
  shows "simulate env sim = Some (Inl (ProcExit 0))"
proof -
  obtain c cs where "cores (hw_cpu hw) = c # cs"
    using hw_init_cases [OF assms(1)] by auto
  then have "load_program env path hw = Inl (ProcExit 0)"
    using assms(3) by (auto simp: load_program_def core0_def elf_dump_closed split: option.splits)
  with assms(1,2) show ?thesis by (simp add: simulate_def)
qed

text \<open>\<open>hw_free\<close> frees no block twice, and forgets the descriptor area and the devices.\<close>

lemma hw_free_leaks:
  "hw_free (hw_blocks al) = Some (Blk_descriptors # (if dev_ok al then [Blk_device, Blk_realdevice] else []))"
  by (simp add: hw_free_def cpu_free_def mmu_free_def free_block_def hw_blocks_def)

section \<open>More than one core\<close>

lemma isa_start_first:
  "isa_do (isa_start r c m) = Some (gpr r, c, m)" "isa_fetch_pc (isa_start r c m) = r REG_PC"
  by (simp_all add: isa_start_def isa_do_exec isa_nop isa_fetch_pc_def)

text \<open>The first fetch of a core with an empty pipeline.\<close>

lemma tick_core_first_fault:
  assumes "flushed core" and "mmu_wf m" and "mmu_read m (PC core) 0 MEM_OP_WORD = Inl f"
  shows "tick_core core m g = Inl f"
proof -
  note rel = flushed_rel [OF assms(1,2)]
  let ?p = "memwb_inst (mem_wb core)"
  obtain c n where c: "interpret_wb core g = Inr (retire_wb core, g)"
    "interpret_mem (retire_wb core) m = Inr (c, n)" "mid_rel c n ?p" "mid_abs c n ?p = isa_start (regs core) (cp0 core) m"
    using back_stages [OF rel(1)] unfolding rel(2) by blast
  have e: "idex_exception (id_ex c) = EXC_None" "ifid_exception (if_id c) = EXC_None" using c(3) by (simp_all add: mid_rel_def)
  have "executes (id_ex c) (mid_abs c n ?p) x (gpr (regs core)) (cp0 core) m" for x
    by (rule mid_ex_stage [OF c(3)]) (simp add: c(4) isa_start_first)
  then have "ex_pc (id_ex c) (PC c) = isa_fetch_pc (mid_abs c n ?p)" by (simp add: executes_def isa_fetch_pc_def)
  then have "PC (interpret_id (interpret_ex c)) = PC core"
    using e by (simp add: interpret_ex_normal c(4) isa_start_first)
  moreover have "n = m" using arg_cong [OF c(4), of i_mem] by (simp add: isa_start_def)
  ultimately show ?thesis
    using assms(3) by (simp add: tick_core_def c(1,2) interpret_if_def Let_def)
qed

lemma tick_core_first:
  assumes "flushed core" and "mmu_wf m" and "ram_backed m (PC core)"
  shows "\<exists>core'. tick_core core m g = Inr (core', m, g)"
proof -
  obtain inst where "isa_load MEM_OP_WORD m (PC core) = Some inst" using assms(3) by (simp add: isa_load_def)
  then have "turn (Fresh (isa_start (regs core) (cp0 core) m)) m = Some (Begun (isa_start (regs core) (cp0 core) m) inst, m)"
    by (simp add: turn_def isa_start_first) (simp add: isa_start_def isa_fetch_pc_def isa_nop isa_do_exec)
  from tick_core_turn [OF flushed_tracks [OF assms(1)] assms(2) this] show ?thesis by blast
qed

text \<open>Address 0 is in user space, which the simulator maps behind the two kernel segments of a full address space.\<close>

lemma address_0_unbacked:
  assumes "mmu_wf m" and "pmem_len m \<le> 0x20000000"
  shows "mmu_read m 0 0 MEM_OP_WORD = Inl NullDeref"
proof -
  let ?k = "of_nat (pmem_len m div 8) :: u32" and ?u = "of_nat (pmem_len m div 2) :: u32"
  have "0x20000000 + ?k + ?k + ?u = of_nat (0x20000000 + pmem_len m div 8 + pmem_len m div 8 + pmem_len m div 2)" by simp
  then have "unat (0x20000000 + ?k + ?k + ?u) = 0x20000000 + pmem_len m div 8 + pmem_len m div 8 + pmem_len m div 2"
    using assms(2) by (simp only: unat_of_nat) (simp add: take_bit_nat_eq_self)
  then have "0x20000000 + ?k + ?k + ?u \<le> 0x40000000" using assms(2) by (simp add: word_le_nat_alt)
  then have "translate_paddr 0x40000000 m = None" using assms(1) by (simp add: translate_paddr_def mmu_wf_def)
  then show ?thesis by (simp add: mmu_read_def translate_vaddr_cases)
qed

text \<open>
  C25. Only core 0 is given an entry point.  With more than one core and at most 512 MiB of
  memory, a program that loads and whose first instruction can be fetched ends in a
  dereference of the null pointer in the first tick, when core 1 fetches from address 0.
\<close>

theorem extra_cores_fault:
  assumes "hw_init (env_allocs env) (sim_cores sim) (sim_memsz sim) = Inr hw" and "sim_program sim = Some path"
    and "load_program env path hw = Inr hw'" and "ram_backed (hw_mmu hw') (PC (hd (cores (hw_cpu hw'))))"
    and "1 < size_as_int (sim_cores sim)" and "sim_memsz sim \<le> 0x20000000"
    and "\<not> sim_debug sim" and "\<not> sim_finished sim"
  shows "simulate env sim = Some (Inl NullDeref)"
proof -
  let ?n = "nat (size_as_int (sim_cores sim)) - 1" and ?sz = "sim_memsz sim"
  have "replicate ?n zero_core = zero_core # replicate (?n - 1) zero_core"
    using assms(5) by (simp flip: replicate_Suc)
  then have hw: "cores (hw_cpu hw) = boot_core ?sz # zero_core # replicate (?n - 1) zero_core" "mmu_wf (hw_mmu hw)"
    "pmem_len (hw_mmu hw) = ?sz" using hw_init_cases [OF assms(1)] by simp_all
  obtain core cs where hw': "cores (hw_cpu hw') = core # zero_core # cs" "flushed core" "mmu_wf (hw_mmu hw')"
      "pmem_len (hw_mmu hw') = ?sz"
    using load_program_cases [OF assms(3)] hw boot_core_flushed by (metis list.inject)
  have z: "tick_core zero_core (hw_mmu hw') False = Inl NullDeref"
    by (rule tick_core_first_fault)
      (use hw' assms(6) address_0_unbacked [of "hw_mmu hw'"] in \<open>simp_all add: flushed_def zero_core_def\<close>)
  obtain core' where c: "tick_core core (hw_mmu hw') False = Inr (core', hw_mmu hw', False)"
    using tick_core_first [OF hw'(2,3)] assms(4) hw'(1) by auto
  have "run_body seek \<lparr>r_hw = hw', r_finished = False, r_sim = s, r_stdin = i, r_log = l\<rparr> = Some (Inl NullDeref)"
    if "\<not> sim_debug s" "\<not> sim_finished s" for seek s i l
    using that assms(4) hw' z c by (simp add: run_body_def core0_def mmu_read_ram run_debug_def run_tick_def tick_def)
  then have "run seek ok sim hw' i = Some (Inl NullDeref)" for seek ok i
    using assms(7,8) by (simp add: run_def loop_fault)
  with assms(1-3) show ?thesis by (simp add: simulate_def)
qed

section \<open>Observers\<close>

definition unobserved :: "simulator_t \<Rightarrow> run_state \<Rightarrow> run_state" where
  "unobserved sim s = s\<lparr>r_sim := sim, r_stdin := [], r_log := []\<rparr>"

lemma run_body_unobserved:
  assumes "run_body seek_end s = Some (Inr (Inr s'))" and "quiet_sim sim"
  shows "run_body seek_end (unobserved sim s) = Some (Inr (Inr (unobserved sim s')))"
proof -
  from assms(1) obtain core inst e sm inp ev where a: "\<not> r_finished s" "core0 (r_hw s) = Inr core"
    "mmu_read (hw_mmu (r_hw s)) (PC core) 0 MEM_OP_WORD = Inr (e, inst)" "run_tick inst sm inp s = Inr s'"
    by (auto simp: run_body_def bind_res_eq_Inr bind_eq_Some_conv split: if_splits sum.splits prod.splits)
  from a(4) obtain hw g c where t: "tick (r_hw s) False = Inr (hw, g)" "core0 hw = Inr c" "r_hw s' = hw" "r_finished s' = g"
    using a(1) by (auto simp: run_tick_def bind_res_eq_Inr)
  show ?thesis
    using assms(2) a(1-3) t
    by (cases s') (simp add: run_body_def unobserved_def quiet_sim_def run_debug_def run_tick_def)
qed

lemma loop_unobserved:
  assumes "loop (run_body seek_end) s = Some (Inr y)" and "r_finished y" and "quiet_sim sim"
  shows "loop (run_body seek_end) (unobserved sim s) = Some (Inr (unobserved sim y))"
proof -
  from assms(1) have "r_finished y \<longrightarrow> loop (run_body seek_end) (unobserved sim s) = Some (Inr (unobserved sim y))"
  proof (rule loop_induct)
    fix s y assume "run_body seek_end s = Some (Inr (Inl y))"
    then have "y = s" by (auto simp: run_body_def bind_eq_Some_conv bind_res_eq_Inr split: if_splits sum.splits prod.splits)
    then show "r_finished y \<longrightarrow> loop (run_body seek_end) (unobserved sim s) = Some (Inr (unobserved sim y))"
      by (auto intro!: loop_return simp: run_body_def unobserved_def)
  qed (simp add: loop_next run_body_unobserved assms(3))
  with assms(2) show ?thesis by blast
qed

text \<open>
  C17. Watching does not change the run: if a run with any combination of debugger,
  debugger input and instruction log ends by the guest's exit call, then the same run with
  debugger and log off returns the same status and leaves the same hardware.
\<close>

theorem observers_are_transparent:
  assumes "run seek_end ok sim hw input = Some (Inr (v, s))" and "r_finished s"
  shows "\<exists>s'. run seek_end ok (sim\<lparr>sim_debug := False, sim_logging := False, sim_finished := False\<rparr>) hw []
      = Some (Inr (v, s')) \<and> r_hw s' = r_hw s \<and> r_log s' = []"
proof -
  let ?sim = "sim\<lparr>sim_debug := False, sim_logging := False, sim_finished := False\<rparr>"
  let ?s = "\<lparr>r_hw = hw, r_finished = False, r_sim = (if ok then sim else sim\<lparr>sim_logging := False\<rparr>),
     r_stdin = input, r_log = []\<rparr>"
  obtain c where l: "loop (run_body seek_end) ?s = Some (Inr s)" and c: "core0 (r_hw s) = Inr c" "v = sint (regs c REG_V1)"
    using assms(1) by (auto simp: run_def bind_res_eq_Inr)
  have "unobserved ?sim ?s = \<lparr>r_hw = hw, r_finished = False, r_sim = ?sim, r_stdin = [], r_log = []\<rparr>"
    by (simp add: unobserved_def)
  then have "loop (run_body seek_end) \<lparr>r_hw = hw, r_finished = False, r_sim = ?sim, r_stdin = [], r_log = []\<rparr>
      = Some (Inr (unobserved ?sim s))"
    using loop_unobserved [OF l assms(2), of ?sim] by (simp add: quiet_sim_def)
  moreover have eq: "(if ok then ?sim else ?sim\<lparr>sim_logging := False\<rparr>) = ?sim" by (cases sim) simp
  ultimately have "run seek_end ok ?sim hw [] = Some (Inr (v, unobserved ?sim s))"
    using c unfolding run_def eq by (simp add: unobserved_def)
  then show ?thesis by (auto simp: unobserved_def)
qed

section \<open>Concrete runs\<close>

lemma exit_hw_init: "hw_init (env_allocs exit_env) 1 4096 =
    Inr \<lparr>hw_cpu = \<lparr>cores = [boot_core 4096]\<rparr>, hw_mmu = boot_mem True 4096\<rparr>"
  using hw_init_ok [of "env_allocs exit_env" 1 0 4096] by (simp add: exit_env_def size_as_int_def)

lemma exit_load_program:
  "load_program exit_env ''prog'' \<lparr>hw_cpu = \<lparr>cores = boot_core 4096 # cs\<rparr>, hw_mmu = boot_mem True 4096\<rparr>
     = Inr \<lparr>hw_cpu = \<lparr>cores = set_PC 0x80000000 (boot_core 4096) # cs\<rparr>, hw_mmu = prog_mem\<rparr>"
proof -
  have "PC (boot_core 4096) = 0" by (simp add: boot_core_def)
  then show ?thesis
    using exit_elf_load by (simp add: load_program_def core0_def update_core0_def exit_env_def)
qed

theorem machine_invariant_from_reset_witness:
  "hw_inv (\<lparr>hw_cpu = \<lparr>cores = [set_PC 0x80000000 (boot_core 4096)]\<rparr>, hw_mmu = prog_mem\<rparr>, False)"
  using machine_invariant_from_reset [OF exit_hw_init exit_load_program res_reach.here] by blast

theorem extra_cores_fault_witness:
  "simulate exit_env (exit_sim\<lparr>sim_cores := 2\<rparr>) = Some (Inl NullDeref)"
proof -
  let ?sim = "exit_sim\<lparr>sim_cores := 2\<rparr>"
  have s: "sim_cores ?sim = 2" "sim_memsz ?sim = 4096" "sim_program ?sim = Some ''prog''" "\<not> sim_debug ?sim"
    "\<not> sim_finished ?sim" "1 < size_as_int 2"
    by (simp_all add: exit_sim_def demo_sim_def size_as_int_def)
  have "hw_init (env_allocs exit_env) 2 4096 =
      Inr \<lparr>hw_cpu = \<lparr>cores = [boot_core 4096, zero_core]\<rparr>, hw_mmu = boot_mem True 4096\<rparr>"
    using hw_init_ok [of "env_allocs exit_env" 2 1 4096] by (simp add: exit_env_def size_as_int_def)
  then show ?thesis
    using extra_cores_fault [of exit_env ?sim _ "''prog''", OF _ s(3) exit_load_program _ _ _ s(4,5)] s prog_backed(1)
    by simp
qed

theorem simulate_bad_program_witness:
  "simulate (exit_env\<lparr>env_fs := (\<lambda>_. Some [0x7F, 0x45])\<rparr>) exit_sim = Some (Inl (ProcExit 0))"
proof -
  have s: "sim_cores exit_sim = 1" "sim_memsz exit_sim = 4096" "sim_program exit_sim = Some ''prog''"
    by (simp_all add: exit_sim_def demo_sim_def)
  then show ?thesis
    using simulate_bad_program [of "exit_env\<lparr>env_fs := (\<lambda>_. Some [0x7F, 0x45])\<rparr>" exit_sim _ "''prog''"] exit_hw_init
    by (simp add: header_code_def)
qed

theorem observers_are_transparent_witness:
  "\<exists>s s'. run id True exit_sim \<lparr>hw_cpu = \<lparr>cores = [set_PC 0x80000000 (boot_core 4096)]\<rparr>, hw_mmu = prog_mem\<rparr> ''q''
       = Some (Inr (7, s)) \<and> r_finished s
     \<and> run id True (exit_sim\<lparr>sim_debug := False, sim_logging := False, sim_finished := False\<rparr>)
        \<lparr>hw_cpu = \<lparr>cores = [set_PC 0x80000000 (boot_core 4096)]\<rparr>, hw_mmu = prog_mem\<rparr> [] = Some (Inr (7, s'))"
proof -
  have "quiet_sim exit_sim" "mmu_wf prog_mem" "sint (i_regs prog_end REG_V1) = 7"
    by (simp_all add: exit_sim_def demo_sim_def quiet_sim_def prog_mem_def prog_end_def isa_wr_def)
  then obtain c where r: "run id True exit_sim \<lparr>hw_cpu = \<lparr>cores = [set_PC 0x80000000 (boot_core 4096)]\<rparr>, hw_mmu = prog_mem\<rparr> ''q''
      = Some (Inr (7, run_at exit_sim ''q'' c (mem_at_exit prog_end) True))"
    using run_returns [of exit_sim "set_PC 0x80000000 (boot_core 4096)" prog_mem 4 prog_end id True "''q''"]
      boot_core_flushed prog_run prog_end_exits(1) by auto
  moreover have f: "r_finished (run_at exit_sim ''q'' c (mem_at_exit prog_end) True)" by (simp add: run_at_def)
  ultimately show ?thesis using observers_are_transparent [OF r f] by blast
qed

end
