(* ===== verification/Main_Opts.thy ===== *)
theory Main_Opts
  imports Driver
begin

text \<open>
  The command line \<open>main.c\<close>: \<open>getopt_long\<close> with the option string \<open>+c:dhm:p:\<close> and the table
  \<open>long_options\<close>, \<open>parse_size_t\<close> over \<open>strtoul\<close>, and \<open>main\<close>.  \<open>argv\<close> is given without the
  program name.  \<open>size_t\<close> and \<open>unsigned long\<close> have 64 bits.
\<close>

section \<open>Usage\<close>

definition showUsage :: "string \<Rightarrow> printf_call list" where
  "showUsage progname = [(''Usage: %s [options] <program>'' @ newline, [Str progname])]"

definition showHelp :: "string \<Rightarrow> printf_call list" where
  "showHelp progname = showUsage progname @
     [(newline, []),
      (''  -p, --program=PATH     path to the program to execute (MIPS32 ELF)'' @ newline, []),
      (''  -c, --cores=NUMBER     the number of CPU cores to simulate'' @ newline, []),
      (''  -m, --memory=NUMBER    the number of memory bytes to simulate'' @ newline, []),
      (''  -d, --debug            print debug information during simulation'' @ newline, []),
      (''  -l, --log=FILE             log executed instructions in instruction_log.txt during simulation'' @ newline, [])]"

lemma showHelp_calls: "list_all well_formed_call (showHelp progname)"
  by (simp add: showHelp_def showUsage_def well_formed_call_def newline_def)

section \<open>Numbers\<close>

abbreviation (input) EXIT_SUCCESS :: int where "EXIT_SUCCESS \<equiv> 0"
abbreviation (input) EXIT_FAILURE :: int where "EXIT_FAILURE \<equiv> 1"
abbreviation (input) ULONG_MAX :: nat where "ULONG_MAX \<equiv> 2 ^ 64 - 1"
abbreviation (input) MEMORY_SIZE :: nat where "MEMORY_SIZE \<equiv> 0x20000000"

definition digit_value :: "char \<Rightarrow> nat option" where
  "digit_value x = (let n = of_char x :: nat in if 48 \<le> n \<and> n \<le> 57 then Some (n - 48) else None)"

fun scan_digits :: "string \<Rightarrow> nat list" where
  "scan_digits [] = []"
| "scan_digits (x # xs) = (case digit_value x of None \<Rightarrow> [] | Some d \<Rightarrow> d # scan_digits xs)"

text \<open>
  \<open>strtoul(s, &end, 10)\<close>: \<open>None\<close> when no number is found (\<open>end\<close> is then \<open>s\<close>), otherwise the value and
  whether \<open>errno\<close> was set to \<open>ERANGE\<close>; a minus sign negates modulo the width.
\<close>

definition strtoul10 :: "string \<Rightarrow> (nat \<times> bool) option" where
  "strtoul10 s = (case scan_sign (dropWhile is_space s) of (neg, s) \<Rightarrow>
     let ds = scan_digits s; v = foldl (\<lambda>a d. 10 * a + d) 0 ds in
     if ds = [] then None
     else if v > ULONG_MAX then Some (ULONG_MAX, True)
     else Some (if neg then (2 ^ 64 - v) mod 2 ^ 64 else v, False))"

text \<open>\<open>optarg\<close> is \<open>None\<close> for the null pointer, which \<open>strtoul\<close> dereferences.\<close>

definition parse_size_t :: "string option \<Rightarrow> nat res" where
  "parse_size_t optarg = (case optarg of
     None \<Rightarrow> Inl NullDeref
   | Some s \<Rightarrow> (case strtoul10 s of
       None \<Rightarrow> Inl (ProcExit EXIT_FAILURE)
     | Some (v, erange) \<Rightarrow> if v = ULONG_MAX \<and> erange then Inl (ProcExit EXIT_FAILURE) else Inr v))"

section \<open>Options\<close>

datatype has_arg = No_argument | Required_argument

definition long_options :: "(string \<times> has_arg \<times> char) list" where
  "long_options =
     [(''cores'', Required_argument, CHR ''c''),
      (''debug'', No_argument, CHR ''c''),
      (''help'', No_argument, CHR ''h''),
      (''memory'', Required_argument, CHR ''m''),
      (''program'', Required_argument, CHR ''p''),
      (''log'', Required_argument, CHR ''l'')]"

definition short_options :: "(char \<times> has_arg) list" where
  "short_options = [(CHR ''c'', Required_argument), (CHR ''d'', No_argument), (CHR ''h'', No_argument),
     (CHR ''m'', Required_argument), (CHR ''p'', Required_argument)]"

text \<open>
  One call of \<open>getopt_long\<close>: the state is the rest of the cluster of short options being read
  and the remaining arguments; the answer is the option (\<open>?\<close> for an error), \<open>optarg\<close> and the
  new state, or, for -1, the arguments that are left.  The plus sign stops at the first argument that is no option;
  a long option may be abbreviated as long as it is unique.
\<close>

type_synonym opt_state = "string \<times> string list"

definition option_value :: "has_arg \<Rightarrow> string option \<Rightarrow> string list \<Rightarrow> (string option \<times> string list) option" where
  "option_value h inline args = (case h of
     No_argument \<Rightarrow> if inline = None then Some (None, args) else None
   | Required_argument \<Rightarrow> (case inline of
       Some v \<Rightarrow> Some (Some v, args)
     | None \<Rightarrow> (case args of [] \<Rightarrow> None | a # args \<Rightarrow> Some (Some a, args))))"

definition long_match :: "string \<Rightarrow> (string \<times> has_arg \<times> char) option" where
  "long_match name = (case find (\<lambda>(n, h, v). n = name) long_options of
     Some opt \<Rightarrow> Some opt
   | None \<Rightarrow> (case filter (\<lambda>(n, h, v). take (length name) n = name) long_options of
       [opt] \<Rightarrow> Some opt
     | _ \<Rightarrow> None))"

definition bad_option :: "opt_state \<Rightarrow> char \<times> string option \<times> opt_state" where
  "bad_option s = (CHR 0x3F, None, s)"

definition getopt_short :: "char \<Rightarrow> string \<Rightarrow> string list \<Rightarrow> char \<times> string option \<times> opt_state" where
  "getopt_short x cluster args = (case map_of short_options x of
     None \<Rightarrow> bad_option (cluster, args)
   | Some No_argument \<Rightarrow> (x, None, (cluster, args))
   | Some Required_argument \<Rightarrow>
       (case option_value Required_argument (if cluster = [] then None else Some cluster) args of
          None \<Rightarrow> bad_option ([], args)
        | Some (v, args) \<Rightarrow> (x, v, ([], args))))"

definition getopt_name :: "string \<Rightarrow> string list \<Rightarrow> char \<times> string option \<times> opt_state" where
  "getopt_name text args =
     (let name = takeWhile (\<lambda>x. x \<noteq> CHR 0x3D) text;
          inline = (case dropWhile (\<lambda>x. x \<noteq> CHR 0x3D) text of [] \<Rightarrow> None | _ # v \<Rightarrow> Some v)
      in case long_match name of
           None \<Rightarrow> bad_option ([], args)
         | Some (n, h, v) \<Rightarrow> (case option_value h inline args of
               None \<Rightarrow> bad_option ([], args)
             | Some (val, args) \<Rightarrow> (v, val, ([], args))))"

fun getopt_long :: "opt_state \<Rightarrow> string list + (char \<times> string option \<times> opt_state)" where
  "getopt_long (x # cluster, args) = Inr (getopt_short x cluster args)"
| "getopt_long ([], []) = Inl []"
| "getopt_long ([], arg # args) = (case arg of
     x # y # text \<Rightarrow>
       if x \<noteq> CHR 0x2D then Inl (arg # args)
       else if y \<noteq> CHR 0x2D then Inr (getopt_short y text args)
       else if text = [] then Inl args
       else Inr (getopt_name text args)
   | _ \<Rightarrow> Inl (arg # args))"

section \<open>The option loop\<close>

text \<open>The switch on the option; any other character prints the usage and fails.\<close>

definition handle_option :: "char \<Rightarrow> string option \<Rightarrow> simulator_t \<Rightarrow> simulator_t res" where
  "handle_option c optarg sim =
     (if c = CHR 0x00 then Inr sim
      else if c = CHR ''d'' then Inr (sim\<lparr>sim_debug := True\<rparr>)
      else if c = CHR ''c'' then bind_res (parse_size_t optarg) (\<lambda>n. Inr (sim\<lparr>sim_cores := n\<rparr>))
      else if c = CHR ''p'' then Inr (sim\<lparr>sim_program := optarg\<rparr>)
      else if c = CHR ''m'' then bind_res (parse_size_t optarg) (\<lambda>n. Inr (sim\<lparr>sim_memsz := n\<rparr>))
      else if c = CHR ''h'' then Inl (ProcExit EXIT_SUCCESS)
      else if c = CHR ''l'' then Inr (sim\<lparr>sim_logging := True, sim_log_file := optarg\<rparr>)
      else Inl (ProcExit EXIT_FAILURE))"

definition opt_size :: "opt_state \<Rightarrow> nat" where
  "opt_size s = length (fst s) + sum_list (map (\<lambda>a. Suc (length a)) (snd s))"

lemma option_value_size:
  "option_value h inline args = Some (v, args') \<Longrightarrow>
     sum_list (map (\<lambda>a. Suc (length a)) args') \<le> sum_list (map (\<lambda>a. Suc (length a)) args)"
  by (auto simp: option_value_def split: has_arg.splits option.splits list.splits if_splits)

lemma getopt_short_size:
  "getopt_short x cluster args = (c, v, s') \<Longrightarrow> opt_size s' \<le> opt_size (cluster, args)"
  by (auto simp: getopt_short_def bad_option_def opt_size_def
      split: option.splits has_arg.splits if_splits dest: option_value_size)

lemma getopt_name_size: "getopt_name text args = (c, v, s') \<Longrightarrow> opt_size s' \<le> opt_size ([], args)"
  by (auto simp: getopt_name_def bad_option_def opt_size_def Let_def
      split: option.splits) (erule option_value_size)

lemma getopt_long_size: "getopt_long s = Inr (c, v, s') \<Longrightarrow> opt_size s' < opt_size s"
proof (induction s rule: getopt_long.induct)
  case (1 x cluster args)
  then have "opt_size s' \<le> opt_size (cluster, args)" by (auto dest: getopt_short_size)
  then show ?case by (simp add: opt_size_def)
next
  case (3 arg args)
  then obtain x y tl where arg: "arg = x # y # tl"
    and "getopt_short y tl args = (c, v, s') \<or> getopt_name tl args = (c, v, s')"
    by (auto split: list.splits if_splits)
  then have "opt_size s' \<le> opt_size (tl, args) \<or> opt_size s' \<le> opt_size ([], args)"
    by (auto dest: getopt_short_size getopt_name_size)
  then show ?case by (auto simp: arg opt_size_def)
qed simp

text \<open>The settings and the arguments left when the options end.\<close>

function parse_options :: "opt_state \<Rightarrow> simulator_t \<Rightarrow> (simulator_t \<times> string list) res" where
  "parse_options s sim = (case getopt_long s of
     Inl rest \<Rightarrow> Inr (sim, rest)
   | Inr (c, optarg, s') \<Rightarrow> bind_res (handle_option c optarg sim) (\<lambda>sim. parse_options s' sim))"
  by pat_completeness auto
termination
  by (relation "measure (\<lambda>(s, sim). opt_size s)") (auto dest: getopt_long_size)

declare parse_options.simps [simp del]

definition default_sim :: simulator_t where
  "default_sim = \<lparr>sim_cores = 1, sim_memsz = MEMORY_SIZE, sim_program = None, sim_logging = False,
     sim_log_file = None, sim_finished = False, sim_debug = False\<rparr>"

text \<open>
  \<open>main\<close>: the value returned and what was written to the log.  \<open>fopen_ok\<close> says which log files can
  be opened.
\<close>

definition main :: "env \<Rightarrow> (string \<Rightarrow> bool) \<Rightarrow> string list \<Rightarrow> (int \<times> string) res option" where
  "main env fopen_ok argv = (case parse_options ([], argv) default_sim of
     Inl f \<Rightarrow> Some (Inl f)
   | Inr (sim, rest) \<Rightarrow>
       let sim = (case rest of [] \<Rightarrow> sim | a # _ \<Rightarrow> sim\<lparr>sim_program := Some a\<rparr>) in
       if sim_program sim = None then Some (Inr (0, []))
       else let opened = (case sim_log_file sim of None \<Rightarrow> False | Some f \<Rightarrow> fopen_ok f);
                sim = (if sim_logging sim \<and> \<not> opened then sim\<lparr>sim_logging := False\<rparr> else sim)
            in map_option (\<lambda>r. bind_res r (\<lambda>(ret, s). Inr (ret, r_log s))) (simulate env sim))"

section \<open>Decimal numbers\<close>

text \<open>The decimal numeral of a number, as \<open>%u\<close> prints it.\<close>

function dec :: "nat \<Rightarrow> string" where
  "dec n = (if n < 10 then [char_of (n + 48)] else dec (n div 10) @ [char_of (n mod 10 + 48)])"
  by pat_completeness auto
termination
  by (relation "measure id") auto

declare dec.simps [simp del]

lemma digit_value_char [simp]: "d < 10 \<Longrightarrow> digit_value (char_of (d + 48)) = Some d"
  by (simp add: digit_value_def)

lemma scan_digits_append:
  "list_all (\<lambda>x. digit_value x \<noteq> None) s \<Longrightarrow> scan_digits (s @ t) = scan_digits s @ scan_digits t"
  by (induction s) auto

lemma dec_digits: "list_all (\<lambda>x. digit_value x \<noteq> None) (dec n)"
proof (induction n rule: dec.induct)
  case (1 n)
  then show ?case by (subst dec.simps) simp
qed

lemma scan_dec: "foldl (\<lambda>a d. 10 * a + d) 0 (scan_digits (dec n)) = n"
proof (induction n rule: dec.induct)
  case (1 n)
  then show ?case by (subst dec.simps) (simp add: scan_digits_append [OF dec_digits])
qed

lemma dec_head: "\<exists>x xs. dec n = x # xs \<and> digit_value x \<noteq> None"
  using dec_digits [of n] by (cases "dec n") (simp_all add: dec.simps [of n] split: if_splits)

lemma digit_plain: "digit_value x \<noteq> None \<Longrightarrow> \<not> is_space x \<and> x \<noteq> CHR 0x2D \<and> x \<noteq> CHR 0x2B"
  by (auto simp: digit_value_def is_space_def Let_def split: if_splits)

lemma strtoul_dec:
  "strtoul10 (dec n) = Some (if n > ULONG_MAX then (ULONG_MAX, True) else (n, False))"
  "strtoul10 (CHR 0x2D # dec n) = Some (if n > ULONG_MAX then (ULONG_MAX, True) else ((2 ^ 64 - n) mod 2 ^ 64, False))"
proof -
  obtain x xs where d: "dec n = x # xs" "digit_value x \<noteq> None" using dec_head by blast
  note p = digit_plain [OF d(2)]
  have "dropWhile is_space (dec n) = dec n" "scan_sign (dec n) = (False, dec n)"
    "dropWhile is_space (CHR 0x2D # dec n) = CHR 0x2D # dec n" "scan_sign (CHR 0x2D # dec n) = (True, dec n)"
    "scan_digits (dec n) \<noteq> []"
    using d p by (auto simp: scan_sign_def is_space_def)
  then show "strtoul10 (dec n) = Some (if n > ULONG_MAX then (ULONG_MAX, True) else (n, False))"
    "strtoul10 (CHR 0x2D # dec n) = Some (if n > ULONG_MAX then (ULONG_MAX, True) else ((2 ^ 64 - n) mod 2 ^ 64, False))"
    by (simp_all add: strtoul10_def scan_dec Let_def)
qed

text \<open>
  C27. Sizes on the command line: a decimal numeral that fits into 64 bits is read back as
  the number it denotes and a larger one ends the program with a failure; and a minus sign
  is accepted, giving the number modulo the width.
\<close>

theorem parse_size_t_decimal:
  "parse_size_t (Some (dec n)) = (if n < 2 ^ 64 then Inr n else Inl (ProcExit EXIT_FAILURE))
   \<and> parse_size_t (Some (CHR 0x2D # dec n)) =
       (if n < 2 ^ 64 then Inr ((2 ^ 64 - n) mod 2 ^ 64) else Inl (ProcExit EXIT_FAILURE))"
  by (auto simp: parse_size_t_def strtoul_dec)

section \<open>Spellings of an option\<close>

lemmas getopt_defs = getopt_short_def getopt_name_def short_options_def long_match_def long_options_def
  option_value_def

lemma getopt_separate:
  "getopt_long ([], ''-c'' # v # args) = Inr (CHR ''c'', Some v, ([], args))"
  "getopt_long ([], ''-m'' # v # args) = Inr (CHR ''m'', Some v, ([], args))"
  "getopt_long ([], ''-p'' # v # args) = Inr (CHR ''p'', Some v, ([], args))"
  "getopt_long ([], ''--cores'' # v # args) = Inr (CHR ''c'', Some v, ([], args))"
  "getopt_long ([], ''--memory'' # v # args) = Inr (CHR ''m'', Some v, ([], args))"
  "getopt_long ([], ''--program'' # v # args) = Inr (CHR ''p'', Some v, ([], args))"
  by (simp_all add: getopt_defs)

lemma getopt_joined:
  "v \<noteq> [] \<Longrightarrow> getopt_long ([], (''-c'' @ v) # args) = Inr (CHR ''c'', Some v, ([], args))"
  "v \<noteq> [] \<Longrightarrow> getopt_long ([], (''-m'' @ v) # args) = Inr (CHR ''m'', Some v, ([], args))"
  "v \<noteq> [] \<Longrightarrow> getopt_long ([], (''-p'' @ v) # args) = Inr (CHR ''p'', Some v, ([], args))"
  "getopt_long ([], (''--cores='' @ v) # args) = Inr (CHR ''c'', Some v, ([], args))"
  "getopt_long ([], (''--memory='' @ v) # args) = Inr (CHR ''m'', Some v, ([], args))"
  "getopt_long ([], (''--program='' @ v) # args) = Inr (CHR ''p'', Some v, ([], args))"
  by (simp_all add: getopt_defs)

lemma getopt_log:
  "getopt_long ([], ''--log'' # v # args) = Inr (CHR ''l'', Some v, ([], args))"
  "getopt_long ([], (''--log='' @ v) # args) = Inr (CHR ''l'', Some v, ([], args))"
  by (simp_all add: getopt_defs)

lemma getopt_flags:
  "getopt_long ([], ''-d'' # args) = Inr (CHR ''d'', None, ([], args))"
  "getopt_long ([], ''--debug'' # args) = Inr (CHR ''c'', None, ([], args))"
  "getopt_long ([], (CHR 0x2D # CHR ''l'' # v) # args) = Inr (CHR 0x3F, None, (v, args))"
  by (simp_all add: getopt_defs bad_option_def)

text \<open>
  C28. The four spellings of an option with a value -- separate or joined, short or long --
  have the same effect on the settings, for the number of cores, the memory size and the
  program; the log file has two spellings, both long, and they agree.
\<close>

theorem option_spellings:
  assumes "v \<noteq> []"
  shows "parse_options ([], (''-c'' @ v) # args) sim = parse_options ([], ''-c'' # v # args) sim
   \<and> parse_options ([], ''--cores'' # v # args) sim = parse_options ([], ''-c'' # v # args) sim
   \<and> parse_options ([], (''--cores='' @ v) # args) sim = parse_options ([], ''-c'' # v # args) sim
   \<and> parse_options ([], (''-m'' @ v) # args) sim = parse_options ([], ''-m'' # v # args) sim
   \<and> parse_options ([], ''--memory'' # v # args) sim = parse_options ([], ''-m'' # v # args) sim
   \<and> parse_options ([], (''--memory='' @ v) # args) sim = parse_options ([], ''-m'' # v # args) sim
   \<and> parse_options ([], (''-p'' @ v) # args) sim = parse_options ([], ''-p'' # v # args) sim
   \<and> parse_options ([], ''--program'' # v # args) sim = parse_options ([], ''-p'' # v # args) sim
   \<and> parse_options ([], (''--program='' @ v) # args) sim = parse_options ([], ''-p'' # v # args) sim
   \<and> parse_options ([], (''--log='' @ v) # args) sim = parse_options ([], ''--log'' # v # args) sim"
  by (intro conjI; subst (1 2) parse_options.simps;
      simp only: getopt_separate getopt_joined(1-3) [OF assms] getopt_joined(4-6) getopt_log)

text \<open>
  C29. The options of the debugger and the log: \<open>-d\<close> switches debugging on, but \<open>--debug\<close>,
  which the table maps to \<open>c\<close> without an argument, dereferences the null \<open>optarg\<close>, and
  \<open>-l\<close> is not in the option string and ends the program with a failure.
\<close>

theorem debug_and_log_options:
  "parse_options ([], ''-d'' # args) sim = parse_options ([], args) (sim\<lparr>sim_debug := True\<rparr>)
   \<and> parse_options ([], ''--debug'' # args) sim = Inl NullDeref
   \<and> parse_options ([], (CHR 0x2D # CHR ''l'' # v) # args) sim = Inl (ProcExit EXIT_FAILURE)"
  by (intro conjI; subst parse_options.simps;
      simp only: getopt_flags; simp add: handle_option_def parse_size_t_def)

section \<open>From the command line to the exit status\<close>

lemma parse_memory_program:
  assumes "sz < 2 ^ 64" and "take 1 path \<noteq> ''-''"
  shows "parse_options ([], [''-m'', dec sz, path]) sim = Inr (sim\<lparr>sim_memsz := sz\<rparr>, [path])"
proof -
  have "getopt_long ([], [path]) = Inl [path]"
    using assms(2) by (auto split: list.splits)
  then have "parse_options ([], [path]) s = Inr (s, [path])" for s by (subst parse_options.simps) simp
  then show ?thesis
    using parse_size_t_def assms(1)
    by (subst parse_options.simps) (simp only: getopt_separate, simp add: handle_option_def parse_size_t_def strtoul_dec)
qed

text \<open>
  C4. Started with a memory size and a program that loads, \<open>main\<close> runs it in a memory of that
  size to its exit call -- through its own system calls and exceptions -- and returns the
  signed value of \<open>$v1\<close>, writing no log.  What follows the call in memory must be readable
  and hold no jump or branch in the first two words, and a load or store in the first of
  them must have an effect the sequential machine defines.
\<close>

theorem main_runs_program:
  assumes "sz < 2 ^ 64" and "take 1 path \<noteq> ''-''"
    and "hw_ok (env_allocs env)" "mmu_ok (env_allocs env)" "cpu_ok (env_allocs env)"
    and "elf_dump (env_fs env) (env_fclose_ok env) path 0 (boot_mem (dev_ok (env_allocs env)) sz) = Inr (0, entry, mem)"
    and "timed_run run_step (isa_start (regs (set_PC entry (boot_core sz))) (cp0 (boot_core sz)) mem) n a" and "at_exit a"
  shows "main env fopen_ok [''-m'', dec sz, path] = Some (Inr (sint (i_regs a REG_V1), []))"
proof -
  let ?sim = "default_sim\<lparr>sim_memsz := sz, sim_program := Some path\<rparr>"
  have sim: "quiet_sim ?sim" "sim_cores ?sim = 1" "sim_program ?sim = Some path" "sim_memsz ?sim = sz" "sim_logging ?sim = False"
    by (simp_all add: default_sim_def quiet_sim_def)
  obtain s where "simulate env ?sim = Some (Inr (sint (i_regs a REG_V1), s))" "r_log s = []"
    using simulate_returns [OF sim(1-3) assms(3-5), of entry mem n a] assms(6-8) sim(4) by auto
  then show ?thesis
    using parse_memory_program [OF assms(1,2), of default_sim] sim(5) by (simp add: main_def)
qed

theorem main_runs_program_witness:
  "main exit_env (\<lambda>_. True) [''-m'', dec 4096, ''prog''] = Some (Inr (7, []))"
proof -
  have "sint (i_regs prog_end REG_V1) = 7" by (simp add: prog_end_def isa_wr_def)
  moreover have "elf_dump (env_fs exit_env) (env_fclose_ok exit_env) ''prog'' 0
      (boot_mem (dev_ok (env_allocs exit_env)) 4096) = Inr (0, 0x80000000, prog_mem)"
    using exit_elf_load by (simp add: exit_env_def)
  ultimately show ?thesis
    using main_runs_program [OF _ _ _ _ _ _ prog_run prog_end_exits(1), of "''prog''" exit_env "\<lambda>_. True"]
    by (simp add: exit_env_def)
qed

theorem option_spellings_witness:
  "parse_options ([], [''-m4096'', ''prog'']) default_sim = parse_options ([], [''-m'', ''4096'', ''prog'']) default_sim"
  using option_spellings [of "''4096''" "[''prog'']" default_sim] by simp

end
