(* ===== verification/Devices.thy ===== *)
theory Devices
  imports Driver
begin

text \<open>
  Device registration and device access: what \<open>mmu_add_device\<close> leaves in the descriptor
  area, how register ranges are handed out, and what the loops over the devices reach.
\<close>

section \<open>Registration\<close>

definition installed :: "mmu_t \<Rightarrow> device_t \<Rightarrow> device_t" where
  "installed mmu dev = dev\<lparr>dev_io_addr_base := next_io_register mmu\<rparr>"

lemma mmu_add_device_sel [simp]:
  "devices (mmu_add_device mmu (Some dev)) = installed mmu dev # devices mmu"
  "next_io_register (mmu_add_device mmu (Some dev)) = next_io_register mmu + dev_io_addr_len dev"
  by (simp_all add: mmu_add_device_def device_descriptor_add_def installed_def Let_def split: option.split)

lemma mmu_add_device_descriptors:
  assumes "get_free_descriptor mmu = Some i"
  shows "device_descriptor_start (mmu_add_device mmu (Some dev)) =
    store_descriptor (device_descriptor_start mmu) i (device_descriptor_reverse
      (device_descriptor_set_fields (installed mmu dev) (load_descriptor (device_descriptor_start mmu) i)))"
  using assms by (simp add: mmu_add_device_def device_descriptor_add_def installed_def get_free_descriptor_def Let_def)

text \<open>
  C22. A registered device can be found: when the descriptor area has a free entry, adding a
  device puts it at the head of the list, hands it the next registers, and the entry, read
  back in the byte order of the host, holds its type, its register range, its interrupt
  number and its vendor string; every other entry is as it was.
\<close>

theorem registered_descriptor:
  assumes "get_free_descriptor mmu = Some i" and "8 \<le> length (dev_vendor_string dev)"
  shows "(let m = mmu_add_device mmu (Some dev);
        dd = device_descriptor_reverse (load_descriptor (device_descriptor_start m) i) in
     devices m = installed mmu dev # devices mmu
   \<and> dd_typecode dd = dev_typecode dev \<and> dd_io_addr_base dd = next_io_register mmu
   \<and> dd_io_addr_len dd = dev_io_addr_len dev \<and> dd_irq dd = dev_irq dev
   \<and> dd_vendor_string dd = take 8 (dev_vendor_string dev)
   \<and> next_io_register m = next_io_register mmu + dev_io_addr_len dev
   \<and> (\<forall>j. j \<noteq> i \<longrightarrow> load_descriptor (device_descriptor_start m) j = load_descriptor (device_descriptor_start mmu) j))"
proof -
  let ?dd = "device_descriptor_reverse (device_descriptor_set_fields (installed mmu dev)
      (load_descriptor (device_descriptor_start mmu) i))"
  have len: "length (dd_vendor_string ?dd) = 8"
    using assms(2) by (simp add: device_descriptor_reverse_def device_descriptor_set_fields_def installed_def)
  show ?thesis
    unfolding Let_def mmu_add_device_descriptors [OF assms(1)] load_store_descriptor_same [OF len]
      device_descriptor_reverse_involution
    using load_store_descriptor_other [OF len]
    by (simp add: device_descriptor_set_fields_def installed_def)
qed

section \<open>Register ranges\<close>

definition add_devices :: "mmu_t \<Rightarrow> device_t list \<Rightarrow> mmu_t" where
  "add_devices = foldl (\<lambda>m d. mmu_add_device m (Some d))"

fun stacked :: "u32 \<Rightarrow> device_t list \<Rightarrow> u32 \<Rightarrow> bool" where
  "stacked lo [] hi \<longleftrightarrow> hi = lo"
| "stacked lo (d # ds) hi \<longleftrightarrow> hi = dev_io_addr_base d + dev_io_addr_len d \<and> stacked lo ds (dev_io_addr_base d)"

lemma stacked_add: "stacked lo (devices m) (next_io_register m) \<Longrightarrow>
   stacked lo (devices (mmu_add_device m (Some d))) (next_io_register (mmu_add_device m (Some d)))"
  by (simp add: installed_def)

definition range_total :: "device_t list \<Rightarrow> nat" where
  "range_total ds = sum_list (map (\<lambda>d. unat (dev_io_addr_len d)) ds)"

lemma stacked_bases:
  "stacked lo ds hi \<Longrightarrow> unat lo + range_total ds < 2 ^ 32 \<Longrightarrow> unat hi = unat lo + range_total ds"
proof (induction ds arbitrary: hi)
  case (Cons d ds)
  then have "unat (dev_io_addr_base d) = unat lo + range_total ds" by (simp add: range_total_def)
  with Cons.prems show ?case by (simp add: range_total_def unat_word_ariths)
qed (simp add: range_total_def)

lemma stacked_append: "stacked lo (xs @ ys) hi \<Longrightarrow> \<exists>mid. stacked lo ys mid \<and> stacked mid xs hi"
  by (induction xs arbitrary: hi) auto

lemma range_total_append [simp]: "range_total (xs @ ys) = range_total xs + range_total ys"
  by (simp add: range_total_def)

lemma range_total_Cons: "range_total (x # xs) = unat (dev_io_addr_len x) + range_total xs"
  by (simp add: range_total_def)

lemma add_devices_stacked:
  "stacked lo (devices m) (next_io_register m) \<Longrightarrow> stacked lo (devices (add_devices m ds)) (next_io_register (add_devices m ds))"
  by (induction ds arbitrary: m) (simp_all add: add_devices_def installed_def)

lemma dev_hit_unat:
  assumes "unat (dev_io_addr_base d) + unat (dev_io_addr_len d) < 2 ^ 32"
  shows "dev_hit d v \<longleftrightarrow> unat (dev_io_addr_base d) \<le> unat v \<and> unat v \<le> unat (dev_io_addr_base d) + unat (dev_io_addr_len d)"
  using assms by (simp add: dev_hit_def word_le_nat_alt unat_word_ariths)

lemma hits_meet:
  assumes le: "unat (dev_io_addr_base e) + unat (dev_io_addr_len e) \<le> unat (dev_io_addr_base d)"
    and d: "unat (dev_io_addr_base d) + unat (dev_io_addr_len d) < 2 ^ 32"
  shows "{v. dev_hit d v} \<inter> {v. dev_hit e v} =
       (if unat (dev_io_addr_base e) + unat (dev_io_addr_len e) = unat (dev_io_addr_base d) then {dev_io_addr_base d} else {})"
proof -
  have e: "unat (dev_io_addr_base e) + unat (dev_io_addr_len e) < 2 ^ 32" using le d by linarith
  have w: "v = dev_io_addr_base d \<longleftrightarrow> unat v = unat (dev_io_addr_base d)" for v
    using unsigned_word_eqI [where 'a = nat, of v "dev_io_addr_base d"] by blast
  have "dev_hit d v \<and> dev_hit e v \<longleftrightarrow> unat (dev_io_addr_base e) + unat (dev_io_addr_len e) = unat (dev_io_addr_base d)
      \<and> v = dev_io_addr_base d" for v
    unfolding dev_hit_unat [OF d] dev_hit_unat [OF e] w using le by linarith
  then show ?thesis by auto
qed
lemma installed_len [simp]: "dev_io_addr_len (installed m d) = dev_io_addr_len d"
  by (simp add: installed_def)

lemma add_devices_total: "range_total (devices (add_devices m ds)) = range_total (devices m) + range_total ds"
  by (induction ds arbitrary: m) (simp_all add: add_devices_def range_total_def)

text \<open>
  C23. Devices get disjoint registers: after adding any number of devices to a fresh memory,
  as long as their registers fit below the end of the address space -- which the code does
  not check -- the ranges of any two devices in the list do not overlap.  What the loops
  over the devices accept is one address more: both accept the base of the later device if
  it directly follows the earlier one, and no other address is accepted by both.
\<close>

theorem device_ranges_disjoint:
  assumes "devices m = []" and "unat (next_io_register m) + range_total ds < 2 ^ 32"
    and "devices (add_devices m ds) = xs @ d # ys @ e # zs"
  shows "unat (dev_io_addr_base e) + unat (dev_io_addr_len e) \<le> unat (dev_io_addr_base d)
   \<and> {v. dev_hit d v} \<inter> {v. dev_hit e v} =
       (if unat (dev_io_addr_base e) + unat (dev_io_addr_len e) = unat (dev_io_addr_base d) then {dev_io_addr_base d} else {})"
proof -
  let ?lo = "next_io_register m"
  have "stacked ?lo (xs @ d # ys @ e # zs) (next_io_register (add_devices m ds))"
    using add_devices_stacked [of ?lo m ds] assms(1,3) by simp
  then obtain mid where "stacked ?lo (d # ys @ e # zs) mid" using stacked_append [of ?lo xs "d # ys @ e # zs"] by auto
  then have sd: "stacked ?lo (ys @ e # zs) (dev_io_addr_base d)" by simp
  then obtain mid2 where "stacked ?lo (e # zs) mid2" using stacked_append by blast
  then have se: "stacked ?lo zs (dev_io_addr_base e)" by simp
  have tot: "range_total xs + unat (dev_io_addr_len d) + range_total ys + unat (dev_io_addr_len e) + range_total zs = range_total ds"
    using add_devices_total [of m ds] assms(1,3) by (simp add: range_total_def)
  have "unat (dev_io_addr_base d) = unat ?lo + range_total (ys @ e # zs)"
    by (rule stacked_bases [OF sd]) (use assms(2) tot in \<open>simp add: range_total_def\<close>)
  moreover have "unat (dev_io_addr_base e) = unat ?lo + range_total zs"
    by (rule stacked_bases [OF se]) (use assms(2) tot in simp)
  ultimately have le: "unat (dev_io_addr_base e) + unat (dev_io_addr_len e) \<le> unat (dev_io_addr_base d)"
    and d: "unat (dev_io_addr_base d) + unat (dev_io_addr_len d) < 2 ^ 32"
    using assms(2) tot by (simp_all add: range_total_Cons)
  show ?thesis using le hits_meet [OF le d] by blast
qed

section \<open>Access through the device loops\<close>

lemma mem_store_devices: "mem_store core mem x w = Inr (w', mem') \<Longrightarrow> devices mem' = devices mem"
  by (auto simp: mem_store_def Let_def bind_res_eq_Inr dest: mmu_write_frame(2) split: if_splits prod.splits)

lemma interpret_mem_devices: "interpret_mem core mem = Inr (core', mem') \<Longrightarrow> devices mem' = devices mem"
  by (auto simp: interpret_mem_def Let_def bind_res_eq_Inr dest: mem_store_devices split: if_splits)

lemma tick_cores_devices: "tick_cores cs mem g = Inr (cs', mem', g') \<Longrightarrow> devices mem' = devices mem"
proof (induction cs arbitrary: mem g cs' mem' g')
  case (Cons c cs)
  then obtain c1 mem1 g1 cs1 where c: "tick_core c mem g = Inr (c1, mem1, g1)" and cs: "tick_cores cs mem1 g1 = Inr (cs1, mem', g')"
    by (auto simp: bind_res_eq_Inr)
  from c have "devices mem1 = devices mem" by (elim tick_coreE) (simp add: interpret_mem_devices)
  with Cons.IH [OF cs] show ?case by simp
qed simp

text \<open>The clock never changes the list of devices: an instance of the step-system interface.\<close>

definition has_devices :: "device_t list \<Rightarrow> hardware_t \<times> bool \<Rightarrow> bool" where
  "has_devices ds s \<longleftrightarrow> devices (hw_mmu (fst s)) = ds"

interpretation device_list: step_system hw_step "has_devices ds"
  for ds
  by unfold_locales
    (auto simp: hw_step_def has_devices_def tick_def bind_res_eq_Inr dest!: tick_cores_devices)

lemma elf_dump_devices:
  assumes "elf_dump fs ok path entry mem = Inr (rv, e, mem')"
  shows "devices mem' = devices mem"
proof -
  have "devices m' = devices m" if "load_entries bs ps m = Inr (c, m')" for bs ps m c m'
    using load_entries_frame [OF that] by (metis mmu_t.select_convs(6) mmu_t.surjective mmu_t.update_convs(1))
  then show ?thesis
    using assms by (auto simp: elf_dump_closed bind_res_eq_Inr split: option.splits if_splits)
qed

lemma last_device_unreachable:
  assumes "length (devices mem) = 1" and "IO_REGISTER_AREA \<le> v"
  shows "mmu_write mem v x s = Inr (EXC_None, mem)" "mmu_read mem v d s = Inr (EXC_None, d)"
proof -
  obtain dev where "devices mem = [dev]" using assms(1) by (auto simp: length_Suc_conv)
  then show "mmu_write mem v x s = Inr (EXC_None, mem)" "mmu_read mem v d s = Inr (EXC_None, d)"
    using assms(2) by (simp_all add: mmu_write_def mmu_read_def)
qed

text \<open>
  C24. The shutdown device cannot be reached: in every state the simulated machine can reach
  after reset and load, a store of any value -- the power-off magic included -- to any
  address of the device registers succeeds without effect, and a load leaves its
  destination as it was.  The loops over the devices stop before the last one, and the
  simulator installs only this one.
\<close>

theorem shutdown_device_unreachable:
  assumes "hw_init al n sz = Inr hw" and "dev_ok al" and "load_program env path hw = Inr hw'"
    and "res_reach hw_step (hw', False) (hw'', g)" and "IO_REGISTER_AREA \<le> v"
  shows "mmu_write (hw_mmu hw'') v x s = Inr (EXC_None, hw_mmu hw'')
     \<and> mmu_read (hw_mmu hw'') v d s = Inr (EXC_None, d)"
proof -
  have "hw_mmu hw = boot_mem True sz"
    using hw_init_cases [OF assms(1)] assms(2) by auto
  then have "length (devices (hw_mmu hw)) = 1" by (simp add: boot_mem_def shutdown_device_create_def)
  moreover have "devices (hw_mmu hw') = devices (hw_mmu hw)"
    using assms(3) by (auto simp: load_program_def bind_res_eq_Inr dest: elf_dump_devices split: if_splits)
  moreover have "devices (hw_mmu hw'') = devices (hw_mmu hw')"
    using device_list.reach_invar [OF assms(4), of "devices (hw_mmu hw')"] by (simp add: has_devices_def)
  ultimately show ?thesis using last_device_unreachable [OF _ assms(5)] by simp
qed

text \<open>
  Where two devices are adjacent, both claim the boundary: the address at the base of a
  device is also accepted by the device registered just before it, whose upper bound the
  loops include, so one access reaches both.
\<close>

lemma adjacent_devices_overlap:
  assumes "unat (next_io_register m) + unat (dev_io_addr_len e) + unat (dev_io_addr_len d) < 2 ^ 32"
  shows "(let ds = devices (add_devices m [e, d]) in
     dev_hit (ds ! 0) (dev_io_addr_base (ds ! 0)) \<and> dev_hit (ds ! 1) (dev_io_addr_base (ds ! 0)))"
  using assms
  by (simp add: add_devices_def installed_def dev_hit_def word_le_nat_alt unat_word_ariths)

section \<open>Concrete devices\<close>

lemma demo_free_descriptor: "get_free_descriptor demo_mem = Some 0"
  by (subst get_free_descriptor_def, subst get_free_descriptor_from.simps)
    (simp add: demo_mem_def load_descriptor_def device_descriptor_reverse_def get_le32_def REVERSE_def Let_def)

definition demo_dev :: device_t where
  "demo_dev = the (shutdown_device_create True)"

lemma demo_dev_sel:
  "dev_vendor_string demo_dev = SHUTDOWN_VENDOR_STRING" "dev_typecode demo_dev = TYPECODE_SHUTDOWN"
  "dev_io_addr_len demo_dev = 4"
  by (simp_all add: demo_dev_def shutdown_device_create_def)

theorem registered_descriptor_witness:
  "dd_typecode (device_descriptor_reverse
     (load_descriptor (device_descriptor_start (mmu_add_device demo_mem (Some demo_dev))) 0)) = TYPECODE_SHUTDOWN"
  using registered_descriptor [OF demo_free_descriptor, of demo_dev] by (simp add: demo_dev_sel Let_def)

theorem device_ranges_disjoint_witness:
  "devices (add_devices demo_mem [demo_dev, demo_dev]) =
     [demo_dev\<lparr>dev_io_addr_base := 0xFFFF0004\<rparr>, demo_dev\<lparr>dev_io_addr_base := 0xFFFF0000\<rparr>]
   \<and> {v. dev_hit (demo_dev\<lparr>dev_io_addr_base := 0xFFFF0004\<rparr>) v} \<inter> {v. dev_hit (demo_dev\<lparr>dev_io_addr_base := 0xFFFF0000\<rparr>) v}
       = {0xFFFF0004}"
proof -
  let ?d = "demo_dev\<lparr>dev_io_addr_base := 0xFFFF0004\<rparr>" and ?e = "demo_dev\<lparr>dev_io_addr_base := 0xFFFF0000\<rparr>"
  have m: "next_io_register demo_mem = 0xFFFF0000" "devices demo_mem = []" by (simp_all add: demo_mem_def)
  have ds: "devices (add_devices demo_mem [demo_dev, demo_dev]) = [] @ ?d # [] @ ?e # []"
    by (simp add: add_devices_def installed_def demo_dev_sel m)
  from device_ranges_disjoint [OF m(2) _ ds] show ?thesis
    using ds by (simp add: m demo_dev_sel range_total_def)
qed

theorem shutdown_device_unreachable_witness:
  "mmu_write prog_mem 0xFFFF0000 POWEROFF_SHUTDOWN_MAGIC MEM_OP_WORD = Inr (EXC_None, prog_mem)"
  using shutdown_device_unreachable [OF exit_hw_init _ exit_load_program res_reach.here, where v = "0xFFFF0000"]
  by (simp add: exit_env_def)

end
