(* ===== verification/Divergences.thy ===== *)
theory Divergences
  imports Driver Unaligned
begin

unbundle bit_operations_syntax

text \<open>
  Places where the program departs from the instruction set, from its own comments or from
  what its interfaces promise, each stated of the definitions that translate the code.  What
  the other theories show holds in spite of these, or excludes them by its hypotheses.
\<close>

section \<open>Arithmetic and encodings\<close>

text \<open>SUB adds; it is right only where the operand subtracted is its own negation.\<close>

lemma sub_adds:
  assumes "(ucast (idex_funct d) :: u32) = FUNCT_SUB"
  shows "exmem_alu_res (alu_r_type d a b x) = a + b" "exmem_alu_res (alu_r_type d a b x) = a - b \<longleftrightarrow> b + b = 0"
  using assms by (simp_all add: alu_r_type_def eq_diff_eq add.assoc)

text \<open>The adder traps for all instructions with ALU operation 0, the instruction ADD does not trap.\<close>

lemma adder_traps:
  assumes "idex_c_alu_op d = 0" and "\<not> idex_c_alu_src d"
    and "\<not> no_overflow (idex_rs_value d) (idex_rt_value d)"
  shows "exmem_exception (alu d x) = EXC_ArithmeticOverflow"
  using assms by (simp add: alu_def overflow_check Let_def)

lemma add_does_not_trap:
  "(ucast (idex_funct d) :: u32) = FUNCT_ADD \<Longrightarrow> exmem_exception (alu_r_type d a b x) = exmem_exception x"
  by (simp add: alu_r_type_def)

text \<open>The opcodes of SWL and SWR are exchanged with respect to the table of names.\<close>

lemma swl_swr_exchanged: "op_codes ! unat OPCODE_SWR = ''SWL''" "op_codes ! unat OPCODE_SWL = ''SWR''"
  by (simp_all add: op_codes_def)

text \<open>The check for unsigned overflow neither accepts all sums that fit nor rejects all that do not.\<close>

lemma uoverflow_wrong:
  "check_uoverflow 0x40000000 0x40000000 = 1" "check_uoverflow 0x80000000 0x80000000 = 0"
  by (simp_all add: check_uoverflow_def)

text \<open>The function for register names has no value for errors: unknown names read as \<open>$zero\<close>.\<close>

lemma unknown_register_is_zero: "str \<notin> set reg_names \<Longrightarrow> register_to_number str = register_to_number ''zero''"
  using register_to_number_from_unknown [of str reg_names 0] register_to_number_reg_names [of 0]
  by (simp add: register_to_number_def reg_names_def)

section \<open>Exceptions and forwarding\<close>

text \<open>An address error on a store leaves BadVAddr as it was.\<close>

lemma store_keeps_BadVAddr:
  "memwb_exception (mem_wb core) = EXC_AddressErrorStore \<Longrightarrow> cp0 (handle_exception core) REG_BADVADDR = cp0 core REG_BADVADDR"
  by (simp add: handle_exception_def flush_front_def set_cp0_def Let_def)

text \<open>EPC is the address after the instruction; the comment in the code announces 4 less.\<close>

lemma epc_is_next: "cp0 (handle_exception core) REG_EPC = memwb_next_pc (mem_wb core)"
  by (simp add: handle_exception_def flush_front_def set_cp0_def Let_def)

text \<open>
  The header puts the exception code at bit 2 of the cause word, for a field of five bits;
  \<open>get_cause\<close> leaves it at bit 0.  A handler that reads the field as documented gets a
  quarter of the code, so it cannot tell address errors on loads and stores apart.
\<close>

lemma cause_field_misplaced:
  "drop_bit 2 (get_cause e bd) AND 31 = drop_bit 2 (exc_code e)"
  "drop_bit 2 (get_cause EXC_AddressErrorLoad bd) AND 31 = drop_bit 2 (get_cause EXC_AddressErrorStore bd) AND 31"
proof -
  show f: "drop_bit 2 (get_cause e bd) AND 31 = drop_bit 2 (exc_code e)" for e
    by (cases e; cases bd) (simp_all add: get_cause_def)
  show "drop_bit 2 (get_cause EXC_AddressErrorLoad bd) AND 31 = drop_bit 2 (get_cause EXC_AddressErrorStore bd) AND 31"
    unfolding f by simp
qed

text \<open>After a clash on the first operand the second one is not forwarded either.\<close>

lemma clash_stops_forwarding:
  assumes "ex_hit core (idex_rs (id_ex core))"
    and "illegal_forward (exmem_inst (ex_mem core)) (idex_inst (id_ex core))"
  shows "forwarding_unit core = core"
  using assms by (simp add: forwarding_unit_def forward_a_def)

text \<open>
  C36. The link of JAL, from decode to write-back: when no register write is pending, what
  reaches \<open>$ra\<close> is the return address plus the register that the middle bits of the target
  happen to name, so the link is right only if that register holds 0; and when the signed
  sum overflows, \<open>$ra\<close> stays as it was and JAL enters the exception handler.  \<open>c\<close> and \<open>c2\<close>
  are the core when the instruction is in its memory and write-back stages.
\<close>

theorem jal_link:
  fixes core c c2 :: core_t
  defines "link \<equiv> ifid_next_pc (if_id core) + 4" and "v \<equiv> regs core (unat (GET_RT (ifid_inst (if_id core))))"
  assumes "ifid_exception (if_id core) = EXC_None" and "GET_OPCODE (ifid_inst (if_id core)) = OPCODE_JAL"
    and "\<not> exmem_c_reg_write (ex_mem core)" and "\<not> memwb_c_reg_write (mem_wb core)"
    and "ex_mem c = ex_mem (interpret_ex (forwarding_unit (interpret_id core)))"
  shows "\<exists>w c'. interpret_mem c m = Inr (c\<lparr>mem_wb := w\<rparr>, m) \<and> interpret_wb (c2\<lparr>mem_wb := w\<rparr>) g = Inr (c', g)
     \<and> regs c' 31 = (if no_overflow link v then link + v else regs c2 31)
     \<and> (regs c' 31 = link \<longleftrightarrow> (if no_overflow link v then v = 0 else regs c2 31 = link))
     \<and> (memwb_exception w = EXC_None \<longleftrightarrow> no_overflow link v)
     \<and> (cp0 c' = (if no_overflow link v then cp0 c2 else cp0 (handle_exception (c2\<lparr>mem_wb := w\<rparr>))))"
proof -
  note ids = interpret_id_jal [OF assms(3,4)] interpret_id_common [OF assms(3)]
  let ?d = "id_ex (interpret_id core)"
  have "forwarding_unit (interpret_id core) = interpret_id core"
    using assms(5,6) by (simp add: forwarding_unit_def forward_a_def forward_b_def ex_hit_def wb_hit_def Let_def)
  then have x: "ex_mem c = ex_result ?d (ex_mem core)"
    using assms(7) ids by (simp add: interpret_ex_normal ex_result_def)
  have e: "exmem_exception (ex_mem c) = (if no_overflow link v then EXC_None else EXC_ArithmeticOverflow)"
    "exmem_alu_res (ex_mem c) = link + v"
    using ids by (simp_all add: x jal_table_def ex_result_def ex_latch_def alu_def overflow_check link_def v_def Let_def)
  have l: "\<not> exmem_c_mem_read (ex_mem c)" "\<not> exmem_c_mem_write (ex_mem c)" "\<not> exmem_c_mem_to_reg (ex_mem c)"
    "exmem_c_reg_write (ex_mem c)" "exmem_reg_dst (ex_mem c) = REG_RA"
    and o: "GET_OPCODE (exmem_inst (ex_mem c)) = OPCODE_JAL"
    using ids assms(4) by (simp_all add: x jal_table_def ex_dst_def)
  from o have n: "exmem_inst (ex_mem c) \<noteq> INSTRUCTION_ERET" "\<not> is_mtc0 (exmem_inst (ex_mem c))"
    using eret_fields(1) by (auto simp: is_mtc0_def)
  show ?thesis
  proof (cases "no_overflow link v")
    case True
    let ?w = "mem_latch (ex_mem c) (mem_wb c)"
    have "interpret_mem c m = Inr (c\<lparr>mem_wb := ?w\<rparr>, m)" by (rule interpret_mem_plain) (use e True l in simp_all)
    moreover have "interpret_wb (c2\<lparr>mem_wb := ?w\<rparr>) g = Inr (c2\<lparr>mem_wb := ?w, regs := (regs c2)(31 := link + v)\<rparr>, g)"
      using l n e(2) by (simp add: interpret_wb_def write_back_def wb_data_def mem_latch_def Let_def)
    ultimately show ?thesis using True by (fastforce simp: mem_latch_def)
  next
    case False
    have "drains (ex_mem c) m EXC_ArithmeticOverflow" using e(1) False by (intro drains_exception) simp_all
    then obtain w where w: "interpret_mem c m = Inr (c\<lparr>mem_wb := w\<rparr>, m)" "memwb_inst w = exmem_inst (ex_mem c)"
      "memwb_exception w = EXC_ArithmeticOverflow"
      unfolding drains_def passed_on_def by blast
    have "interpret_wb (c2\<lparr>mem_wb := w\<rparr>) g = Inr (handle_exception (c2\<lparr>mem_wb := w\<rparr>), g)"
      using w(2,3) n(1) by (simp add: interpret_wb_def)
    with w(1,3) False show ?thesis by fastforce
  qed
qed

text \<open>Moves of the same direction are not recognised as a clash, though they number different files.\<close>

lemma moves_not_guarded:
  "is_mtc0 src \<Longrightarrow> is_mtc0 dst \<Longrightarrow> \<not> illegal_forward src dst"
  "is_mfc0 src \<Longrightarrow> is_mfc0 dst \<Longrightarrow> \<not> illegal_forward src dst"
  by (auto simp: illegal_forward_def is_mtc0_def is_mfc0_def)

definition jal_core :: core_t where
  "jal_core = zero_core\<lparr>if_id := zero_if_id\<lparr>ifid_inst := 0x0C020000, ifid_next_pc := 0x80000004\<rparr>,
     regs := (\<lambda>_. 0)(2 := 5)\<rparr>"

theorem jal_link_witness:
  "\<exists>w c'. interpret_mem (interpret_ex (forwarding_unit (interpret_id jal_core))) demo_mem
        = Inr ((interpret_ex (forwarding_unit (interpret_id jal_core)))\<lparr>mem_wb := w\<rparr>, demo_mem)
     \<and> interpret_wb (zero_core\<lparr>mem_wb := w\<rparr>) False = Inr (c', False) \<and> regs c' 31 = 0x8000000D"
proof -
  have "GET_OPCODE 0x0C020000 = OPCODE_JAL" "GET_RT 0x0C020000 = 2" by (simp_all add: GET_OPCODE_def GET_RT_def)
  moreover have "no_overflow 0x80000008 5" by (simp add: no_overflow_def)
  ultimately show ?thesis
    using jal_link [of jal_core "interpret_ex (forwarding_unit (interpret_id jal_core))" demo_mem zero_core False]
    by (auto simp: jal_core_def zero_core_def zero_defs)
qed

section \<open>Memory and devices\<close>

lemma user_translation:
  assumes "0x20000000 \<le> v" and "v < 0x80000000"
  shows "translate_vaddr v = translate_vaddr (0x80000000 + (v AND 0x1FFFFFFF))"
proof -
  let ?w = "v AND 0x1FFFFFFF"
  have w: "?w \<le> 0x1FFFFFFF" by (rule word_and_le1)
  then have k: "0x80000000 \<le> 0x80000000 + ?w" "0x80000000 + ?w < 0xA0000000"
    by (simp_all add: word_le_nat_alt word_less_nat_alt unat_word_ariths)
  have "translate_vaddr (0x80000000 + ?w) = (0x80000000 + ?w) AND 0x1FFFFFFF"
    using k by (intro translate_vaddr_cases(2)) (simp_all add: word_le_nat_alt word_less_nat_alt)
  also have "\<dots> = ?w" using and_kseg_mask [OF k] by simp
  finally have "translate_vaddr (0x80000000 + ?w) = ?w" .
  moreover have "translate_vaddr v = ?w" using assms by (intro translate_vaddr_cases(2)) (simp_all add: word_le_nat_alt word_less_nat_alt)
  ultimately show ?thesis by simp
qed

text \<open>
  C37. The user segment is not separate from the kernel segment: from 0x20000000 on, a load
  or store at a user address has the effect of the same access at the kernel address with
  the same lower 29 bits, on any memory and with any outcome.
\<close>

theorem user_aliases_kernel:
  assumes "0x20000000 \<le> v" and "v < 0x80000000"
  shows "mmu_read mem v dst sz = mmu_read mem (0x80000000 + (v AND 0x1FFFFFFF)) dst sz
   \<and> mmu_write mem v src sz = mmu_write mem (0x80000000 + (v AND 0x1FFFFFFF)) src sz"
proof -
  have w: "v AND 0x1FFFFFFF \<le> 0x1FFFFFFF" by (rule word_and_le1)
  then have "0x80000000 + (v AND 0x1FFFFFFF) < 0xA0000000" by (simp add: word_le_nat_alt word_less_nat_alt unat_word_ariths)
  then have k: "\<not> IO_DESCRIPTOR_AREA \<le> 0x80000000 + (v AND 0x1FFFFFFF)" "\<not> IO_REGISTER_AREA \<le> 0x80000000 + (v AND 0x1FFFFFFF)"
    by (simp_all add: word_le_nat_alt word_less_nat_alt)
  have "\<not> IO_DESCRIPTOR_AREA \<le> v" "\<not> IO_REGISTER_AREA \<le> v" using assms(2) by (simp_all add: word_le_nat_alt word_less_nat_alt)
  with k show ?thesis by (simp add: mmu_read_def mmu_write_def user_translation [OF assms])
qed

theorem user_aliases_kernel_witness:
  "mmu_write demo_mem 0x20000040 7 MEM_OP_WORD = mmu_write demo_mem 0x80000040 7 MEM_OP_WORD"
  using user_aliases_kernel [of "0x20000040" demo_mem 0 MEM_OP_WORD 7] by simp

text \<open>The last device of the list is never asked.\<close>

lemma last_device_ignored:
  "write_devices (devs @ [d]) v src = write_devices (devs @ [d']) v src"
  "read_devices (devs @ [d]) v dst = read_devices (devs @ [d']) v dst"
proof -
  have w: "write_devices (x # xs @ [d]) v src = write_devices (x # xs @ [d']) v src" for x xs
    by (induction xs arbitrary: x) simp_all
  have r: "read_devices (x # xs @ [d]) v dst = read_devices (x # xs @ [d']) v dst" for x xs dst
    by (induction xs arbitrary: x dst) (simp_all add: bind_res_def split: sum.split)
  show "write_devices (devs @ [d]) v src = write_devices (devs @ [d']) v src"
    by (cases devs) (simp_all add: w)
  show "read_devices (devs @ [d]) v dst = read_devices (devs @ [d']) v dst"
    by (cases devs) (simp_all add: r)
qed

text \<open>A range of registers includes the address behind its end.\<close>

lemma range_includes_end:
  "unat (dev_io_addr_base d) + unat (dev_io_addr_len d) < 2 ^ 32 \<Longrightarrow> dev_hit d (dev_io_addr_base d + dev_io_addr_len d)"
  by (simp add: dev_hit_def word_le_nat_alt unat_word_ariths)

text \<open>The registers handed out wrap around the end of the address space unnoticed.\<close>

lemma register_area_wraps:
  assumes "2 ^ 32 \<le> unat (next_io_register m) + unat (dev_io_addr_len d)"
  shows "next_io_register (mmu_add_device m (Some d)) < next_io_register m"
proof -
  have less: "unat (x :: u32) < 2 ^ 32" for x using unsigned_less [where 'a = nat, of x] by simp
  have "unat (next_io_register m + dev_io_addr_len d) = unat (next_io_register m) + unat (dev_io_addr_len d) - 2 ^ 32"
    using assms less [of "next_io_register m"] less [of "dev_io_addr_len d"] by (simp add: unat_word_ariths mod_if)
  then have "unat (next_io_register m + dev_io_addr_len d) < unat (next_io_register m)"
    using assms less [of "dev_io_addr_len d"] by linarith
  then show ?thesis by (simp add: word_less_nat_alt mmu_add_device_def device_descriptor_add_def Let_def split: option.split)
qed

section \<open>Reset and loading\<close>

text \<open>With no cores the first one is written outside the array.\<close>

lemma no_cores_out_of_bounds:
  "hw_ok al \<Longrightarrow> mmu_ok al \<Longrightarrow> cpu_ok al \<Longrightarrow> size_as_int n = 0 \<Longrightarrow> hw_init al n sz = Inl OutOfBounds"
  by (simp add: hw_init_def mmu_init_def cpu_init_def Let_def)

lemma empty_segment_rejected:
  "p_filesz phdr = 0 \<Longrightarrow> copy_segment s phdr mem = Inr (rv, s', mem') \<Longrightarrow> rv = ELF_ERROR_IO_ERROR"
  by (auto simp: copy_segment_def fread_def Let_def bind_res_eq_Inr)

text \<open>A segment larger than the memory behind its address is written past the end.\<close>

lemma large_segment_out_of_bounds:
  assumes "translate_paddr (translate_vaddr (p_vaddr phdr)) mem = Some p" and "pmem_len mem < p + unat (p_memsz phdr)"
    and "p_memsz phdr \<noteq> 0"
  shows "copy_segment s phdr mem = Inl OutOfBounds"
  using assms by (simp add: copy_segment_def write_block_def unat_eq_zero Let_def)

section \<open>Output\<close>

text \<open>Jumps that differ in the upper ten bits of their target print the same operand.\<close>

lemma jump_target_cut:
  assumes "GET_OPCODE i \<in> {OPCODE_J, OPCODE_JAL}" and "GET_OPCODE i' = GET_OPCODE i" and "GET_IMM i' = GET_IMM i"
  shows "instruction_body i' core = instruction_body i core"
  using assms by (auto simp: instruction_body_closed Let_def)

text \<open>The value shown for a coprocessor register is not that of the register the instruction accesses.\<close>

lemma cp0_value_of_neighbour:
  "instruction_body i (core\<lparr>cp0 := (cp0 core)(unat (GET_RD i) + 1 := v)\<rparr>) = instruction_body i core"
  by (simp add: instruction_body_closed reg_shown_def Let_def)

text \<open>The line of the log has the program counter after the tick.\<close>

lemma log_after_tick:
  assumes "run_tick inst sim input s = Inr s'" and "sim_logging sim"
  shows "\<exists>core txt. core0 (r_hw s') = Inr core \<and> log_text inst core = Inr txt \<and> r_log s' = r_log s @ txt
    \<and> take 10 txt = fmt_hex (PC core)"
  using assms by (auto simp: run_tick_def bind_res_eq_Inr log_text_def snprintf_def)

text \<open>The command \<open>0\<close> goes on to print a general register, which its text names only as \<open>0\<close>.\<close>

lemma debug_0_falls_through:
  "debug_command seek_end inst core mem sim input ''0'' = Inr (Stay, sim, input,
     cp0_dump_registers (cp0 core) @ [(''%s = %u'' @ newline, [Str ''0'', Num (regs core 0)])])"
proof -
  have "register_to_number ''0'' = 0"
    using register_to_number_from_unknown [of "''0''" reg_names 0] by (simp add: register_to_number_def reg_names_def)
  then show ?thesis by (simp add: debug_command_def first_byte_def c_string_def Let_def)
qed

end
