(* ===== verification/Spec2Isabelle.thy ===== *)
theory Spec2Isabelle
  imports Main_Opts Devices Instr_Format Divergences
begin

text \<open>
  A verification library for the DIKU MIPS simulator (the C sources under
  \<^verbatim>\<open>src/src\<close>): a simulator of a five-stage pipelined MIPS32 processor with memory
  management unit, devices, ELF loader, disassembler, debugger and command line.

  \<^bold>\<open>Parts and theories.\<close>  Each theory translates one part of the sources; names are those of
  the C code.

  \<^item> \<^verbatim>\<open>Prelude\<close>, \<^verbatim>\<open>Bytes\<close>, \<^verbatim>\<open>Systems\<close>, \<^verbatim>\<open>Loops\<close>: what the components share.  A C function that may
    fault returns \<^verbatim>\<open>fault + 'a\<close>: null dereference, access out of bounds, call of a null
    pointer, or leaving the process with a status.  \<^verbatim>\<open>Systems\<close> has iteration, reachability and
    the interfaces as locales: a system with an invariant, and simulations by a relation, by an
    abstraction function, and with steps that take a counted number of ticks; all are
    interpreted on the clock of the simulator.  \<^verbatim>\<open>Loops\<close> has the loops that may run
    forever, as partial functions whose value is \<^verbatim>\<open>None\<close> when they do.
  \<^item> \<^verbatim>\<open>Tools\<close>, \<^verbatim>\<open>Mips32\<close>, \<^verbatim>\<open>Exception\<close>, \<^verbatim>\<open>Cpu\<close>, \<^verbatim>\<open>Io\<close>, \<^verbatim>\<open>Mem\<close>: \<^verbatim>\<open>tools.c\<close>, \<^verbatim>\<open>mips32.h/.c\<close>,
    \<^verbatim>\<open>exception.c\<close> with \<^verbatim>\<open>cp0.h/.c\<close>, \<^verbatim>\<open>cpu.h/.c\<close>, \<^verbatim>\<open>io.c\<close> with \<^verbatim>\<open>shutdown_dev.c\<close> and \<^verbatim>\<open>tty.c\<close>,
    and \<^verbatim>\<open>mem.h/.c\<close>.  Structures are records, words keep their width, register files and
    memory are functions from indices, arrays with their C bounds checked where an index is
    computed.  \<^verbatim>\<open>Instr_Format\<close>: the bit-field formats of an instruction in \<^verbatim>\<open>cpu.h\<close>, which
    agree with the macros of \<^verbatim>\<open>mips32.h\<close> the program uses.
  \<^item> \<^verbatim>\<open>Fetch_Decode\<close>, \<^verbatim>\<open>Execute\<close>, \<^verbatim>\<open>Memory_Stage\<close>, \<^verbatim>\<open>Write_Back\<close>, \<^verbatim>\<open>Forwarding\<close>, \<^verbatim>\<open>Tick\<close>: the pipeline
    of \<^verbatim>\<open>sim.c\<close>, one definition per stage with its helpers, composed by \<^verbatim>\<open>tick\<close> in the order
    of the code (last stage first, forwarding at the end), core after core.  The global
    \<^verbatim>\<open>g_finished\<close> is passed along.
  \<^item> \<^verbatim>\<open>Elf\<close>: \<^verbatim>\<open>elf.c\<close> over a stream of bytes with a position.  \<^verbatim>\<open>Disasm\<close>, \<^verbatim>\<open>Print\<close>, \<^verbatim>\<open>Debug\<close>: \<^verbatim>\<open>disasm.c\<close>
    and \<^verbatim>\<open>debug.c\<close>; a printed line is the call of \<^verbatim>\<open>printf\<close> with its arguments.  \<^verbatim>\<open>Sim\<close>: the driver
    of \<^verbatim>\<open>sim.c\<close> from \<^verbatim>\<open>hw_init\<close> to \<^verbatim>\<open>simulate\<close>.  \<^verbatim>\<open>Main_Opts\<close>: \<^verbatim>\<open>main.c\<close>.

  \<^bold>\<open>What is shown.\<close>

  \<^item> \<^verbatim>\<open>Isa\<close> is a sequential machine written from the instruction set: one instruction at a
    time, a branch delay slot, a load interlock, memory as bytes.  \<^verbatim>\<open>Control\<close>, \<^verbatim>\<open>Unaligned\<close>,
    \<^verbatim>\<open>Exec_Refine\<close>, \<^verbatim>\<open>Forward_Refine\<close> and \<^verbatim>\<open>Pipe_Refine\<close> prove that one tick of a core
    simulates one step of it; \<^verbatim>\<open>Machine\<close> lifts this to runs.  The sequential machine is partial:
    SUB, LL, SC, SWL and SWR, and addresses without memory behind them have no step, so that
    nothing is claimed of programs that use them.  The simulator forwards by register
    numbers alone; JAL, the moves MFC0 and MTC0 and instructions behind a move have a step
    where no numbers clash, which the state decides with the two instructions executed last.
  \<^item> \<^verbatim>\<open>Multi_Core\<close>: any number of cores.  Their ticks implement sequential cores that take turns
    on one memory, each completing a whole instruction in its turn; the proof rests on the
    simulation of one core holding for whatever the other cores have stored meanwhile.
  \<^item> \<^verbatim>\<open>Traps\<close>: exceptions are precise, exception entry and ERET.  \<^verbatim>\<open>Drain\<close>: the two ticks an
    instruction that does not complete spends in the pipeline.  \<^verbatim>\<open>Exit\<close>: the exit system call, which
    flushes nothing: it needs no jump or branch among the two instructions behind the call, and
    a store directly behind it is carried out, so the memory of the final state is \<^verbatim>\<open>mem_at_exit\<close>.
    \<^verbatim>\<open>Trap_Machine\<close>: the sequential machine with exceptions as a step relation -- system calls,
    overflows, rejected stores, returns from the handler -- and its refinement; a trap and a
    return take three ticks.  \<^verbatim>\<open>Runs\<close>: from an ELF file to the exit status; the number of
    iterations of the main loop is the number of ticks of the abstract run plus three.
  \<^item> \<^verbatim>\<open>Pipe_Inv\<close>, \<^verbatim>\<open>Driver\<close>: invariants of every reachable state, from reset on; reset and its
    failures; that only core 0 is given a program, so that runs with more cores end in the
    first tick; debugging and logging do not change a run.
  \<^item> \<^verbatim>\<open>Mem\<close>, \<^verbatim>\<open>Devices\<close>: what is stored is read back, translated accesses stay inside the memory,
    device registration, and that the installed device is never reached.
  \<^item> \<^verbatim>\<open>Elf_Load\<close>: the loader agrees with a random-access parser, fills memory with the file's
    segments, and does not fault when they fit.
  \<^item> \<^verbatim>\<open>Disasm\<close>, \<^verbatim>\<open>Debug\<close>, \<^verbatim>\<open>Main_Opts\<close>: bounds and faults of the disassembler and that its text
    determines the instruction, effects and termination of the prompt, format strings, reading of options and sizes, and the
    composition of everything in \<^verbatim>\<open>main\<close>.
  \<^item> \<^verbatim>\<open>Divergences\<close>: where the program departs from the instruction set or its own comments,
    with the link register of JAL and the user addresses that reach kernel memory.

  \<^bold>\<open>Parameters.\<close>  What the operating system decides is an argument of the definitions that
  depend on it: outcomes of allocations, the file system, the result of \<^verbatim>\<open>fclose\<close>, which log
  files can be opened, the shared memory of the terminal, standard input and the effect
  of seeking on it.  No fuel is used: loops of the program are structural recursions,
  functions with a measure, or partial functions.

  \<^bold>\<open>Not modelled.\<close>  Messages of the macros of \<^verbatim>\<open>error.h\<close> and the C library's rendering of format
  strings for the debugger; failures of \<^verbatim>\<open>fseek\<close> and \<^verbatim>\<open>ftell\<close> on an open file; the constants
  for status bits, device registers and device types that no code uses; \<^verbatim>\<open>src/tools/tty.c\<close>,
  which refers to undeclared variables and is not compiled.
  The refinement for several cores covers instructions that complete, the one with exceptions
  a single core; the invariants cover any number.
\<close>

end
